(* ===== verification/Prelude.thy ===== *)
theory Prelude
  imports Main "HOL-Library.Word" "HOL-Library.AList"
begin

text \<open>
  The vocabulary shared by every component: Python exceptions as values, the result type of a
  call that may raise, and the sequencing of calls that mutate a state and may raise, with the
  generic facts the component proofs rest on. A Python dict is an association list in insertion
  order, updated with the library's \<open>AList.update\<close>, which keeps a key's position.

  A function that may raise returns \<open>exc + 'a\<close>. A method that mutates an object and may raise
  half way is a function \<open>'s \<Rightarrow> (exc + 'a) \<times> 's\<close>: the state reached when the exception
  leaves the method is kept, as Python keeps it.
\<close>

named_theorems pyfloat_simps \<open>evaluation of the floating point operations\<close>
named_theorems comp_defs \<open>the definitions a component proof unfolds\<close>

section \<open>Exceptions and results\<close>

text \<open>
  The exception classes the source raises or catches by name. The string is the fixed part of
  the message; numbers and names interpolated into a message are left out.
\<close>

datatype exc =
    ValueError string
  | RuntimeError string
  | KeyError string
  | IndexError string
  | TypeError string
  | AttributeError string
  | OSError string
  | FileNotFoundError string
  | OverflowError string
  | ZeroDivisionError string
  | AssertionError string
  | NotImplementedError string
  | ConfigError string
  | PlatformConfigError string
  | CommandError string
  | StructError string

text \<open>\<open>str(exc)\<close>.\<close>

fun exc_text :: "exc \<Rightarrow> string" where
  "exc_text (ValueError m) = m"
| "exc_text (RuntimeError m) = m"
| "exc_text (KeyError m) = m"
| "exc_text (IndexError m) = m"
| "exc_text (TypeError m) = m"
| "exc_text (AttributeError m) = m"
| "exc_text (OSError m) = m"
| "exc_text (FileNotFoundError m) = m"
| "exc_text (OverflowError m) = m"
| "exc_text (ZeroDivisionError m) = m"
| "exc_text (AssertionError m) = m"
| "exc_text (NotImplementedError m) = m"
| "exc_text (ConfigError m) = m"
| "exc_text (PlatformConfigError m) = m"
| "exc_text (CommandError m) = m"
| "exc_text (StructError m) = m"

type_synonym 'a result = "exc + 'a"

definition bindE :: "'a result \<Rightarrow> ('a \<Rightarrow> 'b result) \<Rightarrow> 'b result" where
  "bindE m f = (case m of Inl e \<Rightarrow> Inl e | Inr a \<Rightarrow> f a)"

definition guardE :: "bool \<Rightarrow> exc \<Rightarrow> unit result" where
  "guardE b e = (if b then Inr () else Inl e)"

fun mapE :: "('a \<Rightarrow> 'b result) \<Rightarrow> 'a list \<Rightarrow> 'b list result" where
  "mapE f [] = Inr []"
| "mapE f (x # xs) = bindE (f x) (\<lambda>y. bindE (mapE f xs) (\<lambda>ys. Inr (y # ys)))"

text \<open>Sequencing of methods that mutate a state and may raise.\<close>

type_synonym ('s, 'a) action = "'s \<Rightarrow> 'a result \<times> 's"

definition retA :: "'a \<Rightarrow> ('s, 'a) action" where
  "retA a s = (Inr a, s)"

definition raiseA :: "exc \<Rightarrow> ('s, 'a) action" where
  "raiseA e s = (Inl e, s)"

definition bindA :: "('s, 'a) action \<Rightarrow> ('a \<Rightarrow> ('s, 'b) action) \<Rightarrow> ('s, 'b) action" where
  "bindA m f s = (case m s of (Inl e, s') \<Rightarrow> (Inl e, s') | (Inr a, s') \<Rightarrow> f a s')"

definition liftA :: "'a result \<Rightarrow> ('s, 'a) action" where
  "liftA r s = (r, s)"

fun forA :: "('x \<Rightarrow> ('s, unit) action) \<Rightarrow> 'x list \<Rightarrow> ('s, unit) action" where
  "forA f [] = retA ()"
| "forA f (x # xs) = bindA (f x) (\<lambda>_. forA f xs)"

lemma bindE_Inr [simp]: "bindE (Inr a) f = f a"
  by (simp add: bindE_def)

lemma bindE_Inl [simp]: "bindE (Inl e) f = Inl e"
  by (simp add: bindE_def)

lemma bindE_eq_Inr: "bindE m f = Inr b \<longleftrightarrow> (\<exists>a. m = Inr a \<and> f a = Inr b)"
  by (cases m) auto

lemma bindE_eq_Inl: "bindE m f = Inl e \<longleftrightarrow> m = Inl e \<or> (\<exists>a. m = Inr a \<and> f a = Inl e)"
  by (cases m) auto

text \<open>The exceptions a call can raise.\<close>

definition raises_only :: "(exc \<Rightarrow> bool) \<Rightarrow> 'a result \<Rightarrow> bool" where
  "raises_only P r \<longleftrightarrow> (case r of Inl e \<Rightarrow> P e | Inr _ \<Rightarrow> True)"

definition is_value_error :: "exc \<Rightarrow> bool" where
  "is_value_error e \<longleftrightarrow> (\<exists>m. e = ValueError m)"

lemma raises_only_bindE [intro]:
  "raises_only P m \<Longrightarrow> (\<And>a. raises_only P (f a)) \<Longrightarrow> raises_only P (bindE m f)"
  by (cases m) (auto simp: raises_only_def)

lemma raises_only_simps [simp]:
  "raises_only P (Inr a)" "raises_only P (Inl e) = P e" "is_value_error (ValueError m)"
  by (simp_all add: raises_only_def is_value_error_def)

lemma guardE_eq_Inr [simp]: "guardE b e = Inr u \<longleftrightarrow> b"
  by (simp add: guardE_def)

lemma guardE_eq_Inl [simp]: "guardE b e = Inl e' \<longleftrightarrow> \<not> b \<and> e' = e"
  by (auto simp: guardE_def)

lemma guardE_simps [simp]: "guardE True e = Inr ()" "guardE False e = Inl e"
  by (simp_all add: guardE_def)

lemma mapE_eq_Inr: "mapE f xs = Inr ys \<longleftrightarrow> list_all2 (\<lambda>x y. f x = Inr y) xs ys"
  by (induction xs arbitrary: ys)
    (auto simp: bindE_eq_Inr list_all2_Cons1 intro: list.exhaust)

lemma mapE_length: "mapE f xs = Inr ys \<Longrightarrow> length ys = length xs"
  by (auto simp: mapE_eq_Inr dest: list_all2_lengthD)

lemma mapE_all_Inr: "(\<And>x. x \<in> set xs \<Longrightarrow> f x = Inr (g x)) \<Longrightarrow> mapE f xs = Inr (map g xs)"
  by (induction xs) auto

lemma bindA_apply:
  "bindA m f s = (case m s of (Inl e, s') \<Rightarrow> (Inl e, s') | (Inr a, s') \<Rightarrow> f a s')"
  by (simp add: bindA_def)

lemma retA_apply [simp]: "retA a s = (Inr a, s)"
  by (simp add: retA_def)

lemma raiseA_apply [simp]: "raiseA e s = (Inl e, s)"
  by (simp add: raiseA_def)

lemma liftA_apply [simp]: "liftA r s = (r, s)"
  by (simp add: liftA_def)

lemma bindA_Inr: "m s = (Inr a, s') \<Longrightarrow> bindA m f s = f a s'"
  by (simp add: bindA_def)

lemma bindA_Inl: "m s = (Inl e, s') \<Longrightarrow> bindA m f s = (Inl e, s')"
  by (simp add: bindA_def)

lemma bindA_eq_Inr:
  "bindA m f s = (Inr b, s'') \<longleftrightarrow> (\<exists>a s'. m s = (Inr a, s') \<and> f a s' = (Inr b, s''))"
  by (auto simp: bindA_def split: prod.splits sum.splits)

lemma bindA_eq_Inl:
  "bindA m f s = (Inl e, s'') \<longleftrightarrow>
     m s = (Inl e, s'') \<or> (\<exists>a s'. m s = (Inr a, s') \<and> f a s' = (Inl e, s''))"
  by (auto simp: bindA_def split: prod.splits sum.splits)

text \<open>
  An invariant of the state that every iteration keeps, whether it raises or not, is kept by the
  loop.
\<close>

lemma bindA_keeps:
  assumes "\<And>r s'. m s = (r, s') \<Longrightarrow> Q s'"
    and "\<And>a s' r s''. Q s' \<Longrightarrow> f a s' = (r, s'') \<Longrightarrow> Q s''"
    and "bindA m f s = (r, s'')"
  shows "Q s''"
  using assms by (auto simp: bindA_def split: prod.splits sum.splits)

lemma forA_keeps:
  assumes "\<And>x s r s'. x \<in> set xs \<Longrightarrow> Q s \<Longrightarrow> f x s = (r, s') \<Longrightarrow> Q s'"
    and "Q s" and "forA f xs s = (r, s')"
  shows "Q s'"
  using assms
proof (induction xs arbitrary: s)
  case Nil
  then show ?case by simp
next
  case (Cons x xs)
  show ?case
  proof (cases "f x s")
    case (Pair r1 s1)
    then have "Q s1" using Cons.prems(1) [of x s r1 s1] Cons.prems(2) by simp
    with Cons.prems(3) Pair show ?thesis
      by (auto simp: bindA_def split: sum.splits intro: Cons.IH [OF Cons.prems(1)])
  qed
qed

end
