(* ===== verification/PyFloat.thy ===== *)
theory PyFloat
  imports Complex_Main Prelude "HOL-Library.Log_Nat"
begin

text \<open>
  Python's \<open>float\<close> (IEEE binary64) and the \<open>c_float\<close> (binary32) that ctypes stores. A finite
  value is the real number it stands for; an arithmetic operation computes the exact real result
  and rounds it to the nearest representable number, ties to even, with gradual underflow and
  with overflow to an infinity, as IEEE 754 prescribes. Signed zeros are not told apart: no code
  modelled here distinguishes them.

  The library facts are the ones every quantisation proof needs: rounding is monotone, exact on
  representable numbers, and off by at most half a unit in the last place.
\<close>

section \<open>Rounding to a binary format\<close>

definition expo :: "real \<Rightarrow> int" where
  "expo x =
     (if 1 \<le> \<bar>x\<bar> then int (floorlog 2 (nat \<lfloor>\<bar>x\<bar>\<rfloor>)) - 1
      else - int (floorlog 2 (nat (\<lceil>1 / \<bar>x\<bar>\<rceil> - 1))))"

definition rne :: "real \<Rightarrow> int" where
  "rne y =
     (let f = \<lfloor>y\<rfloor>; d = y - of_int f
      in if d < 1/2 then f else if 1/2 < d then f + 1 else if even f then f else f + 1)"

definition lexp :: "nat \<Rightarrow> int \<Rightarrow> real \<Rightarrow> int" where
  "lexp p emin x = max (expo x - (int p - 1)) emin"

definition rnd :: "nat \<Rightarrow> int \<Rightarrow> real \<Rightarrow> real" where
  "rnd p emin x =
     (if x = 0 then 0
      else of_int (rne (x * 2 powi (- lexp p emin x))) * 2 powi lexp p emin x)"

lemma rne_of_int [simp]: "rne (of_int n) = n"
  by (simp add: rne_def)

lemma rne_error: "\<bar>of_int (rne y) - y\<bar> \<le> 1/2"
  unfolding rne_def Let_def by (auto split: if_splits; linarith)

lemma rne_le_of_int: "y \<le> of_int n \<Longrightarrow> rne y \<le> n"
  unfolding rne_def Let_def by (auto split: if_splits; linarith)

lemma rne_ge_of_int: "of_int n \<le> y \<Longrightarrow> n \<le> rne y"
  unfolding rne_def Let_def by (auto split: if_splits; linarith)

lemma rne_mono: "x \<le> y \<Longrightarrow> rne x \<le> rne y"
proof -
  assume le: "x \<le> y"
  then have fl: "\<lfloor>x\<rfloor> \<le> \<lfloor>y\<rfloor>" by (rule floor_mono)
  show ?thesis
  proof (cases "\<lfloor>x\<rfloor> = \<lfloor>y\<rfloor>")
    case True
    with le show ?thesis by (auto simp: rne_def Let_def)
  next
    case False
    with fl have "\<lfloor>x\<rfloor> + 1 \<le> \<lfloor>y\<rfloor>" by simp
    then have "x \<le> of_int \<lfloor>y\<rfloor>" by linarith
    then have "rne x \<le> \<lfloor>y\<rfloor>" by (rule rne_le_of_int)
    also have "\<lfloor>y\<rfloor> \<le> rne y" by (rule rne_ge_of_int) simp
    finally show ?thesis .
  qed
qed

lemma rne_minus: "rne (- y) = - rne y"
proof (cases "y = of_int \<lfloor>y\<rfloor>")
  case True
  then show ?thesis by (metis of_int_minus rne_of_int)
next
  case False
  then have "\<lfloor>- y\<rfloor> = - \<lfloor>y\<rfloor> - 1" by linarith
  then show ?thesis by (auto simp: rne_def Let_def)
qed

lemma floorlog_real:
  assumes "0 < n"
  shows "(2::real) ^ (floorlog 2 n - 1) \<le> real n" and "real n + 1 \<le> 2 ^ floorlog 2 n" and "0 < floorlog 2 n"
proof -
  have b: "2 ^ (floorlog 2 n - 1) \<le> n" "n < 2 ^ floorlog 2 n" using floorlog_bounds [of n 2] assms by auto
  show "(2::real) ^ (floorlog 2 n - 1) \<le> real n" using b(1) by (metis of_nat_le_iff of_nat_numeral of_nat_power)
  show "real n + 1 \<le> 2 ^ floorlog 2 n"
    using b(2) by (metis Suc_leI of_nat_Suc of_nat_le_iff of_nat_numeral of_nat_power add.commute)
  show "0 < floorlog 2 n" using assms floorlog_eq_zero_iff [of 2 n] by simp
qed

lemma expo_bounds_large:
  assumes "1 \<le> \<bar>x\<bar>"
  shows "2 powi expo x \<le> \<bar>x\<bar> \<and> \<bar>x\<bar> < 2 powi (expo x + 1)"
proof -
  define n where "n = nat \<lfloor>\<bar>x\<bar>\<rfloor>"
  have n: "real n \<le> \<bar>x\<bar>" "\<bar>x\<bar> < real n + 1" "0 < n" using assms by (auto simp: n_def le_nat_iff le_floor_iff)
  note b = floorlog_real [OF n(3)]
  have e: "expo x = int (floorlog 2 n - 1)" using assms b(3) by (simp add: expo_def n_def int_ops)
  then have "expo x + 1 = int (floorlog 2 n)" using b(3) by (simp add: int_ops)
  then have "(2::real) powi (expo x + 1) = 2 ^ floorlog 2 n" by simp
  moreover have "(2::real) powi expo x = 2 ^ (floorlog 2 n - 1)" by (simp add: e)
  ultimately show ?thesis using n b by linarith
qed

lemma expo_bounds_small:
  assumes "x \<noteq> 0" and "\<not> 1 \<le> \<bar>x\<bar>"
  shows "2 powi expo x \<le> \<bar>x\<bar> \<and> \<bar>x\<bar> < 2 powi (expo x + 1)"
proof -
  define y where "y = 1 / \<bar>x\<bar>"
  define m where "m = nat (\<lceil>y\<rceil> - 1)"
  have y: "1 < y" using assms by (simp add: y_def field_simps)
  then have m: "y \<le> real m + 1" "real m < y" "0 < m" unfolding m_def by linarith+
  note b = floorlog_real [OF m(3)]
  have e: "expo x = - int (floorlog 2 m)" using assms(2) by (simp add: expo_def m_def y_def)
  have lo: "2 ^ (floorlog 2 m - 1) < y" and hi: "y \<le> 2 ^ floorlog 2 m" using m b by linarith+
  have "1 / 2 ^ floorlog 2 m \<le> 1 / y" using hi y by (intro divide_left_mono) auto
  moreover have "1 / y < 1 / 2 ^ (floorlog 2 m - 1)" using lo y by (intro divide_strict_left_mono) auto
  moreover have "(2::real) powi expo x = 1 / 2 ^ floorlog 2 m" by (simp add: e power_int_minus divide_inverse)
  moreover have "expo x + 1 = - int (floorlog 2 m - 1)" using b(3) by (simp add: e int_ops)
  then have "(2::real) powi (expo x + 1) = 1 / 2 ^ (floorlog 2 m - 1)" by (simp add: power_int_minus divide_inverse)
  ultimately show ?thesis by (simp add: y_def)
qed

lemma expo_bounds:
  assumes "x \<noteq> 0"
  shows "2 powi expo x \<le> \<bar>x\<bar>" and "\<bar>x\<bar> < 2 powi (expo x + 1)"
  using expo_bounds_large [of x] expo_bounds_small [OF assms] by blast+

lemma powi_le_expo:
  assumes "x \<noteq> 0" and "\<bar>x\<bar> < 2 powi k"
  shows "expo x < k"
proof (rule ccontr)
  assume "\<not> expo x < k"
  then have "(2::real) powi k \<le> 2 powi expo x" by (intro power_int_increasing) auto
  with expo_bounds(1) [OF assms(1)] assms(2) show False by linarith
qed

lemma expo_mono: "x \<noteq> 0 \<Longrightarrow> y \<noteq> 0 \<Longrightarrow> \<bar>x\<bar> \<le> \<bar>y\<bar> \<Longrightarrow> expo x \<le> expo y"
  using powi_le_expo [of x "expo y + 1"] expo_bounds(2) [of y] by linarith

lemma powi_less_cancel:
  assumes "(2::real) powi a < 2 powi b"
  shows "a < b"
proof (rule ccontr)
  assume "\<not> a < b"
  then have "(2::real) powi b \<le> 2 powi a" by (intro power_int_increasing) auto
  with assms show False by simp
qed

section \<open>Facts about rounding\<close>

definition on_grid :: "nat \<Rightarrow> int \<Rightarrow> real \<Rightarrow> bool" where
  "on_grid p emin x \<longleftrightarrow> (\<exists>m e. x = of_int m * 2 powi e \<and> \<bar>m\<bar> < 2 ^ p \<and> emin \<le> e)"

lemma powi_split: "(2::real) powi (a - b) * 2 powi b = 2 powi a"
  by (simp flip: power_int_add)

lemma rnd_zero [simp]: "rnd p emin 0 = 0"
  by (simp add: rnd_def)

lemma rnd_multiple:
  assumes "x = of_int m * 2 powi e" and "lexp p emin x \<le> e"
  shows "rnd p emin x = x"
proof (cases "x = 0")
  case False
  define l where "l = lexp p emin x"
  obtain d where d: "e = l + int d" using assms(2) unfolding l_def by (metis zle_iff_zadd)
  have "x * 2 powi (- l) = of_int (m * 2 ^ d)"
    unfolding assms(1) d by (simp add: power_int_add power_int_minus)
  then have "rnd p emin x = of_int (m * 2 ^ d) * 2 powi l"
    using False by (simp only: rnd_def l_def [symmetric] rne_of_int if_False)
  also have "\<dots> = x" unfolding assms(1) d by (simp add: power_int_add)
  finally show ?thesis .
qed simp

lemma rnd_on_grid:
  assumes "on_grid p emin x"
  shows "rnd p emin x = x"
proof (cases "x = 0")
  case False
  from assms obtain m e where m: "x = of_int m * 2 powi e" "\<bar>m\<bar> < 2 ^ p" "emin \<le> e"
    by (auto simp: on_grid_def)
  have "\<bar>x\<bar> = of_int \<bar>m\<bar> * 2 powi e" by (simp add: m(1) abs_mult)
  also have "\<dots> < 2 ^ p * 2 powi e"
    using m(2) by (intro mult_strict_right_mono) (auto simp flip: of_int_less_iff [where 'a = real])
  also have "\<dots> = 2 powi (int p + e)" by (simp add: power_int_add)
  finally have "expo x < int p + e" using False by (intro powi_le_expo)
  then have "lexp p emin x \<le> e" using m(3) by (simp add: lexp_def)
  with m(1) show ?thesis by (rule rnd_multiple)
qed simp

lemma rnd_error:
  "\<bar>rnd p emin x - x\<bar> \<le> 2 powi lexp p emin x / 2"
proof (cases "x = 0")
  case False
  define l where "l = lexp p emin x"
  have "x = x * 2 powi (- l) * 2 powi l" by (simp add: power_int_minus)
  then have "rnd p emin x - x = (of_int (rne (x * 2 powi (- l))) - x * 2 powi (- l)) * 2 powi l"
    using False by (simp add: rnd_def l_def algebra_simps)
  then have "\<bar>rnd p emin x - x\<bar> = \<bar>of_int (rne (x * 2 powi (- l))) - x * 2 powi (- l)\<bar> * 2 powi l"
    by (simp add: abs_mult)
  also have "\<dots> \<le> 1/2 * 2 powi l" by (intro mult_right_mono rne_error) simp
  finally show ?thesis by (simp add: l_def)
qed simp

lemma rnd_rel_error:
  assumes "1 \<le> p"
  shows "\<bar>rnd p emin x - x\<bar> \<le> \<bar>x\<bar> * 2 powi (- int p) + 2 powi (emin - 1)"
proof (cases "x = 0")
  case False
  have "(2::real) powi lexp p emin x \<le> \<bar>x\<bar> * 2 powi (1 - int p) + 2 powi emin"
  proof (cases "expo x - (int p - 1) \<le> emin")
    case True
    then show ?thesis by (simp add: lexp_def max_def add_increasing)
  next
    case f: False
    have "(2::real) powi lexp p emin x = 2 powi expo x * 2 powi (1 - int p)"
      using f by (simp add: lexp_def max_def algebra_simps flip: power_int_add)
    also have "\<dots> \<le> \<bar>x\<bar> * 2 powi (1 - int p)"
      using expo_bounds(1) [OF False] by (intro mult_right_mono) auto
    finally show ?thesis by (simp add: add_increasing2)
  qed
  then have "(2::real) powi lexp p emin x / 2 \<le> (\<bar>x\<bar> * 2 powi (1 - int p) + 2 powi emin) / 2" by simp
  also have "\<dots> = \<bar>x\<bar> * 2 powi (- int p) + 2 powi (emin - 1)"
    by (simp add: power_int_diff power_int_minus field_simps)
  finally show ?thesis using rnd_error [of p emin x] by linarith
qed simp

lemma rnd_minus: "rnd p emin (- x) = - rnd p emin x"
  by (simp add: rnd_def lexp_def expo_def rne_minus)

lemma rnd_le_grid:
  assumes "x \<le> of_int k * 2 powi lexp p emin x" and "x \<noteq> 0"
  shows "rnd p emin x \<le> of_int k * 2 powi lexp p emin x"
proof -
  define l where "l = lexp p emin x"
  have "x * 2 powi (- l) \<le> of_int k * 2 powi l * 2 powi (- l)"
    using assms(1) unfolding l_def by (intro mult_right_mono) auto
  then have "x * 2 powi (- l) \<le> of_int k" by (simp add: mult.assoc flip: power_int_add)
  then have "rne (x * 2 powi (- l)) \<le> k" by (rule rne_le_of_int)
  then show ?thesis using assms(2) by (simp add: rnd_def l_def [symmetric])
qed

lemma rnd_ge_grid:
  assumes "of_int k * 2 powi lexp p emin x \<le> x" and "x \<noteq> 0"
  shows "of_int k * 2 powi lexp p emin x \<le> rnd p emin x"
proof -
  define l where "l = lexp p emin x"
  have "of_int k * 2 powi l * 2 powi (- l) \<le> x * 2 powi (- l)"
    using assms(1) unfolding l_def by (intro mult_right_mono) auto
  then have "of_int k \<le> x * 2 powi (- l)" by (simp add: mult.assoc flip: power_int_add)
  then have "k \<le> rne (x * 2 powi (- l))" by (rule rne_ge_of_int)
  then show ?thesis using assms(2) by (simp add: rnd_def l_def [symmetric])
qed

lemma rnd_nonneg: "0 \<le> x \<Longrightarrow> 0 \<le> rnd p emin x"
  using rnd_ge_grid [of 0 p emin x] by (cases "x = 0") auto

lemma powi_on_finer: "l \<le> e \<Longrightarrow> \<exists>k. (2::real) powi e = of_int k * 2 powi l"
  by (rule exI [of _ "2 ^ nat (e - l)"])
    (simp add: power_int_def [of _ "e - l", symmetric] power_int_of_nat [symmetric] flip: power_int_add)

lemma rnd_mono_pos:
  assumes "0 < x" and "x \<le> y" and "1 \<le> p"
  shows "rnd p emin x \<le> rnd p emin y"
proof (cases "lexp p emin x = lexp p emin y")
  case True
  define l where "l = lexp p emin y"
  have "rne (x * 2 powi (- l)) \<le> rne (y * 2 powi (- l))"
    using assms by (intro rne_mono mult_right_mono) auto
  then show ?thesis using assms True by (simp add: rnd_def l_def [symmetric])
next
  case False
  have e: "expo x \<le> expo y" using assms by (intro expo_mono) auto
  with False have ey: "lexp p emin y = expo y - (int p - 1)" and exy: "expo x < expo y"
      and lx: "lexp p emin x \<le> expo y"
    using assms(3) by (auto simp: lexp_def max_def split: if_splits)
  obtain k where k: "(2::real) powi expo y = of_int k * 2 powi lexp p emin x"
    using powi_on_finer [OF lx] by blast
  have "x < 2 powi (expo x + 1)" using expo_bounds(2) [of x] assms(1) by simp
  also have "\<dots> \<le> 2 powi expo y" using exy by (intro power_int_increasing) auto
  finally have "rnd p emin x \<le> 2 powi expo y"
    using rnd_le_grid [of x k p emin] assms(1) unfolding k by simp
  also have "2 powi expo y \<le> rnd p emin y"
  proof -
    obtain j where j: "(2::real) powi expo y = of_int j * 2 powi lexp p emin y"
      using powi_on_finer [of "lexp p emin y" "expo y"] ey assms(3) by auto
    show ?thesis
      using rnd_ge_grid [of j p emin y] expo_bounds(1) [of y] assms unfolding j by simp
  qed
  finally show ?thesis .
qed

lemma rnd_mono:
  assumes "x \<le> y" and "1 \<le> p"
  shows "rnd p emin x \<le> rnd p emin y"
proof -
  consider "0 < x" | "x \<le> 0" "0 \<le> y" | "y < 0" by linarith
  then show ?thesis
  proof cases
    case 1
    then show ?thesis using assms by (intro rnd_mono_pos)
  next
    case 2
    then show ?thesis
      using rnd_nonneg [of "- x" p emin] rnd_nonneg [of y p emin] by (simp add: rnd_minus)
  next
    case 3
    then have "rnd p emin (- y) \<le> rnd p emin (- x)" using assms by (intro rnd_mono_pos) auto
    then show ?thesis by (simp add: rnd_minus)
  qed
qed


section \<open>Floating point values and their operations\<close>

datatype pyfloat = Fin real | PInf | NInf | NaN

text \<open>The overflow bound and half the least subnormal, kept as constants so that no proof
  expands them.\<close>

definition fbound :: "nat \<Rightarrow> real" where
  "fbound emax = 2 ^ emax"

definition overflows :: "nat \<Rightarrow> real \<Rightarrow> bool" where
  "overflows emax r \<longleftrightarrow> fbound emax \<le> r"

definition tiny :: real where
  "tiny = 2 powi (-1075)"

definition to_format :: "nat \<Rightarrow> int \<Rightarrow> nat \<Rightarrow> real \<Rightarrow> pyfloat" where
  "to_format p emin emax x =
     (let r = rnd p emin x
      in if overflows emax r then PInf else if overflows emax (- r) then NInf else Fin r)"

definition fround :: "real \<Rightarrow> pyfloat" where
  "fround = to_format 53 (-1074) 1024"

fun single :: "pyfloat \<Rightarrow> pyfloat" where
  "single (Fin x) = to_format 24 (-149) 128 x"
| "single v = v"

fun fadd :: "pyfloat \<Rightarrow> pyfloat \<Rightarrow> pyfloat" where
  "fadd (Fin a) (Fin b) = fround (a + b)"
| "fadd NaN _ = NaN"
| "fadd _ NaN = NaN"
| "fadd PInf NInf = NaN"
| "fadd NInf PInf = NaN"
| "fadd PInf _ = PInf"
| "fadd _ PInf = PInf"
| "fadd NInf _ = NInf"
| "fadd _ NInf = NInf"

fun fneg :: "pyfloat \<Rightarrow> pyfloat" where
  "fneg (Fin a) = Fin (- a)"
| "fneg PInf = NInf"
| "fneg NInf = PInf"
| "fneg NaN = NaN"

definition fsub :: "pyfloat \<Rightarrow> pyfloat \<Rightarrow> pyfloat" where
  "fsub a b = fadd a (fneg b)"

text \<open>The sign of a value as used in a product with an infinity; zero times infinity is NaN.\<close>

fun inf_times :: "pyfloat \<Rightarrow> pyfloat" where
  "inf_times (Fin a) = (if a = 0 then NaN else if 0 < a then PInf else NInf)"
| "inf_times v = v"

fun fmul :: "pyfloat \<Rightarrow> pyfloat \<Rightarrow> pyfloat" where
  "fmul (Fin a) (Fin b) = fround (a * b)"
| "fmul NaN _ = NaN"
| "fmul _ NaN = NaN"
| "fmul PInf b = inf_times b"
| "fmul NInf b = fneg (inf_times b)"
| "fmul a PInf = inf_times a"
| "fmul a NInf = fneg (inf_times a)"

text \<open>Python's true division raises on a zero divisor instead of returning an infinity.\<close>

fun fdiv :: "pyfloat \<Rightarrow> pyfloat \<Rightarrow> pyfloat result" where
  "fdiv a (Fin b) =
     (if b = 0 then Inl (ZeroDivisionError ''float division by zero'')
      else case a of Fin x \<Rightarrow> Inr (fround (x / b))
           | NaN \<Rightarrow> Inr NaN
           | PInf \<Rightarrow> Inr (if 0 < b then PInf else NInf)
           | NInf \<Rightarrow> Inr (if 0 < b then NInf else PInf))"
| "fdiv NaN _ = Inr NaN"
| "fdiv _ NaN = Inr NaN"
| "fdiv (Fin a) _ = Inr (Fin 0)"
| "fdiv _ _ = Inr NaN"

fun flt :: "pyfloat \<Rightarrow> pyfloat \<Rightarrow> bool" where
  "flt (Fin a) (Fin b) = (a < b)"
| "flt NaN _ = False"
| "flt _ NaN = False"
| "flt NInf b = (b \<noteq> NInf)"
| "flt a PInf = (a \<noteq> PInf)"
| "flt _ _ = False"

fun fle :: "pyfloat \<Rightarrow> pyfloat \<Rightarrow> bool" where
  "fle (Fin a) (Fin b) = (a \<le> b)"
| "fle NaN _ = False"
| "fle _ NaN = False"
| "fle NInf _ = True"
| "fle _ PInf = True"
| "fle _ _ = False"

abbreviation fgt :: "pyfloat \<Rightarrow> pyfloat \<Rightarrow> bool" where
  "fgt a b \<equiv> flt b a"

abbreviation fge :: "pyfloat \<Rightarrow> pyfloat \<Rightarrow> bool" where
  "fge a b \<equiv> fle b a"

text \<open>The builtins \<open>max(a, b)\<close> and \<open>min(a, b)\<close> keep the first argument unless the second is
  strictly better, which is what they do with a NaN, too.\<close>

definition fmax :: "pyfloat \<Rightarrow> pyfloat \<Rightarrow> pyfloat" where
  "fmax a b = (if flt a b then b else a)"

definition fmin :: "pyfloat \<Rightarrow> pyfloat \<Rightarrow> pyfloat" where
  "fmin a b = (if flt b a then b else a)"

fun fabs :: "pyfloat \<Rightarrow> pyfloat" where
  "fabs (Fin a) = Fin \<bar>a\<bar>"
| "fabs NaN = NaN"
| "fabs _ = PInf"

fun isfinite :: "pyfloat \<Rightarrow> bool" where
  "isfinite (Fin _) = True"
| "isfinite _ = False"

text \<open>\<open>float(n)\<close> for an integer; a literal of the source is the double nearest to it.\<close>

definition float_of_int :: "int \<Rightarrow> pyfloat" where
  "float_of_int n = fround (of_int n)"

definition lit :: "real \<Rightarrow> pyfloat" where
  "lit = fround"

fun math_floor :: "pyfloat \<Rightarrow> int result" where
  "math_floor (Fin a) = Inr \<lfloor>a\<rfloor>"
| "math_floor NaN = Inl (ValueError ''cannot convert float NaN to integer'')"
| "math_floor _ = Inl (OverflowError ''cannot convert float infinity to integer'')"

fun math_ceil :: "pyfloat \<Rightarrow> int result" where
  "math_ceil (Fin a) = Inr \<lceil>a\<rceil>"
| "math_ceil NaN = Inl (ValueError ''cannot convert float NaN to integer'')"
| "math_ceil _ = Inl (OverflowError ''cannot convert float infinity to integer'')"

text \<open>The builtin \<open>round(x)\<close>, which rounds halves to even.\<close>

fun py_round :: "pyfloat \<Rightarrow> int result" where
  "py_round (Fin a) = Inr (rne a)"
| "py_round NaN = Inl (ValueError ''cannot convert float NaN to integer'')"
| "py_round _ = Inl (OverflowError ''cannot convert float infinity to integer'')"

fun math_sqrt :: "pyfloat \<Rightarrow> pyfloat result" where
  "math_sqrt (Fin a) = (if a < 0 then Inl (ValueError ''math domain error'') else Inr (fround (sqrt a)))"
| "math_sqrt PInf = Inr PInf"
| "math_sqrt NInf = Inl (ValueError ''math domain error'')"
| "math_sqrt NaN = Inr NaN"

text \<open>The double \<open>math.pi\<close>, exactly.\<close>

definition math_pi :: pyfloat where
  "math_pi = Fin (884279719003555 / 281474976710656)"

definition deg_to_rad :: pyfloat where
  "deg_to_rad = (case fdiv math_pi (Fin 180) of Inr v \<Rightarrow> v | Inl _ \<Rightarrow> NaN)"

definition math_radians :: "pyfloat \<Rightarrow> pyfloat" where
  "math_radians x = fmul x deg_to_rad"

text \<open>\<open>x % y\<close> for a positive finite \<open>y\<close>: the exact remainder, moved into \<open>[0, y]\<close>.\<close>

fun fmod_pos :: "pyfloat \<Rightarrow> pyfloat \<Rightarrow> pyfloat" where
  "fmod_pos (Fin x) (Fin y) =
     (let q = x / y; r = x - y * of_int (if 0 \<le> q then \<lfloor>q\<rfloor> else \<lceil>q\<rceil>)
      in if r < 0 then fround (r + y) else Fin r)"
| "fmod_pos _ _ = NaN"

section \<open>Representable values\<close>

definition is_double :: "real \<Rightarrow> bool" where
  "is_double x \<longleftrightarrow> on_grid 53 (-1074) x \<and> \<bar>x\<bar> < fbound 1024"

definition is_single :: "real \<Rightarrow> bool" where
  "is_single x \<longleftrightarrow> on_grid 24 (-149) x \<and> \<bar>x\<bar> < fbound 128"

lemma to_format_on_grid: "on_grid p emin x \<Longrightarrow> \<bar>x\<bar> < fbound emax \<Longrightarrow> to_format p emin emax x = Fin x"
  by (simp add: to_format_def rnd_on_grid Let_def abs_less_iff overflows_def)

lemma fround_double: "is_double x \<Longrightarrow> fround x = Fin x"
  unfolding is_double_def fround_def by (rule to_format_on_grid) auto

lemma single_exact: "is_single x \<Longrightarrow> single (Fin x) = Fin x"
  unfolding is_single_def single.simps by (rule to_format_on_grid) auto

lemma dyadicI: "x = of_int m * 2 powi e \<Longrightarrow> \<bar>m\<bar> < 2 ^ p \<Longrightarrow> emin \<le> e \<Longrightarrow> on_grid p emin x"
  by (auto simp: on_grid_def)

lemma on_grid_int: "\<bar>n\<bar> < 2 ^ p \<Longrightarrow> emin \<le> 0 \<Longrightarrow> on_grid p emin (of_int n)"
  by (rule dyadicI [of _ n 0]) auto

lemma fbound_mono: "a \<le> b \<Longrightarrow> fbound a \<le> fbound b"
  unfolding fbound_def by (intro power_increasing) auto

lemma fbound_strict: "a < b \<Longrightarrow> fbound a < fbound b"
  unfolding fbound_def by (intro power_strict_increasing) auto

lemma fbound_pos [simp]: "0 < fbound a"
  by (simp add: fbound_def)

lemma fbound_ge_100: "2 ^ 100 \<le> fbound 1024" "2 ^ 100 \<le> fbound 128"
  using fbound_mono [of 100 1024] fbound_mono [of 100 128] by (simp_all only: fbound_def [of 100])

lemma not_overflows [pyfloat_simps]:
  "x < 2 ^ 100 \<Longrightarrow> \<not> overflows 1024 x" "x < 2 ^ 100 \<Longrightarrow> \<not> overflows 128 x"
  using fbound_ge_100 unfolding overflows_def by linarith+

lemma below_fbound [pyfloat_simps]:
  "x < 2 ^ 100 \<Longrightarrow> x < fbound 1024" "x < 2 ^ 100 \<Longrightarrow> x < fbound 128"
  using fbound_ge_100 by linarith+

lemma is_double_int: "\<bar>n\<bar> < 2 ^ 53 \<Longrightarrow> is_double (of_int n)"
proof -
  assume n: "\<bar>n\<bar> < 2 ^ 53"
  then have "\<bar>real_of_int n\<bar> < fbound 53"
    unfolding fbound_def by (metis of_int_abs of_int_less_iff of_int_numeral of_int_power)
  also have "fbound 53 \<le> fbound 1024" by (rule fbound_mono) simp
  finally show ?thesis using n by (simp add: is_double_def on_grid_int)
qed

lemma float_of_int_exact: "\<bar>n\<bar> < 2 ^ 53 \<Longrightarrow> float_of_int n = Fin (of_int n)"
  unfolding float_of_int_def by (intro fround_double is_double_int)

lemma is_double_zero [simp]: "is_double 0"
  using is_double_int [of 0] by simp

lemma is_double_minus: "is_double x \<Longrightarrow> is_double (- x)"
proof -
  assume x: "is_double x"
  then obtain m e where "x = of_int m * 2 powi e" "\<bar>m\<bar> < 2 ^ 53" "-1074 \<le> e"
    unfolding is_double_def on_grid_def by blast
  then have "on_grid 53 (-1074) (- x)" by (intro dyadicI [of _ "- m" e]) simp_all
  with x show ?thesis by (simp add: is_double_def)
qed

lemma fround_zero [simp]: "fround 0 = Fin 0"
  by (rule fround_double) simp

text \<open>A rounded result inside the finite range is finite, close to the exact one, and monotone.\<close>

lemma rnd64_abs_less:
  assumes "\<bar>x\<bar> \<le> fbound 1023"
  shows "\<bar>rnd 53 (-1074) x\<bar> < fbound 1024"
proof -
  have g: "rnd 53 (-1074) (fbound 1023) = fbound 1023"
    by (rule rnd_on_grid, rule dyadicI [of _ 1 1023])
      (simp_all add: fbound_def power_int_def del: power_numeral)
  have "rnd 53 (-1074) x \<le> rnd 53 (-1074) (fbound 1023)"
    using assms by (intro rnd_mono) auto
  moreover have "rnd 53 (-1074) (- fbound 1023) \<le> rnd 53 (-1074) x"
    using assms by (intro rnd_mono) auto
  ultimately have "\<bar>rnd 53 (-1074) x\<bar> \<le> fbound 1023" by (simp add: rnd_minus g)
  also have "fbound 1023 < fbound 1024" by (rule fbound_strict) simp
  finally show ?thesis .
qed

lemma fround_finite: "\<bar>x\<bar> \<le> fbound 1023 \<Longrightarrow> fround x = Fin (rnd 53 (-1074) x)"
  using rnd64_abs_less [of x] by (simp add: fround_def to_format_def Let_def abs_less_iff overflows_def)

lemma tiny_pos: "0 < tiny"
  by (simp add: tiny_def)

lemma tiny_le: "tiny \<le> 1 / 2 ^ 100"
proof -
  have "tiny \<le> 2 powi (-100)" unfolding tiny_def by (intro power_int_increasing) auto
  also have "(2::real) powi (-100) = 1 / 2 ^ 100"
    by (simp only: power_int_minus power_int_numeral inverse_eq_divide)
  finally show ?thesis .
qed

lemma rnd64_error: "\<bar>rnd 53 (-1074) x - x\<bar> \<le> \<bar>x\<bar> / 2 ^ 53 + tiny"
proof -
  have "(2::real) powi (- int 53) = 1 / 2 ^ 53"
    by (simp only: power_int_minus power_int_of_nat inverse_eq_divide)
  moreover have "(2::real) powi (-1074 - 1) = tiny" by (simp only: tiny_def) simp
  ultimately show ?thesis using rnd_rel_error [of 53 "-1074" x] by (simp only:) simp
qed

text \<open>What a rounded operation returns is a value of its format.\<close>

lemma on_grid_rnd:
  assumes "1 \<le> p"
  shows "on_grid p emin (rnd p emin x)"
proof (cases "x = 0")
  case True
  then show ?thesis by (auto intro: dyadicI [of _ 0 emin])
next
  case False
  define l where "l = lexp p emin x"
  define k where "k = rne (x * 2 powi (- l))"
  have r: "rnd p emin x = of_int k * 2 powi l" using False by (simp add: rnd_def k_def l_def)
  have "expo x + 1 \<le> int p + l" by (simp add: l_def lexp_def)
  then have "(2::real) powi (expo x + 1) \<le> 2 powi (int p + l)" by (intro power_int_increasing) auto
  then have "\<bar>x\<bar> \<le> 2 powi (int p + l)" using expo_bounds(2) [OF False] by linarith
  then have "\<bar>x\<bar> * 2 powi (- l) \<le> 2 powi (int p + l) * 2 powi (- l)"
    by (intro mult_right_mono) auto
  also have "(2::real) powi (int p + l) * 2 powi (- l) = 2 ^ p"
    by (simp flip: power_int_add)
  finally have "\<bar>x * 2 powi (- l)\<bar> \<le> of_int (2 ^ p)" by (simp add: abs_mult)
  then have "k \<le> 2 ^ p" "- (2 ^ p) \<le> k"
    unfolding k_def by (intro rne_le_of_int rne_ge_of_int; simp add: abs_le_iff)+
  then consider "\<bar>k\<bar> < 2 ^ p" | "k = 2 ^ p" | "k = - (2 ^ p)" by linarith
  moreover have "emin \<le> l" "emin \<le> l + int p" by (simp_all add: l_def lexp_def)
  moreover have "(2::real) ^ p * 2 powi l = 2 powi (l + int p)"
    by (simp add: power_int_add mult.commute)
  moreover have "(1::int) < 2 ^ p" using assms one_less_power [of "2::int" p] by simp
  ultimately show ?thesis
    unfolding r by cases (auto intro: dyadicI [of _ k l] dyadicI [of _ 1 "l + int p"] dyadicI [of _ "-1" "l + int p"])
qed

definition is_float64 :: "pyfloat \<Rightarrow> bool" where
  "is_float64 v \<longleftrightarrow> (case v of Fin x \<Rightarrow> is_double x | _ \<Rightarrow> True)"

definition is_float32 :: "pyfloat \<Rightarrow> bool" where
  "is_float32 v \<longleftrightarrow> (case v of Fin x \<Rightarrow> is_single x | _ \<Rightarrow> True)"

lemma is_float64_fround [simp]: "is_float64 (fround x)"
  by (auto simp: is_float64_def fround_def to_format_def Let_def is_double_def overflows_def on_grid_rnd abs_less_iff)

lemma is_float32_single [simp]: "is_float32 (single v)"
  by (cases v)
    (auto simp: is_float32_def to_format_def Let_def is_single_def overflows_def on_grid_rnd abs_less_iff)

lemma single_float32: "is_float32 v \<Longrightarrow> single v = v"
  by (cases v) (simp_all add: is_float32_def single_exact del: single.simps(1))

lemma single_single [simp]: "single (single v) = single v"
  by (rule single_float32) simp

lemma is_float_zero [simp]: "is_float64 (Fin 0)" "is_float32 (Fin 0)"
  using is_double_zero by (auto simp: is_float64_def is_float32_def is_single_def intro: dyadicI [of _ 0 0])

text \<open>Evaluation of the operations on literals: unfold rounding down to integer arithmetic.\<close>

lemmas round_eval [pyfloat_simps] =
  fround_def to_format_def rnd_def lexp_def expo_def rne_def Let_def compute_floorlog power_int_def
  power_one_over power_divide

lemmas float_op_defs [pyfloat_simps] =
  fsub_def fmax_def fmin_def float_of_int_def lit_def

lemma flt_irrefl [simp]: "\<not> flt a a"
  by (cases a) auto

lemma flt_imp_fle: "flt a b \<Longrightarrow> fle a b"
  by (cases a; cases b) auto

lemma not_flt_NaN [simp]: "\<not> flt a NaN" "\<not> fle a NaN"
  by (cases a; simp)+

lemma fle_antisym_strict: "fle a b \<Longrightarrow> \<not> flt b a"
  by (cases a; cases b) auto

text \<open>A finite value of magnitude at most \<open>B\<close>.\<close>

definition bounded_by :: "real \<Rightarrow> pyfloat \<Rightarrow> bool" where
  "bounded_by B v \<longleftrightarrow> (\<exists>r. v = Fin r \<and> \<bar>r\<bar> \<le> B)"

lemma bounded_mono: "bounded_by A v \<Longrightarrow> A \<le> B \<Longrightarrow> bounded_by B v"
  by (auto simp: bounded_by_def)

lemma bounded_fneg [simp]: "bounded_by B (fneg v) = bounded_by B v"
  by (cases v) (auto simp: bounded_by_def)

text \<open>Rounding does not leave an interval whose ends are representable.\<close>

lemma to_format_bounded:
  assumes "\<bar>x\<bar> \<le> B" and "on_grid p emin B" and "B < fbound emax" and "1 \<le> p"
  shows "bounded_by B (to_format p emin emax x)"
proof -
  let ?r = "rnd p emin"
  have B: "?r B = B" using assms(2) by (rule rnd_on_grid)
  have "?r x \<le> ?r B" "?r (- B) \<le> ?r x" using assms(1,4) by (auto intro!: rnd_mono)
  then have r: "\<bar>?r x\<bar> \<le> B" by (simp add: B rnd_minus)
  with assms(3) have "\<not> overflows emax (?r x)" "\<not> overflows emax (- ?r x)" by (auto simp: overflows_def)
  with r show ?thesis by (simp add: bounded_by_def to_format_def Let_def)
qed

lemma single_bounded: "is_single B \<Longrightarrow> \<bar>x\<bar> \<le> B \<Longrightarrow> bounded_by B (single (Fin x))"
  unfolding single.simps is_single_def by (rule to_format_bounded) auto

lemma to_format_unit:
  assumes "\<bar>x\<bar> \<le> 1" and "2 \<le> p" and "emin \<le> 0" and "100 \<le> emax"
  shows "bounded_by 1 (to_format p emin emax x)"
proof (rule to_format_bounded)
  have "(1::int) < 2 ^ p" using assms(2) one_less_power [of "2::int" p] by simp
  then show "on_grid p emin 1" using on_grid_int [of 1 p emin] assms(3) by simp
  have "(1::real) < fbound 100" by (simp add: fbound_def)
  then show "1 < fbound emax" using fbound_mono [OF assms(4)] by linarith
qed (use assms in auto)

lemma to_format_minus: "to_format p emin emax (- x) = fneg (to_format p emin emax x)"
proof -
  have "\<not> (overflows emax r \<and> overflows emax (- r))" for r
    using fbound_pos [of emax] unfolding overflows_def by linarith
  then show ?thesis by (auto simp: to_format_def Let_def rnd_minus)
qed

lemma single_fneg: "single (fneg v) = fneg (single v)"
  by (cases v) (simp_all add: to_format_minus)

text \<open>A value that is at least \<open>B\<close>, possibly infinite.\<close>

definition at_least :: "real \<Rightarrow> pyfloat \<Rightarrow> bool" where
  "at_least B v \<longleftrightarrow> v = PInf \<or> (\<exists>r. v = Fin r \<and> B \<le> r)"

lemma fround_at_least: "is_double B \<Longrightarrow> B \<le> x \<Longrightarrow> at_least B (fround x)"
proof -
  assume B: "is_double B" "B \<le> x"
  then have "rnd 53 (-1074) B \<le> rnd 53 (-1074) x" by (intro rnd_mono) auto
  then have r: "B \<le> rnd 53 (-1074) x" using B(1) rnd_on_grid [of 53 "-1074" B] by (simp add: is_double_def)
  moreover have "- fbound 1024 < B" using B(1) by (simp add: is_double_def abs_less_iff)
  ultimately show ?thesis by (auto simp: at_least_def fround_def to_format_def Let_def overflows_def)
qed

lemma fadd_at_least:
  assumes "is_double C" and "at_least A a" and "at_least B b" and "C \<le> A + B"
  shows "at_least C (fadd a b)"
proof (cases "a = PInf \<or> b = PInf")
  case True
  then show ?thesis using assms(2,3) by (auto simp: at_least_def)
next
  case False
  then obtain r s where "a = Fin r" "A \<le> r" "b = Fin s" "B \<le> s" using assms(2,3) by (auto simp: at_least_def)
  then show ?thesis using fround_at_least [OF assms(1), of "r + s"] assms(4) by simp
qed

lemma single_unit: "bounded_by 1 v \<Longrightarrow> bounded_by 1 (single v)"
  using to_format_unit [of _ 24 "-149" 128] by (auto simp: bounded_by_def)

lemma fround_unit: "\<bar>x\<bar> \<le> 1 \<Longrightarrow> bounded_by 1 (fround x)"
  unfolding fround_def by (rule to_format_unit) auto

end
