(* ===== verification/CTypes.thy ===== *)
theory CTypes
  imports PyFloat
begin

text \<open>
  Bytes, the little-endian integers of \<open>struct\<close> and \<open>int.to_bytes\<close>, the IEEE bit patterns of
  floats, and packed ctypes structures (\<open>_pack_ = 1\<close>): a layout is a \<open>ctype\<close>, an instance a
  \<open>cval\<close>; \<open>c_bytes\<close> is \<open>bytes(struct)\<close> and \<open>c_parse\<close> is \<open>from_buffer_copy\<close>. The
  main fact is that parsing the bytes of a well-typed instance gives the instance back.
\<close>

type_synonym byte = "8 word"

section \<open>Little-endian integers\<close>

fun le_bytes :: "nat \<Rightarrow> int \<Rightarrow> byte list" where
  "le_bytes 0 x = []"
| "le_bytes (Suc k) x = word_of_int x # le_bytes k (x div 256)"

fun le_uint :: "byte list \<Rightarrow> int" where
  "le_uint [] = 0"
| "le_uint (b # bs) = uint b + 256 * le_uint bs"

definition to_signed :: "nat \<Rightarrow> int \<Rightarrow> int" where
  "to_signed bits u = (if 2 ^ (bits - 1) \<le> u then u - 2 ^ bits else u)"

definition le_sint :: "byte list \<Rightarrow> int" where
  "le_sint bs = to_signed (8 * length bs) (le_uint bs)"

text \<open>The slice \<open>xs[a:b]\<close> for \<open>0 \<le> a \<le> b\<close>.\<close>

definition slice :: "nat \<Rightarrow> nat \<Rightarrow> 'a list \<Rightarrow> 'a list" where
  "slice a b xs = take (b - a) (drop a xs)"

text \<open>Assignment of a Python integer to a ctypes field keeps its low bits, without a check.\<close>

definition c_uint :: "nat \<Rightarrow> int \<Rightarrow> int" where
  "c_uint bits n = n mod 2 ^ bits"

definition c_int :: "nat \<Rightarrow> int \<Rightarrow> int" where
  "c_int bits n = to_signed bits (n mod 2 ^ bits)"

lemma length_le_bytes [simp]: "length (le_bytes k x) = k"
  by (induction k arbitrary: x) auto

lemma le_uint_bounds: "0 \<le> le_uint bs \<and> le_uint bs < 256 ^ length bs"
proof (induction bs)
  case (Cons b bs)
  have "uint b < 256" "0 \<le> uint b" using uint_lt2p [of b] by simp_all
  with Cons show ?case by simp
qed simp

lemma le_uint_bytes: "le_uint (le_bytes k x) = x mod 256 ^ k"
proof (induction k arbitrary: x)
  case (Suc k)
  have "le_uint (le_bytes (Suc k) x) = x mod 256 + 256 * ((x div 256) mod 256 ^ k)"
    by (simp add: Suc uint_word_of_int)
  also have "\<dots> = x mod (256 * 256 ^ k)"
    by (simp add: zmod_zmult2_eq add.commute)
  finally show ?case by simp
qed simp

lemma to_signed_mod:
  assumes "0 < bits" and "- (2 ^ (bits - 1)) \<le> n" and "n < 2 ^ (bits - 1)"
  shows "to_signed bits (n mod 2 ^ bits) = n"
proof -
  obtain b where b: "bits = Suc b" using assms(1) by (cases bits) auto
  show ?thesis
  proof (cases "0 \<le> n")
    case True
    then have "n mod 2 ^ bits = n" using assms(3) b by simp
    then show ?thesis using assms(3) by (simp add: to_signed_def)
  next
    case False
    have "n mod 2 ^ bits = (n + 2 ^ bits) mod 2 ^ bits" by simp
    also have "\<dots> = n + 2 ^ bits"
      using False assms(2) b by (intro mod_pos_pos_trivial) auto
    finally have "n mod 2 ^ bits = n + 2 ^ bits" .
    then show ?thesis using False assms(2) b by (simp add: to_signed_def)
  qed
qed

lemma le_sint_bytes:
  assumes "0 < k" and "- (2 ^ (8 * k - 1)) \<le> n" and "n < 2 ^ (8 * k - 1)"
  shows "le_sint (le_bytes k n) = n"
proof -
  have "(256::int) ^ k = 2 ^ (8 * k)" by (simp add: power_mult)
  then show ?thesis
    using to_signed_mod [of "8 * k" n] assms by (simp add: le_sint_def le_uint_bytes)
qed

lemma le_bytes_uint: "le_bytes (length bs) (le_uint bs) = bs"
proof (induction bs)
  case (Cons b bs)
  have "0 \<le> uint b" "uint b < 256" using uint_lt2p [of b] by simp_all
  then have "(uint b + 256 * le_uint bs) div 256 = le_uint bs" by simp
  moreover have "(word_of_int (uint b + 256 * le_uint bs) :: byte) = b"
  proof -
    have z: "(256 :: byte) = 0" by simp
    have "(word_of_int (256 * le_uint bs) :: byte) = 256 * word_of_int (le_uint bs)" by simp
    also have "\<dots> = 0" by (simp only: z mult_zero_left)
    finally have "(word_of_int (256 * le_uint bs) :: byte) = 0" .
    then show ?thesis by (simp only: of_int_add word_of_int_uint add_0_right)
  qed
  ultimately show ?case using Cons by simp
qed simp

lemma c_uint_bounds: "0 \<le> c_uint bits n \<and> c_uint bits n < 2 ^ bits"
  by (simp add: c_uint_def)

lemma c_uint_id: "0 \<le> n \<Longrightarrow> n < 2 ^ bits \<Longrightarrow> c_uint bits n = n"
  by (simp add: c_uint_def)

lemma c_int_id: "0 < bits \<Longrightarrow> - (2 ^ (bits - 1)) \<le> n \<Longrightarrow> n < 2 ^ (bits - 1) \<Longrightarrow> c_int bits n = n"
  unfolding c_int_def by (rule to_signed_mod)

lemma c_int_bounds:
  assumes "0 < bits"
  shows "- (2 ^ (bits - 1)) \<le> c_int bits n \<and> c_int bits n < 2 ^ (bits - 1)"
proof -
  obtain b where b: "bits = Suc b" using assms by (cases bits) auto
  define r where "r = n mod 2 ^ bits"
  have "0 \<le> r" "r < 2 * 2 ^ b" by (simp_all add: r_def b)
  then show ?thesis unfolding c_int_def to_signed_def r_def [symmetric] by (simp add: b)
qed

section \<open>IEEE bit patterns\<close>

text \<open>A format is its precision, the exponent of its least subnormal and its exponent width.\<close>

definition float_bits :: "nat \<Rightarrow> int \<Rightarrow> nat \<Rightarrow> pyfloat \<Rightarrow> int" where
  "float_bits p emin eb v =
     (case v of
        NaN \<Rightarrow> (2 ^ eb - 1) * 2 ^ (p - 1) + 2 ^ (p - 2)
      | PInf \<Rightarrow> (2 ^ eb - 1) * 2 ^ (p - 1)
      | NInf \<Rightarrow> 2 ^ (eb + p - 1) + (2 ^ eb - 1) * 2 ^ (p - 1)
      | Fin x \<Rightarrow>
          if x = 0 then 0
          else let e = lexp p emin x; m = \<lfloor>\<bar>x\<bar> * 2 powi (- e)\<rfloor>
               in (if x < 0 then 2 ^ (eb + p - 1) else 0) +
                  (if m < 2 ^ (p - 1) then m else (e - emin + 1) * 2 ^ (p - 1) + (m - 2 ^ (p - 1))))"

definition bits_float :: "nat \<Rightarrow> int \<Rightarrow> nat \<Rightarrow> int \<Rightarrow> pyfloat" where
  "bits_float p emin eb w =
     (let M = w mod 2 ^ (p - 1);
          E = (w div 2 ^ (p - 1)) mod 2 ^ eb;
          neg = odd (w div 2 ^ (eb + p - 1))
      in if E = 2 ^ eb - 1
         then (if M \<noteq> 0 then NaN else if neg then NInf else PInf)
         else let a = (if E = 0 then of_int M * 2 powi emin
                       else of_int (M + 2 ^ (p - 1)) * 2 powi (E - 1 + emin))
              in Fin (if neg then - a else a))"

abbreviation single_bits :: "pyfloat \<Rightarrow> int" where
  "single_bits \<equiv> float_bits 24 (-149) 8"

abbreviation bits_single :: "int \<Rightarrow> pyfloat" where
  "bits_single \<equiv> bits_float 24 (-149) 8"

abbreviation double_bits :: "pyfloat \<Rightarrow> int" where
  "double_bits \<equiv> float_bits 53 (-1074) 11"

abbreviation bits_double :: "int \<Rightarrow> pyfloat" where
  "bits_double \<equiv> bits_float 53 (-1074) 11"

lemma on_grid_mantissa:
  assumes "on_grid p emin x" and "x \<noteq> 0" and "1 \<le> p"
  obtains m where "\<bar>x\<bar> = of_int m * 2 powi lexp p emin x" and "0 < m" and "m < 2 ^ p"
    and "2 ^ (p - 1) \<le> m \<or> lexp p emin x = emin"
proof -
  define l where "l = lexp p emin x"
  define n where "n = rne (x * 2 powi (- l))"
  have x: "x = of_int n * 2 powi l"
    using rnd_on_grid [OF assms(1)] assms(2) by (simp add: rnd_def l_def n_def)
  define m where "m = \<bar>n\<bar>"
  have ax: "\<bar>x\<bar> = of_int m * 2 powi l" by (simp add: x m_def abs_mult)
  have pos: "0 < m" using assms(2) x by (auto simp: m_def)
  have "expo x + 1 \<le> l + int p" by (simp add: l_def lexp_def)
  then have "(2::real) powi (expo x + 1) \<le> 2 powi (l + int p)" by (intro power_int_increasing) auto
  moreover have "(2::real) powi (l + int p) = 2 ^ p * 2 powi l" by (simp add: power_int_add)
  ultimately have "of_int m * (2::real) powi l < 2 ^ p * 2 powi l"
    using expo_bounds(2) [OF assms(2)] unfolding ax by linarith
  then have "real_of_int m < 2 ^ p" by simp
  then have lt: "m < 2 ^ p" by (metis of_int_less_iff of_int_numeral of_int_power)
  have "2 ^ (p - 1) \<le> m" if "l \<noteq> emin"
  proof -
    have le: "expo x = l + int (p - 1)" using that assms(3) by (auto simp: l_def lexp_def max_def split: if_splits)
    have "(2::real) ^ (p - 1) * 2 powi l = 2 powi expo x" by (simp add: le power_int_add)
    also have "\<dots> \<le> of_int m * 2 powi l" using expo_bounds(1) [OF assms(2)] by (simp only: ax)
    finally have "(2::real) ^ (p - 1) \<le> of_int m" by simp
    then show ?thesis by (metis of_int_le_iff of_int_numeral of_int_power)
  qed
  with that ax pos lt show thesis by (auto simp: l_def)
qed


lemma four_le_pow: "2 \<le> n \<Longrightarrow> (4::int) \<le> 2 ^ n"
  using power_increasing [of 2 n "2::int"] by simp

lemma bits_float_parts:
  fixes P E M :: int and neg :: bool
  assumes "0 \<le> M" and "M < P" and "0 \<le> E" and "E < 2 ^ eb" and "P = 2 ^ (p - 1)" and "1 \<le> p"
    and w: "w = (if neg then 2 ^ (eb + p - 1) else 0) + (E * P + M)"
  shows "w mod 2 ^ (p - 1) = M" and "(w div 2 ^ (p - 1)) mod 2 ^ eb = E"
    and "odd (w div 2 ^ (eb + p - 1)) \<longleftrightarrow> neg"
proof -
  have P: "(2::int) ^ (eb + p - 1) = P * 2 ^ eb"
    using assms(5,6) by (cases p) (simp_all add: power_add)
  define s :: int where "s = (if neg then 1 else 0)"
  have w': "w = (s * 2 ^ eb + E) * P + M" using P by (simp add: w s_def algebra_simps)
  show "w mod 2 ^ (p - 1) = M" using assms(1,2) by (simp add: w' assms(5))
  have d: "w div P = s * 2 ^ eb + E" using assms(1,2) by (simp add: w')
  then show "(w div 2 ^ (p - 1)) mod 2 ^ eb = E" using assms(3,4) by (simp add: assms(5))
  have "w div 2 ^ (eb + p - 1) = (w div P) div 2 ^ eb"
    unfolding P using assms(1,2) by (simp add: zdiv_zmult2_eq)
  also have "\<dots> = s" using assms(3,4) by (simp add: d)
  finally show "odd (w div 2 ^ (eb + p - 1)) \<longleftrightarrow> neg" by (simp add: s_def)
qed

lemma bits_float_finite:
  assumes "2 \<le> p" and "2 \<le> eb" and "on_grid p emin x"
    and small: "\<bar>x\<bar> < 2 powi (emin + int p - 2 + (2 ^ eb - 1))"
  shows "bits_float p emin eb (float_bits p emin eb (Fin x)) = Fin x"
proof (cases "x = 0")
  case True
  then show ?thesis
    using four_le_pow [OF assms(2)] by (simp add: bits_float_def float_bits_def)
next
  case False
  have p: "1 \<le> p" using assms(1) by simp
  define e where "e = lexp p emin x"
  define P where "P = (2::int) ^ (p - 1)"
  obtain m where m: "\<bar>x\<bar> = of_int m * 2 powi e" "0 < m" "m < 2 ^ p" "P \<le> m \<or> e = emin"
    using on_grid_mantissa [OF assms(3) False p, folded e_def P_def] by metis
  have P: "0 < P" "2 ^ p = 2 * P" using assms(1) by (cases p; simp add: P_def)+
  have fl: "\<lfloor>\<bar>x\<bar> * 2 powi (- e)\<rfloor> = m" by (simp add: m(1) mult.assoc flip: power_int_add)
  define E where "E = (if m < P then 0 else e - emin + 1)"
  define M where "M = (if m < P then m else m - P)"
  have M: "0 \<le> M" "M < P" using m(2,3) P by (auto simp: M_def)
  have ee: "emin \<le> e" by (simp add: e_def lexp_def)
  have E: "0 \<le> E" "E < 2 ^ eb - 1"
  proof -
    show "0 \<le> E" using ee by (simp add: E_def)
    show "E < 2 ^ eb - 1"
    proof (cases "m < P")
      case True
      then show ?thesis using four_le_pow [OF assms(2)] by (simp add: E_def)
    next
      case nm: False
      have "(2::real) powi (e + int (p - 1)) = of_int P * 2 powi e"
        by (simp add: P_def power_int_add)
      also have "\<dots> \<le> \<bar>x\<bar>" using nm by (simp add: m(1))
      finally have "(2::real) powi (e + int (p - 1)) < 2 powi (emin + int p - 2 + (2 ^ eb - 1))"
        using small by linarith
      then have "e + int (p - 1) < emin + int p - 2 + (2 ^ eb - 1)"
        by (rule powi_less_cancel)
      then show ?thesis using nm assms(1) by (simp add: E_def)
    qed
  qed
  have w: "float_bits p emin eb (Fin x) = (if x < 0 then 2 ^ (eb + p - 1) else 0) + (E * P + M)"
    using False fl by (simp add: float_bits_def Let_def e_def [symmetric] P_def E_def M_def)
  have lt: "E < 2 ^ eb" using E(2) by simp
  note parts = bits_float_parts [OF M E(1) lt P_def p w]
  define a :: real where "a = (if E = 0 then of_int M * 2 powi emin else of_int (M + P) * 2 powi (E - 1 + emin))"
  have "\<bar>x\<bar> = a" using m(1,4) ee by (auto simp: a_def E_def M_def)
  moreover have "bits_float p emin eb (float_bits p emin eb (Fin x)) = Fin (if x < 0 then - a else a)"
    using E(2) by (simp only: bits_float_def Let_def P_def [symmetric] parts [folded P_def] a_def) simp
  ultimately show ?thesis by (simp split: if_splits)
qed

lemma bits_float_special:
  assumes "2 \<le> p" and "2 \<le> eb"
  shows "bits_float p emin eb (float_bits p emin eb NaN) = NaN"
    and "bits_float p emin eb (float_bits p emin eb PInf) = PInf"
    and "bits_float p emin eb (float_bits p emin eb NInf) = NInf"
proof -
  define P where "P = (2::int) ^ (p - 1)"
  have P: "0 < P" "0 < (2::int) ^ (p - 2)" "(2::int) ^ (p - 2) < P"
    using assms(1) by (auto simp: P_def intro: power_strict_increasing)
  have E: "0 \<le> (2::int) ^ eb - 1" "(2::int) ^ eb - 1 < 2 ^ eb"
    using four_le_pow [OF assms(2)] by auto
  have p: "1 \<le> p" using assms(1) by simp
  note nan = bits_float_parts [OF _ P(3) E P_def p, of _ False, OF _ refl]
  note inf = bits_float_parts [OF order_refl P(1) E P_def p refl]
  show "bits_float p emin eb (float_bits p emin eb NaN) = NaN"
    using nan P by (simp add: bits_float_def float_bits_def Let_def P_def)
  show "bits_float p emin eb (float_bits p emin eb PInf) = PInf"
    using inf [of False] by (simp add: bits_float_def float_bits_def Let_def P_def)
  show "bits_float p emin eb (float_bits p emin eb NInf) = NInf"
    using inf [of True] by (simp add: bits_float_def float_bits_def Let_def P_def)
qed


lemma single_bits_roundtrip:
  assumes "case v of Fin x \<Rightarrow> is_single x | _ \<Rightarrow> True"
  shows "bits_single (single_bits v) = v"
proof (cases v)
  case (Fin x)
  have e: "(-149) + int 24 - 2 + (2 ^ 8 - 1) = int 128" by simp
  have "fbound 128 = 2 powi (-149 + int 24 - 2 + (2 ^ 8 - 1))"
    unfolding fbound_def e power_int_of_nat ..
  then show ?thesis using assms Fin by (simp only: is_single_def bits_float_finite pyfloat.case)
qed (simp_all add: bits_float_special)

lemma double_bits_roundtrip:
  assumes "case v of Fin x \<Rightarrow> is_double x | _ \<Rightarrow> True"
  shows "bits_double (double_bits v) = v"
proof (cases v)
  case (Fin x)
  have e: "(-1074) + int 53 - 2 + (2 ^ 11 - 1) = int 1024" by simp
  have "fbound 1024 = 2 powi (-1074 + int 53 - 2 + (2 ^ 11 - 1))"
    unfolding fbound_def e power_int_of_nat ..
  then show ?thesis using assms Fin by (simp only: is_double_def bits_float_finite pyfloat.case)
qed (simp_all add: bits_float_special)

section \<open>Packed structures\<close>

datatype ctype =
    CUInt nat
  | CSInt nat
  | CFloat
  | CDouble
  | CArray nat ctype
  | CStruct "ctype list"

datatype cval = CI (ci_of: int) | CF (cf_of: pyfloat) | CL (cl_of: "cval list")

fun csize :: "ctype \<Rightarrow> nat" where
  "csize (CUInt k) = k"
| "csize (CSInt k) = k"
| "csize CFloat = 4"
| "csize CDouble = 8"
| "csize (CArray n t) = n * csize t"
| "csize (CStruct ts) = sum_list (map csize ts)"

fun c_bytes :: "ctype \<Rightarrow> cval \<Rightarrow> byte list" where
  "c_bytes (CUInt k) v = le_bytes k (ci_of v)"
| "c_bytes (CSInt k) v = le_bytes k (ci_of v)"
| "c_bytes CFloat v = le_bytes 4 (single_bits (cf_of v))"
| "c_bytes CDouble v = le_bytes 8 (double_bits (cf_of v))"
| "c_bytes (CArray n t) v = concat (map (c_bytes t) (cl_of v))"
| "c_bytes (CStruct ts) v = concat (map2 (\<lambda>f u. f u) (map (\<lambda>t u. c_bytes t u) ts) (cl_of v))"

fun chunks :: "nat list \<Rightarrow> 'a list \<Rightarrow> 'a list list" where
  "chunks [] xs = []"
| "chunks (w # ws) xs = take w xs # chunks ws (drop w xs)"

fun c_parse :: "ctype \<Rightarrow> byte list \<Rightarrow> cval" where
  "c_parse (CUInt k) bs = CI (le_uint bs)"
| "c_parse (CSInt k) bs = CI (le_sint bs)"
| "c_parse CFloat bs = CF (bits_single (le_uint bs))"
| "c_parse CDouble bs = CF (bits_double (le_uint bs))"
| "c_parse (CArray n t) bs = CL (map (c_parse t) (chunks (replicate n (csize t)) bs))"
| "c_parse (CStruct ts) bs = CL (map2 (\<lambda>f b. f b) (map (\<lambda>t b. c_parse t b) ts) (chunks (map csize ts) bs))"

text \<open>An instance of a layout: integers in range, floats of the field's precision.\<close>

fun c_typed :: "ctype \<Rightarrow> cval \<Rightarrow> bool" where
  "c_typed (CUInt k) v = (case v of CI n \<Rightarrow> 0 < k \<and> 0 \<le> n \<and> n < 256 ^ k | _ \<Rightarrow> False)"
| "c_typed (CSInt k) v =
     (case v of CI n \<Rightarrow> 0 < k \<and> - (2 ^ (8 * k - 1)) \<le> n \<and> n < 2 ^ (8 * k - 1) | _ \<Rightarrow> False)"
| "c_typed CFloat v = (case v of CF (Fin x) \<Rightarrow> is_single x | CF _ \<Rightarrow> True | _ \<Rightarrow> False)"
| "c_typed CDouble v = (case v of CF (Fin x) \<Rightarrow> is_double x | CF _ \<Rightarrow> True | _ \<Rightarrow> False)"
| "c_typed (CArray n t) v =
     (case v of CL vs \<Rightarrow> length vs = n \<and> list_all (c_typed t) vs | _ \<Rightarrow> False)"
| "c_typed (CStruct ts) v =
     (case v of CL vs \<Rightarrow> length vs = length ts \<and> list_all2 (\<lambda>f u. f u) (map (\<lambda>t u. c_typed t u) ts) vs
      | _ \<Rightarrow> False)"

lemma div_mod_pow: "m \<le> n \<Longrightarrow> ((w::int) mod 2 ^ n) div 2 ^ m = (w div 2 ^ m) mod 2 ^ (n - m)"
  by (simp add: drop_bit_take_bit flip: take_bit_eq_mod drop_bit_eq_div)

lemma bits_float_mod:
  assumes "1 \<le> p" and "1 \<le> eb"
  shows "bits_float p emin eb (w mod 2 ^ (eb + p)) = bits_float p emin eb w"
proof -
  have "(w mod 2 ^ (eb + p)) mod 2 ^ (p - 1) = w mod 2 ^ (p - 1)"
    by (simp add: mod_mod_cancel le_imp_power_dvd)
  moreover have "((w mod 2 ^ (eb + p)) div 2 ^ (p - 1)) mod 2 ^ eb = (w div 2 ^ (p - 1)) mod 2 ^ eb"
    using assms by (simp add: div_mod_pow mod_mod_cancel le_imp_power_dvd)
  moreover have "odd ((w mod 2 ^ (eb + p)) div 2 ^ (eb + p - 1)) \<longleftrightarrow> odd (w div 2 ^ (eb + p - 1))"
    using assms by (simp add: div_mod_pow)
  ultimately show ?thesis by (simp only: bits_float_def)
qed

lemma bits_bytes_roundtrip:
  "case v of Fin x \<Rightarrow> is_single x | _ \<Rightarrow> True \<Longrightarrow> bits_single (le_uint (le_bytes 4 (single_bits v))) = v"
  "case v of Fin x \<Rightarrow> is_double x | _ \<Rightarrow> True \<Longrightarrow> bits_double (le_uint (le_bytes 8 (double_bits v))) = v"
  using bits_float_mod [of 24 8] bits_float_mod [of 53 11] single_bits_roundtrip [of v] double_bits_roundtrip [of v]
  by (simp_all add: le_uint_bytes)

lemma map2_apply: "map2 (\<lambda>f u. f u) (map g ts) us = map2 g ts us"
  by (simp add: zip_map1 case_prod_unfold comp_def)

lemma chunks_concat: "map length xss = ws \<Longrightarrow> chunks ws (concat xss) = xss"
  by (induction xss arbitrary: ws) auto

lemma c_bytes_parse:
  "c_typed t v \<Longrightarrow> length (c_bytes t v) = csize t \<and> c_parse t (c_bytes t v) = v"
proof (induction t arbitrary: v)
  case (CArray n t)
  from CArray.prems obtain vs where v: "v = CL vs" "length vs = n" "list_all (c_typed t) vs"
    by (auto split: cval.splits)
  have len: "map length (map (c_bytes t) vs) = replicate n (csize t)"
    using v CArray.IH by (auto simp: list_all_iff intro!: replicate_eqI)
  have "map (c_parse t) (map (c_bytes t) vs) = vs"
    using v CArray.IH by (auto simp: list_all_iff intro!: map_idI)
  moreover have "length (concat (map (c_bytes t) vs)) = n * csize t"
    by (simp only: length_concat len sum_list_replicate) simp
  ultimately show ?case using chunks_concat [OF len] v(1) by simp
next
  case (CStruct ts)
  from CStruct.prems obtain vs where v1: "v = CL vs" by (cases v) auto
  with CStruct.prems have v2: "length vs = length ts"
      "list_all2 (\<lambda>f u. f u) (map (\<lambda>t u. c_typed t u) ts) vs" by simp_all
  have v3: "c_typed (ts ! i) (vs ! i)" if "i < length ts" for i
    using list_all2_nthD [OF v2(2), of i] that by simp
  note v = v1 v2(1) v3
  define bss where "bss = map2 c_bytes ts vs"
  have IH: "length (c_bytes (ts ! i) (vs ! i)) = csize (ts ! i) \<and>
      c_parse (ts ! i) (c_bytes (ts ! i) (vs ! i)) = vs ! i" if "i < length ts" for i
    using that v(3) CStruct.IH [of "ts ! i" "vs ! i"] by simp
  have len: "map length bss = map csize ts"
    unfolding bss_def using IH v(2) by (intro nth_equalityI) auto
  have "map2 c_parse ts bss = vs"
    unfolding bss_def using IH v(2) by (intro nth_equalityI) auto
  moreover have "length (concat bss) = sum_list (map csize ts)" using len by (simp add: length_concat)
  ultimately show ?case using chunks_concat [OF len] v(1) by (simp add: map2_apply flip: bss_def)
next
  case CFloat
  then obtain f where f: "v = CF f" "case f of Fin x \<Rightarrow> is_single x | _ \<Rightarrow> True"
    by (cases v) (auto split: pyfloat.splits)
  then show ?case by (simp only: c_bytes.simps c_parse.simps bits_bytes_roundtrip cval.sel) simp
next
  case CDouble
  then obtain f where f: "v = CF f" "case f of Fin x \<Rightarrow> is_double x | _ \<Rightarrow> True"
    by (cases v) (auto split: pyfloat.splits)
  then show ?case by (simp only: c_bytes.simps c_parse.simps bits_bytes_roundtrip cval.sel) simp
qed (auto split: cval.splits simp: le_uint_bytes le_sint_bytes)

end
