(* ===== verification/Shm_Os.thy ===== *)
theory Shm_Os
  imports CTypes
begin

text \<open>
  POSIX shared memory as \<open>multiprocessing.shared_memory\<close> exposes it, and the packed C structure
  kept in a segment (\<open>robot_controller/shm/cstruct.py\<close> and the part the four segment classes
  have in common with it). A segment lives under an inode number; unlinking removes the name and
  leaves the memory to the handles that are still open.

  The locale \<open>struct_segment\<close> states what a segment class promises its clients: what is written
  is what the next reader reads.
\<close>

section \<open>Named shared memory\<close>

record shm_os =
  os_names :: "string \<rightharpoonup> nat"
  os_mem :: "nat \<Rightarrow> byte list"
  os_next :: nat

definition shm_os_init :: shm_os where
  "shm_os_init = \<lparr>os_names = Map.empty, os_mem = (\<lambda>_. []), os_next = 0\<rparr>"

definition SharedMemory_create :: "string \<Rightarrow> int \<Rightarrow> (shm_os, nat) action" where
  "SharedMemory_create name sz os =
     (if sz \<le> 0 then (Inl (ValueError ''size must be positive''), os)
      else case os_names os name of
        Some _ \<Rightarrow> (Inl (OSError ''FileExistsError''), os)
      | None \<Rightarrow>
          (Inr (os_next os),
           os\<lparr>os_names := (os_names os)(name \<mapsto> os_next os),
              os_mem := (os_mem os)(os_next os := replicate (nat sz) 0),
              os_next := Suc (os_next os)\<rparr>))"

definition SharedMemory_open :: "string \<Rightarrow> (shm_os, nat) action" where
  "SharedMemory_open name os =
     (case os_names os name of
        None \<Rightarrow> (Inl (FileNotFoundError name), os)
      | Some i \<Rightarrow> (Inr i, os))"

definition SharedMemory_unlink :: "string \<Rightarrow> (shm_os, unit) action" where
  "SharedMemory_unlink name os =
     (case os_names os name of
        None \<Rightarrow> (Inl (FileNotFoundError name), os)
      | Some _ \<Rightarrow> (Inr (), os\<lparr>os_names := (os_names os)(name := None)\<rparr>))"

text \<open>Every name points at an inode that exists, and two names never share one.\<close>

definition os_wf :: "shm_os \<Rightarrow> bool" where
  "os_wf os \<longleftrightarrow>
     (\<forall>n i. os_names os n = Some i \<longrightarrow> i < os_next os) \<and>
     (\<forall>n n' i. os_names os n = Some i \<longrightarrow> os_names os n' = Some i \<longrightarrow> n = n')"

lemma os_wf_init: "os_wf shm_os_init"
  by (simp add: os_wf_def shm_os_init_def)

lemma os_wf_create: "os_wf os \<Longrightarrow> SharedMemory_create name sz os = (r, os') \<Longrightarrow> os_wf os'"
  by (fastforce simp: SharedMemory_create_def os_wf_def less_Suc_eq split: if_splits option.splits)

lemma os_wf_unlink: "os_wf os \<Longrightarrow> SharedMemory_unlink name os = (r, os') \<Longrightarrow> os_wf os'"
  by (auto simp: SharedMemory_unlink_def os_wf_def split: option.splits if_splits)

section \<open>A segment object\<close>

text \<open>
  \<open>seg_shm\<close> is the object's \<open>shm\<close> attribute: the inode it maps, or None once closed. A method
  called on a closed object fails on the attribute of None.
\<close>

record shm_obj =
  seg_name :: string
  seg_shm :: "nat option"

text \<open>
  The constructor shared by the segment classes. On a segment that is too small, three of the five
  classes read the buffer's length for the message after \<open>close()\<close> has dropped the buffer, so
  what escapes is the \<open>AttributeError\<close>, not the \<open>RuntimeError\<close>: \<open>reads_size_first\<close> tells
  the two spellings apart.
\<close>

definition segment_init :: "nat \<Rightarrow> bool \<Rightarrow> string \<Rightarrow> bool \<Rightarrow> int option \<Rightarrow> (shm_os, shm_obj) action" where
  "segment_init required reads_size_first name create sz =
     (let requested_size = (case sz of None \<Rightarrow> int required | Some s \<Rightarrow> s)
      in if requested_size < int required then raiseA (ValueError ''size is too small'')
         else bindA (if create then SharedMemory_create name requested_size
                     else SharedMemory_open name)
           (\<lambda>i os. if length (os_mem os i) < required
                   then (Inl (if reads_size_first then RuntimeError ''segment is too small''
                              else AttributeError ''NoneType has no attribute buf''), os)
                   else (Inr \<lparr>seg_name = name, seg_shm = Some i\<rparr>, os)))"

definition SharedCStruct_init :: "ctype \<Rightarrow> string \<Rightarrow> bool \<Rightarrow> int option \<Rightarrow> (shm_os, shm_obj) action" where
  "SharedCStruct_init struct_type = segment_init (csize struct_type) False"

definition segment_close :: "shm_obj \<Rightarrow> shm_obj" where
  "segment_close obj = (case seg_shm obj of None \<Rightarrow> obj | Some _ \<Rightarrow> obj\<lparr>seg_shm := None\<rparr>)"

definition segment_unlink :: "shm_obj \<Rightarrow> (shm_os, unit) action" where
  "segment_unlink obj =
     (case seg_shm obj of None \<Rightarrow> retA () | Some _ \<Rightarrow> SharedMemory_unlink (seg_name obj))"

definition closed_error :: exc where
  "closed_error = AttributeError ''NoneType has no attribute buf''"

definition clear_buffer :: "byte list \<Rightarrow> byte list" where
  "clear_buffer buf = replicate (length buf) 0"

definition segment_clear :: "shm_obj \<Rightarrow> (shm_os, unit) action" where
  "segment_clear obj os =
     (case seg_shm obj of None \<Rightarrow> (Inl closed_error, os)
      | Some i \<Rightarrow> (Inr (), os\<lparr>os_mem := (os_mem os)(i := clear_buffer (os_mem os i))\<rparr>))"

text \<open>\<open>buf[: len(data)] = data\<close>.\<close>

definition overwrite :: "byte list \<Rightarrow> byte list \<Rightarrow> byte list" where
  "overwrite data buf = data @ drop (length data) buf"

definition write_struct :: "ctype \<Rightarrow> shm_obj \<Rightarrow> cval \<Rightarrow> (shm_os, unit) action" where
  "write_struct t obj value os =
     (case seg_shm obj of None \<Rightarrow> (Inl closed_error, os)
      | Some i \<Rightarrow>
          let data = c_bytes t value
          in if length (os_mem os i) < length data
             then (Inl (ValueError ''memoryview assignment: lvalue and rvalue have different structures''), os)
             else (Inr (), os\<lparr>os_mem := (os_mem os)(i := overwrite data (os_mem os i))\<rparr>))"

definition read_struct :: "ctype \<Rightarrow> shm_obj \<Rightarrow> shm_os \<Rightarrow> cval result" where
  "read_struct t obj os =
     (case seg_shm obj of None \<Rightarrow> Inl closed_error
      | Some i \<Rightarrow>
          if length (os_mem os i) < csize t then Inl (ValueError ''Buffer size too small'')
          else Inr (c_parse t (take (csize t) (os_mem os i))))"

text \<open>An open object on a segment large enough for the structure.\<close>

definition seg_ready :: "ctype \<Rightarrow> shm_obj \<Rightarrow> shm_os \<Rightarrow> bool" where
  "seg_ready t obj os \<longleftrightarrow> (\<exists>i. seg_shm obj = Some i \<and> csize t \<le> length (os_mem os i))"

lemma segment_init_ready:
  assumes "segment_init (csize t) b name create sz os = (Inr obj, os')"
  shows "seg_ready t obj os'"
  using assms
  by (auto simp: segment_init_def seg_ready_def bindA_eq_Inr Let_def split: if_splits option.splits)

lemma segment_init_too_small:
  assumes "os_names os name = Some i" and "length (os_mem os i) < required"
  shows "segment_init required b name False None os =
    (Inl (if b then RuntimeError ''segment is too small''
          else AttributeError ''NoneType has no attribute buf''), os)"
  using assms by (simp add: segment_init_def SharedMemory_open_def bindA_def)

lemma take_overwrite: "take (length data) (overwrite data buf) = data"
  by (simp add: overwrite_def)

lemma length_overwrite: "length data \<le> length buf \<Longrightarrow> length (overwrite data buf) = length buf"
  by (simp add: overwrite_def)

lemma seg_ready_write:
  assumes "c_typed t v" and "seg_ready t obj os"
  obtains os' where "write_struct t obj v os = (Inr (), os')" and "seg_ready t obj os'"
    and "read_struct t obj os' = Inr v" and "os_names os' = os_names os"
    and "\<And>i. seg_shm obj \<noteq> Some i \<Longrightarrow> os_mem os' i = os_mem os i"
proof -
  from assms(2) obtain i where i: "seg_shm obj = Some i" "csize t \<le> length (os_mem os i)"
    by (auto simp: seg_ready_def)
  note rt = c_bytes_parse [OF assms(1)]
  define os' where "os' = os\<lparr>os_mem := (os_mem os)(i := overwrite (c_bytes t v) (os_mem os i))\<rparr>"
  have "take (csize t) (overwrite (c_bytes t v) (os_mem os i)) = c_bytes t v"
    using rt take_overwrite [of "c_bytes t v" "os_mem os i"] by simp
  then have "read_struct t obj os' = Inr v"
    using i rt by (simp add: read_struct_def os'_def length_overwrite)
  moreover have "write_struct t obj v os = (Inr (), os')"
    using i rt by (simp add: write_struct_def os'_def Let_def)
  moreover have "seg_ready t obj os'" using i rt by (simp add: seg_ready_def os'_def length_overwrite)
  ultimately show thesis using that i by (simp add: os'_def)
qed

section \<open>What a segment class promises\<close>

locale struct_segment =
  fixes layout :: ctype
    and to_c :: "'a \<Rightarrow> cval"
    and of_c :: "cval \<Rightarrow> 'a"
    and valid :: "'a \<Rightarrow> bool"
  assumes typed: "valid x \<Longrightarrow> c_typed layout (to_c x)"
    and of_to: "valid x \<Longrightarrow> of_c (to_c x) = x"
begin

lemma read_after_write:
  assumes "valid x" and "seg_ready layout obj os"
  shows "\<exists>os'. write_struct layout obj (to_c x) os = (Inr (), os') \<and>
    bindE (read_struct layout obj os') (\<lambda>c. Inr (of_c c)) = Inr x \<and>
    os_names os' = os_names os \<and> seg_ready layout obj os'"
  using seg_ready_write [OF typed [OF assms(1)] assms(2)] of_to [OF assms(1)]
  by (metis bindE_Inr)

lemma write_keeps_others:
  assumes "valid x" and "seg_ready layout obj os"
    and "write_struct layout obj (to_c x) os = (r, os')" and "seg_shm obj' \<noteq> seg_shm obj"
  shows "read_struct t obj' os' = read_struct t obj' os"
proof -
  from assms(2) obtain i where i: "seg_shm obj = Some i" by (auto simp: seg_ready_def)
  from assms(3) i have "\<And>j. j \<noteq> i \<Longrightarrow> os_mem os' j = os_mem os j"
    by (auto simp: write_struct_def Let_def split: if_splits)
  then show ?thesis using i assms(4) by (auto simp: read_struct_def split: option.splits)
qed

end

lemma c_parse_zero_uint: "c_parse (CUInt k) (replicate k 0) = CI 0"
proof -
  have "le_uint (replicate k 0) = 0" by (induction k) auto
  then show ?thesis by simp
qed

end
