(* ===== verification/PyVal.thy ===== *)
theory PyVal
  imports PyFloat
begin

text \<open>
  Dynamically typed Python values, for the code that works on parsed YAML and JSON or builds dicts
  for it, with the conversions and the string formatting the source uses.
\<close>

section \<open>Values\<close>

datatype pyval =
    PNone
  | PBool bool
  | PInt int
  | PFloat pyfloat
  | PStr string
  | PList "pyval list"
  | PDict "(string \<times> pyval) list"

fun pget :: "pyval \<Rightarrow> string \<Rightarrow> pyval option" where
  "pget (PDict kvs) k = map_of kvs k"
| "pget _ k = None"

fun py_truthy :: "pyval \<Rightarrow> bool" where
  "py_truthy PNone = False"
| "py_truthy (PBool b) = b"
| "py_truthy (PInt n) = (n \<noteq> 0)"
| "py_truthy (PFloat x) = (x \<noteq> Fin 0)"
| "py_truthy (PStr s) = (s \<noteq> [])"
| "py_truthy (PList xs) = (xs \<noteq> [])"
| "py_truthy (PDict kvs) = (kvs \<noteq> [])"

fun is_dict :: "pyval \<Rightarrow> bool" where
  "is_dict (PDict _) = True"
| "is_dict _ = False"

text \<open>\<open>d.get(k)\<close> on a dict.\<close>

definition dict_get :: "pyval \<Rightarrow> string \<Rightarrow> pyval" where
  "dict_get d k = (case pget d k of Some v \<Rightarrow> v | None \<Rightarrow> PNone)"

text \<open>\<open>d[k]\<close>.\<close>

definition dict_item :: "pyval \<Rightarrow> string \<Rightarrow> pyval result" where
  "dict_item d k = (case pget d k of Some v \<Rightarrow> Inr v | None \<Rightarrow> Inl (KeyError k))"

section \<open>Conversions\<close>

text \<open>
  \<open>int\<close>, \<open>float\<close> and \<open>str\<close>. Reading a number from text (\<open>int(s)\<close>, \<open>int(s, 0)\<close>, \<open>float(s)\<close>) and
  \<open>str\<close> of a float, list or dict are given by the functions of \<open>py_text\<close>; everything else is
  computed here.
\<close>

record py_text =
  text_int :: "string \<Rightarrow> int result"
  text_int0 :: "string \<Rightarrow> int result"
  text_float :: "string \<Rightarrow> pyfloat result"
  text_repr :: "pyval \<Rightarrow> string"

fun trunc_float :: "pyfloat \<Rightarrow> int result" where
  "trunc_float (Fin x) = Inr (if 0 \<le> x then \<lfloor>x\<rfloor> else \<lceil>x\<rceil>)"
| "trunc_float NaN = Inl (ValueError ''cannot convert float NaN to integer'')"
| "trunc_float _ = Inl (OverflowError ''cannot convert float infinity to integer'')"

fun py_int :: "py_text \<Rightarrow> pyval \<Rightarrow> int result" where
  "py_int T (PInt n) = Inr n"
| "py_int T (PBool b) = Inr (if b then 1 else 0)"
| "py_int T (PFloat x) = trunc_float x"
| "py_int T (PStr s) = text_int T s"
| "py_int T _ = Inl (TypeError ''int() argument must be a string or a number'')"

fun py_float :: "py_text \<Rightarrow> pyval \<Rightarrow> pyfloat result" where
  "py_float T (PInt n) =
     (case float_of_int n of Fin x \<Rightarrow> Inr (Fin x) | _ \<Rightarrow> Inl (OverflowError ''int too large to convert to float''))"
| "py_float T (PBool b) = Inr (if b then Fin 1 else Fin 0)"
| "py_float T (PFloat x) = Inr x"
| "py_float T (PStr s) = text_float T s"
| "py_float T _ = Inl (TypeError ''float() argument must be a string or a number'')"

section \<open>Text\<close>

text \<open>\<open>s.split(d)\<close> for a single character.\<close>

fun split_on :: "char \<Rightarrow> string \<Rightarrow> string list" where
  "split_on d [] = [[]]"
| "split_on d (c # cs) =
     (if c = d then [] # split_on d cs
      else case split_on d cs of [] \<Rightarrow> [[c]] | w # ws \<Rightarrow> (c # w) # ws)"

section \<open>Formatting of integers\<close>

definition digit_char :: "nat \<Rightarrow> char" where
  "digit_char d = ''0123456789ABCDEF'' ! d"

fun nat_digits :: "nat \<Rightarrow> nat \<Rightarrow> string" where
  "nat_digits base n =
     (if base < 2 \<or> n < base then [digit_char n]
      else nat_digits base (n div base) @ [digit_char (n mod base)])"

declare nat_digits.simps [simp del]

text \<open>\<open>str(n)\<close>, \<open>f"{n:X}"\<close> and \<open>f"{n:03X}"\<close>.\<close>

definition str_of_int :: "int \<Rightarrow> string" where
  "str_of_int n = (if n < 0 then ''-'' @ nat_digits 10 (nat (- n)) else nat_digits 10 (nat n))"

definition hex_of_int :: "int \<Rightarrow> string" where
  "hex_of_int n = (if n < 0 then ''-'' @ nat_digits 16 (nat (- n)) else nat_digits 16 (nat n))"

definition zero_pad :: "nat \<Rightarrow> string \<Rightarrow> string" where
  "zero_pad w s = replicate (w - length s) (CHR ''0'') @ s"

fun py_str :: "py_text \<Rightarrow> pyval \<Rightarrow> string" where
  "py_str T PNone = ''None''"
| "py_str T (PBool b) = (if b then ''True'' else ''False'')"
| "py_str T (PInt n) = str_of_int n"
| "py_str T (PStr s) = s"
| "py_str T v = text_repr T v"

section \<open>Reading a number back\<close>

definition digit_value :: "char \<Rightarrow> nat option" where
  "digit_value c = map_of (zip ''0123456789ABCDEF'' [0..<16]) c"

fun digits_value :: "nat \<Rightarrow> string \<Rightarrow> nat" where
  "digits_value base [] = 0"
| "digits_value base (c # cs) =
     (case digit_value c of None \<Rightarrow> 0 | Some d \<Rightarrow> d * base ^ length cs + digits_value base cs)"

lemma digit_value_char: "d < 16 \<Longrightarrow> digit_value (digit_char d) = Some d"
proof -
  assume "d < 16"
  then have "d \<in> set [0..<16]" by simp
  moreover have "\<forall>d \<in> set [0..<16]. digit_value (digit_char d) = Some d"
    by (simp add: digit_value_def digit_char_def upt_rec [of _ 16])
  ultimately show ?thesis by blast
qed

lemma digit_value_mod: "2 \<le> base \<Longrightarrow> base \<le> 16 \<Longrightarrow> digit_value (digit_char (n mod base)) = Some (n mod base)"
proof -
  assume "2 \<le> base" "base \<le> 16"
  then have "n mod base < 16" using mod_less_divisor [of base n] by linarith
  then show ?thesis by (rule digit_value_char)
qed

lemma digits_value_snoc:
  "\<forall>c \<in> set (cs @ [c']). digit_value c \<noteq> None \<Longrightarrow>
   digits_value base (cs @ [c']) = digits_value base cs * base + the (digit_value c')"
  by (induction cs) (auto simp: algebra_simps)

lemma nat_digits_valid:
  "2 \<le> base \<Longrightarrow> base \<le> 16 \<Longrightarrow> c \<in> set (nat_digits base n) \<Longrightarrow> digit_value c \<noteq> None"
proof (induction base n rule: nat_digits.induct)
  case (1 base n)
  then show ?case
    by (subst (asm) nat_digits.simps) (auto simp: digit_value_char digit_value_mod split: if_splits)
qed

text \<open>The digits of a number denote it, so two different numbers never print the same.\<close>

lemma digits_value_nat_digits:
  "2 \<le> base \<Longrightarrow> base \<le> 16 \<Longrightarrow> digits_value base (nat_digits base n) = n"
proof (induction base n rule: nat_digits.induct)
  case (1 base n)
  show ?case
  proof (cases "n < base")
    case True
    then show ?thesis using 1 by (subst nat_digits.simps) (simp add: digit_value_char)
  next
    case False
    have valid: "\<forall>c \<in> set (nat_digits base (n div base) @ [digit_char (n mod base)]). digit_value c \<noteq> None"
      using "1.prems" nat_digits_valid [of base] by (auto simp: digit_value_mod)
    have "nat_digits base n = nat_digits base (n div base) @ [digit_char (n mod base)]"
      using False "1.prems" by (subst nat_digits.simps) simp
    then show ?thesis
      using digits_value_snoc [OF valid] 1 False by (simp add: digit_value_mod)
  qed
qed

lemma nat_digits_inject: "2 \<le> base \<Longrightarrow> base \<le> 16 \<Longrightarrow> nat_digits base m = nat_digits base n \<longleftrightarrow> m = n"
  by (metis digits_value_nat_digits)

lemma hex_of_int_inject: "0 \<le> m \<Longrightarrow> 0 \<le> n \<Longrightarrow> hex_of_int m = hex_of_int n \<longleftrightarrow> m = n"
  by (simp add: hex_of_int_def nat_digits_inject eq_nat_nat_iff)

text \<open>A text reader for examples without text.\<close>

definition demo_text :: py_text where
  "demo_text = \<lparr>text_int = (\<lambda>_. Inl (ValueError ''invalid literal'')), text_int0 = (\<lambda>_. Inl (ValueError ''invalid literal'')),
     text_float = (\<lambda>_. Inl (ValueError ''could not convert'')), text_repr = (\<lambda>_. [])\<rparr>"

end
