(* ===== verification/Robot_State.thy ===== *)
theory Robot_State
  imports Shm_Os PyVal
begin

text \<open>
  The robot state segment (\<open>robot_controller/shm/robot_state.py\<close>): the C structure the controller
  publishes for the task controller and the dashboard, the segment class, and the dict readers get.
\<close>

section \<open>The structures\<close>

definition MAX_ROBOT_STATE_ACTUATORS :: nat where
  "MAX_ROBOT_STATE_ACTUATORS = 12"

definition COMMAND_OUTPUT_SOURCE_NAMES :: "(int \<times> string) list" where
  "COMMAND_OUTPUT_SOURCE_NAMES =
     [(0, ''NONE''), (1, ''ENABLE''), (2, ''DISABLE''), (3, ''ZERO_SET''), (4, ''DAMPING''), (5, ''POLICY'')]"

definition COMMAND_OUTPUT_SOURCE_VALUES :: "(string \<times> int) list" where
  "COMMAND_OUTPUT_SOURCE_VALUES = map prod.swap COMMAND_OUTPUT_SOURCE_NAMES"

record actuator_state_c =
  as_can_id :: int
  as_position_rad :: pyfloat
  as_velocity_rad_s :: pyfloat
  as_torque_nm :: pyfloat
  as_current_a :: pyfloat
  as_temperature_c :: pyfloat
  as_fault_code :: int
  as_is_enabled :: int
  as_last_feedback_t :: pyfloat
  as_age_s :: pyfloat
  as_online :: int
  as_stale :: int
  as_pad :: "int list"

record imu_state_c =
  is_quat_xyzw :: "pyfloat list"
  is_projected_gravity_b :: "pyfloat list"
  is_angular_velocity_rad_s :: "pyfloat list"
  is_last_quat_t :: pyfloat
  is_last_gyro_t :: pyfloat
  is_quat_online :: int
  is_gyro_online :: int
  is_quat_stale :: int
  is_gyro_stale :: int

record command_target_state_c =
  cs_can_id :: int
  cs_p_target_rad :: pyfloat
  cs_v_target_rad_s :: pyfloat
  cs_kp :: pyfloat
  cs_kd :: pyfloat
  cs_tau_target_nm :: pyfloat

record command_output_state_c =
  co_timestamp_monotonic :: pyfloat
  co_source :: int
  co_target_count :: int
  co_targets :: "command_target_state_c list"

record robot_state_c =
  rs_timestamp_ns :: int
  rs_timestamp_monotonic :: pyfloat
  rs_timestamp_unix :: pyfloat
  rs_controller_mode :: int
  rs_actuator_count :: int
  rs_imu :: imu_state_c
  rs_actuators :: "actuator_state_c list"
  rs_command_output :: command_output_state_c

definition ActuatorStateC :: ctype where
  "ActuatorStateC =
     CStruct [CUInt 4, CFloat, CFloat, CFloat, CFloat, CFloat, CSInt 4, CSInt 4, CDouble, CFloat,
       CUInt 1, CUInt 1, CArray 2 (CUInt 1)]"

definition ImuStateC :: ctype where
  "ImuStateC =
     CStruct [CArray 4 CFloat, CArray 3 CFloat, CArray 3 CFloat, CDouble, CDouble,
       CUInt 1, CUInt 1, CUInt 1, CUInt 1]"

definition CommandTargetStateC :: ctype where
  "CommandTargetStateC = CStruct [CUInt 4, CFloat, CFloat, CFloat, CFloat, CFloat]"

definition CommandOutputStateC :: ctype where
  "CommandOutputStateC =
     CStruct [CDouble, CUInt 4, CUInt 4, CArray MAX_ROBOT_STATE_ACTUATORS CommandTargetStateC]"

definition RobotStateC :: ctype where
  "RobotStateC =
     CStruct [CUInt 8, CDouble, CDouble, CUInt 4, CUInt 4, ImuStateC,
       CArray MAX_ROBOT_STATE_ACTUATORS ActuatorStateC, CommandOutputStateC]"

definition ROBOT_STATE_SIZE :: nat where
  "ROBOT_STATE_SIZE = csize RobotStateC"

section \<open>Fields in memory order\<close>

definition actuator_to_c :: "actuator_state_c \<Rightarrow> cval" where
  "actuator_to_c a =
     CL [CI (as_can_id a), CF (as_position_rad a), CF (as_velocity_rad_s a), CF (as_torque_nm a),
       CF (as_current_a a), CF (as_temperature_c a), CI (as_fault_code a), CI (as_is_enabled a),
       CF (as_last_feedback_t a), CF (as_age_s a), CI (as_online a), CI (as_stale a),
       CL (map CI (as_pad a))]"

definition imu_to_c :: "imu_state_c \<Rightarrow> cval" where
  "imu_to_c m =
     CL [CL (map CF (is_quat_xyzw m)), CL (map CF (is_projected_gravity_b m)),
       CL (map CF (is_angular_velocity_rad_s m)), CF (is_last_quat_t m), CF (is_last_gyro_t m),
       CI (is_quat_online m), CI (is_gyro_online m), CI (is_quat_stale m), CI (is_gyro_stale m)]"

definition command_target_to_c :: "command_target_state_c \<Rightarrow> cval" where
  "command_target_to_c t =
     CL [CI (cs_can_id t), CF (cs_p_target_rad t), CF (cs_v_target_rad_s t), CF (cs_kp t), CF (cs_kd t),
       CF (cs_tau_target_nm t)]"

definition command_output_to_c :: "command_output_state_c \<Rightarrow> cval" where
  "command_output_to_c c =
     CL [CF (co_timestamp_monotonic c), CI (co_source c), CI (co_target_count c),
       CL (map command_target_to_c (co_targets c))]"

definition robot_to_c :: "robot_state_c \<Rightarrow> cval" where
  "robot_to_c s =
     CL [CI (rs_timestamp_ns s), CF (rs_timestamp_monotonic s), CF (rs_timestamp_unix s),
       CI (rs_controller_mode s), CI (rs_actuator_count s), imu_to_c (rs_imu s),
       CL (map actuator_to_c (rs_actuators s)), command_output_to_c (rs_command_output s)]"

text \<open>Zeroed structures, as ctypes makes them.\<close>

definition empty_actuator_state :: actuator_state_c where
  "empty_actuator_state =
     \<lparr>as_can_id = 0, as_position_rad = Fin 0, as_velocity_rad_s = Fin 0, as_torque_nm = Fin 0,
      as_current_a = Fin 0, as_temperature_c = Fin 0, as_fault_code = 0, as_is_enabled = 0,
      as_last_feedback_t = Fin 0, as_age_s = Fin 0, as_online = 0, as_stale = 0, as_pad = [0, 0]\<rparr>"

definition empty_imu_state :: imu_state_c where
  "empty_imu_state =
     \<lparr>is_quat_xyzw = replicate 4 (Fin 0), is_projected_gravity_b = replicate 3 (Fin 0),
      is_angular_velocity_rad_s = replicate 3 (Fin 0), is_last_quat_t = Fin 0, is_last_gyro_t = Fin 0,
      is_quat_online = 0, is_gyro_online = 0, is_quat_stale = 0, is_gyro_stale = 0\<rparr>"

definition empty_command_target_state :: command_target_state_c where
  "empty_command_target_state =
     \<lparr>cs_can_id = 0, cs_p_target_rad = Fin 0, cs_v_target_rad_s = Fin 0, cs_kp = Fin 0, cs_kd = Fin 0,
      cs_tau_target_nm = Fin 0\<rparr>"

definition empty_command_output_state :: command_output_state_c where
  "empty_command_output_state =
     \<lparr>co_timestamp_monotonic = Fin 0, co_source = 0, co_target_count = 0,
      co_targets = replicate MAX_ROBOT_STATE_ACTUATORS empty_command_target_state\<rparr>"

definition empty_robot_state :: robot_state_c where
  "empty_robot_state =
     \<lparr>rs_timestamp_ns = 0, rs_timestamp_monotonic = Fin 0, rs_timestamp_unix = Fin 0,
      rs_controller_mode = 0, rs_actuator_count = 0, rs_imu = empty_imu_state,
      rs_actuators = replicate MAX_ROBOT_STATE_ACTUATORS empty_actuator_state,
      rs_command_output = empty_command_output_state\<rparr>"

definition actuator_of_c :: "cval \<Rightarrow> actuator_state_c" where
  "actuator_of_c v = (let f = (\<lambda>k. cl_of v ! k) in
     \<lparr>as_can_id = ci_of (f 0), as_position_rad = cf_of (f 1), as_velocity_rad_s = cf_of (f 2),
      as_torque_nm = cf_of (f 3), as_current_a = cf_of (f 4), as_temperature_c = cf_of (f 5),
      as_fault_code = ci_of (f 6), as_is_enabled = ci_of (f 7), as_last_feedback_t = cf_of (f 8),
      as_age_s = cf_of (f 9), as_online = ci_of (f 10), as_stale = ci_of (f 11),
      as_pad = map ci_of (cl_of (f 12))\<rparr>)"

definition imu_of_c :: "cval \<Rightarrow> imu_state_c" where
  "imu_of_c v = (let f = (\<lambda>k. cl_of v ! k) in
     \<lparr>is_quat_xyzw = map cf_of (cl_of (f 0)), is_projected_gravity_b = map cf_of (cl_of (f 1)),
      is_angular_velocity_rad_s = map cf_of (cl_of (f 2)), is_last_quat_t = cf_of (f 3),
      is_last_gyro_t = cf_of (f 4), is_quat_online = ci_of (f 5), is_gyro_online = ci_of (f 6),
      is_quat_stale = ci_of (f 7), is_gyro_stale = ci_of (f 8)\<rparr>)"

definition command_target_of_c :: "cval \<Rightarrow> command_target_state_c" where
  "command_target_of_c v = (let f = (\<lambda>k. cl_of v ! k) in
     \<lparr>cs_can_id = ci_of (f 0), cs_p_target_rad = cf_of (f 1), cs_v_target_rad_s = cf_of (f 2),
      cs_kp = cf_of (f 3), cs_kd = cf_of (f 4), cs_tau_target_nm = cf_of (f 5)\<rparr>)"

definition command_output_of_c :: "cval \<Rightarrow> command_output_state_c" where
  "command_output_of_c v = (let f = (\<lambda>k. cl_of v ! k) in
     \<lparr>co_timestamp_monotonic = cf_of (f 0), co_source = ci_of (f 1), co_target_count = ci_of (f 2),
      co_targets = map command_target_of_c (cl_of (f 3))\<rparr>)"

definition robot_of_c :: "cval \<Rightarrow> robot_state_c" where
  "robot_of_c v = (let f = (\<lambda>k. cl_of v ! k) in
     \<lparr>rs_timestamp_ns = ci_of (f 0), rs_timestamp_monotonic = cf_of (f 1), rs_timestamp_unix = cf_of (f 2),
      rs_controller_mode = ci_of (f 3), rs_actuator_count = ci_of (f 4), rs_imu = imu_of_c (f 5),
      rs_actuators = map actuator_of_c (cl_of (f 6)), rs_command_output = command_output_of_c (f 7)\<rparr>)"

section \<open>Well-typed instances\<close>

definition int_in :: "int \<Rightarrow> int \<Rightarrow> int \<Rightarrow> bool" where
  "int_in lo hi n \<longleftrightarrow> lo \<le> n \<and> n < hi"

definition actuator_state_ok :: "actuator_state_c \<Rightarrow> bool" where
  "actuator_state_ok a \<longleftrightarrow>
     int_in 0 (2 ^ 32) (as_can_id a) \<and>
     list_all is_float32 [as_position_rad a, as_velocity_rad_s a, as_torque_nm a, as_current_a a,
       as_temperature_c a, as_age_s a] \<and>
     int_in (- (2 ^ 31)) (2 ^ 31) (as_fault_code a) \<and> int_in (- (2 ^ 31)) (2 ^ 31) (as_is_enabled a) \<and>
     is_float64 (as_last_feedback_t a) \<and> int_in 0 256 (as_online a) \<and> int_in 0 256 (as_stale a) \<and>
     length (as_pad a) = 2 \<and> list_all (int_in 0 256) (as_pad a)"

definition imu_state_ok :: "imu_state_c \<Rightarrow> bool" where
  "imu_state_ok m \<longleftrightarrow>
     length (is_quat_xyzw m) = 4 \<and> list_all is_float32 (is_quat_xyzw m) \<and>
     length (is_projected_gravity_b m) = 3 \<and> list_all is_float32 (is_projected_gravity_b m) \<and>
     length (is_angular_velocity_rad_s m) = 3 \<and> list_all is_float32 (is_angular_velocity_rad_s m) \<and>
     is_float64 (is_last_quat_t m) \<and> is_float64 (is_last_gyro_t m) \<and>
     list_all (int_in 0 256) [is_quat_online m, is_gyro_online m, is_quat_stale m, is_gyro_stale m]"

definition command_target_state_ok :: "command_target_state_c \<Rightarrow> bool" where
  "command_target_state_ok t \<longleftrightarrow>
     int_in 0 (2 ^ 32) (cs_can_id t) \<and>
     list_all is_float32 [cs_p_target_rad t, cs_v_target_rad_s t, cs_kp t, cs_kd t, cs_tau_target_nm t]"

definition command_output_state_ok :: "command_output_state_c \<Rightarrow> bool" where
  "command_output_state_ok c \<longleftrightarrow>
     is_float64 (co_timestamp_monotonic c) \<and> int_in 0 (2 ^ 32) (co_source c) \<and>
     int_in 0 (2 ^ 32) (co_target_count c) \<and>
     length (co_targets c) = MAX_ROBOT_STATE_ACTUATORS \<and> list_all command_target_state_ok (co_targets c)"

definition robot_state_ok :: "robot_state_c \<Rightarrow> bool" where
  "robot_state_ok s \<longleftrightarrow>
     int_in 0 (2 ^ 64) (rs_timestamp_ns s) \<and> is_float64 (rs_timestamp_monotonic s) \<and>
     is_float64 (rs_timestamp_unix s) \<and> int_in 0 (2 ^ 32) (rs_controller_mode s) \<and>
     int_in 0 (2 ^ 32) (rs_actuator_count s) \<and> imu_state_ok (rs_imu s) \<and>
     length (rs_actuators s) = MAX_ROBOT_STATE_ACTUATORS \<and>
     list_all actuator_state_ok (rs_actuators s) \<and> command_output_state_ok (rs_command_output s)"

section \<open>The segment class\<close>

definition RobotStateShm_init :: "string \<Rightarrow> bool \<Rightarrow> int option \<Rightarrow> (shm_os, shm_obj) action" where
  "RobotStateShm_init = segment_init ROBOT_STATE_SIZE False"

definition RobotStateShm_open_reader :: "string \<Rightarrow> (shm_os, shm_obj) action" where
  "RobotStateShm_open_reader name = RobotStateShm_init name False None"

definition RobotStateShm_open_writer :: "string \<Rightarrow> (shm_os, shm_obj) action" where
  "RobotStateShm_open_writer name = RobotStateShm_init name False None"

definition RobotStateShm_create :: "string \<Rightarrow> int option \<Rightarrow> (shm_os, shm_obj) action" where
  "RobotStateShm_create name sz =
     bindA (RobotStateShm_init name True sz) (\<lambda>obj. bindA (segment_clear obj) (\<lambda>_. retA obj))"

definition RobotStateShm_read_relaxed :: "shm_obj \<Rightarrow> shm_os \<Rightarrow> robot_state_c result" where
  "RobotStateShm_read_relaxed obj os =
     bindE (read_struct RobotStateC obj os) (\<lambda>c. Inr (robot_of_c c))"

definition RobotStateShm_write :: "shm_obj \<Rightarrow> robot_state_c \<Rightarrow> (shm_os, unit) action" where
  "RobotStateShm_write obj state = write_struct RobotStateC obj (robot_to_c state)"

section \<open>The dict readers get\<close>

definition robot_mode_name :: "int \<Rightarrow> string" where
  "robot_mode_name value =
     (case map_of [(0, ''DISABLED''), (1, ''ENABLING''), (2, ''NORMAL''), (3, ''DAMPING''),
        (4, ''ZERO_SETTING''), (5, ''ESTOP'')] value of
        Some n \<Rightarrow> n | None \<Rightarrow> ''MODE_'' @ str_of_int value)"

definition none_unless :: "bool \<Rightarrow> pyval \<Rightarrow> pyval" where
  "none_unless b v = (if b then v else PNone)"

definition actuator_to_dict :: "actuator_state_c \<Rightarrow> pyval" where
  "actuator_to_dict item =
     (let has_feedback = fgt (as_last_feedback_t item) (Fin 0)
      in PDict
       [(''can_id'', PInt (as_can_id item)),
        (''position_rad'', none_unless has_feedback (PFloat (as_position_rad item))),
        (''velocity_rad_s'', none_unless has_feedback (PFloat (as_velocity_rad_s item))),
        (''torque_nm'', none_unless has_feedback (PFloat (as_torque_nm item))),
        (''current_a'', none_unless has_feedback (PFloat (as_current_a item))),
        (''temperature_c'', none_unless has_feedback (PFloat (as_temperature_c item))),
        (''fault_code'', none_unless (\<not> as_fault_code item < 0) (PInt (as_fault_code item))),
        (''is_enabled'', none_unless (\<not> as_is_enabled item < 0) (PBool (as_is_enabled item \<noteq> 0))),
        (''last_feedback_t'', PFloat (as_last_feedback_t item)),
        (''age_s'', none_unless (\<not> flt (as_age_s item) (Fin 0)) (PFloat (as_age_s item))),
        (''online'', PBool (as_online item \<noteq> 0)),
        (''stale'', PBool (as_stale item \<noteq> 0))])"

definition command_target_to_dict :: "command_target_state_c \<Rightarrow> pyval" where
  "command_target_to_dict item =
     PDict
       [(''can_id'', PStr (''0x'' @ hex_of_int (cs_can_id item))),
        (''p_target_rad'', PFloat (cs_p_target_rad item)),
        (''v_target_rad_s'', PFloat (cs_v_target_rad_s item)),
        (''kp'', PFloat (cs_kp item)),
        (''kd'', PFloat (cs_kd item)),
        (''tau_target_nm'', PFloat (cs_tau_target_nm item))]"

definition command_output_to_dict :: "pyfloat \<Rightarrow> command_output_state_c \<Rightarrow> pyval" where
  "command_output_to_dict monotonic item =
     (let target_count = min (co_target_count item) (int MAX_ROBOT_STATE_ACTUATORS);
          timestamp_monotonic = co_timestamp_monotonic item;
          age_s = (if fgt timestamp_monotonic (Fin 0)
                   then PFloat (fmax (Fin 0) (fsub monotonic timestamp_monotonic)) else PNone)
      in PDict
       [(''status'', PStr (if fgt timestamp_monotonic (Fin 0) then ''online'' else ''waiting'')),
        (''source'', PStr (case map_of COMMAND_OUTPUT_SOURCE_NAMES (co_source item) of
           Some n \<Rightarrow> n | None \<Rightarrow> ''SOURCE_'' @ str_of_int (co_source item))),
        (''timestamp_monotonic'', PFloat timestamp_monotonic),
        (''age_s'', age_s),
        (''target_count'', PInt target_count),
        (''targets'', PList (map command_target_to_dict (take (nat target_count) (co_targets item)))),
        (''error'', PNone)])"

definition robot_state_to_dict :: "pyfloat \<Rightarrow> robot_state_c \<Rightarrow> pyval" where
  "robot_state_to_dict monotonic state =
     (let mode_name = robot_mode_name (rs_controller_mode state);
          actuator_count = min (rs_actuator_count state) (int MAX_ROBOT_STATE_ACTUATORS);
          imu = rs_imu state
      in PDict
       [(''schema'', PStr ''qhrr.robot_state.cstruct.v1''),
        (''timestamp_monotonic'', PFloat (rs_timestamp_monotonic state)),
        (''timestamp_unix'', PFloat (rs_timestamp_unix state)),
        (''controller_state'', PStr mode_name),
        (''imu'', PDict
          [(''quat_xyzw'', PList (map PFloat (is_quat_xyzw imu))),
           (''projected_gravity_b'', PList (map PFloat (is_projected_gravity_b imu))),
           (''angular_velocity_rad_s'', PList (map PFloat (is_angular_velocity_rad_s imu))),
           (''last_quat_t'', PFloat (is_last_quat_t imu)),
           (''last_gyro_t'', PFloat (is_last_gyro_t imu)),
           (''quat_online'', PBool (is_quat_online imu \<noteq> 0)),
           (''gyro_online'', PBool (is_gyro_online imu \<noteq> 0)),
           (''quat_stale'', PBool (is_quat_stale imu \<noteq> 0)),
           (''gyro_stale'', PBool (is_gyro_stale imu \<noteq> 0))]),
        (''actuators'', PList (map actuator_to_dict (take (nat actuator_count) (rs_actuators state)))),
        (''command_output'', command_output_to_dict monotonic (rs_command_output state))])"

definition RobotStateShm_read_latest :: "pyfloat \<Rightarrow> shm_obj \<Rightarrow> shm_os \<Rightarrow> pyval option result" where
  "RobotStateShm_read_latest monotonic obj os =
     bindE (RobotStateShm_read_relaxed obj os)
       (\<lambda>state. Inr (if rs_timestamp_ns state = 0 then None else Some (robot_state_to_dict monotonic state)))"

definition new_robot_state :: "int \<Rightarrow> pyfloat \<Rightarrow> pyfloat \<Rightarrow> int \<Rightarrow> robot_state_c" where
  "new_robot_state time_ns monotonic unix mode =
     empty_robot_state
       \<lparr>rs_timestamp_ns := c_uint 64 time_ns, rs_timestamp_monotonic := monotonic,
        rs_timestamp_unix := unix, rs_controller_mode := c_uint 32 mode\<rparr>"

section \<open>Facts\<close>

lemmas robot_layouts =
  RobotStateC_def ImuStateC_def ActuatorStateC_def CommandOutputStateC_def CommandTargetStateC_def
  MAX_ROBOT_STATE_ACTUATORS_def

lemma ROBOT_STATE_SIZE_eq: "ROBOT_STATE_SIZE = 972"
  by (simp add: ROBOT_STATE_SIZE_def robot_layouts)

lemma actuator_typed: "actuator_state_ok a \<Longrightarrow> c_typed ActuatorStateC (actuator_to_c a)"
  by (auto simp: actuator_state_ok_def ActuatorStateC_def actuator_to_c_def list_all_iff int_in_def
      is_float32_def is_float64_def)

lemma imu_typed: "imu_state_ok m \<Longrightarrow> c_typed ImuStateC (imu_to_c m)"
  by (auto simp: imu_state_ok_def ImuStateC_def imu_to_c_def list_all_iff int_in_def
      is_float32_def is_float64_def)

lemma command_target_typed: "command_target_state_ok t \<Longrightarrow> c_typed CommandTargetStateC (command_target_to_c t)"
  by (auto simp: command_target_state_ok_def CommandTargetStateC_def command_target_to_c_def int_in_def
      is_float32_def)

lemma command_output_typed: "command_output_state_ok c \<Longrightarrow> c_typed CommandOutputStateC (command_output_to_c c)"
  by (auto simp: command_output_state_ok_def CommandOutputStateC_def command_output_to_c_def
      list_all_iff int_in_def is_float64_def command_target_typed)

lemma robot_typed: "robot_state_ok s \<Longrightarrow> c_typed RobotStateC (robot_to_c s)"
  by (auto simp: robot_state_ok_def RobotStateC_def robot_to_c_def list_all_iff int_in_def is_float64_def
      actuator_typed imu_typed command_output_typed)

lemma actuator_of_to [simp]: "actuator_of_c (actuator_to_c a) = a"
  by (simp add: actuator_of_c_def actuator_to_c_def comp_def)

lemma imu_of_to [simp]: "imu_of_c (imu_to_c m) = m"
  by (simp add: imu_of_c_def imu_to_c_def comp_def)

lemma command_target_of_to [simp]: "command_target_of_c (command_target_to_c t) = t"
  by (simp add: command_target_of_c_def command_target_to_c_def)

lemma command_output_of_to [simp]: "command_output_of_c (command_output_to_c c) = c"
  by (simp add: command_output_of_c_def command_output_to_c_def comp_def)

lemma robot_of_to: "robot_of_c (robot_to_c s) = s"
  by (simp add: robot_of_c_def robot_to_c_def comp_def)

interpretation robot_seg: struct_segment RobotStateC robot_to_c robot_of_c robot_state_ok
  by unfold_locales (simp_all add: robot_typed robot_of_to)

end
