(* ===== verification/Operator_Command.thy ===== *)
theory Operator_Command
  imports Shm_Os
begin

text \<open>
  The operator command segment (\<open>robot_controller/shm/operator_command.py\<close>): the command codes,
  the C structure, the segment class and the writer the operator processes use.
\<close>

section \<open>Command codes\<close>

datatype operator_code =
    OP_NONE | OP_ENABLE | OP_DISABLE | OP_DAMPING | OP_ZERO_SET | OP_ESTOP | OP_RESET_FAULT | OP_RUN

fun code_value :: "operator_code \<Rightarrow> int" where
  "code_value OP_NONE = 0"
| "code_value OP_ENABLE = 1"
| "code_value OP_DISABLE = 2"
| "code_value OP_DAMPING = 3"
| "code_value OP_ZERO_SET = 4"
| "code_value OP_ESTOP = 5"
| "code_value OP_RESET_FAULT = 6"
| "code_value OP_RUN = 7"

definition OperatorCommandCode :: "int \<Rightarrow> operator_code result" where
  "OperatorCommandCode n =
     (if n = 0 then Inr OP_NONE else if n = 1 then Inr OP_ENABLE else if n = 2 then Inr OP_DISABLE
      else if n = 3 then Inr OP_DAMPING else if n = 4 then Inr OP_ZERO_SET
      else if n = 5 then Inr OP_ESTOP else if n = 6 then Inr OP_RESET_FAULT
      else if n = 7 then Inr OP_RUN else Inl (ValueError ''is not a valid OperatorCommandCode''))"

definition OPERATOR_ZERO_TARGET_CAPACITY :: nat where
  "OPERATOR_ZERO_TARGET_CAPACITY = 12"

definition OPERATOR_ZERO_TARGET_MAGIC :: int where
  "OPERATOR_ZERO_TARGET_MAGIC = 0x5A45524F"

section \<open>The structure\<close>

record operator_zero_target =
  zt_can_id :: int
  zt_offset_count :: int
  zt_reserved :: int

record operator_command =
  oc_timestamp_ns :: int
  oc_command :: int
  oc_target_mask :: int
  oc_zero_target_count :: int
  oc_zero_target_magic :: int
  oc_zero_targets :: "operator_zero_target list"

definition OperatorZeroTargetC :: ctype where
  "OperatorZeroTargetC = CStruct [CUInt 4, CSInt 2, CUInt 2]"

definition OperatorCommandC :: ctype where
  "OperatorCommandC =
     CStruct [CUInt 8, CUInt 4, CUInt 4, CUInt 4, CUInt 4,
       CArray OPERATOR_ZERO_TARGET_CAPACITY OperatorZeroTargetC]"

definition OPERATOR_COMMAND_SIZE :: nat where
  "OPERATOR_COMMAND_SIZE = csize OperatorCommandC"

definition zero_target_to_c :: "operator_zero_target \<Rightarrow> cval" where
  "zero_target_to_c z = CL [CI (zt_can_id z), CI (zt_offset_count z), CI (zt_reserved z)]"

fun zero_target_of_c :: "cval \<Rightarrow> operator_zero_target" where
  "zero_target_of_c (CL [CI a, CI b, CI c]) = \<lparr>zt_can_id = a, zt_offset_count = b, zt_reserved = c\<rparr>"
| "zero_target_of_c _ = \<lparr>zt_can_id = 0, zt_offset_count = 0, zt_reserved = 0\<rparr>"

definition operator_to_c :: "operator_command \<Rightarrow> cval" where
  "operator_to_c c =
     CL [CI (oc_timestamp_ns c), CI (oc_command c), CI (oc_target_mask c),
       CI (oc_zero_target_count c), CI (oc_zero_target_magic c),
       CL (map zero_target_to_c (oc_zero_targets c))]"

definition empty_zero_target :: operator_zero_target where
  "empty_zero_target = \<lparr>zt_can_id = 0, zt_offset_count = 0, zt_reserved = 0\<rparr>"

text \<open>\<open>OperatorCommandC()\<close>: ctypes zeroes a new structure.\<close>

definition empty_operator_command :: operator_command where
  "empty_operator_command =
     \<lparr>oc_timestamp_ns = 0, oc_command = 0, oc_target_mask = 0, oc_zero_target_count = 0,
      oc_zero_target_magic = 0,
      oc_zero_targets = replicate OPERATOR_ZERO_TARGET_CAPACITY empty_zero_target\<rparr>"

fun operator_of_c :: "cval \<Rightarrow> operator_command" where
  "operator_of_c (CL [CI a, CI b, CI c, CI d, CI e, CL zs]) =
     \<lparr>oc_timestamp_ns = a, oc_command = b, oc_target_mask = c, oc_zero_target_count = d,
      oc_zero_target_magic = e, oc_zero_targets = map zero_target_of_c zs\<rparr>"
| "operator_of_c _ = empty_operator_command"

definition zero_target_ok :: "operator_zero_target \<Rightarrow> bool" where
  "zero_target_ok z \<longleftrightarrow>
     0 \<le> zt_can_id z \<and> zt_can_id z < 2 ^ 32 \<and> - 32768 \<le> zt_offset_count z \<and> zt_offset_count z < 32768 \<and>
     0 \<le> zt_reserved z \<and> zt_reserved z < 2 ^ 16"

definition operator_command_ok :: "operator_command \<Rightarrow> bool" where
  "operator_command_ok c \<longleftrightarrow>
     0 \<le> oc_timestamp_ns c \<and> oc_timestamp_ns c < 2 ^ 64 \<and>
     0 \<le> oc_command c \<and> oc_command c < 2 ^ 32 \<and>
     0 \<le> oc_target_mask c \<and> oc_target_mask c < 2 ^ 32 \<and>
     0 \<le> oc_zero_target_count c \<and> oc_zero_target_count c < 2 ^ 32 \<and>
     0 \<le> oc_zero_target_magic c \<and> oc_zero_target_magic c < 2 ^ 32 \<and>
     length (oc_zero_targets c) = OPERATOR_ZERO_TARGET_CAPACITY \<and>
     list_all zero_target_ok (oc_zero_targets c)"

section \<open>The segment class and the writers\<close>

definition OperatorCommandShm_init :: "string \<Rightarrow> bool \<Rightarrow> int option \<Rightarrow> (shm_os, shm_obj) action" where
  "OperatorCommandShm_init = segment_init OPERATOR_COMMAND_SIZE False"

definition OperatorCommandShm_open_reader :: "string \<Rightarrow> (shm_os, shm_obj) action" where
  "OperatorCommandShm_open_reader name = OperatorCommandShm_init name False None"

definition OperatorCommandShm_open_writer :: "string \<Rightarrow> (shm_os, shm_obj) action" where
  "OperatorCommandShm_open_writer name = OperatorCommandShm_init name False None"

definition OperatorCommandShm_create :: "string \<Rightarrow> int option \<Rightarrow> (shm_os, shm_obj) action" where
  "OperatorCommandShm_create name sz =
     bindA (OperatorCommandShm_init name True sz) (\<lambda>obj. bindA (segment_clear obj) (\<lambda>_. retA obj))"

definition OperatorCommandShm_read_relaxed :: "shm_obj \<Rightarrow> shm_os \<Rightarrow> operator_command result" where
  "OperatorCommandShm_read_relaxed obj os =
     bindE (read_struct OperatorCommandC obj os) (\<lambda>c. Inr (operator_of_c c))"

definition OperatorCommandShm_write :: "shm_obj \<Rightarrow> operator_command \<Rightarrow> (shm_os, unit) action" where
  "OperatorCommandShm_write obj command = write_struct OperatorCommandC obj (operator_to_c command)"

text \<open>The loop of \<open>_build_command\<close> over the zero targets, from slot \<open>index\<close> on.\<close>

fun fill_zero_targets ::
  "nat \<Rightarrow> (int \<times> int) list \<Rightarrow> operator_command \<Rightarrow> operator_command result" where
  "fill_zero_targets index [] command = Inr command"
| "fill_zero_targets index ((can_id, offset_count) # ts) command =
     (if \<not> (0 \<le> can_id \<and> can_id \<le> 0x1FFFFFFF) then Inl (ValueError ''CAN ID out of range'')
      else if \<not> (- 32768 \<le> offset_count \<and> offset_count \<le> 32767)
      then Inl (ValueError ''MIT zero offset_count out of int16 range'')
      else fill_zero_targets (Suc index) ts
        (command\<lparr>oc_zero_targets := (oc_zero_targets command)
           [index := (oc_zero_targets command ! index)
              \<lparr>zt_can_id := c_uint 32 can_id, zt_offset_count := c_int 16 offset_count\<rparr>]\<rparr>))"

definition build_command ::
  "int \<Rightarrow> int \<Rightarrow> int \<Rightarrow> (int \<times> int) list \<Rightarrow> operator_command result" where
  "build_command time_ns code target_mask zero_targets =
     (let command = empty_operator_command
        \<lparr>oc_timestamp_ns := c_uint 64 time_ns, oc_command := c_uint 32 code,
         oc_target_mask := c_uint 32 target_mask\<rparr>
      in if OPERATOR_ZERO_TARGET_CAPACITY < length zero_targets
         then Inl (ValueError ''zero_set target count exceeds capacity'')
         else fill_zero_targets 0 zero_targets
           (command\<lparr>oc_zero_target_count := c_uint 32 (int (length zero_targets)),
              oc_zero_target_magic :=
                c_uint 32 (if zero_targets \<noteq> [] then OPERATOR_ZERO_TARGET_MAGIC else 0)\<rparr>))"

definition OperatorCommandShm_publish :: "int \<Rightarrow> shm_obj \<Rightarrow> int \<Rightarrow> int \<Rightarrow> (shm_os, int) action" where
  "OperatorCommandShm_publish time_ns obj code target_mask =
     bindA (liftA (build_command time_ns code target_mask []))
       (\<lambda>command. bindA (OperatorCommandShm_write obj command) (\<lambda>_. retA (oc_timestamp_ns command)))"

definition OperatorCommandShm_publish_zero_set ::
  "int \<Rightarrow> shm_obj \<Rightarrow> (int \<times> int) list \<Rightarrow> (shm_os, int) action" where
  "OperatorCommandShm_publish_zero_set time_ns obj targets =
     bindA (liftA (build_command time_ns (code_value OP_ZERO_SET) 0 targets))
       (\<lambda>command. bindA (OperatorCommandShm_write obj command) (\<lambda>_. retA (oc_timestamp_ns command)))"

record publish_flags =
  pf_arm :: bool
  pf_clear_fault :: bool
  pf_estop :: bool
  pf_damping :: bool
  pf_zero_set :: bool
  pf_disable :: bool
  pf_run :: bool

text \<open>The code \<open>OperatorCommandShmWriter.publish\<close> chooses: the first flag set, in this order.\<close>

definition flags_code :: "publish_flags \<Rightarrow> operator_code" where
  "flags_code f =
     (if pf_arm f then OP_ENABLE else if pf_run f then OP_RUN
      else if pf_clear_fault f then OP_RESET_FAULT else if pf_estop f then OP_ESTOP
      else if pf_damping f then OP_DAMPING else if pf_zero_set f then OP_ZERO_SET
      else if pf_disable f then OP_DISABLE else OP_NONE)"

definition OperatorCommandShmWriter_publish :: "int \<Rightarrow> shm_obj \<Rightarrow> publish_flags \<Rightarrow> (shm_os, int) action" where
  "OperatorCommandShmWriter_publish time_ns obj f =
     (case flags_code f of
        OP_ZERO_SET \<Rightarrow> OperatorCommandShm_publish_zero_set time_ns obj []
      | code \<Rightarrow> OperatorCommandShm_publish time_ns obj (code_value code) 0)"

section \<open>Facts\<close>

lemma code_of_value [simp]: "OperatorCommandCode (code_value c) = Inr c"
  by (cases c) (simp_all add: OperatorCommandCode_def)

lemma code_value_range: "0 \<le> code_value c \<and> code_value c \<le> 7"
  by (cases c) auto

lemma OperatorCommandCode_Inr: "OperatorCommandCode n = Inr c \<longleftrightarrow> n = code_value c"
  by (cases c) (auto simp: OperatorCommandCode_def split: if_splits)

lemma OPERATOR_COMMAND_SIZE_eq: "OPERATOR_COMMAND_SIZE = 120"
  by (simp add: OPERATOR_COMMAND_SIZE_def OperatorCommandC_def OperatorZeroTargetC_def
      OPERATOR_ZERO_TARGET_CAPACITY_def)

lemma operator_typed: "operator_command_ok c \<Longrightarrow> c_typed OperatorCommandC (operator_to_c c)"
  by (auto simp: operator_command_ok_def OperatorCommandC_def operator_to_c_def zero_target_ok_def
      OperatorZeroTargetC_def zero_target_to_c_def list_all_iff)

lemma operator_of_to: "operator_of_c (operator_to_c c) = c"
proof -
  have "zero_target_of_c (zero_target_to_c z) = z" for z
    by (simp add: zero_target_to_c_def)
  then have "map zero_target_of_c (map zero_target_to_c zs) = zs" for zs
    by (induction zs) auto
  then show ?thesis by (simp add: operator_to_c_def)
qed

interpretation operator_seg: struct_segment OperatorCommandC operator_to_c operator_of_c operator_command_ok
  by unfold_locales (simp_all add: operator_typed operator_of_to)

lemma empty_operator_command_ok: "operator_command_ok empty_operator_command"
  by (simp add: operator_command_ok_def empty_operator_command_def zero_target_ok_def
      empty_zero_target_def list_all_iff)

lemma fill_zero_targets_ok:
  "operator_command_ok c \<Longrightarrow> fill_zero_targets i ts c = Inr c' \<Longrightarrow> operator_command_ok c'"
proof (induction i ts c rule: fill_zero_targets.induct)
  case (2 index can_id offset_count ts command)
  let ?c = "command\<lparr>oc_zero_targets := (oc_zero_targets command)
      [index := (oc_zero_targets command ! index)
        \<lparr>zt_can_id := c_uint 32 can_id, zt_offset_count := c_int 16 offset_count\<rparr>]\<rparr>"
  have b: "0 \<le> c_uint 32 can_id \<and> c_uint 32 can_id < 2 ^ 32"
      "- 32768 \<le> c_int 16 offset_count \<and> c_int 16 offset_count < 32768"
    using c_uint_bounds [of 32 can_id] c_int_bounds [of 16 offset_count] by auto
  have "operator_command_ok ?c"
  proof (cases "index < length (oc_zero_targets command)")
    case True
    then have "zero_target_ok (oc_zero_targets command ! index)"
      using "2.prems"(1) by (auto simp: operator_command_ok_def list_all_length)
    with True b "2.prems"(1) show ?thesis
      by (auto simp: operator_command_ok_def list_all_length nth_list_update zero_target_ok_def)
  next
    case False
    then show ?thesis using "2.prems"(1) by (simp add: operator_command_ok_def list_update_beyond)
  qed
  with "2.IH" "2.prems"(2) show ?case by (auto split: if_splits)
qed simp

end
