(* ===== verification/State_Machine.thy ===== *)
theory State_Machine
  imports Operator_Command
begin

text \<open>
  The controller's mode machine (\<open>robot_controller/state_machine.py\<close>). \<open>update\<close> is the source's
  method, branch for branch; \<open>mode_step\<close> is its contract, a transition relation on modes. The
  locale \<open>safety_machine\<close> collects what the rest of the controller relies on (E-stop wins and
  latches, NORMAL is entered only by RUN from DAMPING) and lifts it to runs.
\<close>

section \<open>Modes and the machine\<close>

datatype controller_mode = DISABLED | ENABLING | NORMAL | DAMPING | ZERO_SETTING | ESTOP

fun mode_value :: "controller_mode \<Rightarrow> int" where
  "mode_value DISABLED = 0"
| "mode_value ENABLING = 1"
| "mode_value NORMAL = 2"
| "mode_value DAMPING = 3"
| "mode_value ZERO_SETTING = 4"
| "mode_value ESTOP = 5"

record state_machine =
  sm_enable_duration_s :: pyfloat
  sm_mode :: controller_mode
  sm_mode_enter_time :: pyfloat

definition ControllerStateMachine_init :: "pyfloat \<Rightarrow> pyfloat \<Rightarrow> state_machine result" where
  "ControllerStateMachine_init enable_duration_s now =
     (if flt enable_duration_s (Fin 0) then Inl (ValueError ''enable_duration_s must be >= 0'')
      else Inr \<lparr>sm_enable_duration_s = enable_duration_s, sm_mode = DISABLED, sm_mode_enter_time = now\<rparr>)"

definition enter :: "controller_mode \<Rightarrow> pyfloat \<Rightarrow> state_machine \<Rightarrow> state_machine" where
  "enter mode now s =
     (if sm_mode s = mode then s else s\<lparr>sm_mode := mode, sm_mode_enter_time := now\<rparr>)"

text \<open>The code a command carries; an unknown number counts as NONE.\<close>

definition command_code :: "operator_command option \<Rightarrow> operator_code" where
  "command_code command =
     (case command of None \<Rightarrow> OP_NONE
      | Some c \<Rightarrow> (case OperatorCommandCode (oc_command c) of Inl _ \<Rightarrow> OP_NONE | Inr code \<Rightarrow> code))"

definition update_tail :: "operator_code \<Rightarrow> pyfloat \<Rightarrow> state_machine \<Rightarrow> state_machine" where
  "update_tail code now s =
     (if code = OP_DAMPING then enter DAMPING now s
      else if code = OP_ZERO_SET then enter ZERO_SETTING now s
      else if code = OP_RESET_FAULT then enter DISABLED now s
      else if sm_mode s = ZERO_SETTING \<and> code = OP_NONE then enter DISABLED now s
      else if sm_mode s = ENABLING \<and> fge (fsub now (sm_mode_enter_time s)) (sm_enable_duration_s s)
      then enter DAMPING now s
      else s)"

definition update :: "operator_command option \<Rightarrow> pyfloat \<Rightarrow> state_machine \<Rightarrow> state_machine" where
  "update command now s =
     (let code = command_code command
      in if code = OP_ESTOP then enter ESTOP now s
         else if sm_mode s = ESTOP then (if code = OP_RESET_FAULT then enter DISABLED now s else s)
         else if code = OP_DISABLE then enter DISABLED now s
         else if code = OP_ENABLE \<and> sm_mode s \<in> {DISABLED, ZERO_SETTING} then enter ENABLING now s
         else if code = OP_ENABLE \<and> sm_mode s \<noteq> ENABLING then s
         else if code = OP_RUN \<and> sm_mode s = DAMPING then enter NORMAL now s
         else if code = OP_RUN \<and> sm_mode s = NORMAL then s
         else update_tail code now s)"

section \<open>The contract\<close>

text \<open>
  One update seen on modes alone; \<open>due\<close> says that the enable period has elapsed.
\<close>

inductive mode_step :: "bool \<Rightarrow> controller_mode \<Rightarrow> operator_code \<Rightarrow> controller_mode \<Rightarrow> bool" where
  estop: "mode_step due m OP_ESTOP ESTOP"
| latched: "code \<noteq> OP_ESTOP \<Longrightarrow> code \<noteq> OP_RESET_FAULT \<Longrightarrow> mode_step due ESTOP code ESTOP"
| reset: "mode_step due m OP_RESET_FAULT DISABLED"
| disable: "m \<noteq> ESTOP \<Longrightarrow> mode_step due m OP_DISABLE DISABLED"
| arm: "m \<in> {DISABLED, ZERO_SETTING} \<Longrightarrow> mode_step due m OP_ENABLE ENABLING"
| arm_again: "m \<in> {NORMAL, DAMPING} \<Longrightarrow> mode_step due m OP_ENABLE m"
| damp: "m \<noteq> ESTOP \<Longrightarrow> mode_step due m OP_DAMPING DAMPING"
| zero: "m \<noteq> ESTOP \<Longrightarrow> mode_step due m OP_ZERO_SET ZERO_SETTING"
| run: "m \<in> {DAMPING, NORMAL} \<Longrightarrow> mode_step due m OP_RUN NORMAL"
| run_ignored: "m \<in> {DISABLED, ZERO_SETTING} \<Longrightarrow> mode_step due m OP_RUN m"
| zero_done: "mode_step due ZERO_SETTING OP_NONE DISABLED"
| idle: "m \<in> {DISABLED, NORMAL, DAMPING} \<Longrightarrow> mode_step due m OP_NONE m"
| enabling: "code \<in> {OP_NONE, OP_ENABLE, OP_RUN} \<Longrightarrow>
    mode_step due ENABLING code (if due then DAMPING else ENABLING)"

inductive_simps mode_step_simps: "mode_step due m code m'"

definition enable_due :: "pyfloat \<Rightarrow> state_machine \<Rightarrow> bool" where
  "enable_due now s \<longleftrightarrow> fge (fsub now (sm_mode_enter_time s)) (sm_enable_duration_s s)"

lemmas update_defs [comp_defs] = update_def update_tail_def enter_def Let_def

lemma update_refines_mode_step:
  "mode_step (enable_due now s) (sm_mode s) (command_code c) (sm_mode (update c now s))"
  by (cases "command_code c"; cases "sm_mode s")
    (simp_all add: update_defs enable_due_def mode_step_simps)

lemma mode_step_deterministic:
  "mode_step due m code m1 \<Longrightarrow> mode_step due m code m2 \<Longrightarrow> m1 = m2"
  by (cases code; cases m) (auto simp: mode_step_simps)

lemma mode_step_total: "\<exists>m'. mode_step due m code m'"
  by (cases code; cases m) (auto simp: mode_step_simps)

lemma update_duration [simp]: "sm_enable_duration_s (update c now s) = sm_enable_duration_s s"
  by (simp add: update_defs)

lemma update_enter_time:
  "sm_mode_enter_time (update c now s) =
     (if sm_mode (update c now s) = sm_mode s then sm_mode_enter_time s else now)"
  by (simp add: update_defs)

section \<open>What the controller relies on\<close>

locale safety_machine =
  fixes step :: "'s \<Rightarrow> 'i \<Rightarrow> 's"
    and mode :: "'s \<Rightarrow> controller_mode"
    and code :: "'i \<Rightarrow> operator_code"
  assumes estop_enters: "code i = OP_ESTOP \<Longrightarrow> mode (step s i) = ESTOP"
    and estop_latches: "mode s = ESTOP \<Longrightarrow> code i \<noteq> OP_RESET_FAULT \<Longrightarrow> mode (step s i) = ESTOP"
    and estop_releases: "mode s = ESTOP \<Longrightarrow> code i = OP_RESET_FAULT \<Longrightarrow> mode (step s i) = DISABLED"
    and normal_entry: "mode (step s i) = NORMAL \<Longrightarrow> mode s \<noteq> NORMAL \<Longrightarrow>
      mode s = DAMPING \<and> code i = OP_RUN"
    and disable_enters: "mode s \<noteq> ESTOP \<Longrightarrow> code i = OP_DISABLE \<Longrightarrow> mode (step s i) = DISABLED"
begin

lemma latched_run:
  "mode s = ESTOP \<Longrightarrow> OP_RESET_FAULT \<notin> code ` set is \<Longrightarrow> mode (foldl step s is) = ESTOP"
  by (induction "is" arbitrary: s) (auto simp: estop_latches)

lemma estop_run:
  assumes "OP_RESET_FAULT \<notin> code ` set is2" and "code i = OP_ESTOP"
  shows "mode (foldl step s (is1 @ i # is2)) = ESTOP"
  using latched_run [OF estop_enters [OF assms(2)] assms(1)] by simp

lemma normal_run:
  "mode s \<noteq> NORMAL \<Longrightarrow> mode (foldl step s is) = NORMAL \<Longrightarrow> OP_RUN \<in> code ` set is"
proof (induction "is" arbitrary: s)
  case (Cons i "is")
  show ?case
  proof (cases "mode (step s i) = NORMAL")
    case True
    then show ?thesis using normal_entry [of s i] Cons.prems(1) by (auto simp: image_iff)
  next
    case False
    then show ?thesis using Cons.IH [of "step s i"] Cons.prems(2) by auto
  qed
qed simp

end

definition sm_step :: "state_machine \<Rightarrow> operator_command option \<times> pyfloat \<Rightarrow> state_machine" where
  "sm_step s i = update (fst i) (snd i) s"

interpretation sm: safety_machine sm_step sm_mode "\<lambda>i. command_code (fst i)"
  by unfold_locales (auto simp: sm_step_def update_defs split: if_splits)


section \<open>Properties of the mode machine\<close>

definition code_command :: "operator_code \<Rightarrow> operator_command" where
  "code_command code = empty_operator_command\<lparr>oc_command := code_value code\<rparr>"

lemma command_code_of [simp]: "command_code (Some (code_command code)) = code"
  by (simp add: command_code_def code_command_def)

text \<open>
  C4. The method \<open>update\<close> implements the mode contract exactly: for every machine state, command
  (absent, unknown or known) and time, the mode it leaves the machine in is the one and only mode
  the transition relation allows, and the entry time is refreshed exactly when the mode changed.
\<close>

theorem update_implements_contract:
  "(mode_step (enable_due now s) (sm_mode s) (command_code c) m' \<longleftrightarrow> m' = sm_mode (update c now s)) \<and>
   update c now s = s\<lparr>sm_mode := sm_mode (update c now s),
     sm_mode_enter_time := (if sm_mode (update c now s) = sm_mode s then sm_mode_enter_time s else now)\<rparr>"
proof -
  have "mode_step (enable_due now s) (sm_mode s) (command_code c) m' \<longleftrightarrow> m' = sm_mode (update c now s)"
    using update_refines_mode_step mode_step_deterministic by blast
  then show ?thesis by (simp add: update_defs)
qed

text \<open>
  C5. E-stop is latched: in every run of updates, once an ESTOP command has been processed the
  machine stays in ESTOP, whatever other commands follow, until a RESET_FAULT command, and that
  command leads to DISABLED only.
\<close>

theorem estop_latched_until_reset:
  assumes "command_code (fst e) = OP_ESTOP"
    and "\<forall>i \<in> set later. command_code (fst i) \<noteq> OP_RESET_FAULT"
    and "command_code (fst r) = OP_RESET_FAULT"
  shows "sm_mode (foldl sm_step s (before @ e # later)) = ESTOP \<and>
    sm_mode (foldl sm_step s (before @ e # later @ [r])) = DISABLED"
proof -
  have "OP_RESET_FAULT \<notin> (\<lambda>i. command_code (fst i)) ` set later" using assms(2) by auto
  from sm.estop_run [OF this assms(1)]
  have "sm_mode (foldl sm_step s (before @ e # later)) = ESTOP" .
  with sm.estop_releases [OF this assms(3)] show ?thesis by simp
qed

theorem estop_latched_until_reset_witness:
  "sm_mode (foldl sm_step \<lparr>sm_enable_duration_s = Fin (1/2), sm_mode = NORMAL, sm_mode_enter_time = Fin 1\<rparr>
     ([] @ (Some (code_command OP_ESTOP), Fin 2) # [(Some (code_command OP_ENABLE), Fin 3)])) = ESTOP"
  using estop_latched_until_reset [of "(Some (code_command OP_ESTOP), Fin 2)"
      "[(Some (code_command OP_ENABLE), Fin 3)]" "(Some (code_command OP_RESET_FAULT), Fin 4)"
      "\<lparr>sm_enable_duration_s = Fin (1/2), sm_mode = NORMAL, sm_mode_enter_time = Fin 1\<rparr>" "[]"]
  by simp

text \<open>
  C6. Policy output needs an explicit RUN: a run of updates that starts outside NORMAL and ends in
  NORMAL contains a RUN command, and the single step that enters NORMAL is a RUN command received
  in DAMPING.
\<close>

theorem normal_needs_run:
  assumes "sm_mode s \<noteq> NORMAL" and "sm_mode (foldl sm_step s is) = NORMAL"
  shows "\<exists>before i after. is = before @ i # after \<and> command_code (fst i) = OP_RUN \<and>
    sm_mode (foldl sm_step s before) = DAMPING"
  using assms
proof (induction "is" arbitrary: s)
  case (Cons i "is")
  show ?case
  proof (cases "sm_mode (sm_step s i) = NORMAL")
    case True
    with sm.normal_entry [OF True Cons.prems(1)] show ?thesis
      by (intro exI [of _ "[]"] exI [of _ i] exI [of _ "is"]) simp
  next
    case False
    with Cons.IH [OF False] Cons.prems(2) obtain b j a where
      "is = b @ j # a" "command_code (fst j) = OP_RUN" "sm_mode (foldl sm_step (sm_step s i) b) = DAMPING"
      by auto
    then show ?thesis by (intro exI [of _ "i # b"] exI [of _ j] exI [of _ a]) simp
  qed
qed simp

theorem normal_needs_run_witness:
  "\<exists>before i after. [(Some (code_command OP_RUN), Fin 2)] = before @ i # after \<and>
    command_code (fst i) = OP_RUN \<and>
    sm_mode (foldl sm_step \<lparr>sm_enable_duration_s = Fin 0, sm_mode = DAMPING, sm_mode_enter_time = Fin 1\<rparr>
      before) = DAMPING"
  by (rule normal_needs_run) (simp_all add: sm_step_def update_defs)

text \<open>
  C7. Arming takes the configured time: while the machine is ENABLING and gets no other command
  than NONE, ENABLE or RUN, every update before the enable period has elapsed leaves the machine
  as it is (a RUN is not remembered), and the first update at which it has elapsed enters DAMPING.
\<close>

theorem enabling_holds_then_damps:
  assumes "sm_mode s = ENABLING"
    and "\<forall>i \<in> set waiting. command_code (fst i) \<in> {OP_NONE, OP_ENABLE, OP_RUN} \<and> \<not> enable_due (snd i) s"
    and "command_code (fst d) \<in> {OP_NONE, OP_ENABLE, OP_RUN}" and "enable_due (snd d) s"
  shows "foldl sm_step s waiting = s \<and>
    foldl sm_step s (waiting @ [d]) = s\<lparr>sm_mode := DAMPING, sm_mode_enter_time := snd d\<rparr>"
proof -
  have "foldl sm_step s waiting = s"
    using assms(1,2) by (induction waiting) (auto simp: sm_step_def update_defs enable_due_def)
  with assms show ?thesis by (auto simp: sm_step_def update_defs enable_due_def)
qed

theorem enabling_holds_then_damps_witness:
  "foldl sm_step \<lparr>sm_enable_duration_s = Fin (1/2), sm_mode = ENABLING, sm_mode_enter_time = Fin 1\<rparr>
     ([(Some (code_command OP_RUN), Fin (5/4))] @ [(None, Fin (3/2))]) =
   \<lparr>sm_enable_duration_s = Fin (1/2), sm_mode = ENABLING, sm_mode_enter_time = Fin 1\<rparr>
     \<lparr>sm_mode := DAMPING, sm_mode_enter_time := snd (None :: operator_command option, Fin (3/2))\<rparr>"
  by (rule enabling_holds_then_damps [THEN conjunct2])
    (simp_all add: enable_due_def command_code_def [of None] pyfloat_simps)

text \<open>
  The motors need not have been armed for NORMAL to be reached: DAMPING is accepted from DISABLED
  and RUN from DAMPING.
\<close>

lemma normal_without_arming:
  "map (\<lambda>n. sm_mode (foldl sm_step s (take n [(Some (code_command OP_DAMPING), t1), (Some (code_command OP_RUN), t2)])))
     [0, 1, 2] = [DISABLED, DAMPING, NORMAL]" if "sm_mode s = DISABLED"
  using that by (simp add: sm_step_def update_defs)

end
