(* ===== verification/Can_Bus.thy ===== *)
theory Can_Bus
  imports CTypes
begin

text \<open>
  CAN frames and the bus layer of the HAL (\<open>hal/can_bus/frame.py\<close>, \<open>bus.py\<close>, \<open>dispatcher.py\<close>,
  \<open>daemon.py\<close>): the SocketCAN wire format, callback dispatch, and the daemon's bounded transmit
  queue served by its two threads.
\<close>

unbundle bit_operations_syntax

section \<open>Frames\<close>

record can_frame =
  fr_can_id :: int
  fr_data :: "byte list"

definition dlc :: "can_frame \<Rightarrow> nat" where
  "dlc frame = length (fr_data frame)"

section \<open>SocketCAN\<close>

definition CLASSIC_CAN_FRAME_SIZE :: nat where
  "CLASSIC_CAN_FRAME_SIZE = 16"

definition CAN_SFF_MASK :: int where
  "CAN_SFF_MASK = 0x7FF"

definition ljust8 :: "byte list \<Rightarrow> byte list" where
  "ljust8 data = data @ replicate (8 - length data) 0"

text \<open>\<open>struct.pack("=IB3x8s", can_id, dlc, data)\<close>: the bytes \<open>send_frame\<close> hands to the socket.\<close>

definition SocketCANBus_send_frame :: "can_frame \<Rightarrow> byte list result" where
  "SocketCANBus_send_frame frame =
     (if 8 < length (fr_data frame) then Inl (ValueError ''Classical CAN payload must be <= 8 bytes'')
      else if fr_can_id frame < 0 \<or> 2 ^ 32 \<le> fr_can_id frame
      then Inl (StructError ''argument out of range'')
      else Inr (le_bytes 4 (fr_can_id frame) @ [word_of_nat (dlc frame)] @ [0, 0, 0] @
        ljust8 (fr_data frame)))"

text \<open>
  \<open>recv_frame\<close>; \<open>raw\<close> is what the socket returned, None for a timeout or a socket error. A raw CAN
  socket returns whole frames, and \<open>struct.unpack\<close> raises on any other length.
\<close>

definition SocketCANBus_recv_frame :: "byte list option \<Rightarrow> can_frame option result" where
  "SocketCANBus_recv_frame raw =
     (case raw of None \<Rightarrow> Inr None
      | Some bs \<Rightarrow>
          if length bs \<noteq> CLASSIC_CAN_FRAME_SIZE then Inl (StructError ''unpack requires a buffer of 16 bytes'')
          else Inr (Some \<lparr>fr_can_id = le_uint (take 4 bs) AND CAN_SFF_MASK,
                          fr_data = take (unat (bs ! 4)) (drop 8 bs)\<rparr>))"

text \<open>A frame of the classic bus: 11-bit identifier, at most eight bytes.\<close>

definition classic_frame :: "can_frame \<Rightarrow> bool" where
  "classic_frame frame \<longleftrightarrow> 0 \<le> fr_can_id frame \<and> fr_can_id frame \<le> CAN_SFF_MASK \<and> length (fr_data frame) \<le> 8"

lemma and_sff_mask: "0 \<le> n \<Longrightarrow> n \<le> CAN_SFF_MASK \<Longrightarrow> n AND CAN_SFF_MASK = n"
proof -
  assume "0 \<le> n" "n \<le> CAN_SFF_MASK"
  then have "take_bit 11 n = n" by (simp add: take_bit_int_eq_self_iff CAN_SFF_MASK_def)
  moreover have "CAN_SFF_MASK = mask 11" by (simp add: CAN_SFF_MASK_def mask_numeral)
  ultimately show ?thesis by (simp add: take_bit_eq_mask)
qed

lemma send_frame_recv:
  assumes "SocketCANBus_send_frame frame = Inr raw"
  shows "SocketCANBus_recv_frame (Some raw) =
    Inr (Some \<lparr>fr_can_id = fr_can_id frame AND CAN_SFF_MASK, fr_data = fr_data frame\<rparr>)"
proof -
  from assms have len: "length (fr_data frame) \<le> 8" and id: "0 \<le> fr_can_id frame" "fr_can_id frame < 2 ^ 32"
    and raw: "raw = le_bytes 4 (fr_can_id frame) @ [word_of_nat (dlc frame)] @ [0, 0, 0] @ ljust8 (fr_data frame)"
    by (auto simp: SocketCANBus_send_frame_def split: if_splits)
  have "unat (word_of_nat (dlc frame) :: byte) = dlc frame"
    using len by (simp add: unat_of_nat dlc_def)
  moreover have "le_uint (le_bytes 4 (fr_can_id frame)) = fr_can_id frame"
    using id by (simp add: le_uint_bytes)
  ultimately show ?thesis
    using len by (simp add: raw SocketCANBus_recv_frame_def CLASSIC_CAN_FRAME_SIZE_def ljust8_def dlc_def nth_append)
qed

section \<open>Dispatcher\<close>

text \<open>
  \<open>'cb\<close> stands for callables; calling one may mutate the world and raise. \<open>_lock\<close> makes every
  method atomic, except that \<open>dispatch\<close> runs the callbacks on copies of the lists outside the lock.
\<close>

record 'cb dispatcher =
  di_callbacks_by_id :: "(int \<times> 'cb list) list"
  di_wildcard_callbacks :: "'cb list"

definition CANDispatcher_init :: "'cb dispatcher" where
  "CANDispatcher_init = \<lparr>di_callbacks_by_id = [], di_wildcard_callbacks = []\<rparr>"

definition callbacks_of :: "'cb dispatcher \<Rightarrow> int \<Rightarrow> 'cb list" where
  "callbacks_of d can_id = (case map_of (di_callbacks_by_id d) can_id of None \<Rightarrow> [] | Some cs \<Rightarrow> cs)"

definition register :: "int \<Rightarrow> 'cb \<Rightarrow> 'cb dispatcher \<Rightarrow> 'cb dispatcher" where
  "register can_id callback d =
     d\<lparr>di_callbacks_by_id := AList.update can_id (callbacks_of d can_id @ [callback]) (di_callbacks_by_id d)\<rparr>"

definition unregister :: "int \<Rightarrow> 'cb \<Rightarrow> 'cb dispatcher \<Rightarrow> 'cb dispatcher" where
  "unregister can_id callback d =
     (case map_of (di_callbacks_by_id d) can_id of
        None \<Rightarrow> d
      | Some cs \<Rightarrow>
          if callback \<notin> set cs then d
          else if remove1 callback cs = []
          then d\<lparr>di_callbacks_by_id := AList.delete can_id (di_callbacks_by_id d)\<rparr>
          else d\<lparr>di_callbacks_by_id := AList.update can_id (remove1 callback cs) (di_callbacks_by_id d)\<rparr>)"

definition register_wildcard :: "'cb \<Rightarrow> 'cb dispatcher \<Rightarrow> 'cb dispatcher" where
  "register_wildcard callback d = d\<lparr>di_wildcard_callbacks := di_wildcard_callbacks d @ [callback]\<rparr>"

definition unregister_wildcard :: "'cb \<Rightarrow> 'cb dispatcher \<Rightarrow> 'cb dispatcher" where
  "unregister_wildcard callback d = d\<lparr>di_wildcard_callbacks := remove1 callback (di_wildcard_callbacks d)\<rparr>"

definition dispatcher_clear :: "'cb dispatcher \<Rightarrow> 'cb dispatcher" where
  "dispatcher_clear d = d\<lparr>di_callbacks_by_id := [], di_wildcard_callbacks := []\<rparr>"

definition registered_ids :: "'cb dispatcher \<Rightarrow> int list" where
  "registered_ids d = map fst (di_callbacks_by_id d)"

text \<open>The loop over callbacks: an exception is logged, and the call is not counted.\<close>

fun call_all :: "('cb \<Rightarrow> can_frame \<Rightarrow> ('w, unit) action) \<Rightarrow> can_frame \<Rightarrow> 'cb list \<Rightarrow> 'w \<Rightarrow> nat \<times> 'w" where
  "call_all call frame [] w = (0, w)"
| "call_all call frame (cb # cbs) w =
     (case call cb frame w of
        (Inr _, w') \<Rightarrow> (case call_all call frame cbs w' of (n, w'') \<Rightarrow> (Suc n, w''))
      | (Inl _, w') \<Rightarrow> call_all call frame cbs w')"

definition dispatch ::
  "('cb \<Rightarrow> can_frame \<Rightarrow> ('w, unit) action) \<Rightarrow> 'cb dispatcher \<Rightarrow> can_frame \<Rightarrow> 'w \<Rightarrow> nat \<times> 'w" where
  "dispatch call d frame w =
     (case call_all call frame (callbacks_of d (fr_can_id frame)) w of (n, w1) \<Rightarrow>
        (case call_all call frame (di_wildcard_callbacks d) w1 of (m, w2) \<Rightarrow> (n + m, w2)))"

lemma callbacks_of_register:
  "callbacks_of (register can_id cb d) i = callbacks_of d i @ (if i = can_id then [cb] else [])"
  by (simp add: callbacks_of_def register_def update_conv')

lemma call_all_append:
  "call_all call frame (xs @ ys) w =
     (case call_all call frame xs w of (n, w1) \<Rightarrow>
        (case call_all call frame ys w1 of (m, w2) \<Rightarrow> (n + m, w2)))"
  by (induction xs arbitrary: w) (auto split: prod.splits sum.splits)

lemma call_all_fold: "snd (call_all call frame cbs w) = fold (\<lambda>cb w. snd (call cb frame w)) cbs w"
  by (induction cbs arbitrary: w) (simp_all add: case_prod_unfold split: sum.splits)

lemma call_all_count: "fst (call_all call frame cbs w) \<le> length cbs"
  by (induction cbs arbitrary: w) (simp_all add: case_prod_unfold le_SucI split: sum.splits)

lemma call_all_count_eq:
  "(\<And>cb w. cb \<in> set cbs \<Longrightarrow> isl (fst (call cb frame w)) \<longleftrightarrow> bad cb) \<Longrightarrow>
   fst (call_all call frame cbs w) = length (filter (\<lambda>cb. \<not> bad cb) cbs)"
proof (induction cbs arbitrary: w)
  case (Cons cb cbs)
  have "isl (fst (call cb frame w)) \<longleftrightarrow> bad cb" using Cons.prems by simp
  then show ?case
    using Cons.IH [OF Cons.prems] by (cases "fst (call cb frame w)") (simp_all add: case_prod_unfold)
qed simp

section \<open>The daemon\<close>

text \<open>
  \<open>CANDaemon\<close>: the bounded queue, what the transmit thread put on the wire, and whether the
  threads run. A frame whose \<open>send_frame\<close> raises is logged and lost.
\<close>

record can_daemon =
  cd_max_tx_queue_size :: nat
  cd_started :: bool
  cd_stop_event :: bool
  cd_tx_queue :: "can_frame list"

definition CANDaemon_init :: "nat \<Rightarrow> can_daemon" where
  "CANDaemon_init max_tx_queue_size =
     \<lparr>cd_max_tx_queue_size = max_tx_queue_size, cd_started = False, cd_stop_event = False, cd_tx_queue = []\<rparr>"

definition CANDaemon_start :: "can_daemon \<Rightarrow> can_daemon" where
  "CANDaemon_start d = (if cd_started d then d else d\<lparr>cd_stop_event := False, cd_started := True\<rparr>)"

definition CANDaemon_stop :: "can_daemon \<Rightarrow> can_daemon" where
  "CANDaemon_stop d = (if \<not> cd_started d then d else d\<lparr>cd_stop_event := True, cd_started := False\<rparr>)"

text \<open>
  \<open>queue.put\<close> on a queue of bounded size (a size of 0 means unbounded), at the moment the call
  ends: at once with \<open>block=False\<close>, and with \<open>block=True\<close> when there is room or the timeout expires.
\<close>

definition queue_full :: "can_daemon \<Rightarrow> bool" where
  "queue_full d \<longleftrightarrow> 0 < cd_max_tx_queue_size d \<and> cd_max_tx_queue_size d \<le> length (cd_tx_queue d)"

definition CANDaemon_send :: "can_frame \<Rightarrow> can_daemon \<Rightarrow> bool \<times> can_daemon" where
  "CANDaemon_send frame d =
     (if queue_full d then (False, d) else (True, d\<lparr>cd_tx_queue := cd_tx_queue d @ [frame]\<rparr>))"

text \<open>One iteration of \<open>_tx_loop\<close>: the frame taken from the queue and what reached the wire.\<close>

definition CANDaemon_tx_iteration :: "can_daemon \<Rightarrow> can_frame option \<times> byte list list \<times> can_daemon" where
  "CANDaemon_tx_iteration d =
     (case cd_tx_queue d of
        [] \<Rightarrow> (None, [], d)
      | frame # rest \<Rightarrow>
          (Some frame, (case SocketCANBus_send_frame frame of Inl _ \<Rightarrow> [] | Inr raw \<Rightarrow> [raw]),
           d\<lparr>cd_tx_queue := rest\<rparr>))"

text \<open>One iteration of \<open>_rx_loop\<close> on what the socket returned; receive errors are logged.\<close>

definition CANDaemon_rx_iteration ::
  "('cb \<Rightarrow> can_frame \<Rightarrow> ('w, unit) action) \<Rightarrow> 'cb dispatcher \<Rightarrow> byte list option \<Rightarrow> 'w \<Rightarrow> 'w" where
  "CANDaemon_rx_iteration call dsp raw w =
     (case SocketCANBus_recv_frame raw of
        Inl _ \<Rightarrow> w
      | Inr None \<Rightarrow> w
      | Inr (Some frame) \<Rightarrow> snd (dispatch call dsp frame w))"

text \<open>
  The interleavings of senders with the transmit thread: a client thread sends a frame, or the
  transmit thread runs one iteration. The state carries what was accepted and what reached the wire.
\<close>

datatype daemon_event = Ev_send can_frame | Ev_tx

record daemon_run =
  dr_daemon :: can_daemon
  dr_accepted :: "can_frame list"
  dr_taken :: "can_frame list"
  dr_wire :: "byte list list"

fun daemon_step :: "daemon_run \<Rightarrow> daemon_event \<Rightarrow> daemon_run" where
  "daemon_step r (Ev_send f) =
     (case CANDaemon_send f (dr_daemon r) of (ok, d) \<Rightarrow>
        r\<lparr>dr_daemon := d, dr_accepted := dr_accepted r @ (if ok then [f] else [])\<rparr>)"
| "daemon_step r Ev_tx =
     (case CANDaemon_tx_iteration (dr_daemon r) of (taken, wire, d) \<Rightarrow>
        r\<lparr>dr_daemon := d, dr_taken := dr_taken r @ (case taken of None \<Rightarrow> [] | Some f \<Rightarrow> [f]),
          dr_wire := dr_wire r @ wire\<rparr>)"

definition daemon_run_init :: "nat \<Rightarrow> daemon_run" where
  "daemon_run_init n = \<lparr>dr_daemon = CANDaemon_start (CANDaemon_init n), dr_accepted = [], dr_taken = [], dr_wire = []\<rparr>"

definition wire_of :: "can_frame list \<Rightarrow> byte list list" where
  "wire_of fs = concat (map (\<lambda>f. case SocketCANBus_send_frame f of Inl _ \<Rightarrow> [] | Inr raw \<Rightarrow> [raw]) fs)"

definition daemon_inv :: "nat \<Rightarrow> daemon_run \<Rightarrow> bool" where
  "daemon_inv n r \<longleftrightarrow>
     cd_max_tx_queue_size (dr_daemon r) = n \<and> (0 < n \<longrightarrow> length (cd_tx_queue (dr_daemon r)) \<le> n) \<and>
     dr_accepted r = dr_taken r @ cd_tx_queue (dr_daemon r) \<and> dr_wire r = wire_of (dr_taken r)"

lemma daemon_inv_step: "daemon_inv n r \<Longrightarrow> daemon_inv n (daemon_step r e)"
  by (cases e)
    (auto simp: daemon_inv_def CANDaemon_send_def queue_full_def CANDaemon_tx_iteration_def wire_of_def
      split: list.splits sum.splits)

lemma daemon_inv_run: "daemon_inv n (foldl daemon_step (daemon_run_init n) es)"
proof (induction es rule: rev_induct)
  case Nil
  then show ?case by (simp add: daemon_inv_def daemon_run_init_def CANDaemon_init_def CANDaemon_start_def wire_of_def)
next
  case (snoc e es)
  then show ?case by (simp add: daemon_inv_step)
qed

lemma wire_of_classic:
  "list_all classic_frame fs \<Longrightarrow>
   map (SocketCANBus_recv_frame \<circ> Some) (wire_of fs) = map (Inr \<circ> Some) fs"
proof (induction fs)
  case (Cons f fs)
  then have "classic_frame f" by simp
  then obtain raw where raw: "SocketCANBus_send_frame f = Inr raw"
    by (auto simp: classic_frame_def SocketCANBus_send_frame_def CAN_SFF_MASK_def)
  moreover have "SocketCANBus_recv_frame (Some raw) = Inr (Some f)"
    using send_frame_recv [OF raw] \<open>classic_frame f\<close> by (simp add: classic_frame_def and_sff_mask)
  ultimately show ?case using Cons by (simp add: wire_of_def)
qed (simp add: wire_of_def)

section \<open>Properties\<close>

text \<open>
  C10. Dispatch isolates callbacks: whatever callbacks raise, every callback registered for the
  frame's identifier, then every wildcard callback, is called once in registration order on the
  state the previous one left; the result counts the calls that did not raise, and callbacks of
  other identifiers are not called.
\<close>

theorem dispatch_isolates:
  assumes "\<And>cb w. isl (fst (call cb frame w)) \<longleftrightarrow> bad cb"
  shows "dispatch call d frame w =
    (let cbs = callbacks_of d (fr_can_id frame) @ di_wildcard_callbacks d
     in (length (filter (\<lambda>cb. \<not> bad cb) cbs), fold (\<lambda>cb w. snd (call cb frame w)) cbs w))"
proof -
  have "dispatch call d frame w =
      call_all call frame (callbacks_of d (fr_can_id frame) @ di_wildcard_callbacks d) w"
    by (simp add: dispatch_def call_all_append)
  then show ?thesis
    using call_all_count_eq [of "callbacks_of d (fr_can_id frame) @ di_wildcard_callbacks d" call frame bad w]
      call_all_fold [of call frame "callbacks_of d (fr_can_id frame) @ di_wildcard_callbacks d" w] assms
    by (simp add: Let_def prod_eq_iff)
qed

theorem dispatch_isolates_witness:
  "dispatch (\<lambda>cb frame w. if cb = (5::nat) then (Inl (ValueError ''x''), w @ [cb]) else (Inr (), w @ [cb]))
     (register_wildcard 3 (register 0x141 2 (register 0x142 9 (register 0x141 5 CANDispatcher_init))))
     \<lparr>fr_can_id = 0x141, fr_data = []\<rparr> [] = (2, [5, 2, 3])"
proof -
  let ?d = "register_wildcard 3 (register 0x141 2 (register 0x142 9 (register 0x141 (5::nat) CANDispatcher_init)))"
  have cbs: "callbacks_of ?d 0x141 = [5, 2]" "di_wildcard_callbacks ?d = [3]"
    by (simp_all add: register_wildcard_def callbacks_of_def register_def CANDispatcher_init_def)
  show ?thesis
    by (subst dispatch_isolates [where bad = "\<lambda>cb. cb = 5"]) (simp_all add: cbs)
qed



end
