(* ===== verification/Comm_Manager.thy ===== *)
theory Comm_Manager
  imports PyFloat
begin

text \<open>
  Communication monitors (\<open>hal/hardware/can/device_comm_manager.py\<close>): freshness of the latest
  received value, and the tracker of request-response transactions. Clock readings are arguments.
\<close>

section \<open>Freshness\<close>

record freshness_status =
  fs_is_online :: bool
  fs_is_stale :: bool
  fs_rx_count :: nat
  fs_timeout_count :: nat
  fs_decode_error_count :: nat
  fs_last_rx_t :: pyfloat
  fs_last_fault_t :: pyfloat

definition FreshnessStatus_init :: freshness_status where
  "FreshnessStatus_init =
     \<lparr>fs_is_online = False, fs_is_stale = True, fs_rx_count = 0, fs_timeout_count = 0,
      fs_decode_error_count = 0, fs_last_rx_t = Fin 0, fs_last_fault_t = Fin 0\<rparr>"

record comm_manager =
  cm_timeout :: pyfloat
  cm_status :: freshness_status

definition BestEffortCommManager_init :: "pyfloat \<Rightarrow> comm_manager" where
  "BestEffortCommManager_init timeout = \<lparr>cm_timeout = timeout, cm_status = FreshnessStatus_init\<rparr>"

definition mark_rx :: "pyfloat option \<Rightarrow> pyfloat \<Rightarrow> comm_manager \<Rightarrow> comm_manager" where
  "mark_rx rx_time clock m =
     (let now = (case rx_time of Some t \<Rightarrow> t | None \<Rightarrow> clock); s = cm_status m
      in m\<lparr>cm_status := s\<lparr>fs_rx_count := Suc (fs_rx_count s), fs_last_rx_t := now,
            fs_is_stale := False, fs_is_online := True\<rparr>\<rparr>)"

definition mark_decode_error :: "pyfloat \<Rightarrow> comm_manager \<Rightarrow> comm_manager" where
  "mark_decode_error clock m =
     (let s = cm_status m
      in m\<lparr>cm_status := s\<lparr>fs_decode_error_count := Suc (fs_decode_error_count s),
            fs_last_fault_t := clock\<rparr>\<rparr>)"

text \<open>The status returned is the copy of the new status; a transition from fresh to stale counts.\<close>

definition update_fault_flags :: "pyfloat \<Rightarrow> comm_manager \<Rightarrow> comm_manager" where
  "update_fault_flags now m =
     (let s = cm_status m; was_stale = fs_is_stale s;
          count = (\<lambda>s'. if fs_is_stale s' \<and> \<not> was_stale
            then s'\<lparr>fs_timeout_count := Suc (fs_timeout_count s'), fs_last_fault_t := now\<rparr> else s')
      in if fle (fs_last_rx_t s) (Fin 0)
         then m\<lparr>cm_status := count (s\<lparr>fs_is_stale := True, fs_is_online := False\<rparr>)\<rparr>
         else let stale = fgt (fsub now (fs_last_rx_t s)) (cm_timeout m)
           in m\<lparr>cm_status := count (s\<lparr>fs_is_stale := stale, fs_is_online := \<not> stale\<rparr>)\<rparr>)"

definition is_fresh :: "pyfloat \<Rightarrow> comm_manager \<Rightarrow> bool \<times> comm_manager" where
  "is_fresh now m = (let m' = update_fault_flags now m in (\<not> fs_is_stale (cm_status m'), m'))"

text \<open>The calls a monitor gets, in any order.\<close>

datatype comm_event =
    Comm_rx "pyfloat option" pyfloat
  | Comm_decode_error pyfloat
  | Comm_update pyfloat

fun comm_step :: "comm_manager \<Rightarrow> comm_event \<Rightarrow> comm_manager" where
  "comm_step m (Comm_rx t c) = mark_rx t c m"
| "comm_step m (Comm_decode_error c) = mark_decode_error c m"
| "comm_step m (Comm_update now) = update_fault_flags now m"

text \<open>Online is the negation of stale, and nothing received means the initial reception time.\<close>

definition comm_inv :: "comm_manager \<Rightarrow> bool" where
  "comm_inv m \<longleftrightarrow>
     (let s = cm_status m
      in fs_is_online s = (\<not> fs_is_stale s) \<and> (fs_rx_count s = 0 \<longrightarrow> fs_last_rx_t s = Fin 0))"

lemmas comm_defs = mark_rx_def mark_decode_error_def update_fault_flags_def comm_inv_def Let_def

lemma comm_inv_init: "comm_inv (BestEffortCommManager_init timeout)"
  by (simp add: comm_inv_def BestEffortCommManager_init_def FreshnessStatus_init_def)

lemma comm_inv_step: "comm_inv m \<Longrightarrow> comm_inv (comm_step m e)"
  by (cases e) (auto simp: comm_defs split: if_splits)

lemma comm_inv_run: "comm_inv m \<Longrightarrow> comm_inv (foldl comm_step m es)"
  by (induction es arbitrary: m) (auto simp: comm_inv_step)

lemma update_stale_iff:
  "fs_is_stale (cm_status (update_fault_flags now m)) \<longleftrightarrow>
     fle (fs_last_rx_t (cm_status m)) (Fin 0) \<or> fgt (fsub now (fs_last_rx_t (cm_status m))) (cm_timeout m)"
  by (auto simp: update_fault_flags_def Let_def)

lemma update_timeout_count:
  "fs_timeout_count (cm_status (update_fault_flags now m)) = fs_timeout_count (cm_status m) +
     (if fs_is_stale (cm_status (update_fault_flags now m)) \<and> \<not> fs_is_stale (cm_status m) then 1 else 0)"
  by (auto simp: update_fault_flags_def Let_def)

section \<open>Transactions\<close>

record pending_transaction =
  pt_expected_ids :: "int set"
  pt_received_ids :: "int set"
  pt_created_t :: pyfloat
  pt_timeout :: pyfloat
  pt_event :: bool

type_synonym transaction_manager = "pending_transaction option"

definition TransactionManager_init :: transaction_manager where
  "TransactionManager_init = None"

definition start_transaction :: "int set \<Rightarrow> pyfloat \<Rightarrow> pyfloat \<Rightarrow> transaction_manager \<Rightarrow> transaction_manager" where
  "start_transaction expected_ids timeout now tm =
     Some \<lparr>pt_expected_ids = expected_ids, pt_received_ids = {}, pt_created_t = now, pt_timeout = timeout,
           pt_event = False\<rparr>"

definition transaction_mark_rx :: "int \<Rightarrow> transaction_manager \<Rightarrow> transaction_manager" where
  "transaction_mark_rx can_id tm =
     (case tm of None \<Rightarrow> None
      | Some p \<Rightarrow>
          let received = insert can_id (pt_received_ids p)
          in Some (p\<lparr>pt_received_ids := received,
               pt_event := (pt_event p \<or> pt_expected_ids p \<subseteq> received)\<rparr>))"

text \<open>\<open>wait\<close> returns whether the event is set when the wait ends, on the state at that moment.\<close>

definition transaction_wait :: "transaction_manager \<Rightarrow> bool" where
  "transaction_wait tm = (case tm of None \<Rightarrow> False | Some p \<Rightarrow> pt_event p)"

definition is_done :: "transaction_manager \<Rightarrow> bool" where
  "is_done tm = (case tm of None \<Rightarrow> False | Some p \<Rightarrow> pt_expected_ids p \<subseteq> pt_received_ids p)"

definition is_expired :: "pyfloat \<Rightarrow> transaction_manager \<Rightarrow> bool" where
  "is_expired now tm = (case tm of None \<Rightarrow> False | Some p \<Rightarrow> fgt (fsub now (pt_created_t p)) (pt_timeout p))"

definition transaction_clear :: "transaction_manager \<Rightarrow> transaction_manager" where
  "transaction_clear tm = None"

lemma transaction_run:
  "fold transaction_mark_rx ids (Some p) =
     Some (p\<lparr>pt_received_ids := pt_received_ids p \<union> set ids,
       pt_event := (pt_event p \<or> (\<exists>k < length ids. pt_expected_ids p \<subseteq> pt_received_ids p \<union> set (take (Suc k) ids)))\<rparr>)"
proof (induction ids arbitrary: p)
  case (Cons i ids)
  have "(\<exists>k < length (i # ids). pt_expected_ids p \<subseteq> pt_received_ids p \<union> set (take (Suc k) (i # ids))) \<longleftrightarrow>
      pt_expected_ids p \<subseteq> insert i (pt_received_ids p) \<or>
      (\<exists>k < length ids. pt_expected_ids p \<subseteq> insert i (pt_received_ids p) \<union> set (take (Suc k) ids))"
    by (auto simp: less_Suc_eq_0_disj)
  then show ?case using Cons.IH by (auto simp: transaction_mark_rx_def Let_def)
qed simp

section \<open>Properties\<close>


text \<open>
  A transaction's event is set exactly when some reception has completed the expected set:
  from the start of a transaction with a non-empty expected set, after receiving the identifiers
  \<open>ids\<close> in order, waiting succeeds if and only if every expected identifier is among them, which is
  also when the transaction is done.
\<close>

theorem transaction_completes:
  assumes "expected \<noteq> {}"
  shows "let tm = fold transaction_mark_rx ids (start_transaction expected timeout now tm0)
    in (transaction_wait tm \<longleftrightarrow> expected \<subseteq> set ids) \<and> (is_done tm \<longleftrightarrow> expected \<subseteq> set ids)"
proof -
  have "(\<exists>k < length ids. expected \<subseteq> set (take (Suc k) ids)) \<longleftrightarrow> expected \<subseteq> set ids"
  proof
    assume "\<exists>k < length ids. expected \<subseteq> set (take (Suc k) ids)"
    then show "expected \<subseteq> set ids" by (meson order_trans set_take_subset)
  next
    assume sub: "expected \<subseteq> set ids"
    then have "ids \<noteq> []" using assms by auto
    then have "length ids - 1 < length ids" "take (Suc (length ids - 1)) ids = ids" by auto
    then show "\<exists>k < length ids. expected \<subseteq> set (take (Suc k) ids)" using sub by metis
  qed
  then show ?thesis
    by (simp add: start_transaction_def transaction_run transaction_wait_def is_done_def Let_def)
qed

theorem transaction_completes_witness:
  "transaction_wait (fold transaction_mark_rx [0x141, 0x150, 0x142] (start_transaction {0x141, 0x142} (Fin 1) (Fin 0) None))"
  using transaction_completes [of "{0x141, 0x142}" "[0x141, 0x150, 0x142]" "Fin 1" "Fin 0" None]
  by (simp add: Let_def)

end
