(* ===== verification/Config.thy ===== *)
theory Config
  imports PyFloat
begin

text \<open>
  The configuration the other components read: the dataclasses of
  \<open>robot_controller/core/platform_config.py\<close> and \<open>robot_controller/core/config.py\<close>, and the robot
  description \<open>qhrr0_hw\<close> derives from them. The functions that fill them from YAML are in the
  theory of the configuration loader.
\<close>

section \<open>Platform configuration\<close>

record PlatformRobotAssetConfig =
  ra_model_path :: string
  ra_policy_config_dir :: string
  ra_pd_config_path :: string

record PlatformCanConfig =
  pc_interface :: string
  pc_bitrate :: int
  pc_daemon_socket :: string

record PlatformShmConfig =
  ps_mit_command :: string
  ps_aux_command :: string
  ps_operator_command :: string
  ps_control_state :: string
  ps_dashboard_state :: string

record PlatformImuConfig =
  pi_type :: string
  pi_request_id :: int
  pi_quat_id :: int
  pi_gyro_id :: int
  pi_cmd_get_quat :: int
  pi_cmd_get_gyro :: int
  pi_cmd_get_all :: int
  pi_quat_scale :: pyfloat
  pi_gyro_scale :: pyfloat
  pi_normalize_quat :: bool

record PlatformSpgMitConfig =
  pm_p_max_rad :: pyfloat
  pm_v_max_rad_s :: pyfloat
  pm_kp_max :: pyfloat
  pm_kd_max :: pyfloat
  pm_tau_max_nm :: pyfloat
  pm_feedback_position_max_rad :: pyfloat
  pm_iq_full_scale_count :: pyfloat
  pm_iq_full_scale_current_a :: pyfloat

record PlatformActuatorConfig =
  pa_name :: string
  pa_enabled :: bool
  pa_can_id :: int
  pa_mujoco_joint :: string
  pa_mujoco_actuator :: string
  pa_sign :: pyfloat
  pa_offset_rad :: pyfloat

record PlatformConfig =
  pl_path :: string
  pl_robot_name :: string
  pl_robots :: "(string \<times> PlatformRobotAssetConfig) list"
  pl_can :: PlatformCanConfig
  pl_shm :: PlatformShmConfig
  pl_imu :: PlatformImuConfig
  pl_spg_mit :: PlatformSpgMitConfig
  pl_actuators :: "PlatformActuatorConfig list"

definition enabled_actuators :: "PlatformConfig \<Rightarrow> PlatformActuatorConfig list" where
  "enabled_actuators p = filter pa_enabled (pl_actuators p)"

section \<open>Controller configuration\<close>

record ProcessConfig =
  pr_name :: string
  pr_command :: "string list"
  pr_start_order :: int
  pr_stop_order :: int
  pr_new_terminal :: bool
  pr_terminal_command :: "string list"
  pr_working_dir :: string
  pr_env :: "(string \<times> string) list"

record MitCommandShmConfig =
  mc_name :: string
  mc_target_count :: int

record RobotStateShmConfig =
  rc_name :: string
  rc_size_bytes :: int
  rc_publish_hz :: pyfloat

record OperatorCommandShmConfig =
  op_name :: string
  op_size_bytes :: int

record ShmConfig =
  sc_cleanup_stale_on_start :: bool
  sc_unlink_on_shutdown :: bool
  sc_mit_command :: MitCommandShmConfig
  sc_aux_command :: RobotStateShmConfig
  sc_operator_command :: OperatorCommandShmConfig
  sc_control_state :: RobotStateShmConfig
  sc_dashboard_state :: RobotStateShmConfig

record MotorConfig =
  mo_can_ids :: "int list"
  mo_enter_on_start :: bool
  mo_exit_on_shutdown :: bool
  mo_set_zero_on_start :: bool

record ImuConfig =
  im_enabled :: bool
  im_request_all_on_start :: bool
  im_request_all_each_tick :: bool
  im_startup_request_count :: int
  im_startup_request_delay_s :: pyfloat

record CANDaemonConfig =
  cd_rx_timeout_s :: pyfloat
  cd_tx_timeout_s :: pyfloat
  cd_join_timeout_s :: pyfloat
  cd_max_tx_queue_size :: int
  cd_send_block :: bool
  cd_send_timeout_s :: "pyfloat option"
  cd_ipc_socket_path :: string
  cd_connect_timeout_s :: pyfloat

record MitProtocolRangeConfig =
  mp_position_rad :: pyfloat
  mp_velocity_rad_s :: pyfloat
  mp_kp :: pyfloat
  mp_kd :: pyfloat
  mp_torque_ff_nm :: pyfloat
  mp_feedback_position_rad :: pyfloat

record CanConfig =
  ca_interface :: string
  ca_command_timeout_s :: pyfloat
  ca_bringup_delay_s :: pyfloat
  ca_daemon :: CANDaemonConfig
  ca_motors :: MotorConfig
  ca_imu :: ImuConfig
  ca_mit_protocol_range :: MitProtocolRangeConfig

record RobotControllerCoreConfig =
  rk_name :: string
  rk_control_hz :: pyfloat
  rk_shutdown_timeout_s :: pyfloat

record HardwareSafetyConfig =
  hw_allow_real_can :: bool
  hw_require_manual_arm :: bool
  hw_require_estop :: bool
  hw_allow_enable_on_start :: bool
  hw_allowed_can_interfaces :: "string list"

record SafetyPolicyConfig =
  sp_velocity_damping_kd :: pyfloat
  sp_damping_timeout_s :: pyfloat
  sp_command_loss_action :: string
  sp_feedback_stale_action :: string

text \<open>\<open>RuntimeModeConfig\<close> and \<open>StateMachineConfig\<close> hold one field each and are kept as that field.\<close>

record RobotControllerConfig =
  cfg_platform :: PlatformConfig
  cfg_runtime_mode :: string
  cfg_hardware :: HardwareSafetyConfig
  cfg_safety :: SafetyPolicyConfig
  cfg_enable_duration_s :: pyfloat
  cfg_robot_controller :: RobotControllerCoreConfig
  cfg_shm :: ShmConfig
  cfg_can :: CanConfig
  cfg_processes :: "ProcessConfig list"

section \<open>The robot description\<close>

record QHRR0ActuatorSpec =
  sp_name :: string
  sp_can_id :: int
  sp_joint_index :: nat
  sp_joint_name :: string
  sp_sign :: pyfloat
  sp_offset_rad :: pyfloat
  sp_enabled :: bool

record QHRR0ImuSpec =
  mu_name :: string
  mu_request_id :: int
  mu_quat_id :: int
  mu_gyro_id :: int
  mu_cmd_get_quat :: int
  mu_cmd_get_gyro :: int
  mu_cmd_get_all :: int
  mu_quat_scale :: pyfloat
  mu_gyro_scale :: pyfloat
  mu_normalize_quat :: bool

record QHRR0RobotSpec =
  rb_actuators :: "QHRR0ActuatorSpec list"
  rb_imu :: QHRR0ImuSpec

fun specs_from :: "nat \<Rightarrow> PlatformActuatorConfig list \<Rightarrow> QHRR0ActuatorSpec list" where
  "specs_from index [] = []"
| "specs_from index (a # as) =
     (if \<not> pa_enabled a then specs_from (Suc index) as
      else \<lparr>sp_name = pa_name a, sp_can_id = pa_can_id a, sp_joint_index = index,
            sp_joint_name = pa_mujoco_joint a, sp_sign = pa_sign a, sp_offset_rad = pa_offset_rad a,
            sp_enabled = pa_enabled a\<rparr> # specs_from (Suc index) as)"

definition actuator_specs_from_platform :: "PlatformConfig \<Rightarrow> QHRR0ActuatorSpec list" where
  "actuator_specs_from_platform platform = specs_from 0 (pl_actuators platform)"

definition imu_spec_from_platform :: "PlatformConfig \<Rightarrow> QHRR0ImuSpec" where
  "imu_spec_from_platform platform =
     (let imu = pl_imu platform
      in \<lparr>mu_name = pi_type imu, mu_request_id = pi_request_id imu, mu_quat_id = pi_quat_id imu,
          mu_gyro_id = pi_gyro_id imu, mu_cmd_get_quat = pi_cmd_get_quat imu,
          mu_cmd_get_gyro = pi_cmd_get_gyro imu, mu_cmd_get_all = pi_cmd_get_all imu,
          mu_quat_scale = pi_quat_scale imu, mu_gyro_scale = pi_gyro_scale imu,
          mu_normalize_quat = pi_normalize_quat imu\<rparr>)"

definition robot_spec_from_platform :: "PlatformConfig \<Rightarrow> QHRR0RobotSpec" where
  "robot_spec_from_platform platform =
     \<lparr>rb_actuators = actuator_specs_from_platform platform, rb_imu = imu_spec_from_platform platform\<rparr>"

definition spec_can_ids :: "QHRR0ActuatorSpec list \<Rightarrow> int list" where
  "spec_can_ids specs = map sp_can_id specs"

definition joint_names :: "QHRR0ActuatorSpec list \<Rightarrow> string list" where
  "joint_names specs = map sp_joint_name specs"

text \<open>\<open>qhrr0_hw/calibration.py\<close>.\<close>

definition apply_joint_calibration :: "pyfloat \<Rightarrow> QHRR0ActuatorSpec \<Rightarrow> pyfloat" where
  "apply_joint_calibration position_rad spec = fadd (fmul (sp_sign spec) position_rad) (sp_offset_rad spec)"

definition remove_joint_calibration :: "pyfloat \<Rightarrow> QHRR0ActuatorSpec \<Rightarrow> pyfloat result" where
  "remove_joint_calibration position_rad spec = fdiv (fsub position_rad (sp_offset_rad spec)) (sp_sign spec)"

section \<open>Facts\<close>

lemma specs_from_eq:
  "map (\<lambda>s. (sp_can_id s, sp_name s, sp_joint_name s)) (specs_from i as) =
     map (\<lambda>a. (pa_can_id a, pa_name a, pa_mujoco_joint a)) (filter pa_enabled as)"
  by (induction as arbitrary: i) auto

lemma specs_can_ids:
  "spec_can_ids (actuator_specs_from_platform p) = map pa_can_id (enabled_actuators p)"
  using arg_cong [OF specs_from_eq [of 0 "pl_actuators p"], of "map fst"]
  by (simp add: spec_can_ids_def actuator_specs_from_platform_def enabled_actuators_def comp_def)

end
