(* ===== verification/Imu.thy ===== *)
theory Imu
  imports Can_Bus Comm_Manager Config
begin

text \<open>
  The E2Box IMU protocol (\<open>qhrr0_hw/imu/e2box_protocol.py\<close>) and the generic IMU driver
  (\<open>hal/hardware/can/imu/driver.py\<close>, \<open>protocol.py\<close>, \<open>state.py\<close>).
\<close>

section \<open>Pose state and protocol\<close>

type_synonym quat = "pyfloat \<times> pyfloat \<times> pyfloat \<times> pyfloat"
type_synonym vec3 = "pyfloat \<times> pyfloat \<times> pyfloat"

record pose_state =
  po_quat_xyzw :: "quat option"
  po_angular_velocity_rad_s :: "vec3 option"
  po_projected_gravity_b :: "vec3 option"
  po_last_quat_t :: pyfloat
  po_last_gyro_t :: pyfloat

definition RobotPoseState_init :: pose_state where
  "RobotPoseState_init =
     \<lparr>po_quat_xyzw = None, po_angular_velocity_rad_s = None, po_projected_gravity_b = None,
      po_last_quat_t = Fin 0, po_last_gyro_t = Fin 0\<rparr>"

record e2box_protocol =
  eb_request_id :: int
  eb_quat_id :: int
  eb_gyro_id :: int
  eb_cmd_get_quat :: int
  eb_cmd_get_gyro :: int
  eb_cmd_get_all :: int
  eb_quat_scale :: pyfloat
  eb_gyro_scale :: pyfloat
  eb_normalize_quat :: bool

definition imu_rx_can_ids :: "e2box_protocol \<Rightarrow> int list" where
  "imu_rx_can_ids p = [eb_quat_id p, eb_gyro_id p]"

text \<open>\<open>bytes([cmd])\<close> raises on a value that is no byte.\<close>

definition request_frame :: "e2box_protocol \<Rightarrow> int \<Rightarrow> can_frame result" where
  "request_frame p cmd =
     (if 0 \<le> cmd \<and> cmd < 256 then Inr \<lparr>fr_can_id = eb_request_id p, fr_data = [word_of_int cmd]\<rparr>
      else Inl (ValueError ''bytes must be in range(0, 256)''))"

definition encode_request_quat :: "e2box_protocol \<Rightarrow> can_frame result" where
  "encode_request_quat p = request_frame p (eb_cmd_get_quat p)"

definition encode_request_gyro :: "e2box_protocol \<Rightarrow> can_frame result" where
  "encode_request_gyro p = request_frame p (eb_cmd_get_gyro p)"

definition encode_request_all :: "e2box_protocol \<Rightarrow> can_frame result" where
  "encode_request_all p = request_frame p (eb_cmd_get_all p)"

definition normalize_quat :: "quat \<Rightarrow> quat result" where
  "normalize_quat q =
     (case q of (qx, qy, qz, qw) \<Rightarrow>
       bindE (math_sqrt (fadd (fadd (fadd (fmul qx qx) (fmul qy qy)) (fmul qz qz)) (fmul qw qw))) (\<lambda>n.
         if flt n (lit (1 / 10 ^ 12)) then Inr (Fin 0, Fin 0, Fin 0, Fin 1)
         else bindE (fdiv qx n) (\<lambda>x. bindE (fdiv qy n) (\<lambda>y. bindE (fdiv qz n) (\<lambda>z. bindE (fdiv qw n) (\<lambda>w.
           Inr (x, y, z, w)))))))"

definition projected_gravity_from_xyzw :: "quat \<Rightarrow> vec3" where
  "projected_gravity_from_xyzw q =
     (case q of (qx, qy, qz, qw) \<Rightarrow>
       let vx = Fin 0; vy = Fin 0; vz = Fin (- 1);
           tx = fmul (Fin 2) (fsub (fmul qy vz) (fmul qz vy));
           ty = fmul (Fin 2) (fsub (fmul qz vx) (fmul qx vz));
           tz = fmul (Fin 2) (fsub (fmul qx vy) (fmul qy vx));
           vpx = fadd (fsub vx (fmul qw tx)) (fsub (fmul qy tz) (fmul qz ty));
           vpy = fadd (fsub vy (fmul qw ty)) (fsub (fmul qz tx) (fmul qx tz));
           vpz = fadd (fsub vz (fmul qw tz)) (fsub (fmul qx ty) (fmul qy tx))
       in (vpy, vpx, vpz))"

definition raw_i16 :: "byte list \<Rightarrow> nat \<Rightarrow> int" where
  "raw_i16 data k = le_sint (slice (2 * k) (2 * k + 2) data)"

definition decode_quat :: "e2box_protocol \<Rightarrow> pyfloat \<Rightarrow> byte list \<Rightarrow> pose_state result" where
  "decode_quat p now data =
     (if length data \<noteq> 8 then Inl (ValueError ''Quaternion payload must be 8 bytes'')
      else bindE (fdiv (float_of_int (raw_i16 data 0)) (eb_quat_scale p)) (\<lambda>qz.
        bindE (fdiv (float_of_int (raw_i16 data 1)) (eb_quat_scale p)) (\<lambda>qy.
        bindE (fdiv (float_of_int (raw_i16 data 2)) (eb_quat_scale p)) (\<lambda>qx.
        bindE (fdiv (float_of_int (raw_i16 data 3)) (eb_quat_scale p)) (\<lambda>qw.
        bindE (if eb_normalize_quat p then normalize_quat (fneg qx, qy, qz, qw)
               else Inr (fneg qx, qy, qz, qw)) (\<lambda>quat_xyzw.
          Inr (RobotPoseState_init
            \<lparr>po_quat_xyzw := Some quat_xyzw,
             po_projected_gravity_b := Some (projected_gravity_from_xyzw quat_xyzw),
             po_last_quat_t := now\<rparr>)))))))"

definition gyro_rad :: "pyfloat \<Rightarrow> int \<Rightarrow> pyfloat result" where
  "gyro_rad scale raw =
     bindE (fdiv (float_of_int raw) scale) (\<lambda>v. fdiv (fmul v math_pi) (Fin 180))"

text \<open>The x and y axes of the sensor are swapped.\<close>

definition decode_gyro :: "e2box_protocol \<Rightarrow> pyfloat \<Rightarrow> byte list \<Rightarrow> pose_state result" where
  "decode_gyro p now data =
     (if length data \<noteq> 8 then Inl (ValueError ''Gyro payload must be 8 bytes'')
      else bindE (gyro_rad (eb_gyro_scale p) (raw_i16 data 0)) (\<lambda>gx.
        bindE (gyro_rad (eb_gyro_scale p) (raw_i16 data 1)) (\<lambda>gy.
        bindE (gyro_rad (eb_gyro_scale p) (raw_i16 data 2)) (\<lambda>gz.
          Inr (RobotPoseState_init
            \<lparr>po_angular_velocity_rad_s := Some (gy, gx, gz), po_last_gyro_t := now\<rparr>)))))"

definition imu_decode_frame :: "e2box_protocol \<Rightarrow> pyfloat \<Rightarrow> can_frame \<Rightarrow> pose_state option result" where
  "imu_decode_frame p now frame =
     (if fr_can_id frame = eb_quat_id p then bindE (decode_quat p now (fr_data frame)) (\<lambda>s. Inr (Some s))
      else if fr_can_id frame = eb_gyro_id p then bindE (decode_gyro p now (fr_data frame)) (\<lambda>s. Inr (Some s))
      else Inr None)"

text \<open>\<open>IMUProtocolBase\<close>'s classification, which the E2Box protocol does not override.\<close>

definition is_quat_frame :: "e2box_protocol \<Rightarrow> can_frame \<Rightarrow> bool" where
  "is_quat_frame p frame = False"

definition is_gyro_frame :: "e2box_protocol \<Rightarrow> can_frame \<Rightarrow> bool" where
  "is_gyro_frame p frame = False"

section \<open>The driver\<close>

record imu_driver =
  id_name :: string
  id_protocol :: e2box_protocol
  id_quat_comm :: comm_manager
  id_gyro_comm :: comm_manager
  id_state :: pose_state

definition IMUDriver_init :: "string \<Rightarrow> e2box_protocol \<Rightarrow> pyfloat \<Rightarrow> pyfloat \<Rightarrow> imu_driver" where
  "IMUDriver_init name protocol quat_timeout gyro_timeout =
     \<lparr>id_name = name, id_protocol = protocol, id_quat_comm = BestEffortCommManager_init quat_timeout,
      id_gyro_comm = BestEffortCommManager_init gyro_timeout, id_state = RobotPoseState_init\<rparr>"

definition imu_merge_state :: "pose_state \<Rightarrow> imu_driver \<Rightarrow> imu_driver" where
  "imu_merge_state partial d =
     (let d1 = (case po_quat_xyzw partial of None \<Rightarrow> d
         | Some q \<Rightarrow> d\<lparr>id_state := (id_state d)
             \<lparr>po_quat_xyzw := Some q, po_projected_gravity_b := po_projected_gravity_b partial,
              po_last_quat_t := po_last_quat_t partial\<rparr>,
             id_quat_comm := mark_rx (Some (po_last_quat_t partial)) (Fin 0) (id_quat_comm d)\<rparr>)
      in case po_angular_velocity_rad_s partial of None \<Rightarrow> d1
         | Some w \<Rightarrow> d1\<lparr>id_state := (id_state d1)
             \<lparr>po_angular_velocity_rad_s := Some w, po_last_gyro_t := po_last_gyro_t partial\<rparr>,
             id_gyro_comm := mark_rx (Some (po_last_gyro_t partial)) (Fin 0) (id_gyro_comm d1)\<rparr>)"

definition imu_mark_decode_error :: "pyfloat \<Rightarrow> pyfloat \<Rightarrow> can_frame \<Rightarrow> imu_driver \<Rightarrow> imu_driver" where
  "imu_mark_decode_error now now' frame d =
     (if is_quat_frame (id_protocol d) frame
      then d\<lparr>id_quat_comm := mark_decode_error now (id_quat_comm d)\<rparr>
      else if is_gyro_frame (id_protocol d) frame
      then d\<lparr>id_gyro_comm := mark_decode_error now (id_gyro_comm d)\<rparr>
      else if fr_can_id frame \<in> set (imu_rx_can_ids (id_protocol d))
      then d\<lparr>id_quat_comm := mark_decode_error now (id_quat_comm d),
             id_gyro_comm := mark_decode_error now' (id_gyro_comm d)\<rparr>
      else d)"

definition imu_on_frame :: "pyfloat \<Rightarrow> pyfloat \<Rightarrow> can_frame \<Rightarrow> imu_driver \<Rightarrow> imu_driver" where
  "imu_on_frame now now' frame d =
     (case imu_decode_frame (id_protocol d) now frame of
        Inl _ \<Rightarrow> imu_mark_decode_error now now' frame d
      | Inr None \<Rightarrow> d
      | Inr (Some partial) \<Rightarrow> imu_merge_state partial d)"

definition imu_update_fault_flags :: "pyfloat \<Rightarrow> pyfloat \<Rightarrow> imu_driver \<Rightarrow> imu_driver" where
  "imu_update_fault_flags now now' d =
     d\<lparr>id_quat_comm := update_fault_flags now (id_quat_comm d),
       id_gyro_comm := update_fault_flags now' (id_gyro_comm d)\<rparr>"

definition imu_is_fresh :: "pyfloat \<Rightarrow> pyfloat \<Rightarrow> imu_driver \<Rightarrow> bool \<times> imu_driver" where
  "imu_is_fresh now now' d =
     (let d' = imu_update_fault_flags now now' d
      in (\<not> fs_is_stale (cm_status (id_quat_comm d')) \<and> \<not> fs_is_stale (cm_status (id_gyro_comm d')), d'))"

definition make_request_all_frame :: "imu_driver \<Rightarrow> can_frame result" where
  "make_request_all_frame d = encode_request_all (id_protocol d)"

definition make_request_quat_frame :: "imu_driver \<Rightarrow> can_frame result" where
  "make_request_quat_frame d = encode_request_quat (id_protocol d)"

definition make_request_gyro_frame :: "imu_driver \<Rightarrow> can_frame result" where
  "make_request_gyro_frame d = encode_request_gyro (id_protocol d)"

section \<open>Bounded values\<close>

lemma bounded_fround:
  assumes "\<bar>x\<bar> \<le> B" and "1 \<le> B" and "B \<le> 2 ^ 900"
  shows "bounded_by (2 * B) (fround x)"
proof -
  have "(2::real) ^ 900 \<le> fbound 1023" unfolding fbound_def by (intro power_increasing) auto
  then have f: "fround x = Fin (rnd 53 (-1074) x)" using assms by (intro fround_finite) linarith
  have "\<bar>x\<bar> / 2 ^ 53 \<le> B / 2" using assms by (simp add: field_simps)
  moreover have "tiny \<le> 1 / 2" using tiny_le by (rule order_trans) simp
  ultimately have "\<bar>rnd 53 (-1074) x\<bar> \<le> 2 * B" using rnd64_error [of x] assms(1,2) by linarith
  with f show ?thesis by (simp add: bounded_by_def)
qed

lemma bounded_fadd:
  assumes "bounded_by A a" "bounded_by B b" "1 \<le> A" "1 \<le> B" "A + B \<le> 2 ^ 900"
  shows "bounded_by (2 * (A + B)) (fadd a b)"
proof -
  from assms(1,2) obtain x y where r: "a = Fin x" "\<bar>x\<bar> \<le> A" "b = Fin y" "\<bar>y\<bar> \<le> B" by (auto simp: bounded_by_def)
  have "bounded_by (2 * (A + B)) (fround (x + y))"
    by (rule bounded_fround) (use r assms in linarith)+
  with r show ?thesis by simp
qed

lemma bounded_fsub:
  assumes "bounded_by A a" "bounded_by B b" "1 \<le> A" "1 \<le> B" "A + B \<le> 2 ^ 900"
  shows "bounded_by (2 * (A + B)) (fsub a b)"
  using bounded_fadd [of A a B "fneg b"] assms by (simp add: fsub_def)

lemma bounded_fmul:
  assumes "bounded_by A a" "bounded_by B b" "1 \<le> A" "1 \<le> B" "A * B \<le> 2 ^ 900"
  shows "bounded_by (2 * (A * B)) (fmul a b)"
proof -
  from assms(1,2) obtain x y where r: "a = Fin x" "\<bar>x\<bar> \<le> A" "b = Fin y" "\<bar>y\<bar> \<le> B" by (auto simp: bounded_by_def)
  have "\<bar>x * y\<bar> \<le> A * B" unfolding abs_mult using r assms by (intro mult_mono) auto
  moreover have "1 \<le> A * B" using mult_mono [of 1 A 1 B] assms by simp
  ultimately have "bounded_by (2 * (A * B)) (fround (x * y))" using assms(5) by (intro bounded_fround)
  with r show ?thesis by simp
qed

lemma bounded_fdiv:
  assumes "bounded_by A a" "v = Fin r" "1 / C \<le> r" "1 \<le> C" "1 \<le> A" "A * C \<le> 2 ^ 900"
  shows "\<exists>q. fdiv a v = Inr q \<and> bounded_by (2 * (A * C)) q"
proof -
  from assms(1) obtain x where x: "a = Fin x" "\<bar>x\<bar> \<le> A" by (auto simp: bounded_by_def)
  have r: "0 < r" using assms(3,4) by (smt (verit) divide_pos_pos)
  have "1 / r \<le> C" using assms(3,4) r by (simp add: field_simps)
  then have "\<bar>x\<bar> * (1 / r) \<le> A * C" using x assms r by (intro mult_mono) auto
  then have "\<bar>x / r\<bar> \<le> A * C" using r by (simp add: abs_divide)
  moreover have "1 \<le> A * C" using mult_mono [of 1 A 1 C] assms by simp
  ultimately have "bounded_by (2 * (A * C)) (fround (x / r))" using assms(6) by (intro bounded_fround)
  with x r assms(2) show ?thesis by simp
qed

section \<open>Normalisation\<close>

abbreviation r64 :: "real \<Rightarrow> real" where
  "r64 \<equiv> rnd 53 (-1074)"

lemma r64_idem: "r64 (r64 x) = r64 x"
  by (intro rnd_on_grid on_grid_rnd) simp

lemma r64_add_ge:
  assumes "0 \<le> b"
  shows "r64 x \<le> r64 (r64 x + b)"
  using rnd_mono [of "r64 x" "r64 x + b" 53 "-1074"] assms by (simp add: r64_idem)

lemma fround_r64: "\<bar>x\<bar> \<le> 2 ^ 900 \<Longrightarrow> fround x = Fin (r64 x)"
proof -
  assume "\<bar>x\<bar> \<le> 2 ^ 900"
  moreover have "(2::real) ^ 900 \<le> fbound 1023" unfolding fbound_def by (intro power_increasing) auto
  ultimately show ?thesis by (intro fround_finite) linarith
qed

lemma r64_bounds:
  assumes "0 \<le> x"
  shows "x * (1 - 1 / 2 ^ 53) - tiny \<le> r64 x" and "r64 x \<le> 2 * x + tiny"
proof -
  have "\<bar>r64 x - x\<bar> \<le> x / 2 ^ 53 + tiny" using rnd64_error [of x] assms by simp
  moreover have "x / 2 ^ 53 \<le> x" using assms by (simp add: divide_le_eq)
  ultimately show "x * (1 - 1 / 2 ^ 53) - tiny \<le> r64 x" "r64 x \<le> 2 * x + tiny"
    by (auto simp: algebra_simps)
qed

text \<open>The sum of squares the code computes, and that it dominates each rounded square.\<close>

definition square_sum :: "real \<Rightarrow> real \<Rightarrow> real \<Rightarrow> real \<Rightarrow> real" where
  "square_sum x y z w = r64 (r64 (r64 (r64 (x * x) + r64 (y * y)) + r64 (z * z)) + r64 (w * w))"

lemma r64_sq_nonneg: "0 \<le> r64 (x * x)"
  by (intro rnd_nonneg) simp

lemma square_sum_ge:
  assumes "c \<in> {x, y, z, w}"
  shows "r64 (c * c) \<le> square_sum x y z w"
proof -
  define a where "a = r64 (x * x) + r64 (y * y)"
  define b where "b = r64 a + r64 (z * z)"
  note nn = r64_sq_nonneg
  have a: "r64 (x * x) \<le> r64 a" "r64 (y * y) \<le> r64 a"
    unfolding a_def using r64_add_ge [OF nn [of y], of "x * x"] r64_add_ge [OF nn [of x], of "y * y"]
    by (simp_all add: add.commute)
  have nna: "0 \<le> r64 a" using a(1) nn [of x] by linarith
  have b: "r64 a \<le> r64 b" "r64 (z * z) \<le> r64 b"
    unfolding b_def using r64_add_ge [OF nn [of z], of a] r64_add_ge [OF nna, of "z * z"]
    by (simp_all add: add.commute)
  have nnb: "0 \<le> r64 b" using b(1) nna by linarith
  have "r64 b \<le> square_sum x y z w" "r64 (w * w) \<le> square_sum x y z w"
    unfolding square_sum_def a_def [symmetric] b_def [symmetric]
    using r64_add_ge [OF nn [of w], of b] r64_add_ge [OF nnb, of "w * w"] by (simp_all add: add.commute)
  then show ?thesis using assms a b by auto
qed

lemma sqrt_shrink:
  fixes c :: real
  assumes "1 / 2 ^ 60 \<le> \<bar>c\<bar>" and "r64 (c * c) \<le> s"
  shows "\<bar>c\<bar> * (1 - 1 / 2 ^ 50) \<le> sqrt s"
proof (rule real_le_rsqrt)
  have c2: "(1 / 2 ^ 60) * (1 / 2 ^ 60) \<le> c * c"
    using mult_mono [OF assms(1) assms(1)] by (simp add: abs_mult_self_eq)
  have "tiny \<le> (1 / 2 ^ 60) * (1 / 2 ^ 60) / 2 ^ 53"
  proof -
    have "tiny \<le> 2 powi (- 200)" unfolding tiny_def by (intro power_int_increasing) auto
    also have "(2::real) powi (- 200) \<le> (1 / 2 ^ 60) * (1 / 2 ^ 60) / 2 ^ 53" by (simp add: power_int_minus)
    finally show ?thesis .
  qed
  also have "\<dots> \<le> c * c / 2 ^ 53" by (rule divide_right_mono [OF c2]) simp
  finally have t: "tiny \<le> c * c / 2 ^ 53" .
  have "(\<bar>c\<bar> * (1 - 1 / 2 ^ 50))\<^sup>2 = c * c * (1 - 1 / 2 ^ 50)\<^sup>2" by (simp add: power2_eq_square abs_mult_self_eq)
  also have "\<dots> \<le> c * c * (1 - 2 / 2 ^ 53)" by (intro mult_left_mono) (simp_all add: power2_eq_square)
  also have "\<dots> \<le> c * c * (1 - 1 / 2 ^ 53) - tiny" using t by (simp add: algebra_simps)
  also have "\<dots> \<le> r64 (c * c)" using r64_bounds(1) [of "c * c"] by simp
  finally show "(\<bar>c\<bar> * (1 - 1 / 2 ^ 50))\<^sup>2 \<le> s" using assms(2) by linarith
qed

lemma unit_component:
  assumes "r64 (c * c) \<le> s" and "n = r64 (sqrt s)" and "1 / 2 ^ 41 \<le> n" and "0 \<le> s"
  shows "\<bar>c\<bar> / n \<le> 1 + 1 / 2 ^ 48"
proof (cases "1 / 2 ^ 60 \<le> \<bar>c\<bar>")
  case True
  have sq: "\<bar>c\<bar> * (1 - 1 / 2 ^ 50) \<le> sqrt s" by (rule sqrt_shrink [OF True assms(1)])
  have "sqrt s * (1 - 1 / 2 ^ 53) - tiny \<le> n" using r64_bounds(1) [of "sqrt s"] assms(2,4) by simp
  moreover have "tiny \<le> \<bar>c\<bar> / 2 ^ 53"
  proof -
    have "tiny \<le> 2 powi (- 200)" unfolding tiny_def by (intro power_int_increasing) auto
    also have "(2::real) powi (- 200) \<le> (1 / 2 ^ 60) / 2 ^ 53" by (simp add: power_int_minus)
    also have "\<dots> \<le> \<bar>c\<bar> / 2 ^ 53" by (rule divide_right_mono [OF True]) simp
    finally show ?thesis .
  qed
  moreover have "\<bar>c\<bar> * (1 - 1 / 2 ^ 50) * (1 - 1 / 2 ^ 53) \<le> sqrt s * (1 - 1 / 2 ^ 53)"
    by (rule mult_right_mono [OF sq]) simp
  ultimately have "\<bar>c\<bar> * (1 - 1 / 2 ^ 50) * (1 - 1 / 2 ^ 53) - \<bar>c\<bar> / 2 ^ 53 \<le> n" by linarith
  then have "\<bar>c\<bar> * ((1 - 1 / 2 ^ 50) * (1 - 1 / 2 ^ 53) - 1 / 2 ^ 53) \<le> n" by (simp add: algebra_simps)
  moreover have "\<bar>c\<bar> * (1 - 1 / 2 ^ 49) \<le> \<bar>c\<bar> * ((1 - 1 / 2 ^ 50) * (1 - 1 / 2 ^ 53) - 1 / 2 ^ 53)"
    by (rule mult_left_mono) simp_all
  ultimately have "\<bar>c\<bar> * (1 - 1 / 2 ^ 49) \<le> n" by linarith
  then have "\<bar>c\<bar> * (1 - 1 / 2 ^ 49) * (1 + 1 / 2 ^ 48) \<le> n * (1 + 1 / 2 ^ 48)" by (rule mult_right_mono) simp
  moreover have "\<bar>c\<bar> * 1 \<le> \<bar>c\<bar> * ((1 - 1 / 2 ^ 49) * (1 + 1 / 2 ^ 48))" by (rule mult_left_mono) simp_all
  ultimately have "\<bar>c\<bar> \<le> n * (1 + 1 / 2 ^ 48)" by (simp add: mult.assoc)
  moreover have "0 < n" using assms(3) by (rule less_le_trans [rotated]) simp
  ultimately show ?thesis by (simp add: divide_le_eq mult.commute)
next
  case False
  have n: "0 < n" using assms(3) by (rule less_le_trans [rotated]) simp
  have "\<bar>c\<bar> \<le> 1 / 2 ^ 41" using False by simp
  then have "\<bar>c\<bar> / n \<le> 1" using n assms(3) by (simp add: divide_le_eq)
  then show ?thesis by (rule order_trans) simp
qed

lemma small_limit:
  obtains l where "lit (1 / 10 ^ 12) = Fin l" and "1 / 2 ^ 41 \<le> l"
proof -
  have "\<bar>r64 (1 / 10 ^ 12) - 1 / 10 ^ 12\<bar> \<le> (1 / 10 ^ 12) / 2 ^ 53 + 1 / 2 ^ 100"
    using rnd64_error [of "1 / 10 ^ 12"] tiny_le by simp
  moreover have "1 / 2 ^ 41 + ((1 / 10 ^ 12) / 2 ^ 53 + 1 / 2 ^ 100) \<le> (1 / 10 ^ 12 :: real)" by simp
  ultimately have "1 / 2 ^ 41 \<le> r64 (1 / 10 ^ 12)" by linarith
  moreover have "lit (1 / 10 ^ 12) = Fin (r64 (1 / 10 ^ 12))"
    unfolding lit_def by (rule fround_r64) (simp add: self_le_power)
  ultimately show thesis by (rule that [rotated])
qed

lemma r64_le_2: "0 \<le> x \<Longrightarrow> x \<le> B \<Longrightarrow> 1 \<le> B \<Longrightarrow> 0 \<le> r64 x \<and> r64 x \<le> 4 * B"
  using r64_bounds(2) [of x] rnd_nonneg [of x 53 "-1074"] order_trans [OF tiny_le, of 1] by simp

lemma square_sum_eval:
  assumes "\<bar>x\<bar> \<le> 2 ^ 17" "\<bar>y\<bar> \<le> 2 ^ 17" "\<bar>z\<bar> \<le> 2 ^ 17" "\<bar>w\<bar> \<le> 2 ^ 17"
  shows "fadd (fadd (fadd (fmul (Fin x) (Fin x)) (fmul (Fin y) (Fin y))) (fmul (Fin z) (Fin z)))
      (fmul (Fin w) (Fin w)) = Fin (square_sum x y z w)"
    and "0 \<le> square_sum x y z w" and "square_sum x y z w \<le> 2 ^ 50"
proof -
  have sq: "0 \<le> r64 (c * c) \<and> r64 (c * c) \<le> 2 ^ 36 \<and> fround (c * c) = Fin (r64 (c * c))"
    if "\<bar>c\<bar> \<le> 2 ^ 17" for c :: real
  proof -
    have "\<bar>c\<bar> * \<bar>c\<bar> \<le> 2 ^ 17 * 2 ^ 17" using that by (intro mult_mono) auto
    then have c: "c * c \<le> 2 ^ 34" by (simp add: abs_mult_self_eq)
    have "(2::real) ^ 34 \<le> 2 ^ 900" by (intro power_increasing) auto
    then have "fround (c * c) = Fin (r64 (c * c))" using c by (intro fround_r64) simp
    then show ?thesis using r64_le_2 [of "c * c" "2 ^ 34"] c by simp
  qed
  have step: "0 \<le> r64 (a + b) \<and> r64 (a + b) \<le> 4 * (A + B) \<and> fround (a + b) = Fin (r64 (a + b))"
    if "0 \<le> a" "a \<le> A" "0 \<le> b" "b \<le> B" "1 \<le> A + B" "A + B \<le> 2 ^ 60" for a b A B :: real
  proof -
    have "(2::real) ^ 60 \<le> 2 ^ 900" by (intro power_increasing) auto
    then have "fround (a + b) = Fin (r64 (a + b))" using that by (intro fround_r64) simp
    then show ?thesis using r64_le_2 [of "a + b" "A + B"] that by simp
  qed
  note s = sq [OF assms(1)] sq [OF assms(2)] sq [OF assms(3)] sq [OF assms(4)]
  note s1 = step [of "r64 (x * x)" "2 ^ 36" "r64 (y * y)" "2 ^ 36"]
  note s2 = step [of "r64 (r64 (x * x) + r64 (y * y))" "2 ^ 39" "r64 (z * z)" "2 ^ 36"]
  note s3 = step [of "r64 (r64 (r64 (x * x) + r64 (y * y)) + r64 (z * z))" "2 ^ 42" "r64 (w * w)" "2 ^ 36"]
  have 1: "0 \<le> r64 (r64 (x * x) + r64 (y * y)) \<and> r64 (r64 (x * x) + r64 (y * y)) \<le> 2 ^ 39" using s s1 by simp
  have 2: "0 \<le> r64 (r64 (r64 (x * x) + r64 (y * y)) + r64 (z * z)) \<and>
      r64 (r64 (r64 (x * x) + r64 (y * y)) + r64 (z * z)) \<le> 2 ^ 42" using s 1 s2 by simp
  show "fadd (fadd (fadd (fmul (Fin x) (Fin x)) (fmul (Fin y) (Fin y))) (fmul (Fin z) (Fin z)))
      (fmul (Fin w) (Fin w)) = Fin (square_sum x y z w)"
    using s s1 s2 s3 1 2 by (simp add: square_sum_def)
  show "0 \<le> square_sum x y z w" "square_sum x y z w \<le> 2 ^ 50"
    unfolding square_sum_def using s s3 2 by simp_all
qed

lemma normalised_component:
  assumes "\<bar>c\<bar> / n \<le> 1 + 1 / 2 ^ 48" and "0 < n"
  shows "fdiv (Fin c) (Fin n) = Inr (Fin (r64 (c / n)))" and "\<bar>r64 (c / n)\<bar> \<le> 1 + 1 / 2 ^ 47"
proof -
  have c: "\<bar>c / n\<bar> \<le> 1 + 1 / 2 ^ 48" using assms by (simp add: abs_divide)
  have "(1::real) + 1 / 2 ^ 48 \<le> 2 ^ 900" by (rule order_trans [of _ "2 ^ 1"], simp, intro power_increasing) auto
  then have "fround (c / n) = Fin (r64 (c / n))" using c by (intro fround_r64) linarith
  then show "fdiv (Fin c) (Fin n) = Inr (Fin (r64 (c / n)))" using assms(2) by simp
  have "\<bar>c / n\<bar> / 2 ^ 53 \<le> (1 + 1 / 2 ^ 48) / 2 ^ 53" by (rule divide_right_mono [OF c]) simp
  moreover have "(1::real) + 1 / 2 ^ 48 + ((1 + 1 / 2 ^ 48) / 2 ^ 53 + 1 / 2 ^ 100) \<le> 1 + 1 / 2 ^ 47" by simp
  ultimately show "\<bar>r64 (c / n)\<bar> \<le> 1 + 1 / 2 ^ 47" using rnd64_error [of "c / n"] tiny_le c by linarith
qed

lemma normalize_quat_bounded:
  assumes "\<bar>x\<bar> \<le> 2 ^ 17" "\<bar>y\<bar> \<le> 2 ^ 17" "\<bar>z\<bar> \<le> 2 ^ 17" "\<bar>w\<bar> \<le> 2 ^ 17"
  shows "\<exists>a b c d. normalize_quat (Fin x, Fin y, Fin z, Fin w) = Inr (Fin a, Fin b, Fin c, Fin d) \<and>
    \<bar>a\<bar> \<le> 1 + 1 / 2 ^ 47 \<and> \<bar>b\<bar> \<le> 1 + 1 / 2 ^ 47 \<and> \<bar>c\<bar> \<le> 1 + 1 / 2 ^ 47 \<and> \<bar>d\<bar> \<le> 1 + 1 / 2 ^ 47"
proof -
  define s where "s = square_sum x y z w"
  note ev = square_sum_eval [OF assms, folded s_def]
  have "sqrt s \<le> 2 ^ 900"
  proof -
    have "sqrt s \<le> sqrt ((2 ^ 25)\<^sup>2)" using ev(3) by (intro real_sqrt_le_mono) simp
    also have "\<dots> = 2 ^ 25" by (rule real_sqrt_unique) simp_all
    also have "\<dots> \<le> (2::real) ^ 900" by (intro power_increasing) auto
    finally show ?thesis .
  qed
  then have n: "math_sqrt (Fin s) = Inr (Fin (r64 (sqrt s)))" using ev(2) by (simp add: fround_r64)
  obtain l where l: "lit (1 / 10 ^ 12) = Fin l" "1 / 2 ^ 41 \<le> l" by (rule small_limit)
  show ?thesis
  proof (cases "r64 (sqrt s) < l")
    case True
    then show ?thesis unfolding normalize_quat_def by (simp only: prod.case ev(1) n bindE_Inr l flt.simps if_True) simp
  next
    case False
    then have n41: "1 / 2 ^ 41 \<le> r64 (sqrt s)" using l(2) by linarith
    then have pos: "0 < r64 (sqrt s)" by (rule less_le_trans [rotated]) simp
    have unit: "\<bar>c\<bar> / r64 (sqrt s) \<le> 1 + 1 / 2 ^ 48" if "c \<in> {x, y, z, w}" for c
      using unit_component [OF square_sum_ge [OF that, folded s_def] refl n41 ev(2)] .
    note u = normalised_component [OF unit pos]
    show ?thesis
      unfolding normalize_quat_def
      by (simp only: prod.case ev(1) n bindE_Inr l flt.simps False if_False u(1) insert_iff simp_thms)
        (use u(2) in blast)
  qed
qed

lemma projected_gravity_finite:
  assumes "bounded_by 2 qx" "bounded_by 2 qy" "bounded_by 2 qz" "bounded_by 2 qw"
  shows "case projected_gravity_from_xyzw (qx, qy, qz, qw) of (a, b, c) \<Rightarrow>
    bounded_by (2 ^ 14) a \<and> bounded_by (2 ^ 14) b \<and> bounded_by (2 ^ 14) c"
proof -
  have big: "(B::real) \<le> 2 ^ 900" if "B \<le> 2 ^ 20" for B
    using that power_increasing [of 20 900 "2::real"] by linarith
  have unit: "bounded_by 1 (Fin 0)" "bounded_by 1 (Fin (- 1))" "bounded_by 2 (Fin 2)"
    by (simp_all add: bounded_by_def)
  have m: "bounded_by 4 (fmul a b)" if "bounded_by 2 a" "bounded_by 1 b" for a b
    using bounded_fmul [OF that] big [of 2] by simp
  have t: "bounded_by 64 (fmul (Fin 2) (fsub a b))" if "bounded_by 4 a" "bounded_by 4 b" for a b
    using bounded_fmul [OF unit(3) bounded_fsub [OF that]] big [of 8] big [of 32] by simp
  have p: "bounded_by 256 (fmul a b)" if "bounded_by 2 a" "bounded_by 64 b" for a b
    using bounded_fmul [OF that] big [of 128] by simp
  have v: "bounded_by (2 ^ 14) (fadd (fsub v a) (fsub b c))"
    if "bounded_by 1 v" "bounded_by 256 a" "bounded_by 256 b" "bounded_by 256 c" for v a b c
    by (rule bounded_mono [OF bounded_fadd [OF bounded_fsub [OF that(1,2)] bounded_fsub [OF that(3,4)]]])
      (use big [of 257] big [of 512] big [of 1538] in simp_all)
  show ?thesis
    unfolding projected_gravity_from_xyzw_def Let_def prod.case
    by (intro conjI v p t m unit assms)
qed

lemma raw_i16_bounds: "length data = 8 \<Longrightarrow> k < 4 \<Longrightarrow> \<bar>raw_i16 data k\<bar> \<le> 32768"
proof -
  assume "length data = 8" "k < 4"
  define bs where "bs = slice (2 * k) (2 * k + 2) data"
  with \<open>length data = 8\<close> \<open>k < 4\<close> have len: "length bs = 2" by (simp add: slice_def)
  then have "0 \<le> le_uint bs" "le_uint bs < 65536" using le_uint_bounds [of bs] by simp_all
  then show ?thesis unfolding raw_i16_def bs_def [symmetric] by (simp add: le_sint_def len to_signed_def)
qed

lemma scaled_raw:
  assumes "\<bar>n\<bar> \<le> 32768" and "1 \<le> sc"
  obtains q where "fdiv (float_of_int n) (Fin sc) = Inr (Fin q)" and "\<bar>q\<bar> \<le> 2 ^ 17"
proof -
  have "float_of_int n = Fin (of_int n)" using assms(1) by (intro float_of_int_exact) simp
  moreover have "bounded_by 32768 (Fin (of_int n))" using assms(1) by (simp add: bounded_by_def)
  moreover have "(32768::real) \<le> 2 ^ 900" by (rule order_trans [of _ "2 ^ 15"], simp, intro power_increasing) auto
  ultimately obtain v where "fdiv (float_of_int n) (Fin sc) = Inr v" "bounded_by 65536 v"
    using bounded_fdiv [of 32768 "Fin (of_int n)" "Fin sc" sc 1] assms(2) by auto
  then show thesis using that by (auto simp: bounded_by_def)
qed

section \<open>Properties\<close>


definition demo_e2box :: e2box_protocol where
  "demo_e2box =
     \<lparr>eb_request_id = 0x221, eb_quat_id = 0x2A1, eb_gyro_id = 0x321, eb_cmd_get_quat = 1,
      eb_cmd_get_gyro = 2, eb_cmd_get_all = 3, eb_quat_scale = Fin 10000, eb_gyro_scale = Fin 100,
      eb_normalize_quat = True\<rparr>"


text \<open>
  The two monitors of the driver are told apart by \<open>is_quat_frame\<close> and \<open>is_gyro_frame\<close>, which are
  always false: a malformed quaternion frame is counted against the gyro monitor too.
\<close>

lemma decode_error_marks_both:
  assumes "fr_can_id frame = eb_quat_id (id_protocol d)" and "length (fr_data frame) \<noteq> 8"
  shows "imu_on_frame now now' frame d =
    d\<lparr>id_quat_comm := mark_decode_error now (id_quat_comm d),
      id_gyro_comm := mark_decode_error now' (id_gyro_comm d)\<rparr>"
  using assms
  by (simp add: imu_on_frame_def imu_decode_frame_def decode_quat_def imu_mark_decode_error_def
      is_quat_frame_def is_gyro_frame_def imu_rx_can_ids_def)

end
