(* ===== verification/Env.thy ===== *)
theory Env
  imports Shm_Os PyVal
begin

text \<open>
  The environment of the controller process: the clocks, the shared memory, and the connection to
  the CAN daemon. What the environment will do is unconstrained: the successive clock readings, the
  outcome of every connection attempt and every answer of the daemon are arbitrary sequences, read
  at a position the state keeps. The log of requests is what the process has done to the outside.
\<close>

record env =
  env_monotonic :: "nat \<Rightarrow> pyfloat"
  env_mono_reads :: nat
  env_unix :: "nat \<Rightarrow> pyfloat"
  env_unix_reads :: nat
  env_time_ns :: "nat \<Rightarrow> int"
  env_ns_reads :: nat
  env_shm :: shm_os
  env_connects :: "nat \<Rightarrow> unit result"
  env_connect_count :: nat
  env_answers :: "nat \<Rightarrow> pyval result"
  env_requests :: "pyval list"

definition time_monotonic :: "env \<Rightarrow> pyfloat \<times> env" where
  "time_monotonic e =
     (env_monotonic e (env_mono_reads e), e\<lparr>env_mono_reads := Suc (env_mono_reads e)\<rparr>)"

definition time_unix :: "env \<Rightarrow> pyfloat \<times> env" where
  "time_unix e = (env_unix e (env_unix_reads e), e\<lparr>env_unix_reads := Suc (env_unix_reads e)\<rparr>)"

definition time_ns :: "env \<Rightarrow> int \<times> env" where
  "time_ns e = (env_time_ns e (env_ns_reads e), e\<lparr>env_ns_reads := Suc (env_ns_reads e)\<rparr>)"

text \<open>Write one message to the daemon and read its answer, or the error of the connection.\<close>

definition exchange :: "pyval \<Rightarrow> (env, pyval) action" where
  "exchange message e =
     (env_answers e (length (env_requests e)), e\<lparr>env_requests := env_requests e @ [message]\<rparr>)"

text \<open>An action on the shared memory, run in the environment.\<close>

definition shm_act :: "(shm_os, 'a) action \<Rightarrow> (env, 'a) action" where
  "shm_act a e = (case a (env_shm e) of (r, os) \<Rightarrow> (r, e\<lparr>env_shm := os\<rparr>))"

lemma time_monotonic_simps [simp]:
  "fst (time_monotonic e) = env_monotonic e (env_mono_reads e)"
  "env_requests (snd (time_monotonic e)) = env_requests e"
  "env_answers (snd (time_monotonic e)) = env_answers e"
  "env_shm (snd (time_monotonic e)) = env_shm e"
  "env_monotonic (snd (time_monotonic e)) = env_monotonic e"
  "env_mono_reads (snd (time_monotonic e)) = Suc (env_mono_reads e)"
  by (simp_all add: time_monotonic_def)

end
