(* ===== verification/Telemetry.thy ===== *)
theory Telemetry
  imports Robot_State State_Machine Imu Env
begin

text \<open>
  Telemetry (\<open>robot_controller/telemetry\<close>): the snapshot the controller takes at every tick, its
  conversion to the C structure, and the rate-limited publishers.
\<close>

section \<open>Snapshots\<close>

record ActuatorSnapshot =
  an_can_id :: int
  an_position_rad :: "pyfloat option"
  an_velocity_rad_s :: "pyfloat option"
  an_torque_nm :: "pyfloat option"
  an_current_a :: "pyfloat option"
  an_temperature_c :: "pyfloat option"
  an_fault_code :: "int option"
  an_is_enabled :: "bool option"
  an_last_feedback_t :: pyfloat
  an_age_s :: "pyfloat option"
  an_online :: bool
  an_stale :: bool

record ImuSnapshot =
  in_quat_xyzw :: "quat option"
  in_projected_gravity_b :: "vec3 option"
  in_angular_velocity_rad_s :: "vec3 option"
  in_last_quat_t :: pyfloat
  in_last_gyro_t :: pyfloat
  in_quat_online :: bool
  in_gyro_online :: bool
  in_quat_stale :: bool
  in_gyro_stale :: bool

record CommandTargetSnapshot =
  tn_can_id :: int
  tn_p_target_rad :: pyfloat
  tn_v_target_rad_s :: pyfloat
  tn_kp :: pyfloat
  tn_kd :: pyfloat
  tn_tau_target_nm :: pyfloat

record CommandOutputSnapshot =
  on_source :: string
  on_timestamp_monotonic :: pyfloat
  on_targets :: "CommandTargetSnapshot list"

record RobotSnapshot =
  rn_mode :: controller_mode
  rn_timestamp_monotonic :: pyfloat
  rn_timestamp_unix :: pyfloat
  rn_actuators :: "ActuatorSnapshot list"
  rn_imu :: ImuSnapshot
  rn_command_output :: CommandOutputSnapshot

section \<open>Conversion\<close>

definition float_or_zero :: "pyfloat option \<Rightarrow> pyfloat" where
  "float_or_zero value =
     (case value of None \<Rightarrow> Fin 0 | Some v \<Rightarrow> if \<not> isfinite v then Fin 0 else v)"

definition bool_int :: "bool \<Rightarrow> int" where
  "bool_int b = (if b then 1 else 0)"

fun quat_list :: "quat \<Rightarrow> pyfloat list" where
  "quat_list (a, b, c, d) = [a, b, c, d]"

fun vec3_list :: "vec3 \<Rightarrow> pyfloat list" where
  "vec3_list (a, b, c) = [a, b, c]"

text \<open>\<open>_fill_array\<close> into a float array of the same length.\<close>

definition fill_array :: "pyfloat list option \<Rightarrow> pyfloat list \<Rightarrow> pyfloat list" where
  "fill_array values fallback = map single (case values of None \<Rightarrow> fallback | Some vs \<Rightarrow> vs)"

definition actuator_cstruct :: "ActuatorSnapshot \<Rightarrow> actuator_state_c" where
  "actuator_cstruct item = empty_actuator_state
     \<lparr>as_can_id := c_uint 32 (an_can_id item),
      as_position_rad := single (float_or_zero (an_position_rad item)),
      as_velocity_rad_s := single (float_or_zero (an_velocity_rad_s item)),
      as_torque_nm := single (float_or_zero (an_torque_nm item)),
      as_current_a := single (float_or_zero (an_current_a item)),
      as_temperature_c := single (float_or_zero (an_temperature_c item)),
      as_fault_code := c_int 32 (case an_fault_code item of None \<Rightarrow> - 1 | Some n \<Rightarrow> n),
      as_is_enabled := c_int 32 (case an_is_enabled item of None \<Rightarrow> - 1 | Some b \<Rightarrow> bool_int b),
      as_last_feedback_t := an_last_feedback_t item,
      as_age_s := single (case an_age_s item of None \<Rightarrow> Fin (- 1) | Some a \<Rightarrow> a),
      as_online := bool_int (an_online item), as_stale := bool_int (an_stale item)\<rparr>"

definition target_cstruct :: "CommandTargetSnapshot \<Rightarrow> command_target_state_c" where
  "target_cstruct item =
     \<lparr>cs_can_id = c_uint 32 (tn_can_id item),
      cs_p_target_rad = single (float_or_zero (Some (tn_p_target_rad item))),
      cs_v_target_rad_s = single (float_or_zero (Some (tn_v_target_rad_s item))),
      cs_kp = single (float_or_zero (Some (tn_kp item))),
      cs_kd = single (float_or_zero (Some (tn_kd item))),
      cs_tau_target_nm = single (float_or_zero (Some (tn_tau_target_nm item)))\<rparr>"

text \<open>The first items of a list in the slots of an array, the remaining slots zeroed.\<close>

definition fill_slots :: "('a \<Rightarrow> 'b) \<Rightarrow> 'b \<Rightarrow> 'a list \<Rightarrow> 'b list" where
  "fill_slots f z xs =
     map f (take MAX_ROBOT_STATE_ACTUATORS xs) @ replicate (MAX_ROBOT_STATE_ACTUATORS - length xs) z"

definition snapshot_to_cstruct :: "int \<Rightarrow> RobotSnapshot \<Rightarrow> robot_state_c" where
  "snapshot_to_cstruct ns snapshot =
     (let imu = rn_imu snapshot; out = rn_command_output snapshot
      in \<lparr>rs_timestamp_ns = c_uint 64 ns,
          rs_timestamp_monotonic = rn_timestamp_monotonic snapshot,
          rs_timestamp_unix = rn_timestamp_unix snapshot,
          rs_controller_mode = c_uint 32 (mode_value (rn_mode snapshot)),
          rs_actuator_count = c_uint 32 (int (min (length (rn_actuators snapshot)) MAX_ROBOT_STATE_ACTUATORS)),
          rs_imu =
            \<lparr>is_quat_xyzw = fill_array (map_option quat_list (in_quat_xyzw imu)) [Fin 0, Fin 0, Fin 0, Fin 1],
             is_projected_gravity_b =
               fill_array (map_option vec3_list (in_projected_gravity_b imu)) [Fin 0, Fin 0, Fin (- 1)],
             is_angular_velocity_rad_s =
               fill_array (map_option vec3_list (in_angular_velocity_rad_s imu)) [Fin 0, Fin 0, Fin 0],
             is_last_quat_t = in_last_quat_t imu, is_last_gyro_t = in_last_gyro_t imu,
             is_quat_online = bool_int (in_quat_online imu), is_gyro_online = bool_int (in_gyro_online imu),
             is_quat_stale = bool_int (in_quat_stale imu), is_gyro_stale = bool_int (in_gyro_stale imu)\<rparr>,
          rs_actuators = fill_slots actuator_cstruct empty_actuator_state (rn_actuators snapshot),
          rs_command_output =
            \<lparr>co_timestamp_monotonic = on_timestamp_monotonic out,
             co_source = c_uint 32 (case map_of COMMAND_OUTPUT_SOURCE_VALUES (on_source out) of
               None \<Rightarrow> 0 | Some v \<Rightarrow> v),
             co_target_count = c_uint 32 (int (min (length (on_targets out)) MAX_ROBOT_STATE_ACTUATORS)),
             co_targets = fill_slots target_cstruct empty_command_target_state (on_targets out)\<rparr>\<rparr>)"

section \<open>Publishers\<close>

record shm_state_publisher =
  pb_writer :: shm_obj
  pb_publish_period_s :: pyfloat
  pb_last_publish_t :: pyfloat

definition ShmStatePublisher_init :: "string \<Rightarrow> pyfloat \<Rightarrow> (env, shm_state_publisher) action" where
  "ShmStatePublisher_init shm_name publish_hz =
     bindA (shm_act (RobotStateShm_open_writer shm_name)) (\<lambda>writer.
     bindA (liftA (fdiv (Fin 1) publish_hz)) (\<lambda>period.
       retA \<lparr>pb_writer = writer, pb_publish_period_s = period, pb_last_publish_t = Fin 0\<rparr>))"

definition publisher_close :: "shm_state_publisher \<Rightarrow> shm_state_publisher" where
  "publisher_close p = p\<lparr>pb_writer := segment_close (pb_writer p)\<rparr>"

definition publisher_publish ::
  "bool \<Rightarrow> RobotSnapshot \<Rightarrow> (shm_state_publisher \<times> env, unit) action" where
  "publisher_publish force snapshot st =
     (case st of (p, e) \<Rightarrow>
       (case time_monotonic e of (now, e1) \<Rightarrow>
         if \<not> force \<and> flt (fsub now (pb_last_publish_t p)) (pb_publish_period_s p) then (Inr (), (p, e1))
         else (case time_ns e1 of (ns, e2) \<Rightarrow>
           (case shm_act (RobotStateShm_write (pb_writer p) (snapshot_to_cstruct ns snapshot)) e2 of
              (Inl x, e3) \<Rightarrow> (Inl x, (p, e3))
            | (Inr _, e3) \<Rightarrow> (Inr (), (p\<lparr>pb_last_publish_t := now\<rparr>, e3))))))"

section \<open>Facts\<close>

definition snapshot_ok :: "RobotSnapshot \<Rightarrow> bool" where
  "snapshot_ok s \<longleftrightarrow>
     list_all is_float64 [rn_timestamp_monotonic s, rn_timestamp_unix s, in_last_quat_t (rn_imu s),
       in_last_gyro_t (rn_imu s), on_timestamp_monotonic (rn_command_output s)] \<and>
     list_all (\<lambda>a. is_float64 (an_last_feedback_t a) \<and> 0 \<le> an_can_id a \<and> an_can_id a < 2 ^ 32 \<and>
       (case an_fault_code a of None \<Rightarrow> True | Some n \<Rightarrow> 0 \<le> n \<and> n < 2 ^ 31)) (rn_actuators s)"

lemma fill_array_ok: "list_all is_float32 (fill_array vs fb)"
  by (simp add: fill_array_def list_all_iff)

lemma fill_array_length:
  "length (fill_array (map_option quat_list q) [a, b, c, d]) = 4"
  "length (fill_array (map_option vec3_list v) [a, b, c]) = 3"
  by (auto simp: fill_array_def split: option.splits)

lemma fill_slots_length: "length (fill_slots f z xs) = MAX_ROBOT_STATE_ACTUATORS"
  by (simp add: fill_slots_def min_def)

lemma fill_slots_all: "(\<And>x. x \<in> set xs \<Longrightarrow> P (f x)) \<Longrightarrow> P z \<Longrightarrow> list_all P (fill_slots f z xs)"
  by (auto simp: fill_slots_def list_all_iff dest: in_set_takeD)

lemma fill_slots_take:
  "take (min (length xs) MAX_ROBOT_STATE_ACTUATORS) (fill_slots f z xs) = map f (take MAX_ROBOT_STATE_ACTUATORS xs)"
  by (simp add: fill_slots_def take_map min_def)

lemma actuator_cstruct_ok:
  "is_float64 (an_last_feedback_t a) \<Longrightarrow> actuator_state_ok (actuator_cstruct a)"
  using c_uint_bounds [of 32] c_int_bounds [of 32]
  by (simp add: actuator_state_ok_def actuator_cstruct_def empty_actuator_state_def int_in_def bool_int_def)

lemma empty_slots_ok [simp]:
  "actuator_state_ok empty_actuator_state" "command_target_state_ok empty_command_target_state"
  by (simp_all add: actuator_state_ok_def empty_actuator_state_def int_in_def command_target_state_ok_def
      empty_command_target_state_def)

lemma target_cstruct_ok: "command_target_state_ok (target_cstruct t)"
  using c_uint_bounds [of 32] by (simp add: command_target_state_ok_def target_cstruct_def int_in_def)

lemma snapshot_cstruct_ok: "snapshot_ok s \<Longrightarrow> robot_state_ok (snapshot_to_cstruct ns s)"
  using c_uint_bounds [of 64 ns] c_uint_bounds [of 32]
  by (auto simp: snapshot_ok_def robot_state_ok_def snapshot_to_cstruct_def Let_def imu_state_ok_def
      command_output_state_ok_def int_in_def fill_array_ok fill_array_length fill_slots_length bool_int_def
      list_all_iff [where xs = "rn_actuators s" for s]
      intro!: fill_slots_all actuator_cstruct_ok target_cstruct_ok)

text \<open>What a reader sees of an actuator.\<close>

definition actuator_view :: "ActuatorSnapshot \<Rightarrow> pyval" where
  "actuator_view a =
     (let seen = fgt (an_last_feedback_t a) (Fin 0);
          num = (\<lambda>v. none_unless seen (PFloat (single (float_or_zero v))));
          age = single (case an_age_s a of None \<Rightarrow> Fin (- 1) | Some t \<Rightarrow> t)
      in PDict
       [(''can_id'', PInt (an_can_id a)),
        (''position_rad'', num (an_position_rad a)),
        (''velocity_rad_s'', num (an_velocity_rad_s a)),
        (''torque_nm'', num (an_torque_nm a)),
        (''current_a'', num (an_current_a a)),
        (''temperature_c'', num (an_temperature_c a)),
        (''fault_code'', case an_fault_code a of None \<Rightarrow> PNone | Some n \<Rightarrow> PInt n),
        (''is_enabled'', case an_is_enabled a of None \<Rightarrow> PNone | Some b \<Rightarrow> PBool b),
        (''last_feedback_t'', PFloat (an_last_feedback_t a)),
        (''age_s'', none_unless (\<not> flt age (Fin 0)) (PFloat age)),
        (''online'', PBool (an_online a)),
        (''stale'', PBool (an_stale a))])"

lemma actuator_view_eq:
  assumes "0 \<le> an_can_id a" "an_can_id a < 2 ^ 32"
    and "case an_fault_code a of None \<Rightarrow> True | Some n \<Rightarrow> 0 \<le> n \<and> n < 2 ^ 31"
  shows "actuator_to_dict (actuator_cstruct a) = actuator_view a"
proof -
  have "c_uint 32 (an_can_id a) = an_can_id a" using assms by (intro c_uint_id) auto
  moreover have "c_int 32 (- 1) = - 1" "c_int 32 0 = 0" "c_int 32 1 = 1" by (intro c_int_id; simp)+
  moreover have "c_int 32 n = n" if "an_fault_code a = Some n" for n using assms(3) that by (intro c_int_id) auto
  ultimately show ?thesis
    using assms(3)
    by (auto simp: actuator_to_dict_def actuator_cstruct_def actuator_view_def Let_def none_unless_def bool_int_def
        split: option.splits)
qed

lemma mode_name_value: "robot_mode_name (c_uint 32 (mode_value m)) =
    (case m of DISABLED \<Rightarrow> ''DISABLED'' | ENABLING \<Rightarrow> ''ENABLING'' | NORMAL \<Rightarrow> ''NORMAL'' | DAMPING \<Rightarrow> ''DAMPING''
     | ZERO_SETTING \<Rightarrow> ''ZERO_SETTING'' | ESTOP \<Rightarrow> ''ESTOP'')"
  by (cases m) (simp_all add: robot_mode_name_def c_uint_def)

text \<open>A forced publication puts the snapshot's structure into the segment.\<close>

lemma publisher_publish_step:
  assumes "seg_ready RobotStateC (pb_writer p) (env_shm e)" and "snapshot_ok s"
  obtains p' e' where "publisher_publish True s (p, e) = (Inr (), (p', e'))"
    and "RobotStateShm_read_relaxed (pb_writer p) (env_shm e') = Inr (snapshot_to_cstruct (env_time_ns e (env_ns_reads e)) s)"
proof -
  let ?c = "snapshot_to_cstruct (env_time_ns e (env_ns_reads e)) s"
  from robot_seg.read_after_write [OF snapshot_cstruct_ok [OF assms(2)] assms(1), of "env_time_ns e (env_ns_reads e)"]
  obtain os' where w: "RobotStateShm_write (pb_writer p) ?c (env_shm e) = (Inr (), os')" and
    r: "RobotStateShm_read_relaxed (pb_writer p) os' = Inr ?c"
    by (auto simp: RobotStateShm_write_def RobotStateShm_read_relaxed_def)
  have "\<exists>p' e'. publisher_publish True s (p, e) = (Inr (), (p', e')) \<and> env_shm e' = os'"
    using w by (simp add: publisher_publish_def time_monotonic_def time_ns_def shm_act_def)
  with r that show thesis by blast
qed

section \<open>Property\<close>


definition demo_snapshot :: RobotSnapshot where
  "demo_snapshot =
     \<lparr>rn_mode = DAMPING, rn_timestamp_monotonic = Fin 0, rn_timestamp_unix = Fin 0,
      rn_actuators = [\<lparr>an_can_id = 1, an_position_rad = None, an_velocity_rad_s = None, an_torque_nm = None,
        an_current_a = None, an_temperature_c = None, an_fault_code = Some 3, an_is_enabled = None,
        an_last_feedback_t = Fin 0, an_age_s = None, an_online = False, an_stale = True\<rparr>],
      rn_imu = \<lparr>in_quat_xyzw = None, in_projected_gravity_b = None, in_angular_velocity_rad_s = None,
        in_last_quat_t = Fin 0, in_last_gyro_t = Fin 0, in_quat_online = False, in_gyro_online = False,
        in_quat_stale = True, in_gyro_stale = True\<rparr>,
      rn_command_output = \<lparr>on_source = ''NONE'', on_timestamp_monotonic = Fin 0, on_targets = []\<rparr>\<rparr>"

definition demo_env :: env where
  "demo_env =
     \<lparr>env_monotonic = (\<lambda>k. Fin (real k)), env_mono_reads = 1, env_unix = (\<lambda>_. Fin 0), env_unix_reads = 0,
      env_time_ns = (\<lambda>k. int k + 1), env_ns_reads = 0,
      env_shm = shm_os_init\<lparr>os_mem := (\<lambda>_. replicate 16384 0)\<rparr>, env_connects = (\<lambda>_. Inr ()),
      env_connect_count = 0,
      env_answers = (\<lambda>_. Inr (PDict [(''type'', PStr ''tx_result''), (''ok'', PBool True)])), env_requests = []\<rparr>"


end
