(* ===== verification/Spg_Protocol.thy ===== *)
theory Spg_Protocol
  imports Can_Bus PyVal
begin

text \<open>
  The SPG actuator's CAN protocol (\<open>qhrr0_hw/actuators/dongilc_protocol.py\<close>) with the generic
  actuator state of the HAL (\<open>hal/hardware/can/actuator/state.py\<close>): the utility arithmetic, every
  encoder and every decoder.
\<close>

section \<open>Actuator state\<close>

record actuator_state =
  av_position_rad :: "pyfloat option"
  av_velocity_rad_s :: "pyfloat option"
  av_torque_nm :: "pyfloat option"
  av_current_a :: "pyfloat option"
  av_temperature_c :: "pyfloat option"
  av_voltage_v :: "pyfloat option"
  av_fault_code :: "int option"
  av_is_enabled :: "bool option"
  av_mode :: "string option"
  av_last_feedback_t :: pyfloat
  av_raw :: "(string \<times> pyval) list"

definition ActuatorState_init :: actuator_state where
  "ActuatorState_init =
     \<lparr>av_position_rad = None, av_velocity_rad_s = None, av_torque_nm = None, av_current_a = None,
      av_temperature_c = None, av_voltage_v = None, av_fault_code = None, av_is_enabled = None,
      av_mode = None, av_last_feedback_t = Fin 0, av_raw = []\<rparr>"

section \<open>Utility functions\<close>

definition ENC_MOD :: int where "ENC_MOD = 16384"

definition ENC_HALF :: int where "ENC_HALF = ENC_MOD div 2"

definition TWO_PI :: pyfloat where "TWO_PI = fmul (Fin 2) math_pi"

definition CNT2RAD :: pyfloat where
  "CNT2RAD = (case fdiv TWO_PI (Fin 16384) of Inr v \<Rightarrow> v | Inl _ \<Rightarrow> NaN)"

definition require_range :: "pyfloat \<Rightarrow> pyfloat \<Rightarrow> pyfloat \<Rightarrow> unit result" where
  "require_range x lo hi = guardE (\<not> (flt x lo \<or> fgt x hi)) (ValueError ''out of range'')"

definition round_half_away_from_zero :: "pyfloat \<Rightarrow> int result" where
  "round_half_away_from_zero x =
     (if fge x (Fin 0) then math_floor (fadd x (Fin (1/2))) else math_ceil (fsub x (Fin (1/2))))"

definition float_to_uint :: "pyfloat \<Rightarrow> pyfloat \<Rightarrow> pyfloat \<Rightarrow> nat \<Rightarrow> int result" where
  "float_to_uint x x_min x_max bits =
     bindE (require_range x x_min x_max) (\<lambda>_.
       let span = fsub x_max x_min; max_int = 2 ^ bits - 1
       in bindE (fdiv (fmul (fsub x x_min) (float_of_int max_int)) span) round_half_away_from_zero)"

definition wrap_u14 :: "int \<Rightarrow> int" where
  "wrap_u14 x = x AND 0x3FFF"

definition shortest_delta_u14 :: "int \<Rightarrow> int \<Rightarrow> int" where
  "shortest_delta_u14 curr_u16 prev_u16 =
     (let delta = wrap_u14 curr_u16 - wrap_u14 prev_u16
      in if delta > ENC_HALF then delta - ENC_MOD
         else if delta < - ENC_HALF then delta + ENC_MOD else delta)"

definition u14_count_to_rad :: "int \<Rightarrow> pyfloat" where
  "u14_count_to_rad cnt = fmul (float_of_int (wrap_u14 cnt)) CNT2RAD"

definition rad_to_u14_count :: "pyfloat \<Rightarrow> int result" where
  "rad_to_u14_count rad =
     bindE (fdiv (fmod_pos rad TWO_PI) TWO_PI) (\<lambda>q.
       bindE (round_half_away_from_zero (fmul q (float_of_int ENC_MOD))) (\<lambda>n. Inr (n mod ENC_MOD)))"

definition signed_u14_count_to_rad :: "int \<Rightarrow> pyfloat" where
  "signed_u14_count_to_rad cnt =
     (let value = wrap_u14 cnt
      in fmul (float_of_int (if value \<ge> ENC_HALF then value - ENC_MOD else value)) CNT2RAD)"

section \<open>Protocol data\<close>

record SPGMITConfig =
  mit_p_max :: pyfloat
  mit_v_max :: pyfloat
  mit_kp_max :: pyfloat
  mit_kd_max :: pyfloat
  mit_tau_max :: pyfloat
  mit_feedback_position_max :: pyfloat

text \<open>The dataclass's default values.\<close>

definition SPGMITConfig_default :: SPGMITConfig where
  "SPGMITConfig_default =
     \<lparr>mit_p_max = lit (25/2), mit_v_max = Fin 45, mit_kp_max = Fin 500, mit_kd_max = Fin 5,
      mit_tau_max = Fin 33, mit_feedback_position_max = lit (1256/100)\<rparr>"

record SPGMITStatus =
  ms_temp_c :: int
  ms_iq_counts :: int
  ms_speed_dps :: int
  ms_mit_position_i16 :: int

record SPGEncoderData =
  ed_temp_c :: int
  ed_encoder_position_u16 :: int
  ed_encoder_original_u16 :: int
  ed_encoder_offset_u16 :: int

record SPGMITParams =
  mq_v_max_rad_s :: int
  mq_tau_max_nm :: int
  mq_kt_out_nm_per_a :: pyfloat
  mq_gear_ratio :: pyfloat

definition CMD_MIT_CONTROL :: byte where "CMD_MIT_CONTROL = 0xC0"
definition CMD_MIT_ENTER :: byte where "CMD_MIT_ENTER = 0xC1"
definition CMD_MIT_EXIT :: byte where "CMD_MIT_EXIT = 0xC2"
definition CMD_MIT_SET_ZERO :: byte where "CMD_MIT_SET_ZERO = 0xC3"
definition CMD_READ_MIT_PARAMS :: byte where "CMD_READ_MIT_PARAMS = 0xC4"
definition CMD_WRITE_MIT_PARAMS :: byte where "CMD_WRITE_MIT_PARAMS = 0xC5"
definition CMD_READ_ENCODER_DATA :: byte where "CMD_READ_ENCODER_DATA = 0x90"
definition CMD_WRITE_CURRENT_POS_AS_ZERO :: byte where "CMD_WRITE_CURRENT_POS_AS_ZERO = 0x19"
definition CMD_WRITE_ENCODER_OFFSET :: byte where "CMD_WRITE_ENCODER_OFFSET = 0x91"
definition CMD_CLEAR_ERROR_FLAG :: byte where "CMD_CLEAR_ERROR_FLAG = 0x9B"

lemmas spg_opcodes =
  CMD_MIT_CONTROL_def CMD_MIT_ENTER_def CMD_MIT_EXIT_def CMD_MIT_SET_ZERO_def CMD_READ_MIT_PARAMS_def
  CMD_WRITE_MIT_PARAMS_def CMD_READ_ENCODER_DATA_def CMD_WRITE_CURRENT_POS_AS_ZERO_def
  CMD_WRITE_ENCODER_OFFSET_def CMD_CLEAR_ERROR_FLAG_def

record spg_protocol =
  sq_command_id :: int
  sq_feedback_id :: int
  sq_mit_config :: SPGMITConfig
  sq_gear_ratio :: pyfloat
  sq_feedback_speed_is_motor_side :: bool
  sq_expose_single_turn_position :: bool
  sq_iq_count_to_amp :: "pyfloat option"
  sq_torque_constant_nm_per_a :: "pyfloat option"
  sq_gear_efficiency :: pyfloat

definition SPGActuatorProtocol_init ::
  "int \<Rightarrow> int option \<Rightarrow> SPGMITConfig option \<Rightarrow> pyfloat \<Rightarrow> bool \<Rightarrow> bool \<Rightarrow> pyfloat option \<Rightarrow>
   pyfloat option \<Rightarrow> pyfloat \<Rightarrow> spg_protocol result" where
  "SPGActuatorProtocol_init command_id feedback_id mit_config gear_ratio feedback_speed_is_motor_side
     expose_single_turn_position iq_count_to_amp torque_constant_nm_per_a gear_efficiency =
     (if fle gear_ratio (Fin 0) then Inl (ValueError ''gear_ratio must be positive'')
      else case feedback_id of
        None \<Rightarrow> Inl (ValueError ''feedback_id must be configured explicitly'')
      | Some fid \<Rightarrow>
          (case mit_config of
             None \<Rightarrow> Inl (ValueError ''mit_config must be configured explicitly'')
           | Some cfg \<Rightarrow>
               Inr \<lparr>sq_command_id = command_id, sq_feedback_id = fid, sq_mit_config = cfg,
                    sq_gear_ratio = gear_ratio,
                    sq_feedback_speed_is_motor_side = feedback_speed_is_motor_side,
                    sq_expose_single_turn_position = expose_single_turn_position,
                    sq_iq_count_to_amp = iq_count_to_amp,
                    sq_torque_constant_nm_per_a = torque_constant_nm_per_a,
                    sq_gear_efficiency = gear_efficiency\<rparr>))"

section \<open>Encoders\<close>

definition command_frame :: "spg_protocol \<Rightarrow> byte list \<Rightarrow> can_frame" where
  "command_frame p data = \<lparr>fr_can_id = sq_command_id p, fr_data = data\<rparr>"

definition encode_enable_frame :: "spg_protocol \<Rightarrow> can_frame" where
  "encode_enable_frame p = command_frame p [CMD_MIT_ENTER, 0, 0, 0, 0, 0, 0, 0]"

definition encode_disable_frame :: "spg_protocol \<Rightarrow> can_frame" where
  "encode_disable_frame p = command_frame p [CMD_MIT_EXIT, 0, 0, 0, 0, 0, 0, 0]"

definition encode_clear_fault_frame :: "spg_protocol \<Rightarrow> can_frame" where
  "encode_clear_fault_frame p = command_frame p [CMD_CLEAR_ERROR_FLAG, 0, 0, 0, 0, 0, 0, 0]"

text \<open>A byte computed with Python integers: \<open>n & 0xFF\<close>.\<close>

definition low_byte :: "int \<Rightarrow> byte" where
  "low_byte n = word_of_int (n AND 0xFF)"

definition pack_fields :: "int \<Rightarrow> int \<Rightarrow> int \<Rightarrow> int \<Rightarrow> int \<Rightarrow> byte list" where
  "pack_fields p_u v_u kp_u kd_u t_u =
     [CMD_MIT_CONTROL,
      low_byte (drop_bit 8 p_u),
      low_byte p_u,
      low_byte (drop_bit 4 v_u),
      word_of_int (push_bit 4 (v_u AND 0x0F) OR (drop_bit 8 kp_u AND 0x0F)),
      low_byte kp_u,
      low_byte kd_u,
      low_byte t_u]"

definition pack_mit_payload ::
  "SPGMITConfig \<Rightarrow> pyfloat \<Rightarrow> pyfloat \<Rightarrow> pyfloat \<Rightarrow> pyfloat \<Rightarrow> pyfloat \<Rightarrow> byte list result" where
  "pack_mit_payload cfg position_rad velocity_rad_s kp kd torque_ff_nm =
     bindE (require_range position_rad (fneg (mit_p_max cfg)) (mit_p_max cfg)) (\<lambda>_.
     bindE (require_range velocity_rad_s (fneg (mit_v_max cfg)) (mit_v_max cfg)) (\<lambda>_.
     bindE (require_range kp (Fin 0) (mit_kp_max cfg)) (\<lambda>_.
     bindE (require_range kd (Fin 0) (mit_kd_max cfg)) (\<lambda>_.
     bindE (require_range torque_ff_nm (fneg (mit_tau_max cfg)) (mit_tau_max cfg)) (\<lambda>_.
     bindE (float_to_uint position_rad (fneg (mit_p_max cfg)) (mit_p_max cfg) 16) (\<lambda>p_u.
     bindE (float_to_uint velocity_rad_s (fneg (mit_v_max cfg)) (mit_v_max cfg) 12) (\<lambda>v_u.
     bindE (float_to_uint kp (Fin 0) (mit_kp_max cfg) 12) (\<lambda>kp_u.
     bindE (float_to_uint kd (Fin 0) (mit_kd_max cfg) 8) (\<lambda>kd_u.
     bindE (float_to_uint torque_ff_nm (fneg (mit_tau_max cfg)) (mit_tau_max cfg) 8) (\<lambda>t_u.
       Inr (pack_fields p_u v_u kp_u kd_u t_u)))))))))))"

definition encode_impedance_command_frame ::
  "spg_protocol \<Rightarrow> pyfloat \<Rightarrow> pyfloat \<Rightarrow> pyfloat \<Rightarrow> pyfloat \<Rightarrow> pyfloat \<Rightarrow> can_frame result" where
  "encode_impedance_command_frame p position_rad velocity_rad_s kp kd torque_ff_nm =
     bindE (pack_mit_payload (sq_mit_config p) position_rad velocity_rad_s kp kd torque_ff_nm)
       (\<lambda>payload. Inr (command_frame p payload))"

definition encode_torque_command_frame :: "spg_protocol \<Rightarrow> pyfloat \<Rightarrow> can_frame result" where
  "encode_torque_command_frame p torque_nm =
     bindE (pack_mit_payload (sq_mit_config p) (Fin 0) (Fin 0) (Fin 0) (Fin 0) torque_nm)
       (\<lambda>payload. Inr (command_frame p payload))"

definition pack_mit_set_zero_payload :: "pyfloat \<Rightarrow> byte list result" where
  "pack_mit_set_zero_payload offset_deg =
     bindE (round_half_away_from_zero (fmul offset_deg (Fin 100))) (\<lambda>offset_raw.
       if \<not> (- 32768 \<le> offset_raw \<and> offset_raw \<le> 32767)
       then Inl (ValueError ''is out of int16 range for 0.01 deg/LSB encoding'')
       else Inr ([CMD_MIT_SET_ZERO, 0, 0, 0, 0, 0] @ le_bytes 2 offset_raw))"

definition encode_mit_set_zero_frame :: "spg_protocol \<Rightarrow> pyfloat \<Rightarrow> can_frame result" where
  "encode_mit_set_zero_frame p offset_deg =
     bindE (pack_mit_set_zero_payload offset_deg) (\<lambda>payload. Inr (command_frame p payload))"

definition encode_zero_position_frame :: "spg_protocol \<Rightarrow> pyfloat \<Rightarrow> can_frame result" where
  "encode_zero_position_frame p offset_deg = encode_mit_set_zero_frame p offset_deg"

definition encode_read_mit_params_frame :: "spg_protocol \<Rightarrow> can_frame" where
  "encode_read_mit_params_frame p = command_frame p [CMD_READ_MIT_PARAMS, 0, 0, 0, 0, 0, 0, 0]"

definition encode_write_mit_params_frame ::
  "spg_protocol \<Rightarrow> int \<Rightarrow> int \<Rightarrow> pyfloat \<Rightarrow> pyfloat \<Rightarrow> can_frame result" where
  "encode_write_mit_params_frame p v_max_rad_s tau_max_nm kt_input_nm_per_a gear_ratio =
     (if \<not> (0 \<le> v_max_rad_s \<and> v_max_rad_s \<le> 255) then Inl (ValueError ''v_max_rad_s must fit uint8'')
      else if \<not> (0 \<le> tau_max_nm \<and> tau_max_nm \<le> 255) then Inl (ValueError ''tau_max_nm must fit uint8'')
      else bindE (round_half_away_from_zero (fmul kt_input_nm_per_a (Fin 1000))) (\<lambda>kt_raw.
        bindE (round_half_away_from_zero (fmul gear_ratio (Fin 100))) (\<lambda>gear_ratio_raw.
          if \<not> (0 \<le> kt_raw \<and> kt_raw \<le> 0xFFFF)
          then Inl (ValueError ''kt_input_nm_per_a is out of uint16 range for 0.001 Nm/A encoding'')
          else if \<not> (0 \<le> gear_ratio_raw \<and> gear_ratio_raw \<le> 0xFFFF)
          then Inl (ValueError ''gear_ratio is out of uint16 range for 0.01 encoding'')
          else Inr (command_frame p
            ([CMD_WRITE_MIT_PARAMS, low_byte v_max_rad_s, low_byte tau_max_nm] @ le_bytes 2 kt_raw @
             le_bytes 2 gear_ratio_raw @ [0])))))"

definition encode_read_encoder_data_frame :: "spg_protocol \<Rightarrow> can_frame" where
  "encode_read_encoder_data_frame p = command_frame p [CMD_READ_ENCODER_DATA, 0, 0, 0, 0, 0, 0, 0]"

definition encode_write_current_position_as_zero_frame :: "spg_protocol \<Rightarrow> can_frame" where
  "encode_write_current_position_as_zero_frame p =
     command_frame p [CMD_WRITE_CURRENT_POS_AS_ZERO, 0, 0, 0, 0, 0, 0, 0]"

definition encode_write_encoder_offset_frame :: "spg_protocol \<Rightarrow> int \<Rightarrow> can_frame" where
  "encode_write_encoder_offset_frame p offset_u16 =
     (let offset = offset_u16 AND 0xFFFF
      in command_frame p
           [CMD_WRITE_ENCODER_OFFSET, 0, 0, 0, 0, 0, low_byte offset, low_byte (drop_bit 8 offset)])"

definition encode_set_current_position_as_rad_frame ::
  "spg_protocol \<Rightarrow> int \<Rightarrow> pyfloat \<Rightarrow> can_frame result" where
  "encode_set_current_position_as_rad_frame p original_u16 desired_rad =
     (let original_cnt = wrap_u14 original_u16
      in bindE (rad_to_u14_count desired_rad) (\<lambda>desired_cnt.
           Inr (encode_write_encoder_offset_frame p ((desired_cnt - original_cnt) mod ENC_MOD))))"

section \<open>Decoders\<close>

definition parse_mit_status_v14 :: "byte list \<Rightarrow> SPGMITStatus result" where
  "parse_mit_status_v14 payload8 =
     (if length payload8 \<noteq> 8 \<or> payload8 ! 0 \<noteq> CMD_MIT_CONTROL
      then Inl (ValueError ''Invalid SPG MIT v14 status response'')
      else Inr \<lparr>ms_temp_c = le_sint (slice 1 2 payload8), ms_iq_counts = le_sint (slice 2 4 payload8),
                ms_speed_dps = le_sint (slice 4 6 payload8), ms_mit_position_i16 = le_sint (slice 6 8 payload8)\<rparr>)"

definition parse_encoder_data :: "byte list \<Rightarrow> SPGEncoderData result" where
  "parse_encoder_data payload8 =
     (if length payload8 \<noteq> 8 \<or> payload8 ! 0 \<noteq> CMD_READ_ENCODER_DATA
      then Inl (ValueError ''Invalid SPG encoder data response'')
      else Inr \<lparr>ed_temp_c = le_sint (slice 1 2 payload8),
                ed_encoder_position_u16 = wrap_u14 (le_uint (slice 2 4 payload8)),
                ed_encoder_original_u16 = wrap_u14 (le_uint (slice 4 6 payload8)),
                ed_encoder_offset_u16 = wrap_u14 (le_uint (slice 6 8 payload8))\<rparr>)"

definition parse_mit_params :: "byte list \<Rightarrow> SPGMITParams result" where
  "parse_mit_params payload8 =
     (if length payload8 \<noteq> 8 \<or> payload8 ! 0 \<noteq> CMD_READ_MIT_PARAMS
      then Inl (ValueError ''Invalid SPG MIT params response'')
      else Inr \<lparr>mq_v_max_rad_s = uint (payload8 ! 1), mq_tau_max_nm = uint (payload8 ! 2),
                mq_kt_out_nm_per_a = fmul (float_of_int (le_uint (slice 3 5 payload8))) (lit (1/1000)),
                mq_gear_ratio = fmul (float_of_int (le_uint (slice 5 7 payload8))) (lit (1/100))\<rparr>)"

definition decode_mit_status :: "spg_protocol \<Rightarrow> pyfloat \<Rightarrow> byte list \<Rightarrow> actuator_state result" where
  "decode_mit_status p now payload8 =
     bindE (parse_mit_status_v14 payload8) (\<lambda>status.
     bindE (let v = math_radians (float_of_int (ms_speed_dps status))
            in if sq_feedback_speed_is_motor_side p then fdiv v (sq_gear_ratio p) else Inr v) (\<lambda>velocity_rad_s.
     bindE (fdiv (float_of_int (ms_mit_position_i16 status)) (Fin 32767)) (\<lambda>unit_position.
       let position_output_rad = fmul unit_position (mit_feedback_position_max (sq_mit_config p));
           current_a = map_option (fmul (float_of_int (ms_iq_counts status))) (sq_iq_count_to_amp p);
           torque_nm = (case (current_a, sq_torque_constant_nm_per_a p) of
             (Some c, Some k) \<Rightarrow> Some (fmul (fmul (fmul c k) (sq_gear_ratio p)) (sq_gear_efficiency p))
           | _ \<Rightarrow> None)
       in Inr (ActuatorState_init
         \<lparr>av_position_rad := (if sq_expose_single_turn_position p then Some position_output_rad else None),
          av_velocity_rad_s := Some velocity_rad_s, av_torque_nm := torque_nm, av_current_a := current_a,
          av_temperature_c := Some (float_of_int (ms_temp_c status)), av_last_feedback_t := now,
          av_raw :=
            [(''cmd'', PInt (uint CMD_MIT_CONTROL)),
             (''iq_counts'', PInt (ms_iq_counts status)),
             (''speed_dps'', PInt (ms_speed_dps status)),
             (''position_i16'', PInt (ms_mit_position_i16 status)),
             (''mit_position_i16'', PInt (ms_mit_position_i16 status)),
             (''feedback_position_max_rad'', PFloat (mit_feedback_position_max (sq_mit_config p))),
             (''position_output_rad'', PFloat position_output_rad),
             (''mit_position_rad'', PFloat position_output_rad)]\<rparr>))))"

definition decode_encoder_data :: "spg_protocol \<Rightarrow> pyfloat \<Rightarrow> byte list \<Rightarrow> actuator_state result" where
  "decode_encoder_data p now payload8 =
     bindE (parse_encoder_data payload8) (\<lambda>enc.
     bindE (if sq_expose_single_turn_position p
            then bindE (fdiv (signed_u14_count_to_rad (ed_encoder_position_u16 enc)) (sq_gear_ratio p))
              (\<lambda>v. Inr (Some v))
            else Inr None) (\<lambda>position_rad.
       Inr (ActuatorState_init
         \<lparr>av_position_rad := position_rad, av_temperature_c := Some (float_of_int (ed_temp_c enc)),
          av_last_feedback_t := now,
          av_raw :=
            [(''cmd'', PInt (uint CMD_READ_ENCODER_DATA)),
             (''encoder_position_u16'', PInt (ed_encoder_position_u16 enc)),
             (''encoder_original_u16'', PInt (ed_encoder_original_u16 enc)),
             (''encoder_offset_u16'', PInt (ed_encoder_offset_u16 enc)),
             (''encoder_position_rad_signed_motor'', PFloat (signed_u14_count_to_rad (ed_encoder_position_u16 enc))),
             (''encoder_original_rad_motor'', PFloat (u14_count_to_rad (ed_encoder_original_u16 enc))),
             (''encoder_offset_rad_motor'', PFloat (u14_count_to_rad (ed_encoder_offset_u16 enc)))]\<rparr>)))"

definition decode_mit_params :: "pyfloat \<Rightarrow> byte list \<Rightarrow> actuator_state result" where
  "decode_mit_params now payload8 =
     bindE (parse_mit_params payload8) (\<lambda>params.
       Inr (ActuatorState_init
         \<lparr>av_mode := Some ''MIT_PARAMS'', av_last_feedback_t := now,
          av_raw :=
            [(''cmd'', PInt (uint CMD_READ_MIT_PARAMS)),
             (''v_max_rad_s'', PInt (mq_v_max_rad_s params)),
             (''tau_max_nm'', PInt (mq_tau_max_nm params)),
             (''kt_out_nm_per_a'', PFloat (mq_kt_out_nm_per_a params)),
             (''gear_ratio'', PFloat (mq_gear_ratio params))]\<rparr>))"

definition ack_enabled_hint :: "byte \<Rightarrow> bool option" where
  "ack_enabled_hint cmd =
     (if cmd = CMD_MIT_ENTER then Some True
      else if cmd \<in> {CMD_MIT_EXIT, CMD_CLEAR_ERROR_FLAG} then Some False else None)"

definition ack_mode :: "byte \<Rightarrow> string option" where
  "ack_mode cmd =
     (if cmd = CMD_MIT_ENTER then Some ''MIT_ENTER_ACK''
      else if cmd = CMD_MIT_EXIT then Some ''MIT_EXIT_ACK''
      else if cmd = CMD_MIT_SET_ZERO then Some ''MIT_SET_ZERO_ACK''
      else if cmd = CMD_CLEAR_ERROR_FLAG then Some ''CLEAR_ERROR_ACK''
      else if cmd = CMD_WRITE_CURRENT_POS_AS_ZERO then Some ''WRITE_CURRENT_POS_AS_ZERO_ACK''
      else if cmd = CMD_WRITE_ENCODER_OFFSET then Some ''WRITE_ENCODER_OFFSET_ACK'' else None)"

definition decode_ack_like_frame :: "pyfloat \<Rightarrow> byte list \<Rightarrow> actuator_state result" where
  "decode_ack_like_frame now payload8 =
     (if length payload8 \<noteq> 8 then Inl (ValueError ''SPG ACK payload must be 8 bytes'')
      else let cmd = payload8 ! 0;
        extra = (if cmd = CMD_MIT_SET_ZERO
          then let offset_i16 = le_sint (slice 6 8 payload8);
                   offset_deg = fmul (float_of_int offset_i16) (lit (1/100))
            in [(''offset_i16'', PInt offset_i16), (''offset_deg'', PFloat offset_deg),
                (''offset_rad'', PFloat (math_radians offset_deg))]
          else if cmd \<in> {CMD_WRITE_CURRENT_POS_AS_ZERO, CMD_WRITE_ENCODER_OFFSET}
          then let offset_u16 = le_uint (slice 6 8 payload8)
            in [(''encoder_offset_u16'', PInt offset_u16),
                (''encoder_offset_rad_motor'', PFloat (u14_count_to_rad offset_u16))]
          else if cmd = CMD_CLEAR_ERROR_FLAG
          then [(''fault_code_after_clear'', PInt (uint (payload8 ! 1)))]
          else [])
        in Inr (ActuatorState_init
          \<lparr>av_is_enabled := ack_enabled_hint cmd, av_mode := ack_mode cmd,
           av_fault_code := (if cmd = CMD_CLEAR_ERROR_FLAG then Some (uint (payload8 ! 1)) else None),
           av_last_feedback_t := now, av_raw := (''cmd'', PInt (uint cmd)) # extra\<rparr>))"

definition spg_rx_can_ids :: "spg_protocol \<Rightarrow> int list" where
  "spg_rx_can_ids p = [sq_feedback_id p]"

definition decode_frame :: "spg_protocol \<Rightarrow> pyfloat \<Rightarrow> can_frame \<Rightarrow> actuator_state option result" where
  "decode_frame p now frame =
     (if fr_can_id frame \<noteq> sq_feedback_id p then Inr None
      else if length (fr_data frame) \<noteq> 8 then Inl (ValueError ''SPG feedback payload must be 8 bytes'')
      else let cmd = fr_data frame ! 0; wrap = (\<lambda>r. bindE r (\<lambda>s. Inr (Some s)))
        in if cmd = CMD_MIT_CONTROL then wrap (decode_mit_status p now (fr_data frame))
           else if cmd = CMD_READ_ENCODER_DATA then wrap (decode_encoder_data p now (fr_data frame))
           else if cmd = CMD_READ_MIT_PARAMS then wrap (decode_mit_params now (fr_data frame))
           else if cmd \<in> {CMD_MIT_ENTER, CMD_MIT_EXIT, CMD_WRITE_CURRENT_POS_AS_ZERO,
             CMD_WRITE_ENCODER_OFFSET, CMD_MIT_SET_ZERO, CMD_CLEAR_ERROR_FLAG}
           then wrap (decode_ack_like_frame now (fr_data frame))
           else Inr None)"

end
