(* ===== verification/Spg_Facts.thy ===== *)
theory Spg_Facts
  imports Spg_Protocol
begin

text \<open>
  Facts about the SPG protocol: the quantiser's range and error under binary64 rounding, the bit
  layout of the MIT frame, the zero-offset encoding, and the encoder arithmetic.
\<close>

section \<open>Rounding to an integer\<close>

lemma fround_small:
  assumes "\<bar>x\<bar> \<le> 2 ^ 60"
  shows "fround x = Fin (rnd 53 (-1074) x)"
proof -
  have "(2::real) ^ 60 \<le> fbound 1023"
    unfolding fbound_def by (intro power_increasing) auto
  then show ?thesis using assms by (intro fround_finite) linarith
qed

lemma tiny_less: "tiny < 1 / 2 ^ 90"
proof -
  have "(1::real) / 2 ^ 100 < 1 / 2 ^ 90" by simp
  then show ?thesis using tiny_le by linarith
qed

lemma rnd64_abs_error:
  assumes "\<bar>x\<bar> \<le> 2 ^ 21"
  shows "\<bar>rnd 53 (-1074) x - x\<bar> \<le> 1 / 2 ^ 31"
proof -
  have "\<bar>x\<bar> / 2 ^ 53 \<le> 2 ^ 21 / 2 ^ 53" using assms by (intro divide_right_mono) auto
  then show ?thesis using rnd64_error [of x] tiny_less by simp
qed

lemma round_half_close:
  assumes "\<bar>q\<bar> \<le> 2 ^ 20"
  obtains n where "round_half_away_from_zero (Fin q) = Inr n" and "\<bar>of_int n - q\<bar> \<le> 1/2 + 1 / 2 ^ 31"
proof (cases "0 \<le> q")
  case True
  define r where "r = rnd 53 (-1074) (q + 1/2)"
  have b: "\<bar>q + 1/2\<bar> \<le> 2 ^ 21" using assms by simp
  have "round_half_away_from_zero (Fin q) = Inr \<lfloor>r\<rfloor>"
    using True b by (simp add: round_half_away_from_zero_def fround_small r_def)
  moreover have "\<bar>r - (q + 1/2)\<bar> \<le> 1 / 2 ^ 31" unfolding r_def by (rule rnd64_abs_error [OF b])
  then have "\<bar>of_int \<lfloor>r\<rfloor> - q\<bar> \<le> 1/2 + 1 / 2 ^ 31" by linarith
  ultimately show thesis by (rule that)
next
  case False
  define r where "r = rnd 53 (-1074) (q - 1/2)"
  have b: "\<bar>q - 1/2\<bar> \<le> 2 ^ 21" using assms False by simp
  have "round_half_away_from_zero (Fin q) = Inr \<lceil>r\<rceil>"
    using False b by (simp add: round_half_away_from_zero_def fround_small r_def fsub_def)
  moreover have "\<bar>r - (q - 1/2)\<bar> \<le> 1 / 2 ^ 31" unfolding r_def by (rule rnd64_abs_error [OF b])
  then have "\<bar>of_int \<lceil>r\<rceil> - q\<bar> \<le> 1/2 + 1 / 2 ^ 31" by linarith
  ultimately show thesis by (rule that)
qed

lemma int_within: "\<bar>of_int n - (x::real)\<bar> < 1 \<Longrightarrow> of_int a \<le> x \<Longrightarrow> x \<le> of_int b \<Longrightarrow> a \<le> n \<and> n \<le> b"
  by linarith

section \<open>The quantiser\<close>

text \<open>Rounding a value of known scale perturbs it by at most \<open>2\<^sup>-\<^sup>5\<^sup>2\<close> of that scale.\<close>

lemma rnd64_scaled:
  assumes "\<bar>x\<bar> \<le> S" and "1 / 2 ^ 20 \<le> S"
  obtains d where "rnd 53 (-1074) x = x + S * d" and "\<bar>d\<bar> \<le> 1 / 2 ^ 52"
proof -
  have S: "0 < S" using assms(2) by (rule less_le_trans [rotated]) simp
  have "tiny \<le> S / 2 ^ 53"
  proof -
    have "(1::real) / 2 ^ 90 \<le> (1 / 2 ^ 20) / 2 ^ 53" by simp
    also have "\<dots> \<le> S / 2 ^ 53" using assms(2) by (intro divide_right_mono) auto
    finally show ?thesis using tiny_less by linarith
  qed
  moreover have "\<bar>x\<bar> / 2 ^ 53 \<le> S / 2 ^ 53" using assms(1) by (intro divide_right_mono) auto
  ultimately have "\<bar>rnd 53 (-1074) x - x\<bar> \<le> S / 2 ^ 53 + S / 2 ^ 53" using rnd64_error [of x] by linarith
  also have "\<dots> = S * (1 / 2 ^ 52)" by simp
  finally have e: "\<bar>rnd 53 (-1074) x - x\<bar> \<le> S * (1 / 2 ^ 52)" .
  show thesis
  proof (rule that)
    show "rnd 53 (-1074) x = x + S * ((rnd 53 (-1074) x - x) / S)" using S by simp
    show "\<bar>(rnd 53 (-1074) x - x) / S\<bar> \<le> 1 / 2 ^ 52"
      using e S by (simp add: abs_divide divide_le_eq mult.commute)
  qed
qed

lemma perturbed_quotient:
  fixes a :: real
  assumes "0 \<le> a" "a \<le> 1" "\<bar>e\<bar> \<le> 3 * u" "\<bar>g\<bar> \<le> u" "u \<le> 1 / 8"
  shows "\<bar>(a + e) / (1 + g) - a\<bar> \<le> 8 * u" and "\<bar>(a + e) / (1 + g)\<bar> \<le> 2"
proof -
  have g: "1 / 2 \<le> 1 + g" using assms by linarith
  have "(a + e) / (1 + g) - a = (e - a * g) / (1 + g)" using g by (simp add: field_simps)
  then have "\<bar>(a + e) / (1 + g) - a\<bar> = \<bar>e - a * g\<bar> / (1 + g)" using g by (simp add: abs_divide)
  also have "\<dots> \<le> \<bar>e - a * g\<bar> / (1 / 2)" using g by (intro divide_left_mono) auto
  also have "\<bar>a * g\<bar> \<le> 1 * u" unfolding abs_mult using assms by (intro mult_mono) auto
  then have "\<bar>e - a * g\<bar> / (1 / 2) \<le> 8 * u" using assms(3) by simp
  finally show *: "\<bar>(a + e) / (1 + g) - a\<bar> \<le> 8 * u" .
  show "\<bar>(a + e) / (1 + g)\<bar> \<le> 2" using * assms by linarith
qed

lemma rounded_range:
  fixes lo hi :: real
  assumes "\<bar>lo\<bar> \<le> 2 ^ 20" "\<bar>hi\<bar> \<le> 2 ^ 20" "1 / 2 ^ 20 \<le> hi - lo"
  obtains d where "fsub (Fin hi) (Fin lo) = Fin ((hi - lo) * (1 + d))" and "\<bar>d\<bar> \<le> 1 / 2 ^ 52"
proof -
  have S: "0 < hi - lo" "\<bar>hi - lo\<bar> \<le> 2 ^ 60" using assms by (auto intro: less_le_trans [of 0 "1 / 2 ^ 20"])
  obtain d where d: "rnd 53 (-1074) (hi - lo) = (hi - lo) + (hi - lo) * d" "\<bar>d\<bar> \<le> 1 / 2 ^ 52"
    using rnd64_scaled [of "hi - lo" "hi - lo"] S assms(3) by (metis abs_of_pos order_refl)
  then show thesis using fround_small [OF S(2)] by (intro that [of d]) (simp_all add: fsub_def algebra_simps)
qed

lemma rounded_product:
  fixes x lo hi M :: real
  assumes "lo \<le> x" "x \<le> hi" and b: "\<bar>lo\<bar> \<le> 2 ^ 20" "\<bar>hi\<bar> \<le> 2 ^ 20" "1 / 2 ^ 20 \<le> hi - lo"
    and M: "1 \<le> M" "M \<le> 2 ^ 16"
  obtains d where "fmul (fsub (Fin x) (Fin lo)) (Fin M) = Fin ((hi - lo) * M * ((x - lo) / (hi - lo) + d))"
    and "\<bar>d\<bar> \<le> 3 / 2 ^ 52"
proof -
  define S where "S = hi - lo"
  define a where "a = (x - lo) / S"
  have S: "0 < S" "1 / 2 ^ 20 \<le> S" "S \<le> 2 ^ 21"
    using b unfolding S_def by (auto intro: less_le_trans [of 0 "1 / 2 ^ 20"])
  have a: "0 \<le> a" "a \<le> 1" "x - lo = S * a" using assms(1,2) S unfolding a_def S_def by auto
  have aS: "\<bar>x - lo\<bar> \<le> S" using assms(1,2) by (simp add: S_def)
  obtain d1 where d1: "rnd 53 (-1074) (x - lo) = (x - lo) + S * d1" "\<bar>d1\<bar> \<le> 1 / 2 ^ 52"
    using rnd64_scaled [OF aS S(2)] by blast
  define t where "t = (x - lo) + S * d1"
  have tS: "t = S * (a + d1)" by (simp add: t_def a(3) algebra_simps)
  have "(1::real) / 2 ^ 52 \<le> 1" by simp
  then have "\<bar>a + d1\<bar> \<le> 2" using a d1(2) by linarith
  then have tb: "\<bar>t\<bar> \<le> 2 * S" unfolding tS using S by (simp add: abs_mult)
  have tM: "\<bar>t * M\<bar> \<le> 2 * S * M" unfolding abs_mult using tb M by (intro mult_mono) auto
  have SM: "1 / 2 ^ 20 \<le> 2 * S * M" using mult_mono [of "1 / 2 ^ 20" "2 * S" 1 M] S M by simp
  obtain d3 where d3: "rnd 53 (-1074) (t * M) = t * M + 2 * S * M * d3" "\<bar>d3\<bar> \<le> 1 / 2 ^ 52"
    using rnd64_scaled [OF tM SM] by blast
  have "S * M \<le> 2 ^ 21 * 2 ^ 16" using S M by (intro mult_mono) auto
  then have c: "\<bar>x - lo\<bar> \<le> 2 ^ 60" "\<bar>t * M\<bar> \<le> 2 ^ 60" using aS S tM by auto
  have "fmul (fsub (Fin x) (Fin lo)) (Fin M) = Fin (t * M + 2 * S * M * d3)"
    using fround_small [OF c(1)] fround_small [OF c(2)] d1(1) d3(1) by (simp add: fsub_def t_def)
  moreover have "t * M + 2 * S * M * d3 = S * M * (a + (d1 + 2 * d3))" by (simp add: tS algebra_simps)
  moreover have "\<bar>d1 + 2 * d3\<bar> \<le> 3 / 2 ^ 52" using d1(2) d3(2) by linarith
  ultimately show thesis by (intro that [of "d1 + 2 * d3"]) (simp_all add: S_def a_def)
qed

lemma quotient_close:
  fixes x lo hi M :: real
  assumes "lo \<le> x" "x \<le> hi" and b: "\<bar>lo\<bar> \<le> 2 ^ 20" "\<bar>hi\<bar> \<le> 2 ^ 20" "1 / 2 ^ 20 \<le> hi - lo"
    and M: "1 \<le> M" "M \<le> 2 ^ 16"
  obtains q where
    "fdiv (fmul (fsub (Fin x) (Fin lo)) (Fin M)) (fsub (Fin hi) (Fin lo)) = Inr (Fin q)"
    and "\<bar>q - (x - lo) * M / (hi - lo)\<bar> \<le> 1 / 2 ^ 31"
proof -
  define a where "a = (x - lo) / (hi - lo)"
  define u :: real where "u = 1 / 2 ^ 52"
  have S: "0 < hi - lo" using b(3) by (auto intro: less_le_trans [of 0 "1 / 2 ^ 20"])
  have a: "0 \<le> a" "a \<le> 1" using assms(1,2) S unfolding a_def by auto
  obtain d where d: "fmul (fsub (Fin x) (Fin lo)) (Fin M) = Fin ((hi - lo) * M * (a + d))" "\<bar>d\<bar> \<le> 3 * u"
    using rounded_product [OF assms] unfolding a_def u_def by (metis mult.commute times_divide_eq_left mult_1)
  obtain d2 where d2: "fsub (Fin hi) (Fin lo) = Fin ((hi - lo) * (1 + d2))" "\<bar>d2\<bar> \<le> u"
    using rounded_range [OF b] unfolding u_def by metis
  have u8: "u \<le> 1 / 8" "0 \<le> u" by (simp_all add: u_def)
  define q0 where "q0 = (a + d) / (1 + d2)"
  have q0: "\<bar>q0 - a\<bar> \<le> 8 * u" "\<bar>q0\<bar> \<le> 2"
    using perturbed_quotient [of a d u d2] a d(2) d2(2) u8 unfolding q0_def by auto
  have p2: "0 < 1 + d2" using d2(2) u8 by auto
  have quot: "(hi - lo) * M * (a + d) / ((hi - lo) * (1 + d2)) = M * q0" unfolding q0_def using S by simp
  have qM: "\<bar>q0\<bar> * M \<le> 2 * 2 ^ 16" using q0(2) M by (intro mult_mono) auto
  then have "\<bar>M * q0\<bar> \<le> 2 ^ 60" using M by (simp add: abs_mult mult.commute)
  from fround_small [OF this] have "fdiv (fmul (fsub (Fin x) (Fin lo)) (Fin M)) (fsub (Fin hi) (Fin lo)) =
      Inr (Fin (rnd 53 (-1074) (M * q0)))"
    unfolding d(1) d2(1) using S p2 quot by simp
  moreover have "\<bar>rnd 53 (-1074) (M * q0) - (x - lo) * M / (hi - lo)\<bar> \<le> 1 / 2 ^ 31"
  proof -
    have "\<bar>M * q0\<bar> / 2 ^ 53 \<le> 2 ^ 17 / 2 ^ 53"
      using qM M by (intro divide_right_mono) (auto simp: abs_mult mult.commute)
    then have r: "\<bar>rnd 53 (-1074) (M * q0) - M * q0\<bar> \<le> 2 ^ 17 / 2 ^ 53 + 1 / 2 ^ 90"
      using rnd64_error [of "M * q0"] tiny_less by linarith
    have "\<bar>M * q0 - M * a\<bar> = M * \<bar>q0 - a\<bar>" using M by (simp add: abs_mult flip: right_diff_distrib)
    also have "\<dots> \<le> 2 ^ 16 * (8 * u)" using q0(1) M by (intro mult_mono) auto
    finally have "\<bar>rnd 53 (-1074) (M * q0) - M * a\<bar> \<le> 2 ^ 16 * (8 * u) + (2 ^ 17 / 2 ^ 53 + 1 / 2 ^ 90)"
      using r by linarith
    also have "\<dots> \<le> 1 / 2 ^ 31" by (simp add: u_def)
    finally show ?thesis by (simp add: a_def mult.commute)
  qed
  ultimately show thesis by (rule that)
qed

text \<open>
  The quantiser on a range of sane size: the result exists, fits the field, and is within half a
  step (and a rounding error of \<open>2\<^sup>-\<^sup>3\<^sup>0\<close> steps) of the exact scaled value.
\<close>

definition sane_range :: "real \<Rightarrow> real \<Rightarrow> bool" where
  "sane_range lo hi \<longleftrightarrow> \<bar>lo\<bar> \<le> 2 ^ 20 \<and> \<bar>hi\<bar> \<le> 2 ^ 20 \<and> 1 / 2 ^ 20 \<le> hi - lo"

lemma float_to_uint_quantises:
  assumes "sane_range lo hi" and "lo \<le> x" and "x \<le> hi" and "1 \<le> bits" and "bits \<le> 16"
  obtains n where "float_to_uint (Fin x) (Fin lo) (Fin hi) bits = Inr n"
    and "0 \<le> n" and "n \<le> 2 ^ bits - 1"
    and "\<bar>of_int n - (x - lo) * (2 ^ bits - 1) / (hi - lo)\<bar> \<le> 1/2 + 1 / 2 ^ 30"
proof -
  define M :: real where "M = 2 ^ bits - 1"
  have "(2::real) ^ 1 \<le> 2 ^ bits" "(2::real) ^ bits \<le> 2 ^ 16"
    using assms(4,5) by (intro power_increasing; simp)+
  then have M: "1 \<le> M" "M \<le> 2 ^ 16" unfolding M_def by simp_all
  have "(2::int) ^ 1 \<le> 2 ^ bits" "(2::int) ^ bits \<le> 2 ^ 16"
    using assms(4,5) by (intro power_increasing; simp)+
  then have "\<bar>(2::int) ^ bits - 1\<bar> < 2 ^ 53" by simp
  then have MF: "float_of_int (2 ^ bits - 1) = Fin M" by (simp add: float_of_int_exact M_def)
  from assms(1) have b: "\<bar>lo\<bar> \<le> 2 ^ 20" "\<bar>hi\<bar> \<le> 2 ^ 20" "1 / 2 ^ 20 \<le> hi - lo"
    by (simp_all add: sane_range_def)
  obtain q where q: "fdiv (fmul (fsub (Fin x) (Fin lo)) (Fin M)) (fsub (Fin hi) (Fin lo)) = Inr (Fin q)"
      "\<bar>q - (x - lo) * M / (hi - lo)\<bar> \<le> 1 / 2 ^ 31"
    using quotient_close [OF assms(2,3) b M] by blast
  define y where "y = (x - lo) * M / (hi - lo)"
  have pos: "0 < hi - lo" using b(3) by (rule less_le_trans [rotated]) simp
  have y: "0 \<le> y" "y \<le> M"
  proof -
    show "0 \<le> y" unfolding y_def using assms(2) M pos by (intro divide_nonneg_pos mult_nonneg_nonneg) auto
    have "(x - lo) * M \<le> (hi - lo) * M" using assms(3) M by (intro mult_right_mono) auto
    then show "y \<le> M" unfolding y_def using pos by (simp add: divide_le_eq mult.commute)
  qed
  have "\<bar>q - y\<bar> \<le> 1" unfolding y_def by (rule order_trans [OF q(2)]) simp
  then have "\<bar>q\<bar> \<le> 2 ^ 20" using y M by simp
  then obtain n where n: "round_half_away_from_zero (Fin q) = Inr n" "\<bar>of_int n - q\<bar> \<le> 1/2 + 1 / 2 ^ 31"
    by (rule round_half_close)
  have near: "\<bar>of_int n - y\<bar> \<le> 1/2 + 1 / 2 ^ 30"
  proof -
    have "(1::real) / 2 ^ 31 + 1 / 2 ^ 31 = 1 / 2 ^ 30" by simp
    then show ?thesis using n(2) q(2) unfolding y_def [symmetric] by linarith
  qed
  moreover have "(1::real) / 2 + 1 / 2 ^ 30 < 1" by simp
  ultimately have lt: "\<bar>of_int n - y\<bar> < 1" by (rule order_le_less_trans)
  have range: "0 \<le> n \<and> n \<le> 2 ^ bits - 1"
    by (rule int_within [OF lt]) (use y in \<open>simp_all add: M_def\<close>)
  show thesis
  proof (rule that)
    show "float_to_uint (Fin x) (Fin lo) (Fin hi) bits = Inr n"
      using assms(2,3) q(1) n(1) by (simp add: float_to_uint_def require_range_def MF Let_def)
  qed (use range near in \<open>simp_all add: y_def M_def\<close>)
qed

lemma float_to_uint_rejects:
  assumes "\<And>r. x = Fin r \<Longrightarrow> r < lo \<or> hi < r" and "sane_range lo hi"
  shows "\<exists>m. float_to_uint x (Fin lo) (Fin hi) bits = Inl (ValueError m)"
proof (cases "x = NaN")
  case True
  have "0 < hi - lo" "hi - lo \<le> 2 ^ 21"
    using assms(2) by (auto simp: sane_range_def intro: less_le_trans [of 0 "1 / 2 ^ 20"])
  moreover have "1 / 2 ^ 20 \<le> hi - lo" using assms(2) by (simp add: sane_range_def)
  ultimately obtain d where d: "rnd 53 (-1074) (hi - lo) = (hi - lo) + (hi - lo) * d" "\<bar>d\<bar> \<le> 1 / 2 ^ 52"
    using rnd64_scaled [of "hi - lo" "hi - lo"] by (metis abs_of_pos order_refl)
  have "(hi - lo) + (hi - lo) * d = (hi - lo) * (1 + d)" by (simp add: algebra_simps)
  moreover have "0 < 1 + d"
  proof -
    have "(1::real) / 2 ^ 52 < 1" by simp
    then show ?thesis using d(2) by linarith
  qed
  ultimately have "fround (hi - lo) = Fin ((hi - lo) * (1 + d))" "(hi - lo) * (1 + d) \<noteq> 0"
    using d(1) \<open>0 < hi - lo\<close> \<open>hi - lo \<le> 2 ^ 21\<close> fround_small [of "hi - lo"] by auto
  then show ?thesis using True
    by (simp add: float_to_uint_def require_range_def fsub_def round_half_away_from_zero_def)
next
  case False
  then have "flt x (Fin lo) \<or> flt (Fin hi) x" using assms(1) by (cases x) auto
  then show ?thesis by (auto simp: float_to_uint_def require_range_def)
qed

section \<open>The MIT frame\<close>

text \<open>The limits the packing relies on: finite, positive, of sane size.\<close>

definition mit_config_ok :: "SPGMITConfig \<Rightarrow> bool" where
  "mit_config_ok cfg \<longleftrightarrow>
     list_all (\<lambda>v. case v of Fin r \<Rightarrow> 1 / 2 ^ 20 \<le> r \<and> r \<le> 2 ^ 20 | _ \<Rightarrow> False)
       [mit_p_max cfg, mit_v_max cfg, mit_kp_max cfg, mit_kd_max cfg, mit_tau_max cfg]"

fun limit_of :: "pyfloat \<Rightarrow> real" where
  "limit_of (Fin r) = r"
| "limit_of _ = 0"

lemma limit_sane:
  assumes "case v of Fin r \<Rightarrow> 1 / 2 ^ 20 \<le> r \<and> r \<le> 2 ^ 20 | _ \<Rightarrow> False"
  shows "v = Fin (limit_of v)" and "sane_range (- limit_of v) (limit_of v)" and "sane_range 0 (limit_of v)"
proof -
  from assms obtain r where r: "v = Fin r" "1 / 2 ^ 20 \<le> r" "r \<le> 2 ^ 20" by (cases v) auto
  moreover have "(0::real) < 1 / 2 ^ 20" by simp
  ultimately show "v = Fin (limit_of v)" "sane_range (- limit_of v) (limit_of v)" "sane_range 0 (limit_of v)"
    by (auto simp: sane_range_def)
qed

text \<open>Reading the fields of a frame back, as the firmware does.\<close>

definition mit_fields :: "byte list \<Rightarrow> int list" where
  "mit_fields d =
     [uint (d ! 1) * 256 + uint (d ! 2),
      uint (d ! 3) * 16 + uint (d ! 4) div 16,
      uint (d ! 4) mod 16 * 256 + uint (d ! 5),
      uint (d ! 6),
      uint (d ! 7)]"

lemma uint_low_byte: "uint (low_byte n) = n mod 256"
proof -
  have "n AND 0xFF = n mod 256" using take_bit_eq_mask [of 8 n] by (simp add: mask_numeral take_bit_eq_mod)
  then show ?thesis by (simp add: low_byte_def uint_word_of_int)
qed

lemma nibble_byte:
  assumes "0 \<le> kp"
  shows "uint (word_of_int (push_bit 4 (v AND 0x0F) OR (drop_bit 8 kp AND 0x0F)) :: byte) =
    16 * (v mod 16) + kp div 256 mod 16"
proof -
  have m: "x AND 0x0F = x mod 16" for x :: int
    using take_bit_eq_mask [of 4 x] by (simp add: mask_numeral take_bit_eq_mod)
  have lo: "0 \<le> kp div 256 mod 16" "kp div 256 mod 16 < 16" by simp_all
  have "push_bit 4 (v mod 16) AND (kp div 256 mod 16) = 0"
  proof (rule bit_eqI)
    fix n
    show "bit (push_bit 4 (v mod 16) AND (kp div 256 mod 16)) n = bit (0::int) n"
      by (auto simp: bit_simps simp flip: take_bit_eq_mod [of 4, simplified])
  qed
  then have "push_bit 4 (v mod 16) OR (kp div 256 mod 16) = push_bit 4 (v mod 16) + kp div 256 mod 16"
    by (metis disjunctive_add_eq_or)
  then have "push_bit 4 (v AND 0x0F) OR (drop_bit 8 kp AND 0x0F) = 16 * (v mod 16) + kp div 256 mod 16"
    by (simp add: m drop_bit_eq_div push_bit_eq_mult)
  moreover have "0 \<le> v mod 16" "v mod 16 < 16" by simp_all
  ultimately show ?thesis
    using lo by (simp only: uint_word_of_int) (simp add: mod_pos_pos_trivial)
qed

lemma mit_fields_pack:
  assumes "0 \<le> p" "p \<le> 2 ^ 16 - 1" "0 \<le> v" "v \<le> 2 ^ 12 - 1" "0 \<le> kp" "kp \<le> 2 ^ 12 - 1"
    "0 \<le> kd" "kd \<le> 2 ^ 8 - 1" "0 \<le> t" "t \<le> 2 ^ 8 - 1"
  shows "mit_fields (pack_fields p v kp kd t) = [p, v, kp, kd, t]"
proof -
  have r: "p div 256 mod 256 = p div 256" "v div 16 mod 256 = v div 16" "kp div 256 mod 16 = kp div 256"
    "kd mod 256 = kd" "t mod 256 = t"
    using assms by (intro mod_pos_pos_trivial; simp)+
  define nib :: byte where "nib = word_of_int (push_bit 4 (v AND 0x0F) OR (drop_bit 8 kp AND 0x0F))"
  have nib: "uint nib = 16 * (v mod 16) + kp div 256"
    unfolding nib_def using nibble_byte [OF assms(5), of v] by (simp only: r)
  have k: "0 \<le> kp div 256" "kp div 256 < 16" using assms by simp_all
  have "(16 * (v mod 16) + kp div 256) div 16 = v mod 16"
    using k by simp
  moreover have "(16 * (v mod 16) + kp div 256) mod 16 = kp div 256"
    using k by simp
  ultimately show ?thesis
    unfolding mit_fields_def pack_fields_def nib_def [symmetric]
    by (simp add: uint_low_byte drop_bit_eq_div r nib del: div_mult_self4 mod_mult_self4)
qed

text \<open>\<open>n\<close> is the value \<open>x\<close> of \<open>[lo, hi]\<close> on a grid of \<open>2^bits - 1\<close> steps, to half a step.\<close>

definition quantised :: "int \<Rightarrow> real \<Rightarrow> real \<Rightarrow> real \<Rightarrow> nat \<Rightarrow> bool" where
  "quantised n x lo hi bits \<longleftrightarrow>
     0 \<le> n \<and> n \<le> 2 ^ bits - 1 \<and>
     \<bar>of_int n - (x - lo) * (2 ^ bits - 1) / (hi - lo)\<bar> \<le> 1/2 + 1 / 2 ^ 30"

definition within_limits :: "SPGMITConfig \<Rightarrow> real \<Rightarrow> real \<Rightarrow> real \<Rightarrow> real \<Rightarrow> real \<Rightarrow> bool" where
  "within_limits cfg p v kp kd t \<longleftrightarrow>
     \<bar>p\<bar> \<le> limit_of (mit_p_max cfg) \<and> \<bar>v\<bar> \<le> limit_of (mit_v_max cfg) \<and>
     0 \<le> kp \<and> kp \<le> limit_of (mit_kp_max cfg) \<and> 0 \<le> kd \<and> kd \<le> limit_of (mit_kd_max cfg) \<and>
     \<bar>t\<bar> \<le> limit_of (mit_tau_max cfg)"

lemma float_to_uint_signed:
  assumes "case m of Fin r \<Rightarrow> 1 / 2 ^ 20 \<le> r \<and> r \<le> 2 ^ 20 | _ \<Rightarrow> False"
    and "\<bar>x\<bar> \<le> limit_of m" and "1 \<le> bits" "bits \<le> 16"
  obtains n where "float_to_uint (Fin x) (fneg m) m bits = Inr n"
    and "quantised n x (- limit_of m) (limit_of m) bits" and "require_range (Fin x) (fneg m) m = Inr ()"
proof -
  note m = limit_sane [OF assms(1)]
  obtain n where n: "float_to_uint (Fin x) (Fin (- limit_of m)) (Fin (limit_of m)) bits = Inr n"
      "quantised n x (- limit_of m) (limit_of m) bits"
    using float_to_uint_quantises [OF m(2), of x bits] assms(2-4) by (auto simp: quantised_def abs_le_iff)
  from assms(1) obtain r where "m = Fin r" by (cases m) auto
  then show thesis
    by (intro that [of n]) (use n assms(2) in \<open>auto simp: require_range_def abs_le_iff\<close>)
qed

lemma float_to_uint_gain:
  assumes "case m of Fin r \<Rightarrow> 1 / 2 ^ 20 \<le> r \<and> r \<le> 2 ^ 20 | _ \<Rightarrow> False"
    and "0 \<le> x" and "x \<le> limit_of m" and "1 \<le> bits" "bits \<le> 16"
  obtains n where "float_to_uint (Fin x) (Fin 0) m bits = Inr n"
    and "quantised n x 0 (limit_of m) bits" and "require_range (Fin x) (Fin 0) m = Inr ()"
proof -
  note m = limit_sane [OF assms(1)]
  obtain n where n: "float_to_uint (Fin x) (Fin 0) (Fin (limit_of m)) bits = Inr n"
      "quantised n x 0 (limit_of m) bits"
    using float_to_uint_quantises [OF m(3), of x bits] assms(2-5) by (auto simp: quantised_def)
  from assms(1) obtain r where "m = Fin r" by (cases m) auto
  then show thesis
    by (intro that [of n]) (use n assms(2,3) in \<open>auto simp: require_range_def\<close>)
qed

lemma pack_mit_payload_fields:
  assumes "mit_config_ok cfg" and "within_limits cfg p v kp kd t"
  obtains p_u v_u kp_u kd_u t_u where
    "pack_mit_payload cfg (Fin p) (Fin v) (Fin kp) (Fin kd) (Fin t) = Inr (pack_fields p_u v_u kp_u kd_u t_u)"
    and "quantised p_u p (- limit_of (mit_p_max cfg)) (limit_of (mit_p_max cfg)) 16"
    and "quantised v_u v (- limit_of (mit_v_max cfg)) (limit_of (mit_v_max cfg)) 12"
    and "quantised kp_u kp 0 (limit_of (mit_kp_max cfg)) 12"
    and "quantised kd_u kd 0 (limit_of (mit_kd_max cfg)) 8"
    and "quantised t_u t (- limit_of (mit_tau_max cfg)) (limit_of (mit_tau_max cfg)) 8"
proof -
  let ?ok = "\<lambda>v. case v of Fin r \<Rightarrow> 1 / 2 ^ 20 \<le> r \<and> r \<le> 2 ^ 20 | _ \<Rightarrow> False"
  from assms(1) have c: "?ok (mit_p_max cfg)" "?ok (mit_v_max cfg)" "?ok (mit_kp_max cfg)"
      "?ok (mit_kd_max cfg)" "?ok (mit_tau_max cfg)"
    unfolding mit_config_ok_def list.pred_inject by blast+
  from assms(2) have l: "\<bar>p\<bar> \<le> limit_of (mit_p_max cfg)" "\<bar>v\<bar> \<le> limit_of (mit_v_max cfg)"
      "0 \<le> kp" "kp \<le> limit_of (mit_kp_max cfg)" "0 \<le> kd" "kd \<le> limit_of (mit_kd_max cfg)"
      "\<bar>t\<bar> \<le> limit_of (mit_tau_max cfg)"
    by (simp_all add: within_limits_def)
  have b: "(1::nat) \<le> 16" "(16::nat) \<le> 16" "(1::nat) \<le> 12" "(12::nat) \<le> 16" "(1::nat) \<le> 8" "(8::nat) \<le> 16"
    by simp_all
  show thesis
    by (rule float_to_uint_signed [OF c(1) l(1) b(1,2)], rule float_to_uint_signed [OF c(2) l(2) b(3,4)],
        rule float_to_uint_gain [OF c(3) l(3,4) b(3,4)], rule float_to_uint_gain [OF c(4) l(5,6) b(5,6)],
        rule float_to_uint_signed [OF c(5) l(7) b(5,6)], rule that)
      (simp_all add: pack_mit_payload_def)
qed

text \<open>
  C16. MIT command encoding: with sane limits, every finite command within them packs into an
  eight-byte frame with opcode 0xC0 whose five bit fields, read back, are the five values on their
  16, 12, 12, 8 and 8 bit grids, each within its field's width and within half a step (plus
  \<open>2\<^sup>-\<^sup>3\<^sup>0\<close> steps of rounding) of the exact value.
\<close>

theorem mit_payload_quantises:
  assumes "mit_config_ok cfg" and "within_limits cfg p v kp kd t"
  shows "\<exists>d p_u v_u kp_u kd_u t_u.
    pack_mit_payload cfg (Fin p) (Fin v) (Fin kp) (Fin kd) (Fin t) = Inr d \<and>
    length d = 8 \<and> d ! 0 = 0xC0 \<and> mit_fields d = [p_u, v_u, kp_u, kd_u, t_u] \<and>
    quantised p_u p (- limit_of (mit_p_max cfg)) (limit_of (mit_p_max cfg)) 16 \<and>
    quantised v_u v (- limit_of (mit_v_max cfg)) (limit_of (mit_v_max cfg)) 12 \<and>
    quantised kp_u kp 0 (limit_of (mit_kp_max cfg)) 12 \<and>
    quantised kd_u kd 0 (limit_of (mit_kd_max cfg)) 8 \<and>
    quantised t_u t (- limit_of (mit_tau_max cfg)) (limit_of (mit_tau_max cfg)) 8"
proof -
  obtain p_u v_u kp_u kd_u t_u where f:
    "pack_mit_payload cfg (Fin p) (Fin v) (Fin kp) (Fin kd) (Fin t) = Inr (pack_fields p_u v_u kp_u kd_u t_u)"
    and q: "quantised p_u p (- limit_of (mit_p_max cfg)) (limit_of (mit_p_max cfg)) 16"
      "quantised v_u v (- limit_of (mit_v_max cfg)) (limit_of (mit_v_max cfg)) 12"
      "quantised kp_u kp 0 (limit_of (mit_kp_max cfg)) 12"
      "quantised kd_u kd 0 (limit_of (mit_kd_max cfg)) 8"
      "quantised t_u t (- limit_of (mit_tau_max cfg)) (limit_of (mit_tau_max cfg)) 8"
    by (rule pack_mit_payload_fields [OF assms])
  have "mit_fields (pack_fields p_u v_u kp_u kd_u t_u) = [p_u, v_u, kp_u, kd_u, t_u]"
    using q by (intro mit_fields_pack) (auto simp: quantised_def)
  moreover have "length (pack_fields p_u v_u kp_u kd_u t_u) = 8 \<and> pack_fields p_u v_u kp_u kd_u t_u ! 0 = 0xC0"
    by (simp add: pack_fields_def CMD_MIT_CONTROL_def)
  ultimately show ?thesis using f q by blast
qed

theorem mit_payload_quantises_witness:
  "\<exists>d. pack_mit_payload SPGMITConfig_default (Fin 0) (Fin 0) (Fin 0) (Fin (1/2)) (Fin 0) = Inr d \<and> length d = 8"
proof -
  have "mit_config_ok SPGMITConfig_default"
    by (simp add: mit_config_ok_def SPGMITConfig_default_def pyfloat_simps)
  moreover have "within_limits SPGMITConfig_default 0 0 0 (1/2) 0"
    by (simp add: within_limits_def SPGMITConfig_default_def pyfloat_simps)
  ultimately show ?thesis using mit_payload_quantises by blast
qed

lemma float_to_uint_total:
  assumes "sane_range lo hi" and "1 \<le> bits" "bits \<le> 16"
  shows "(\<exists>r n. x = Fin r \<and> lo \<le> r \<and> r \<le> hi \<and> float_to_uint x (Fin lo) (Fin hi) bits = Inr n) \<or>
    (\<nexists>r. x = Fin r \<and> lo \<le> r \<and> r \<le> hi) \<and> (\<exists>m. float_to_uint x (Fin lo) (Fin hi) bits = Inl (ValueError m))"
proof (cases "\<exists>r. x = Fin r \<and> lo \<le> r \<and> r \<le> hi")
  case True
  then show ?thesis using float_to_uint_quantises [OF assms(1) _ _ assms(2,3)] by metis
next
  case False
  then have "\<And>r. x = Fin r \<Longrightarrow> r < lo \<or> hi < r" by force
  from float_to_uint_rejects [OF this assms(1)] False show ?thesis by blast
qed

lemma raises_only_require: "raises_only is_value_error (require_range x lo hi)"
  by (simp add: require_range_def guardE_def)

text \<open>
  C17. Nothing but an in-range command is ever packed: with sane limits, a command of which any
  component is NaN, infinite or outside its limits raises \<open>ValueError\<close> and yields no frame.
\<close>

theorem mit_payload_rejects:
  assumes "mit_config_ok cfg"
    and "\<nexists>p v g d t. pos = Fin p \<and> vel = Fin v \<and> kp = Fin g \<and> kd = Fin d \<and> tau = Fin t \<and>
      within_limits cfg p v g d t"
  shows "\<exists>m. pack_mit_payload cfg pos vel kp kd tau = Inl (ValueError m)"
proof -
  let ?ok = "\<lambda>v. case v of Fin r \<Rightarrow> 1 / 2 ^ 20 \<le> r \<and> r \<le> 2 ^ 20 | _ \<Rightarrow> False"
  from assms(1) have c: "?ok (mit_p_max cfg)" "?ok (mit_v_max cfg)" "?ok (mit_kp_max cfg)"
      "?ok (mit_kd_max cfg)" "?ok (mit_tau_max cfg)"
    unfolding mit_config_ok_def list.pred_inject by blast+
  have signed: "(\<exists>r n. x = Fin r \<and> \<bar>r\<bar> \<le> limit_of m \<and> float_to_uint x (fneg m) m b = Inr n) \<or>
      (\<nexists>r. x = Fin r \<and> \<bar>r\<bar> \<le> limit_of m) \<and> (\<exists>e. float_to_uint x (fneg m) m b = Inl (ValueError e))"
    if "?ok m" "1 \<le> b" "b \<le> 16" for m x b
    using float_to_uint_total [OF limit_sane(2) [OF that(1)] that(2,3), of x] that(1)
    by (cases m; cases x) (auto simp: abs_le_iff)
  have gain: "(\<exists>r n. x = Fin r \<and> 0 \<le> r \<and> r \<le> limit_of m \<and> float_to_uint x (Fin 0) m b = Inr n) \<or>
      (\<nexists>r. x = Fin r \<and> 0 \<le> r \<and> r \<le> limit_of m) \<and> (\<exists>e. float_to_uint x (Fin 0) m b = Inl (ValueError e))"
    if "?ok m" "1 \<le> b" "b \<le> 16" for m x b
    using float_to_uint_total [OF limit_sane(3) [OF that(1)] that(2,3), of x] that(1) by (cases m) auto
  note f = signed [OF c(1), of 16 pos] signed [OF c(2), of 12 vel] gain [OF c(3), of 12 kp]
    gain [OF c(4), of 8 kd] signed [OF c(5), of 8 tau]
  have fields: "(\<exists>e. float_to_uint pos (fneg (mit_p_max cfg)) (mit_p_max cfg) 16 = Inl (ValueError e)) \<or>
      (\<exists>e. float_to_uint vel (fneg (mit_v_max cfg)) (mit_v_max cfg) 12 = Inl (ValueError e)) \<or>
      (\<exists>e. float_to_uint kp (Fin 0) (mit_kp_max cfg) 12 = Inl (ValueError e)) \<or>
      (\<exists>e. float_to_uint kd (Fin 0) (mit_kd_max cfg) 8 = Inl (ValueError e)) \<or>
      (\<exists>e. float_to_uint tau (fneg (mit_tau_max cfg)) (mit_tau_max cfg) 8 = Inl (ValueError e))"
    using f assms(2) unfolding within_limits_def by simp metis
  have "pack_mit_payload cfg pos vel kp kd tau \<noteq> Inr d" for d
    using fields by (auto simp: pack_mit_payload_def bindE_eq_Inr)
  moreover have "raises_only is_value_error (pack_mit_payload cfg pos vel kp kd tau)"
    unfolding pack_mit_payload_def
    by (intro raises_only_bindE raises_only_require) (use f in \<open>auto simp: pack_fields_def\<close>)
  ultimately show ?thesis
    by (cases "pack_mit_payload cfg pos vel kp kd tau") (auto simp: is_value_error_def)
qed

theorem mit_payload_rejects_witness:
  "\<exists>m. pack_mit_payload SPGMITConfig_default NaN (Fin 0) (Fin 0) (Fin (1/2)) (Fin 0) = Inl (ValueError m)"
proof -
  have "mit_config_ok SPGMITConfig_default"
    by (simp add: mit_config_ok_def SPGMITConfig_default_def pyfloat_simps)
  then show ?thesis by (rule mit_payload_rejects) simp
qed

section \<open>Zero offsets\<close>

lemma rnd64_mul_close:
  fixes x y :: real
  assumes "\<bar>x - y\<bar> \<le> \<delta>" and "\<bar>y\<bar> \<le> 2 ^ 16" and "\<delta> \<le> 1"
  shows "\<bar>rnd 53 (-1074) x - y\<bar> \<le> \<delta> + 1 / 2 ^ 35" and "fround x = Fin (rnd 53 (-1074) x)"
proof -
  have x: "\<bar>x\<bar> \<le> 2 ^ 17" using assms by simp
  then have "\<bar>x\<bar> / 2 ^ 53 \<le> 2 ^ 17 / 2 ^ 53" by (intro divide_right_mono) auto
  moreover have "(2::real) ^ 17 / 2 ^ 53 + 1 / 2 ^ 90 \<le> 1 / 2 ^ 35" by simp
  ultimately have "\<bar>rnd 53 (-1074) x - x\<bar> \<le> 1 / 2 ^ 35" using rnd64_error [of x] tiny_less by linarith
  then show "\<bar>rnd 53 (-1074) x - y\<bar> \<le> \<delta> + 1 / 2 ^ 35" using assms(1) by linarith
  show "fround x = Fin (rnd 53 (-1074) x)" using x by (intro fround_small) simp
qed

text \<open>The double the literal \<open>0.01\<close> denotes is within \<open>2\<^sup>-\<^sup>5\<^sup>9\<close> of a hundredth.\<close>

lemma lit_hundredth:
  obtains h where "lit (1/100) = Fin h" and "\<bar>h - 1/100\<bar> \<le> 1 / 2 ^ 59"
proof -
  have "\<bar>1/100 :: real\<bar> / 2 ^ 53 + 1 / 2 ^ 90 \<le> 1 / 2 ^ 59" by simp
  then have "\<bar>rnd 53 (-1074) (1/100) - 1/100\<bar> \<le> 1 / 2 ^ 59"
    using rnd64_error [of "1/100"] tiny_less by linarith
  moreover have "lit (1/100) = Fin (rnd 53 (-1074) (1/100))"
    unfolding lit_def by (rule fround_small) simp
  ultimately show thesis by (rule that [rotated])
qed

lemma offset_degrees:
  assumes "\<bar>c\<bar> \<le> 32768"
  shows "round_half_away_from_zero (fmul (fmul (float_of_int c) (lit (1/100))) (Fin 100)) = Inr c"
proof -
  define C :: real where "C = of_int c"
  have C: "\<bar>C\<bar> \<le> 32768" unfolding C_def using assms by (metis of_int_abs of_int_le_numeral_iff)
  obtain h where h: "lit (1/100) = Fin h" "\<bar>h - 1/100\<bar> \<le> 1 / 2 ^ 59" by (rule lit_hundredth)
  have "C * h - C / 100 = C * (h - 1/100)" by (simp add: algebra_simps)
  then have "\<bar>C * h - C / 100\<bar> = \<bar>C\<bar> * \<bar>h - 1/100\<bar>" by (simp add: abs_mult)
  also have "\<dots> \<le> 32768 * (1 / 2 ^ 59)" using C h(2) by (intro mult_mono) auto
  also have "\<dots> = 1 / 2 ^ 44" by simp
  finally have 1: "\<bar>C * h - C / 100\<bar> \<le> 1 / 2 ^ 44" .
  define t where "t = rnd 53 (-1074) (C * h)"
  have t: "\<bar>t - C / 100\<bar> \<le> 1 / 2 ^ 44 + 1 / 2 ^ 35" "fround (C * h) = Fin t"
    using rnd64_mul_close [OF 1] C unfolding t_def by auto
  have "t * 100 - C = 100 * (t - C / 100)" by simp
  then have "\<bar>t * 100 - C\<bar> = 100 * \<bar>t - C / 100\<bar>" by (simp only: abs_mult abs_numeral)
  also have "\<dots> \<le> 100 * (1 / 2 ^ 44 + 1 / 2 ^ 35)" using t(1) by (intro mult_left_mono) auto
  also have "\<dots> \<le> 1 / 2 ^ 28" by simp
  finally have 2: "\<bar>t * 100 - C\<bar> \<le> 1 / 2 ^ 28" .
  define u where "u = rnd 53 (-1074) (t * 100)"
  have u: "\<bar>u - C\<bar> \<le> 1 / 2 ^ 28 + 1 / 2 ^ 35" "fround (t * 100) = Fin u"
    using rnd64_mul_close [OF 2] C unfolding u_def by auto
  have small: "(1::real) / 2 ^ 28 + 1 / 2 ^ 35 \<le> 1 / 8" "(1::real) / 2 ^ 31 \<le> 1 / 8" by simp_all
  have "\<bar>u\<bar> \<le> 32769" using u(1) C small by linarith
  then have "\<bar>u\<bar> \<le> 2 ^ 20" by simp
  then obtain n where n: "round_half_away_from_zero (Fin u) = Inr n" "\<bar>of_int n - u\<bar> \<le> 1/2 + 1 / 2 ^ 31"
    by (rule round_half_close)
  have "\<bar>real_of_int n - of_int c\<bar> < 1" using n(2) u(1) small unfolding C_def [symmetric] by linarith
  then have "n = c" by linarith
  moreover have "\<bar>c\<bar> < 2 ^ 53" using assms by simp
  ultimately show ?thesis
    using n(1) h(1) t(2) u(2) by (simp add: float_of_int_exact C_def)
qed

lemma zero_frame_exact:
  assumes "- 32768 \<le> c" and "c \<le> 32767"
  shows "encode_zero_position_frame p (fmul (float_of_int c) (lit (1/100))) =
    Inr \<lparr>fr_can_id = sq_command_id p, fr_data = [0xC3, 0, 0, 0, 0, 0] @ le_bytes 2 c\<rparr>"
proof -
  have "round_half_away_from_zero (fmul (fmul (float_of_int c) (lit (1/100))) (Fin 100)) = Inr c"
    using assms by (intro offset_degrees) auto
  then show ?thesis
    using assms by (simp add: encode_zero_position_frame_def encode_mit_set_zero_frame_def
        pack_mit_set_zero_payload_def command_frame_def CMD_MIT_SET_ZERO_def)
qed

text \<open>
  C18. Zero offsets survive the trip through floating point: for every 16-bit offset count \<open>c\<close>,
  encoding the set-zero frame for \<open>c * 0.01\<close> degrees (computed in double precision) gives the
  opcode 0xC3 and \<open>c\<close> itself in the last two bytes, which the ACK decoder reads back as \<open>c\<close>.
\<close>

theorem zero_offset_exact:
  assumes "- 32768 \<le> c" and "c \<le> 32767"
  shows "\<exists>d s. encode_zero_position_frame p (fmul (float_of_int c) (lit (1/100))) =
      Inr \<lparr>fr_can_id = sq_command_id p, fr_data = d\<rparr> \<and>
    d = [0xC3, 0, 0, 0, 0, 0] @ le_bytes 2 c \<and>
    decode_ack_like_frame now d = Inr s \<and> map_of (av_raw s) ''offset_i16'' = Some (PInt c)"
proof -
  have "le_sint (le_bytes 2 c) = c" using assms by (intro le_sint_bytes) auto
  then have "\<exists>s. decode_ack_like_frame now ([0xC3, 0, 0, 0, 0, 0] @ le_bytes 2 c) = Inr s \<and>
      map_of (av_raw s) ''offset_i16'' = Some (PInt c)"
    by (simp add: decode_ack_like_frame_def Let_def spg_opcodes slice_def)
  with zero_frame_exact [OF assms] show ?thesis by blast
qed

definition demo_spg :: spg_protocol where
  "demo_spg =
     \<lparr>sq_command_id = 0x141, sq_feedback_id = 0x141, sq_mit_config = SPGMITConfig_default,
      sq_gear_ratio = Fin 1, sq_feedback_speed_is_motor_side = True, sq_expose_single_turn_position = True,
      sq_iq_count_to_amp = None, sq_torque_constant_nm_per_a = None, sq_gear_efficiency = Fin 1\<rparr>"

theorem zero_offset_exact_witness:
  "encode_zero_position_frame demo_spg (fmul (float_of_int 8250) (lit (1/100))) =
     Inr \<lparr>fr_can_id = 0x141, fr_data = [0xC3, 0, 0, 0, 0, 0] @ le_bytes 2 8250\<rparr>"
  using zero_offset_exact [of 8250 demo_spg "Fin 1"] by (auto simp: demo_spg_def)

section \<open>Encoder counts\<close>

lemma wrap_u14_mod: "wrap_u14 x = x mod 16384"
  using take_bit_eq_mask [of 14 x] by (simp add: wrap_u14_def mask_numeral take_bit_eq_mod)

lemma mod_close:
  fixes a b m :: int
  assumes "0 < m" and "d = a mod m - b mod m \<or> d = a mod m - b mod m - m \<or> d = a mod m - b mod m + m"
  shows "(b + d) mod m = a mod m"
proof -
  have "(b + (a mod m - b mod m)) mod m = a mod m"
    by (metis add_diff_cancel_left' add_diff_eq mod_add_left_eq mod_mod_trivial mod_diff_right_eq)
  moreover from assms(2) have "(b + d) mod m = (b + (a mod m - b mod m)) mod m"
    by (auto simp: add_diff_eq [symmetric]) (metis add.commute add_diff_eq minus_mod_self2, metis add.assoc mod_add_self2)
  ultimately show ?thesis by simp
qed

text \<open>
  Encoder differences are shortest: the difference of two 14-bit counts lies between -8192 and
  8192, and adding it to the previous count gives the current one modulo a turn.
\<close>

theorem shortest_delta_correct:
  "- 8192 \<le> shortest_delta_u14 cur prev \<and> shortest_delta_u14 cur prev \<le> 8192 \<and>
   wrap_u14 (prev + shortest_delta_u14 cur prev) = wrap_u14 cur"
proof -
  have b: "0 \<le> cur mod 16384" "cur mod 16384 < 16384" "0 \<le> prev mod 16384" "prev mod 16384 < 16384"
    by simp_all
  have "(prev + shortest_delta_u14 cur prev) mod 16384 = cur mod 16384"
    by (rule mod_close) (auto simp: shortest_delta_u14_def wrap_u14_mod ENC_HALF_def ENC_MOD_def Let_def)
  with b show ?thesis
    by (auto simp: shortest_delta_u14_def wrap_u14_mod ENC_HALF_def ENC_MOD_def Let_def)
qed

end
