(* ===== verification/Actuator_Driver.thy ===== *)
theory Actuator_Driver
  imports Spg_Facts Comm_Manager Config
begin

text \<open>
  The product-independent actuator driver (\<open>hal/hardware/can/actuator/driver.py\<close>) and the factory
  for SPG actuators (\<open>qhrr0_hw/actuators/spg_actuator.py\<close>). The driver is generic in its protocol;
  the locale \<open>actuator_protocol\<close> states what it relies on, and the SPG protocol interprets it.
\<close>

section \<open>The driver\<close>

record 'p actuator_driver =
  ad_name :: string
  ad_protocol :: 'p
  ad_comm_manager :: comm_manager
  ad_transaction_manager :: transaction_manager
  ad_state :: actuator_state

definition ActuatorDriver_init :: "string \<Rightarrow> 'p \<Rightarrow> pyfloat \<Rightarrow> 'p actuator_driver" where
  "ActuatorDriver_init name protocol feedback_timeout =
     \<lparr>ad_name = name, ad_protocol = protocol,
      ad_comm_manager = BestEffortCommManager_init feedback_timeout,
      ad_transaction_manager = TransactionManager_init, ad_state = ActuatorState_init\<rparr>"

definition or_keep :: "'a option \<Rightarrow> 'a option \<Rightarrow> 'a option" where
  "or_keep partial old = (case partial of None \<Rightarrow> old | Some v \<Rightarrow> Some v)"

definition dict_update :: "(string \<times> pyval) list \<Rightarrow> (string \<times> pyval) list \<Rightarrow> (string \<times> pyval) list" where
  "dict_update new old = foldl (\<lambda>d (k, v). AList.update k v d) old new"

text \<open>\<open>clock\<close> is read only when the partial state carries no positive time.\<close>

definition merge_state :: "actuator_state \<Rightarrow> pyfloat \<Rightarrow> 'p actuator_driver \<Rightarrow> 'p actuator_driver" where
  "merge_state partial clock d =
     (let s = ad_state d; stamped = fgt (av_last_feedback_t partial) (Fin 0)
      in d\<lparr>ad_state :=
             \<lparr>av_position_rad = or_keep (av_position_rad partial) (av_position_rad s),
              av_velocity_rad_s = or_keep (av_velocity_rad_s partial) (av_velocity_rad_s s),
              av_torque_nm = or_keep (av_torque_nm partial) (av_torque_nm s),
              av_current_a = or_keep (av_current_a partial) (av_current_a s),
              av_temperature_c = or_keep (av_temperature_c partial) (av_temperature_c s),
              av_voltage_v = or_keep (av_voltage_v partial) (av_voltage_v s),
              av_fault_code = or_keep (av_fault_code partial) (av_fault_code s),
              av_is_enabled = or_keep (av_is_enabled partial) (av_is_enabled s),
              av_mode = or_keep (av_mode partial) (av_mode s),
              av_last_feedback_t = (if stamped then av_last_feedback_t partial else av_last_feedback_t s),
              av_raw = dict_update (av_raw partial) (av_raw s)\<rparr>,
           ad_comm_manager :=
             mark_rx (if stamped then Some (av_last_feedback_t partial) else None) clock (ad_comm_manager d)\<rparr>)"

text \<open>
  \<open>on_frame\<close>, for the protocol's \<open>decode\<close>; \<open>now\<close> is the clock reading of the decoder or of the
  error path, \<open>clock\<close> the one of \<open>merge_state\<close>.
\<close>

definition driver_on_frame ::
  "('p \<Rightarrow> pyfloat \<Rightarrow> can_frame \<Rightarrow> actuator_state option result) \<Rightarrow> pyfloat \<Rightarrow> pyfloat \<Rightarrow> can_frame \<Rightarrow>
   'p actuator_driver \<Rightarrow> 'p actuator_driver" where
  "driver_on_frame decode now clock frame d =
     (case decode (ad_protocol d) now frame of
        Inl _ \<Rightarrow> d\<lparr>ad_comm_manager := mark_decode_error now (ad_comm_manager d)\<rparr>
      | Inr None \<Rightarrow> d
      | Inr (Some partial) \<Rightarrow>
          let d' = merge_state partial clock d
          in d'\<lparr>ad_transaction_manager := transaction_mark_rx (fr_can_id frame) (ad_transaction_manager d')\<rparr>)"

definition driver_update_fault_flags :: "pyfloat \<Rightarrow> 'p actuator_driver \<Rightarrow> 'p actuator_driver" where
  "driver_update_fault_flags now d = d\<lparr>ad_comm_manager := update_fault_flags now (ad_comm_manager d)\<rparr>"

definition driver_start_transaction :: "int set \<Rightarrow> pyfloat \<Rightarrow> pyfloat \<Rightarrow> 'p actuator_driver \<Rightarrow> 'p actuator_driver" where
  "driver_start_transaction expected_ids timeout now d =
     d\<lparr>ad_transaction_manager := start_transaction expected_ids timeout now (ad_transaction_manager d)\<rparr>"

definition driver_clear_transaction :: "'p actuator_driver \<Rightarrow> 'p actuator_driver" where
  "driver_clear_transaction d = d\<lparr>ad_transaction_manager := transaction_clear (ad_transaction_manager d)\<rparr>"

text \<open>The frame helpers forward to the protocol; those the SPG protocol does not override raise.\<close>

type_synonym spg_driver = "spg_protocol actuator_driver"

definition make_enable_frame :: "spg_driver \<Rightarrow> can_frame" where
  "make_enable_frame d = encode_enable_frame (ad_protocol d)"

definition make_disable_frame :: "spg_driver \<Rightarrow> can_frame" where
  "make_disable_frame d = encode_disable_frame (ad_protocol d)"

definition make_damping_frame :: "spg_driver \<Rightarrow> can_frame result" where
  "make_damping_frame d = Inl (NotImplementedError ''does not support damping command'')"

definition make_clear_fault_frame :: "spg_driver \<Rightarrow> can_frame" where
  "make_clear_fault_frame d = encode_clear_fault_frame (ad_protocol d)"

definition make_zero_position_frame :: "pyfloat \<Rightarrow> spg_driver \<Rightarrow> can_frame result" where
  "make_zero_position_frame offset_deg d = encode_zero_position_frame (ad_protocol d) offset_deg"

definition make_torque_command_frame :: "pyfloat \<Rightarrow> spg_driver \<Rightarrow> can_frame result" where
  "make_torque_command_frame torque_nm d = encode_torque_command_frame (ad_protocol d) torque_nm"

definition make_velocity_command_frame :: "pyfloat \<Rightarrow> spg_driver \<Rightarrow> can_frame result" where
  "make_velocity_command_frame velocity_rad_s d = Inl (NotImplementedError ''does not support velocity command'')"

definition make_position_command_frame :: "pyfloat \<Rightarrow> pyfloat option \<Rightarrow> spg_driver \<Rightarrow> can_frame result" where
  "make_position_command_frame position_rad velocity_rad_s d =
     Inl (NotImplementedError ''does not support position command'')"

definition make_impedance_command_frame ::
  "pyfloat \<Rightarrow> pyfloat \<Rightarrow> pyfloat \<Rightarrow> pyfloat \<Rightarrow> pyfloat \<Rightarrow> spg_driver \<Rightarrow> can_frame result" where
  "make_impedance_command_frame position_rad velocity_rad_s kp kd torque_ff_nm d =
     encode_impedance_command_frame (ad_protocol d) position_rad velocity_rad_s kp kd torque_ff_nm"

definition create_spg_actuator_driver ::
  "QHRR0ActuatorSpec \<Rightarrow> SPGMITConfig \<Rightarrow> pyfloat \<Rightarrow> bool \<Rightarrow> pyfloat option \<Rightarrow> spg_driver result" where
  "create_spg_actuator_driver spec mit_config feedback_timeout_s feedback_speed_is_motor_side iq_count_to_amp =
     bindE (SPGActuatorProtocol_init (sp_can_id spec) (Some (sp_can_id spec)) (Some mit_config) (Fin 1)
         feedback_speed_is_motor_side True iq_count_to_amp None (Fin 1))
       (\<lambda>protocol. Inr (ActuatorDriver_init (sp_name spec) protocol feedback_timeout_s))"

section \<open>What the driver relies on\<close>

locale actuator_protocol =
  fixes decode :: "'p \<Rightarrow> pyfloat \<Rightarrow> can_frame \<Rightarrow> actuator_state option result"
    and rx_ids :: "'p \<Rightarrow> int list"
  assumes foreign: "fr_can_id frame \<notin> set (rx_ids p) \<Longrightarrow> decode p now frame = Inr None"
    and stamped: "decode p now frame = Inr (Some s) \<Longrightarrow> av_last_feedback_t s = now"
begin

lemma on_frame_foreign: "fr_can_id frame \<notin> set (rx_ids (ad_protocol d)) \<Longrightarrow> driver_on_frame decode now clock frame d = d"
  by (simp add: driver_on_frame_def foreign)

lemma on_frame_protocol [simp]: "ad_protocol (driver_on_frame decode now clock frame d) = ad_protocol d"
  by (auto simp: driver_on_frame_def merge_state_def Let_def split: sum.splits option.splits)

lemma on_frame_decoded:
  assumes "decode (ad_protocol d) now frame = Inr (Some s)" and "fgt now (Fin 0)"
  shows "ad_state (driver_on_frame decode now clock frame d) = ad_state (merge_state s clock d)"
    and "ad_comm_manager (driver_on_frame decode now clock frame d) = mark_rx (Some now) clock (ad_comm_manager d)"
  using assms(1) stamped [OF assms(1)] assms(2)
  by (simp_all add: driver_on_frame_def Let_def merge_state_def)

lemma on_frame_error:
  assumes "decode (ad_protocol d) now frame = Inl x"
  shows "ad_state (driver_on_frame decode now clock frame d) = ad_state d"
    and "ad_comm_manager (driver_on_frame decode now clock frame d) = mark_decode_error now (ad_comm_manager d)"
  using assms by (simp_all add: driver_on_frame_def)

end

lemma decode_frame_stamped: "decode_frame p now frame = Inr (Some s) \<Longrightarrow> av_last_feedback_t s = now"
  by (auto simp: decode_frame_def decode_mit_status_def decode_encoder_data_def decode_mit_params_def
      decode_ack_like_frame_def bindE_eq_Inr Let_def split: if_splits)

interpretation spg: actuator_protocol decode_frame spg_rx_can_ids
  by unfold_locales (simp_all add: decode_frame_def spg_rx_can_ids_def decode_frame_stamped)

section \<open>Property\<close>



end
