(* ===== verification/Supervisor.thy ===== *)
theory Supervisor
  imports Config
begin

text \<open>
  The process supervisor (\<open>robot_controller/supervisor/process_supervisor.py\<close>): launching the child
  processes in start order, finding them again through pid files, and stopping them in stop order
  with SIGTERM and, after the timeout, SIGKILL. The operating system's view of processes is part of
  the state; which processes exit on SIGTERM before the timeout is up to them.
\<close>

section \<open>Processes\<close>

datatype sup_action =
    Launch string "string list"
  | Term_pid int
  | Kill_pid int
  | Term_group int
  | Kill_group int

record supervisor =
  su_process_configs :: "(string \<times> ProcessConfig) list"
  su_processes :: "(string \<times> int) list"
  su_log_handles :: "string list"
  su_pidfiles :: "string \<rightharpoonup> int"
  su_running :: "int set"
  su_next_pid :: int
  su_actions :: "sup_action list"

text \<open>
  What the operating system decides: which processes exit on SIGTERM in time, which programs can be
  launched, and how a working directory resolves.
\<close>

record sup_world =
  sw_exits :: "int \<Rightarrow> bool"
  sw_launchable :: "string list \<Rightarrow> bool"
  sw_resolve :: "string \<Rightarrow> string"

text \<open>The dict of configurations: a later entry of the same name replaces the earlier one.\<close>

definition configs_by_name :: "ProcessConfig list \<Rightarrow> (string \<times> ProcessConfig) list" where
  "configs_by_name configs = foldl (\<lambda>d c. AList.update (pr_name c) c d) [] configs"

definition ProcessSupervisor_init :: "ProcessConfig list \<Rightarrow> (string \<rightharpoonup> int) \<Rightarrow> int set \<Rightarrow> int \<Rightarrow> supervisor" where
  "ProcessSupervisor_init configs pidfiles running next_pid =
     \<lparr>su_process_configs = configs_by_name configs, su_processes = [], su_log_handles = [],
      su_pidfiles = pidfiles, su_running = running, su_next_pid = next_pid, su_actions = []\<rparr>"

text \<open>A pid file counts when the name is configured and it holds a number above one.\<close>

definition read_pidfile :: "supervisor \<Rightarrow> string \<Rightarrow> int option" where
  "read_pidfile s name =
     (if map_of (su_process_configs s) name = None then None
      else case su_pidfiles s name of None \<Rightarrow> None | Some v \<Rightarrow> if 1 < v then Some v else None)"

definition is_alive :: "supervisor \<Rightarrow> string \<Rightarrow> bool" where
  "is_alive s name =
     ((case map_of (su_processes s) name of None \<Rightarrow> False | Some pid \<Rightarrow> pid \<in> su_running s) \<or>
      (case read_pidfile s name of None \<Rightarrow> False | Some pid \<Rightarrow> pid \<in> su_running s))"

section \<open>The command line\<close>

definition squote :: string where "squote = [CHR 0x27]"
definition dquote :: string where "dquote = [CHR 0x22]"
definition backslash_n :: string where "backslash_n = [CHR 0x5C, CHR ''n'']"

definition shell_safe :: "char \<Rightarrow> bool" where
  "shell_safe c \<longleftrightarrow>
     c \<in> set (''abcdefghijklmnopqrstuvwxyzABCDEFGHIJKLMNOPQRSTUVWXYZ'' @ ''0123456789_@%+=:,./-'')"

definition shlex_quote :: "string \<Rightarrow> string" where
  "shlex_quote s =
     (if s = [] then squote @ squote
      else if list_all shell_safe s then s
      else squote @ concat (map (\<lambda>c. if [c] = squote then squote @ dquote @ squote @ dquote @ squote else [c]) s) @ squote)"

fun join_with :: "string \<Rightarrow> string list \<Rightarrow> string" where
  "join_with sep [] = []"
| "join_with sep [x] = x"
| "join_with sep (x # y # ys) = x @ sep @ join_with sep (y # ys)"

definition shlex_join :: "string list \<Rightarrow> string" where
  "shlex_join args = join_with '' '' (map shlex_quote args)"

definition launch_command :: "sup_world \<Rightarrow> ProcessConfig \<Rightarrow> string \<Rightarrow> string \<Rightarrow> string list result" where
  "launch_command W config pidfile log_file =
     (if \<not> pr_new_terminal config then Inr (pr_command config)
      else if pr_terminal_command config = [] then Inl (ValueError ''requires terminal_command'')
      else let
        pidfile_part = ''printf '' @ squote @ ''%s'' @ backslash_n @ squote @ '' '' @ dquote @ ''$$'' @ dquote @
          '' > '' @ shlex_quote pidfile @ '' && '';
        log_part = ''exec > >(tee -a '' @ shlex_quote log_file @ '') 2>&1 && '' @
          ''printf '' @ squote @ ''[process_supervisor] log file: %s'' @ backslash_n @ squote @ '' '' @
          shlex_quote log_file @ '' && '';
        shell_command = ''cd '' @ shlex_quote (sw_resolve W (pr_working_dir config)) @ '' && '' @
          pidfile_part @ log_part @ ''exec '' @ shlex_join (pr_command config)
        in Inr (pr_terminal_command config @ [''bash'', ''-lc'', shell_command]))"

definition pidfile_path :: "string \<Rightarrow> string" where
  "pidfile_path name = ''/tmp/qhrr_robot_controller_processes/'' @ name @ ''.pid''"

section \<open>Starting\<close>

definition start_by_name :: "sup_world \<Rightarrow> (string \<Rightarrow> string) \<Rightarrow> string \<Rightarrow> (supervisor, unit) action" where
  "start_by_name W log_file_for name s =
     (if name = [] then (Inl (ValueError ''Process name must not be empty''), s)
      else case map_of (su_process_configs s) name of
        None \<Rightarrow> (Inl (KeyError ''Unknown process''), s)
      | Some config \<Rightarrow>
          if is_alive s name then (Inr (), s)
          else if pr_command config = [] then (Inl (ValueError ''has empty command''), s)
          else let s1 = s\<lparr>su_pidfiles := (su_pidfiles s)(name := None),
                 su_log_handles := (if pr_new_terminal config then su_log_handles s
                   else List.insert name (su_log_handles s))\<rparr>
            in case launch_command W config (pidfile_path name) (log_file_for name) of
                 Inl x \<Rightarrow> (Inl x, s1)
               | Inr argv \<Rightarrow>
                   if \<not> sw_launchable W argv then (Inl (FileNotFoundError ''No such file or directory''), s1)
                   else (Inr (), s1\<lparr>su_processes := AList.update name (su_next_pid s) (su_processes s),
                     su_running := insert (su_next_pid s) (su_running s), su_next_pid := su_next_pid s + 1,
                     su_actions := su_actions s @ [Launch name argv]\<rparr>))"

definition start_names :: "supervisor \<Rightarrow> string list" where
  "start_names s = map pr_name (sort_key pr_start_order (map snd (su_process_configs s)))"

definition start_all :: "sup_world \<Rightarrow> (string \<Rightarrow> string) \<Rightarrow> (supervisor, unit) action" where
  "start_all W log_file_for s = forA (start_by_name W log_file_for) (start_names s) s"

section \<open>Stopping\<close>

text \<open>Signals: a terminated process is gone in time if it exits on SIGTERM; SIGKILL always works.\<close>

definition term_signal :: "sup_world \<Rightarrow> (int \<Rightarrow> sup_action) \<Rightarrow> int \<Rightarrow> supervisor \<Rightarrow> supervisor" where
  "term_signal W act pid s =
     s\<lparr>su_running := (if sw_exits W pid then su_running s - {pid} else su_running s),
       su_actions := su_actions s @ [act pid]\<rparr>"

definition kill_signal :: "(int \<Rightarrow> sup_action) \<Rightarrow> int \<Rightarrow> supervisor \<Rightarrow> supervisor" where
  "kill_signal act pid s = s\<lparr>su_running := su_running s - {pid}, su_actions := su_actions s @ [act pid]\<rparr>"

definition opt_do :: "('a \<Rightarrow> 's \<Rightarrow> 's) \<Rightarrow> 'a option \<Rightarrow> 's \<Rightarrow> 's" where
  "opt_do f v s = (case v of None \<Rightarrow> s | Some a \<Rightarrow> f a s)"

definition cleanup_pidfile :: "string \<Rightarrow> supervisor \<Rightarrow> supervisor" where
  "cleanup_pidfile name s =
     (if map_of (su_process_configs s) name = None then s else s\<lparr>su_pidfiles := (su_pidfiles s)(name := None)\<rparr>)"

definition close_log_handle :: "string \<Rightarrow> supervisor \<Rightarrow> supervisor" where
  "close_log_handle name s = s\<lparr>su_log_handles := removeAll name (su_log_handles s)\<rparr>"

definition stop_by_name :: "sup_world \<Rightarrow> string \<Rightarrow> supervisor \<Rightarrow> supervisor" where
  "stop_by_name W name s =
     (let process = map_of (su_processes s) name; managed_pid = read_pidfile s name
      in if process = None \<and> managed_pid = None then s
         else
           let s1 = opt_do (term_signal W Term_pid) managed_pid s;
               s2 = opt_do (\<lambda>pid s. if pid \<in> su_running s then term_signal W Term_group pid s else s) process s1
           in case process of
                None \<Rightarrow>
                  cleanup_pidfile name
                    (opt_do (\<lambda>pid s. if pid \<in> su_running s then kill_signal Kill_pid pid s else s) managed_pid s2)
              | Some pid \<Rightarrow>
                  close_log_handle name (cleanup_pidfile name
                    (if pid \<in> su_running s2
                     then kill_signal Kill_group pid (opt_do (kill_signal Kill_pid) managed_pid s2)
                     else s2)))"

definition stop_names :: "supervisor \<Rightarrow> string list" where
  "stop_names s =
     sort_key (\<lambda>name. pr_stop_order (the (map_of (su_process_configs s) name))) (map fst (su_process_configs s))"

definition stop_all :: "sup_world \<Rightarrow> supervisor \<Rightarrow> supervisor" where
  "stop_all W s = fold (stop_by_name W) (stop_names s) s"

record ProcessHealth =
  ph_can_daemon_alive :: bool
  ph_task_controller_alive :: bool
  ph_aux_reader_alive :: bool
  ph_dashboard_alive :: bool

definition health :: "supervisor \<Rightarrow> ProcessHealth" where
  "health s =
     \<lparr>ph_can_daemon_alive = is_alive s ''can_daemon'', ph_task_controller_alive = is_alive s ''task_controller'',
      ph_aux_reader_alive = is_alive s ''aux_reader'', ph_dashboard_alive = is_alive s ''dashboard''\<rparr>"

section \<open>Facts\<close>

lemma signal_selectors [simp]:
  "su_process_configs (term_signal W act pid s) = su_process_configs s"
  "su_processes (term_signal W act pid s) = su_processes s"
  "su_pidfiles (term_signal W act pid s) = su_pidfiles s"
  "su_running (term_signal W act pid s) = (if sw_exits W pid then su_running s - {pid} else su_running s)"
  "su_process_configs (kill_signal act pid s) = su_process_configs s"
  "su_processes (kill_signal act pid s) = su_processes s"
  "su_pidfiles (kill_signal act pid s) = su_pidfiles s"
  "su_running (kill_signal act pid s) = su_running s - {pid}"
  by (simp_all add: term_signal_def kill_signal_def)

lemma cleanup_selectors [simp]:
  "su_process_configs (cleanup_pidfile name s) = su_process_configs s"
  "su_processes (cleanup_pidfile name s) = su_processes s"
  "su_running (cleanup_pidfile name s) = su_running s"
  "su_process_configs (close_log_handle name s) = su_process_configs s"
  "su_processes (close_log_handle name s) = su_processes s"
  "su_running (close_log_handle name s) = su_running s"
  "su_pidfiles (close_log_handle name s) = su_pidfiles s"
  by (simp_all add: cleanup_pidfile_def close_log_handle_def)

text \<open>What stopping one name does to each part of the state.\<close>

lemma stop_by_name_keeps [simp]:
  "su_process_configs (stop_by_name W name s) = su_process_configs s"
  "su_processes (stop_by_name W name s) = su_processes s"
  by (cases "map_of (su_processes s) name"; cases "read_pidfile s name";
      simp add: stop_by_name_def opt_do_def Let_def)+

lemma stop_by_name_pidfiles:
  "su_pidfiles (stop_by_name W name s) =
     (if map_of (su_processes s) name = None \<and> read_pidfile s name = None then su_pidfiles s
      else su_pidfiles (cleanup_pidfile name s))"
  by (cases "map_of (su_processes s) name"; cases "read_pidfile s name")
    (auto simp: stop_by_name_def opt_do_def Let_def cleanup_pidfile_def)

lemma stop_by_name_running:
  "su_running (stop_by_name W name s) =
     (case (map_of (su_processes s) name, read_pidfile s name) of
        (None, None) \<Rightarrow> su_running s
      | (None, Some m) \<Rightarrow> su_running s - {m}
      | (Some p, None) \<Rightarrow> su_running s - {p}
      | (Some p, Some m) \<Rightarrow>
          if sw_exits W m \<or> (p \<in> su_running s \<and> \<not> sw_exits W p) then su_running s - {p, m} else su_running s - {p})"
  by (cases "map_of (su_processes s) name"; cases "read_pidfile s name")
    (auto simp: stop_by_name_def opt_do_def Let_def)

lemma read_pidfile_stop:
  "read_pidfile (stop_by_name W name s) n = (if n = name then None else read_pidfile s n)"
  by (auto simp: read_pidfile_def stop_by_name_pidfiles cleanup_pidfile_def split: option.splits)

lemma stop_by_name_effect:
  shows "map_of (su_processes s) name = Some pid \<Longrightarrow> pid \<notin> su_running (stop_by_name W name s)"
    and "read_pidfile s name = Some mpid \<Longrightarrow> map_of (su_processes s) name = None \<or> sw_exits W mpid \<Longrightarrow>
      mpid \<notin> su_running (stop_by_name W name s)"
  by (auto simp: stop_by_name_running split: option.splits)

lemma stop_by_name_shrinks: "su_running (stop_by_name W name s) \<subseteq> su_running s"
  by (auto simp: stop_by_name_running split: option.splits)

lemma stop_fold_keeps:
  "su_processes (fold (stop_by_name W) ns s) = su_processes s \<and>
   su_running (fold (stop_by_name W) ns s) \<subseteq> su_running s \<and>
   read_pidfile (fold (stop_by_name W) ns s) n = (if n \<in> set ns then None else read_pidfile s n)"
proof (induction ns arbitrary: s)
  case (Cons a ns)
  show ?case
    using Cons.IH [of "stop_by_name W a s"] stop_by_name_shrinks [of W a s]
    by (auto simp: read_pidfile_stop)
qed simp

lemma stop_fold_effect:
  assumes "name \<in> set ns" and "distinct ns"
  shows "(\<forall>pid. map_of (su_processes s) name = Some pid \<longrightarrow> pid \<notin> su_running (fold (stop_by_name W) ns s)) \<and>
    (\<forall>mpid. read_pidfile s name = Some mpid \<longrightarrow> map_of (su_processes s) name = None \<or> sw_exits W mpid \<longrightarrow>
      mpid \<notin> su_running (fold (stop_by_name W) ns s))"
proof -
  from split_list [OF assms(1)] obtain as bs where ns: "ns = as @ name # bs" by blast
  define s1 where "s1 = fold (stop_by_name W) as s"
  have "name \<notin> set as" using assms(2) ns by simp
  then have s1: "su_processes s1 = su_processes s" "read_pidfile s1 name = read_pidfile s name"
    unfolding s1_def using stop_fold_keeps [of W as s name] by auto
  have sub: "su_running (fold (stop_by_name W) ns s) \<subseteq> su_running (stop_by_name W name s1)"
    using stop_fold_keeps [of W bs "stop_by_name W name s1" name] by (simp add: ns s1_def)
  show ?thesis
    using subsetD [OF sub] stop_by_name_effect [of s1 name _ W] s1 by auto
qed

lemma configs_by_name_distinct: "distinct (map fst (configs_by_name configs))"
proof -
  have "distinct (map fst (foldl (\<lambda>d c. AList.update (pr_name c) c d) d configs))" if "distinct (map fst d)"
    for d :: "(string \<times> ProcessConfig) list"
    using that by (induction configs arbitrary: d) (auto simp: distinct_update)
  then show ?thesis by (simp add: configs_by_name_def)
qed

section \<open>Properties\<close>


definition demo_process :: "string \<Rightarrow> int \<Rightarrow> ProcessConfig" where
  "demo_process name order =
     \<lparr>pr_name = name, pr_command = [''python3''], pr_start_order = order, pr_stop_order = order,
      pr_new_terminal = True, pr_terminal_command = [''gnome-terminal''], pr_working_dir = ''.'', pr_env = []\<rparr>"


text \<open>
  A process launched in a terminal is known by two pids, the terminal's and the one in its pid file.
  When the terminal exits on SIGTERM but the process behind the pid file does not, it is left
  running, and its pid file is removed.
\<close>

lemma managed_process_survives:
  assumes "map_of (su_processes s) name = Some p" and "read_pidfile s name = Some m" and "p \<noteq> m"
    and "m \<in> su_running s" and "\<not> sw_exits W m" and "sw_exits W p"
  shows "m \<in> su_running (stop_by_name W name s) \<and> read_pidfile (stop_by_name W name s) name = None"
  using assms by (simp add: stop_by_name_running read_pidfile_stop)

end
