(* ===== verification/Can_Ipc.thy ===== *)
theory Can_Ipc
  imports Can_Bus Env
begin

text \<open>
  The CAN connection between processes: the client side (\<open>hal/can_bus/process_client.py\<close>,
  \<open>process_transport.py\<close>) and the daemon process that owns the bus
  (\<open>robot_controller/subprocesses/can_daemon/main.py\<close>). Messages are the dicts that travel as JSON
  lines.
\<close>

section \<open>Hexadecimal payloads\<close>

definition hex_digits :: string where
  "hex_digits = ''0123456789abcdef''"

text \<open>\<open>bytes.hex()\<close>.\<close>

definition byte_hex :: "byte \<Rightarrow> string" where
  "byte_hex b = [hex_digits ! (unat b div 16), hex_digits ! (unat b mod 16)]"

definition bytes_hex :: "byte list \<Rightarrow> string" where
  "bytes_hex bs = concat (map byte_hex bs)"

definition hex_value :: "char \<Rightarrow> nat option" where
  "hex_value c = map_of (zip (''0123456789abcdefABCDEF'') ([0..<16] @ [10..<16])) c"

text \<open>\<open>bytes.fromhex(s)\<close>: pairs of digits, white space allowed between bytes.\<close>

fun bytes_fromhex :: "string \<Rightarrow> byte list result" where
  "bytes_fromhex [] = Inr []"
| "bytes_fromhex [c] =
     (if c \<in> set [CHR '' '', CHR 0x09, CHR 0x0A, CHR 0x0B, CHR 0x0C, CHR 0x0D] then Inr []
      else Inl (ValueError ''non-hexadecimal number found in fromhex() arg''))"
| "bytes_fromhex (c # d # cs) =
     (if c \<in> set [CHR '' '', CHR 0x09, CHR 0x0A, CHR 0x0B, CHR 0x0C, CHR 0x0D]
      then bytes_fromhex (d # cs)
      else case (hex_value c, hex_value d) of
        (Some h, Some l) \<Rightarrow> bindE (bytes_fromhex cs) (\<lambda>bs. Inr (word_of_nat (16 * h + l) # bs))
      | _ \<Rightarrow> Inl (ValueError ''non-hexadecimal number found in fromhex() arg''))"

lemma hex_digit_value:
  assumes "n < 16"
  shows "hex_value (hex_digits ! n) = Some n \<and>
    hex_digits ! n \<notin> set [CHR '' '', CHR 0x09, CHR 0x0A, CHR 0x0B, CHR 0x0C, CHR 0x0D]"
proof -
  have "\<forall>n \<in> set [0..<16]. hex_value (hex_digits ! n) = Some n \<and>
      hex_digits ! n \<notin> set [CHR '' '', CHR 0x09, CHR 0x0A, CHR 0x0B, CHR 0x0C, CHR 0x0D]"
    by (simp add: hex_value_def hex_digits_def upt_rec [of _ 16])
  with assms show ?thesis by simp
qed

lemma bytes_fromhex_hex: "bytes_fromhex (bytes_hex bs) = Inr bs"
proof (induction bs)
  case (Cons b bs)
  have lt: "unat b < 256" by (simp add: unsigned_less [of b, simplified])
  then have "unat b div 16 < 16" "unat b mod 16 < 16" by auto
  note h = hex_digit_value [OF this(1)] hex_digit_value [OF this(2)]
  have "(word_of_nat (16 * (unat b div 16) + unat b mod 16) :: byte) = b" by simp
  with Cons h show ?case by (simp add: bytes_hex_def byte_hex_def)
qed (simp add: bytes_hex_def)

section \<open>The client\<close>

text \<open>
  \<open>cl_open\<close>: \<open>_tx_file\<close> is not None. The receive socket and thread are opened and closed with it.
\<close>

record 'cb can_client =
  cl_open :: bool
  cl_dispatcher :: "'cb dispatcher"

definition CANProcessClient_init :: "'cb can_client" where
  "CANProcessClient_init = \<lparr>cl_open = False, cl_dispatcher = CANDispatcher_init\<rparr>"

definition tx_request :: "can_frame \<Rightarrow> pyval" where
  "tx_request frame =
     PDict [(''type'', PStr ''tx''), (''can_id'', PInt (fr_can_id frame)),
       (''data'', PStr (bytes_hex (fr_data frame)))]"

text \<open>\<open>_read_json_line\<close> on the parsed line.\<close>

definition read_json_line :: "pyval result \<Rightarrow> pyval result" where
  "read_json_line line =
     bindE line (\<lambda>m. if is_dict m then Inr m else Inl (RuntimeError ''CAN daemon message must be a JSON object''))"

definition check_tx_response :: "pyval \<Rightarrow> bool result" where
  "check_tx_response response =
     (if dict_get response ''type'' \<noteq> PStr ''tx_result''
      then Inl (RuntimeError ''Unexpected CAN daemon response'')
      else if \<not> py_truthy (dict_get response ''ok'') then Inl (RuntimeError ''CAN daemon TX failed'')
      else Inr True)"

definition CANProcessClient_send :: "'cb can_client \<Rightarrow> can_frame \<Rightarrow> (env, bool) action" where
  "CANProcessClient_send client frame =
     (if \<not> cl_open client then raiseA (RuntimeError ''CAN daemon client is not connected'')
      else (\<lambda>e. case exchange (tx_request frame) e of
        (line, e') \<Rightarrow> (bindE (read_json_line line) check_tx_response, e')))"

text \<open>One round of \<open>_connect_role\<close> after the socket is connected: the answer to \<open>hello\<close>.\<close>

definition hello_request :: "string \<Rightarrow> pyval" where
  "hello_request role = PDict [(''type'', PStr ''hello''), (''role'', PStr role)]"

definition check_hello_response :: "pyval \<Rightarrow> unit result" where
  "check_hello_response response =
     guardE (dict_get response ''type'' = PStr ''hello_ack'' \<and> py_truthy (dict_get response ''ok''))
       (RuntimeError ''CAN daemon rejected role'')"

text \<open>
  \<open>connect\<close>: attempts until one succeeds, an exception other than \<open>OSError\<close> escapes, or the
  deadline has passed. \<open>attempts k\<close> is the outcome of the k-th attempt and \<open>clock k\<close> the time read
  after it failed; \<open>fuel\<close> bounds the attempts.
\<close>

definition is_os_error :: "exc \<Rightarrow> bool" where
  "is_os_error x = (case x of OSError _ \<Rightarrow> True | FileNotFoundError _ \<Rightarrow> True | _ \<Rightarrow> False)"

fun connect_loop ::
  "nat \<Rightarrow> (nat \<Rightarrow> unit result) \<Rightarrow> (nat \<Rightarrow> pyfloat) \<Rightarrow> pyfloat \<Rightarrow> nat \<Rightarrow> unit result option" where
  "connect_loop 0 attempts clock deadline k = None"
| "connect_loop (Suc fuel) attempts clock deadline k =
     (case attempts k of
        Inr _ \<Rightarrow> Some (Inr ())
      | Inl x \<Rightarrow>
          if \<not> is_os_error x then Some (Inl x)
          else if fge (clock k) deadline then Some (Inl x)
          else connect_loop fuel attempts clock deadline (Suc k))"

definition CANProcessClient_connect ::
  "nat \<Rightarrow> (nat \<Rightarrow> unit result) \<Rightarrow> (nat \<Rightarrow> pyfloat) \<Rightarrow> pyfloat \<Rightarrow> pyfloat \<Rightarrow> unit result option" where
  "CANProcessClient_connect fuel attempts clock now connect_timeout_s =
     connect_loop fuel attempts clock (fadd now connect_timeout_s) 0"

text \<open>One message of the receive loop: the frame to dispatch, if it is one.\<close>

definition rx_message_frame :: "py_text \<Rightarrow> pyval \<Rightarrow> can_frame option result" where
  "rx_message_frame T message =
     (if dict_get message ''type'' \<noteq> PStr ''rx'' then Inr None
      else bindE (bindE (dict_item message ''can_id'') (py_int T)) (\<lambda>can_id.
        bindE (dict_item message ''data'') (\<lambda>d.
        bindE (bytes_fromhex (py_str T d)) (\<lambda>data. Inr (Some \<lparr>fr_can_id = can_id, fr_data = data\<rparr>)))))"

section \<open>The transport\<close>

definition TX_ECHO_REJECT_WINDOW_S :: pyfloat where
  "TX_ECHO_REJECT_WINDOW_S = Fin (1/4)"

definition RECENT_TX_MAXLEN :: nat where
  "RECENT_TX_MAXLEN = 512"

record 'cb can_transport =
  tp_client :: "'cb can_client option"
  tp_recent_tx_frames :: "(pyfloat \<times> int \<times> byte list) list"

definition CANProcessTransport_init :: "'cb can_transport" where
  "CANProcessTransport_init = \<lparr>tp_client = None, tp_recent_tx_frames = []\<rparr>"

text \<open>The client is stored before it connects, and stays stored when connecting raises.\<close>

definition transport_connect :: "('cb can_transport \<times> env, unit) action" where
  "transport_connect s =
     (case s of (t, e) \<Rightarrow>
       (case tp_client t of
          Some _ \<Rightarrow> (Inr (), (t, e))
        | None \<Rightarrow>
            (let e' = e\<lparr>env_connect_count := Suc (env_connect_count e)\<rparr>
             in case env_connects e (env_connect_count e) of
                  Inl x \<Rightarrow> (Inl x, (t\<lparr>tp_client := Some CANProcessClient_init\<rparr>, e'))
                | Inr _ \<Rightarrow> (Inr (), (t\<lparr>tp_client := Some (CANProcessClient_init\<lparr>cl_open := True\<rparr>)\<rparr>, e')))))"

definition transport_close :: "'cb can_transport \<Rightarrow> 'cb can_transport" where
  "transport_close t = (case tp_client t of None \<Rightarrow> t | Some _ \<Rightarrow> t\<lparr>tp_client := None\<rparr>)"

definition is_connected :: "'cb can_transport \<Rightarrow> bool" where
  "is_connected t \<longleftrightarrow> tp_client t \<noteq> None"

definition register_callback :: "int \<Rightarrow> 'cb \<Rightarrow> ('cb can_transport, unit) action" where
  "register_callback can_id callback t =
     (case tp_client t of
        None \<Rightarrow> (Inl (RuntimeError ''CAN process transport must be connected before callback registration''), t)
      | Some c \<Rightarrow>
          (Inr (), t\<lparr>tp_client := Some (c\<lparr>cl_dispatcher := register can_id callback (cl_dispatcher c)\<rparr>)\<rparr>))"

definition transport_registered_ids :: "'cb can_transport \<Rightarrow> int list" where
  "transport_registered_ids t =
     (case tp_client t of None \<Rightarrow> [] | Some c \<Rightarrow> sort (registered_ids (cl_dispatcher c)))"

text \<open>\<open>deque(maxlen=512).append\<close>.\<close>

definition deque_append :: "nat \<Rightarrow> 'a \<Rightarrow> 'a list \<Rightarrow> 'a list" where
  "deque_append maxlen x xs = drop (Suc (length xs) - maxlen) (xs @ [x])"

definition remember_tx_frame :: "can_frame \<Rightarrow> 'cb can_transport \<times> env \<Rightarrow> 'cb can_transport \<times> env" where
  "remember_tx_frame frame s =
     (case s of (t, e) \<Rightarrow>
       (case time_monotonic e of (now, e') \<Rightarrow>
         (t\<lparr>tp_recent_tx_frames :=
              deque_append RECENT_TX_MAXLEN (now, fr_can_id frame, fr_data frame) (tp_recent_tx_frames t)\<rparr>, e')))"

definition send_frame :: "can_frame \<Rightarrow> ('cb can_transport \<times> env, unit) action" where
  "send_frame frame =
     (if fr_can_id frame < 0 \<or> CAN_SFF_MASK < fr_can_id frame
      then raiseA (ValueError ''Only standard 11-bit CAN IDs are supported'')
      else bindA transport_connect (\<lambda>_ s. case s of (t, e) \<Rightarrow>
        (case tp_client t of
           None \<Rightarrow> (Inl (AssertionError ''client is not None''), s)
         | Some c \<Rightarrow>
             (case CANProcessClient_send c frame e of
                (Inl x, e') \<Rightarrow> (Inl x, (t, e'))
              | (Inr _, e') \<Rightarrow> (Inr (), remember_tx_frame frame (t, e'))))))"

definition is_recent_tx_echo :: "can_frame \<Rightarrow> 'cb can_transport \<times> env \<Rightarrow> bool \<times> ('cb can_transport \<times> env)" where
  "is_recent_tx_echo frame s =
     (case s of (t, e) \<Rightarrow>
       (case time_monotonic e of (now, e') \<Rightarrow>
         (let recent = dropWhile (\<lambda>(tx_t, _, _). fgt (fsub now tx_t) TX_ECHO_REJECT_WINDOW_S)
                (tp_recent_tx_frames t)
          in (list_ex (\<lambda>(_, tx_can_id, tx_data). tx_can_id = fr_can_id frame \<and> tx_data = fr_data frame) recent,
              (t\<lparr>tp_recent_tx_frames := recent\<rparr>, e')))))"

section \<open>The daemon process\<close>

definition rx_message :: "can_frame \<Rightarrow> pyval" where
  "rx_message frame =
     PDict [(''type'', PStr ''rx''), (''can_id'', PInt (fr_can_id frame)),
       (''data'', PStr (bytes_hex (fr_data frame)))]"

text \<open>
  \<open>RxSubscribers\<close>: \<open>alive\<close> tells for which sockets \<open>sendall\<close> succeeds. The result is what each
  living subscriber was sent; the others are dropped.
\<close>

definition subscribers_add :: "'s \<Rightarrow> 's list \<Rightarrow> 's list" where
  "subscribers_add sock subs = (if sock \<in> set subs then subs else subs @ [sock])"

definition subscribers_remove :: "'s \<Rightarrow> 's list \<Rightarrow> 's list" where
  "subscribers_remove sock subs = filter (\<lambda>s. s \<noteq> sock) subs"

fun publish_to :: "('s \<Rightarrow> bool) \<Rightarrow> pyval \<Rightarrow> 's list \<Rightarrow> 's list \<Rightarrow> ('s \<times> pyval) list \<times> 's list" where
  "publish_to alive payload [] subs = ([], subs)"
| "publish_to alive payload (s # ss) subs =
     (if alive s
      then (case publish_to alive payload ss subs of (out, subs') \<Rightarrow> ((s, payload) # out, subs'))
      else publish_to alive payload ss (subscribers_remove s subs))"

definition subscribers_publish :: "('s \<Rightarrow> bool) \<Rightarrow> can_frame \<Rightarrow> 's list \<Rightarrow> ('s \<times> pyval) list \<times> 's list" where
  "subscribers_publish alive frame subs = publish_to alive (rx_message frame) subs subs"

definition tx_result :: "bool \<Rightarrow> pyval" where
  "tx_result ok = PDict [(''type'', PStr ''tx_result''), (''ok'', PBool ok)]"

definition tx_error :: "string \<Rightarrow> pyval" where
  "tx_error err = PDict [(''type'', PStr ''tx_result''), (''ok'', PBool False), (''error'', PStr err)]"

text \<open>One round of \<open>_handle_tx_client\<close>.\<close>

definition handle_tx_message :: "py_text \<Rightarrow> pyval \<Rightarrow> can_daemon \<Rightarrow> pyval \<times> can_daemon" where
  "handle_tx_message T message d =
     (if dict_get message ''type'' \<noteq> PStr ''tx'' then (tx_error ''expected tx'', d)
      else case bindE (bindE (dict_item message ''can_id'') (py_int T)) (\<lambda>can_id.
          bindE (dict_item message ''data'') (\<lambda>v.
          bindE (bytes_fromhex (py_str T v)) (\<lambda>data. Inr \<lparr>fr_can_id = can_id, fr_data = data\<rparr>))) of
        Inl x \<Rightarrow> (tx_error (exc_text x), d)
      | Inr frame \<Rightarrow> (case CANDaemon_send frame d of (ok, d') \<Rightarrow> (tx_result ok, d')))"

text \<open>
  \<open>_handle_tx_client\<close> on the lines a client sends; a line that cannot be read or is no JSON object
  ends the handler.
\<close>

fun handle_tx_client :: "py_text \<Rightarrow> pyval result list \<Rightarrow> can_daemon \<Rightarrow> pyval list \<times> can_daemon" where
  "handle_tx_client T [] d = ([], d)"
| "handle_tx_client T (line # lines) d =
     (case read_json_line line of
        Inl _ \<Rightarrow> ([], d)
      | Inr message \<Rightarrow>
          (case handle_tx_message T message d of (resp, d') \<Rightarrow>
             (case handle_tx_client T lines d' of (resps, d'') \<Rightarrow> (resp # resps, d''))))"

datatype client_role = Role_tx | Role_rx | Role_rejected

text \<open>The greeting of \<open>_handle_client\<close>: what is answered, and how the handler goes on.\<close>

definition handle_hello :: "pyval result \<Rightarrow> pyval list \<times> client_role" where
  "handle_hello line =
     (case read_json_line line of
        Inl _ \<Rightarrow> ([], Role_rejected)
      | Inr hello \<Rightarrow>
          if dict_get hello ''type'' \<noteq> PStr ''hello'' then ([], Role_rejected)
          else ([PDict [(''type'', PStr ''hello_ack''), (''ok'', PBool True)]],
            if dict_get hello ''role'' = PStr ''tx'' then Role_tx
            else if dict_get hello ''role'' = PStr ''rx'' then Role_rx
            else Role_rejected))"

section \<open>Properties\<close>

lemma tx_request_fields [simp]:
  "dict_get (tx_request f) ''type'' = PStr ''tx''"
  "dict_item (tx_request f) ''can_id'' = Inr (PInt (fr_can_id f))"
  "dict_item (tx_request f) ''data'' = Inr (PStr (bytes_hex (fr_data f)))"
  by (simp_all add: tx_request_def dict_get_def dict_item_def)

lemma rx_message_fields [simp]:
  "dict_get (rx_message f) ''type'' = PStr ''rx''"
  "dict_item (rx_message f) ''can_id'' = Inr (PInt (fr_can_id f))"
  "dict_item (rx_message f) ''data'' = Inr (PStr (bytes_hex (fr_data f)))"
  by (simp_all add: rx_message_def dict_get_def dict_item_def)

lemma handle_tx_request:
  "handle_tx_message T (tx_request f) d =
     (tx_result (\<not> queue_full d), if queue_full d then d else d\<lparr>cd_tx_queue := cd_tx_queue d @ [f]\<rparr>)"
  by (simp add: handle_tx_message_def bytes_fromhex_hex CANDaemon_send_def)

lemma read_tx_result:
  "bindE (read_json_line (Inr (tx_result b))) check_tx_response =
     (if b then Inr True else Inl (RuntimeError ''CAN daemon TX failed''))"
  by (simp add: read_json_line_def tx_result_def check_tx_response_def dict_get_def)

text \<open>
  C13. Client and daemon agree on the wire: what the daemon does with the request a client writes for
  a frame is to queue that very frame, or to refuse it when the queue is full; the client's
  \<open>send\<close> succeeds on the first answer and raises \<open>RuntimeError\<close> on the second; and a frame the
  daemon publishes is the frame the client dispatches.
\<close>

theorem client_daemon_agree:
  "handle_tx_message T (tx_request f) d =
     (tx_result (\<not> queue_full d), if queue_full d then d else d\<lparr>cd_tx_queue := cd_tx_queue d @ [f]\<rparr>) \<and>
   bindE (read_json_line (Inr (fst (handle_tx_message T (tx_request f) d)))) check_tx_response =
     (if queue_full d then Inl (RuntimeError ''CAN daemon TX failed'') else Inr True) \<and>
   rx_message_frame T (rx_message f) = Inr (Some f)"
  by (simp add: handle_tx_request read_tx_result rx_message_frame_def bytes_fromhex_hex)

lemma send_frame_cases:
  assumes "send_frame f (t, e) = (r, (t', e'))"
  shows "(env_requests e' = env_requests e \<or> env_requests e' = env_requests e @ [tx_request f]) \<and>
    env_shm e' = env_shm e \<and> env_answers e' = env_answers e \<and> env_monotonic e' = env_monotonic e \<and>
    (r = Inr () \<longrightarrow> 0 \<le> fr_can_id f \<and> fr_can_id f \<le> CAN_SFF_MASK \<and>
      env_requests e' = env_requests e @ [tx_request f] \<and>
      (\<exists>now. tp_recent_tx_frames t' =
        deque_append RECENT_TX_MAXLEN (now, fr_can_id f, fr_data f) (tp_recent_tx_frames t)))"
  using assms
  by (auto simp: send_frame_def bindA_def transport_connect_def CANProcessClient_send_def exchange_def
      remember_tx_frame_def Let_def time_monotonic_def split: if_splits option.splits sum.splits prod.splits)

lemma deque_append_last: "0 < n \<Longrightarrow> \<exists>ys. deque_append n x xs = ys @ [x] \<and> length (ys @ [x]) \<le> n"
  by (rule exI [of _ "drop (Suc (length xs) - n) xs"]) (simp add: deque_append_def)

lemma deque_append_member: "0 < n \<Longrightarrow> x \<in> set (deque_append n x xs)"
  using deque_append_last [of n x xs] by auto

lemma deque_append_subset: "set (deque_append n x xs) \<subseteq> insert x (set xs)"
  using set_drop_subset [of "Suc (length xs) - n" "xs @ [x]"] by (simp add: deque_append_def)



text \<open>
  C15. Connecting ends: once the clock has reached the deadline after some attempt, the loop has
  returned; it returns normally only after an attempt succeeded, and with an exception only when
  that exception was no \<open>OSError\<close> or the deadline had passed.
\<close>

theorem connect_returns:
  assumes "fge (clock n) (fadd now timeout)"
  shows "\<exists>r. CANProcessClient_connect (Suc n) attempts clock now timeout = Some r \<and>
    (r = Inr () \<longrightarrow> (\<exists>k \<le> n. attempts k = Inr ())) \<and>
    (\<forall>x. r = Inl x \<longrightarrow> (\<exists>k \<le> n. attempts k = Inl x \<and>
      (\<not> is_os_error x \<or> fge (clock k) (fadd now timeout))))"
proof -
  have "\<exists>r. connect_loop (Suc m) attempts clock d k = Some r \<and>
      (r = Inr () \<longrightarrow> (\<exists>j \<le> k + m. attempts j = Inr ())) \<and>
      (\<forall>x. r = Inl x \<longrightarrow> (\<exists>j \<le> k + m. attempts j = Inl x \<and> (\<not> is_os_error x \<or> fge (clock j) d)))"
    if "fge (clock (k + m)) d" for m k d
    using that
  proof (induction m arbitrary: k)
    case 0
    then show ?case by (auto split: sum.splits)
  next
    case (Suc m)
    show ?case
    proof (cases "\<exists>x. attempts k = Inl x \<and> is_os_error x \<and> \<not> fge (clock k) d")
      case True
      then have "connect_loop (Suc (Suc m)) attempts clock d k = connect_loop (Suc m) attempts clock d (Suc k)"
        by auto
      with Suc.IH [of "Suc k"] Suc.prems show ?thesis by auto
    next
      case False
      then show ?thesis by (cases "attempts k") (auto intro: exI [of _ k])
    qed
  qed
  from this [where k = 0 and m = n and d = "fadd now timeout"] assms show ?thesis by (simp add: CANProcessClient_connect_def)
qed

theorem connect_returns_witness:
  "\<exists>r. CANProcessClient_connect (Suc 3) (\<lambda>_. Inl (OSError ''refused'')) (\<lambda>k. Fin (real k)) (Fin 0) (Fin 3) = Some r"
proof -
  have "fge ((\<lambda>k. Fin (real k)) 3) (fadd (Fin 0) (Fin 3))" by (simp add: pyfloat_simps)
  from connect_returns [where clock = "\<lambda>k. Fin (real k)" and n = 3, OF this] show ?thesis by blast
qed

text \<open>
  A transport whose connection attempt raised still counts as connected, and later sends raise
  \<open>RuntimeError\<close> without another attempt.
\<close>

lemma failed_connect_sticks:
  assumes "tp_client t = None" and "env_connects e (env_connect_count e) = Inl x"
    and "0 \<le> fr_can_id f" "fr_can_id f \<le> CAN_SFF_MASK"
  shows "\<exists>t' e'. transport_connect (t, e) = (Inl x, (t', e')) \<and> is_connected t' \<and>
    send_frame f (t', e') = (Inl (RuntimeError ''CAN daemon client is not connected''), (t', e'))"
  using assms
  by (auto simp: transport_connect_def is_connected_def send_frame_def bindA_def CANProcessClient_send_def
      CANProcessClient_init_def Let_def)

end
