(* ===== verification/Control_Command.thy ===== *)
theory Control_Command
  imports Shm_Os
begin

text \<open>
  The control command segment (\<open>robot_controller/shm/control_command.py\<close>), through which the task
  controller hands MIT position targets to the main controller.
\<close>

definition MAX_CONTROL_TARGETS :: nat where
  "MAX_CONTROL_TARGETS = 12"

record control_target =
  ct_can_id :: int
  ct_q :: pyfloat
  ct_dq :: pyfloat
  ct_kp :: pyfloat
  ct_kd :: pyfloat
  ct_tau :: pyfloat

record control_command =
  cc_timestamp_ns :: int
  cc_num_targets :: int
  cc_targets :: "control_target list"

definition ControlTargetC :: ctype where
  "ControlTargetC = CStruct [CUInt 4, CFloat, CFloat, CFloat, CFloat, CFloat]"

definition ControlCommandC :: ctype where
  "ControlCommandC = CStruct [CUInt 8, CUInt 4, CArray MAX_CONTROL_TARGETS ControlTargetC]"

definition CONTROL_COMMAND_SIZE :: nat where
  "CONTROL_COMMAND_SIZE = csize ControlCommandC"

definition empty_control_target :: control_target where
  "empty_control_target =
     \<lparr>ct_can_id = 0, ct_q = Fin 0, ct_dq = Fin 0, ct_kp = Fin 0, ct_kd = Fin 0, ct_tau = Fin 0\<rparr>"

definition empty_control_command :: control_command where
  "empty_control_command =
     \<lparr>cc_timestamp_ns = 0, cc_num_targets = 0,
      cc_targets = replicate MAX_CONTROL_TARGETS empty_control_target\<rparr>"

definition control_target_to_c :: "control_target \<Rightarrow> cval" where
  "control_target_to_c t =
     CL [CI (ct_can_id t), CF (ct_q t), CF (ct_dq t), CF (ct_kp t), CF (ct_kd t), CF (ct_tau t)]"

fun control_target_of_c :: "cval \<Rightarrow> control_target" where
  "control_target_of_c (CL [CI i, CF q, CF dq, CF kp, CF kd, CF tau]) =
     \<lparr>ct_can_id = i, ct_q = q, ct_dq = dq, ct_kp = kp, ct_kd = kd, ct_tau = tau\<rparr>"
| "control_target_of_c _ = empty_control_target"

definition control_to_c :: "control_command \<Rightarrow> cval" where
  "control_to_c c =
     CL [CI (cc_timestamp_ns c), CI (cc_num_targets c), CL (map control_target_to_c (cc_targets c))]"

fun control_of_c :: "cval \<Rightarrow> control_command" where
  "control_of_c (CL [CI t, CI n, CL ts]) =
     \<lparr>cc_timestamp_ns = t, cc_num_targets = n, cc_targets = map control_target_of_c ts\<rparr>"
| "control_of_c _ = empty_control_command"

definition control_target_ok :: "control_target \<Rightarrow> bool" where
  "control_target_ok t \<longleftrightarrow>
     0 \<le> ct_can_id t \<and> ct_can_id t < 2 ^ 32 \<and> is_float32 (ct_q t) \<and> is_float32 (ct_dq t) \<and>
     is_float32 (ct_kp t) \<and> is_float32 (ct_kd t) \<and> is_float32 (ct_tau t)"

definition control_command_ok :: "control_command \<Rightarrow> bool" where
  "control_command_ok c \<longleftrightarrow>
     0 \<le> cc_timestamp_ns c \<and> cc_timestamp_ns c < 2 ^ 64 \<and>
     0 \<le> cc_num_targets c \<and> cc_num_targets c < 2 ^ 32 \<and>
     length (cc_targets c) = MAX_CONTROL_TARGETS \<and> list_all control_target_ok (cc_targets c)"

section \<open>The segment class\<close>

definition ControlCommandShm_init :: "string \<Rightarrow> bool \<Rightarrow> int option \<Rightarrow> (shm_os, shm_obj) action" where
  "ControlCommandShm_init = segment_init CONTROL_COMMAND_SIZE True"

definition ControlCommandShm_open_reader :: "string \<Rightarrow> (shm_os, shm_obj) action" where
  "ControlCommandShm_open_reader name = ControlCommandShm_init name False None"

definition ControlCommandShm_open_writer :: "string \<Rightarrow> (shm_os, shm_obj) action" where
  "ControlCommandShm_open_writer name = ControlCommandShm_init name False None"

definition ControlCommandShm_create :: "string \<Rightarrow> int option \<Rightarrow> (shm_os, shm_obj) action" where
  "ControlCommandShm_create name sz =
     bindA (ControlCommandShm_init name True sz) (\<lambda>obj. bindA (segment_clear obj) (\<lambda>_. retA obj))"

definition ControlCommandShm_read_relaxed :: "shm_obj \<Rightarrow> shm_os \<Rightarrow> control_command result" where
  "ControlCommandShm_read_relaxed obj os =
     bindE (read_struct ControlCommandC obj os) (\<lambda>c. Inr (control_of_c c))"

definition ControlCommandShm_write :: "shm_obj \<Rightarrow> control_command \<Rightarrow> (shm_os, unit) action" where
  "ControlCommandShm_write obj command = write_struct ControlCommandC obj (control_to_c command)"

text \<open>Assignment of a target's fields to a slot: the identifier is cut to 32 bits, the values to
  single precision.\<close>

definition store_target :: "control_target \<Rightarrow> control_target" where
  "store_target t =
     \<lparr>ct_can_id = c_uint 32 (ct_can_id t), ct_q = single (ct_q t), ct_dq = single (ct_dq t),
      ct_kp = single (ct_kp t), ct_kd = single (ct_kd t), ct_tau = single (ct_tau t)\<rparr>"

fun fill_targets :: "nat \<Rightarrow> control_target list \<Rightarrow> control_target list \<Rightarrow> control_target list" where
  "fill_targets index [] slots = slots"
| "fill_targets index (t # ts) slots = fill_targets (Suc index) ts (slots[index := store_target t])"

definition ControlCommandShm_write_targets ::
  "int \<Rightarrow> shm_obj \<Rightarrow> control_target list \<Rightarrow> (shm_os, unit) action" where
  "ControlCommandShm_write_targets time_ns obj targets =
     (if MAX_CONTROL_TARGETS < length targets then raiseA (ValueError ''too many control targets'')
      else let command = empty_control_command
             \<lparr>cc_timestamp_ns := c_uint 64 time_ns,
              cc_num_targets := c_uint 32 (int (length targets))\<rparr>
        in ControlCommandShm_write obj
             (command\<lparr>cc_targets := fill_targets 0 targets (cc_targets command)\<rparr>))"

section \<open>Facts\<close>

lemma CONTROL_COMMAND_SIZE_eq: "CONTROL_COMMAND_SIZE = 300"
  by (simp add: CONTROL_COMMAND_SIZE_def ControlCommandC_def ControlTargetC_def MAX_CONTROL_TARGETS_def)

lemma control_typed: "control_command_ok c \<Longrightarrow> c_typed ControlCommandC (control_to_c c)"
  by (auto simp: control_command_ok_def ControlCommandC_def control_to_c_def control_target_ok_def
      ControlTargetC_def control_target_to_c_def list_all_iff is_float32_def)

lemma control_of_to: "control_of_c (control_to_c c) = c"
proof -
  have "control_target_of_c (control_target_to_c z) = z" for z
    by (simp add: control_target_to_c_def)
  then have "map control_target_of_c (map control_target_to_c zs) = zs" for zs
    by (induction zs) auto
  then show ?thesis by (simp add: control_to_c_def)
qed

interpretation control_seg: struct_segment ControlCommandC control_to_c control_of_c control_command_ok
  by unfold_locales (simp_all add: control_typed control_of_to)

lemma store_target_ok [simp]: "control_target_ok (store_target t)"
  using c_uint_bounds [of 32 "ct_can_id t"] by (simp add: control_target_ok_def store_target_def)

lemma empty_control_target_ok [simp]: "control_target_ok empty_control_target"
  by (simp add: control_target_ok_def empty_control_target_def)

lemma fill_targets_eq:
  "index + length ts \<le> length slots \<Longrightarrow>
   fill_targets index ts slots =
     take index slots @ map store_target ts @ drop (index + length ts) slots"
proof (induction index ts slots rule: fill_targets.induct)
  case (2 index t ts slots)
  then show ?case
    by (simp add: upd_conv_take_nth_drop take_Suc_conv_app_nth min_def add.commute)
qed simp

text \<open>The command \<open>write_targets\<close> puts into the segment.\<close>

definition targets_command :: "int \<Rightarrow> control_target list \<Rightarrow> control_command" where
  "targets_command time_ns targets =
     \<lparr>cc_timestamp_ns = c_uint 64 time_ns, cc_num_targets = int (length targets),
      cc_targets = map store_target targets @
        replicate (MAX_CONTROL_TARGETS - length targets) empty_control_target\<rparr>"

lemma targets_command_ok:
  assumes "length targets \<le> MAX_CONTROL_TARGETS"
  shows "control_command_ok (targets_command time_ns targets)"
  using assms c_uint_bounds [of 64 time_ns]
  by (auto simp: control_command_ok_def targets_command_def list_all_iff MAX_CONTROL_TARGETS_def)

lemma write_targets_eq:
  assumes "length targets \<le> MAX_CONTROL_TARGETS"
  shows "ControlCommandShm_write_targets time_ns obj targets =
    ControlCommandShm_write obj (targets_command time_ns targets)"
  using assms
  by (simp add: ControlCommandShm_write_targets_def targets_command_def empty_control_command_def
      fill_targets_eq c_uint_id MAX_CONTROL_TARGETS_def)

lemma write_targets_step:
  assumes "seg_ready ControlCommandC obj os" and "length targets \<le> MAX_CONTROL_TARGETS"
  obtains os' where "ControlCommandShm_write_targets time_ns obj targets os = (Inr (), os')"
    and "ControlCommandShm_read_relaxed obj os' = Inr (targets_command time_ns targets)"
  using control_seg.read_after_write [OF targets_command_ok [OF assms(2)] assms(1)] that
  by (auto simp: write_targets_eq [OF assms(2)] ControlCommandShm_write_def ControlCommandShm_read_relaxed_def)

section \<open>Property\<close>



end
