(* ===== verification/Aux_Command.thy ===== *)
theory Aux_Command
  imports Shm_Os
begin

text \<open>
  The auxiliary command segment (\<open>robot_controller/shm/aux_command.py\<close>): gamepad velocity targets
  and the button mask.
\<close>

record aux_command =
  ac_timestamp_ns :: int
  ac_lin_vel_target :: "pyfloat list"
  ac_ang_vel_target :: "pyfloat list"
  ac_button_mask :: int

definition AuxCommandC :: ctype where
  "AuxCommandC = CStruct [CUInt 8, CArray 3 CFloat, CArray 3 CFloat, CUInt 4]"

definition AUX_COMMAND_SIZE :: nat where
  "AUX_COMMAND_SIZE = csize AuxCommandC"

definition BUTTON_FIELDS :: "string list" where
  "BUTTON_FIELDS =
     [''a_button'', ''b_button'', ''x_button'', ''y_button'', ''lb_button'', ''rb_button'',
      ''back_button'', ''start_button'', ''guide_button'', ''l3_button'', ''r3_button'']"

definition empty_aux_command :: aux_command where
  "empty_aux_command =
     \<lparr>ac_timestamp_ns = 0, ac_lin_vel_target = replicate 3 (Fin 0),
      ac_ang_vel_target = replicate 3 (Fin 0), ac_button_mask = 0\<rparr>"

definition aux_to_c :: "aux_command \<Rightarrow> cval" where
  "aux_to_c c =
     CL [CI (ac_timestamp_ns c), CL (map CF (ac_lin_vel_target c)), CL (map CF (ac_ang_vel_target c)),
       CI (ac_button_mask c)]"

fun aux_of_c :: "cval \<Rightarrow> aux_command" where
  "aux_of_c (CL [CI t, CL ls, CL as, CI m]) =
     \<lparr>ac_timestamp_ns = t, ac_lin_vel_target = map cf_of ls, ac_ang_vel_target = map cf_of as,
      ac_button_mask = m\<rparr>"
| "aux_of_c _ = empty_aux_command"

definition aux_command_ok :: "aux_command \<Rightarrow> bool" where
  "aux_command_ok c \<longleftrightarrow>
     0 \<le> ac_timestamp_ns c \<and> ac_timestamp_ns c < 2 ^ 64 \<and>
     length (ac_lin_vel_target c) = 3 \<and> list_all is_float32 (ac_lin_vel_target c) \<and>
     length (ac_ang_vel_target c) = 3 \<and> list_all is_float32 (ac_ang_vel_target c) \<and>
     0 \<le> ac_button_mask c \<and> ac_button_mask c < 2 ^ 32"

section \<open>Buttons\<close>

text \<open>\<open>mask |= 1 << index\<close> over the field names.\<close>

fun buttons_mask_from :: "nat \<Rightarrow> string list \<Rightarrow> (string \<times> bool) list \<Rightarrow> int \<Rightarrow> int" where
  "buttons_mask_from index [] buttons msk = msk"
| "buttons_mask_from index (name # names) buttons msk =
     buttons_mask_from (Suc index) names buttons
       (if map_of buttons name = Some True then or msk (push_bit index 1) else msk)"

definition buttons_to_mask :: "(string \<times> bool) list \<Rightarrow> int" where
  "buttons_to_mask buttons = buttons_mask_from 0 BUTTON_FIELDS buttons 0"

definition mask_to_buttons :: "int \<Rightarrow> (string \<times> bool) list" where
  "mask_to_buttons msk =
     map (\<lambda>(index, name). (name, and msk (push_bit index 1) \<noteq> 0)) (enumerate 0 BUTTON_FIELDS)"

section \<open>The segment class\<close>

definition AuxCommandShm_init :: "string \<Rightarrow> bool \<Rightarrow> int option \<Rightarrow> (shm_os, shm_obj) action" where
  "AuxCommandShm_init = segment_init AUX_COMMAND_SIZE True"

definition AuxCommandShm_open_reader :: "string \<Rightarrow> (shm_os, shm_obj) action" where
  "AuxCommandShm_open_reader name = AuxCommandShm_init name False None"

definition AuxCommandShm_open_writer :: "string \<Rightarrow> (shm_os, shm_obj) action" where
  "AuxCommandShm_open_writer name = AuxCommandShm_init name False None"

definition AuxCommandShm_create :: "string \<Rightarrow> int option \<Rightarrow> (shm_os, shm_obj) action" where
  "AuxCommandShm_create name sz =
     bindA (AuxCommandShm_init name True sz) (\<lambda>obj. bindA (segment_clear obj) (\<lambda>_. retA obj))"

definition AuxCommandShm_read_relaxed :: "shm_obj \<Rightarrow> shm_os \<Rightarrow> aux_command result" where
  "AuxCommandShm_read_relaxed obj os =
     bindE (read_struct AuxCommandC obj os) (\<lambda>c. Inr (aux_of_c c))"

definition AuxCommandShm_write :: "shm_obj \<Rightarrow> aux_command \<Rightarrow> (shm_os, unit) action" where
  "AuxCommandShm_write obj command = write_struct AuxCommandC obj (aux_to_c command)"

text \<open>A list shorter than three raises \<open>IndexError\<close>; further elements are ignored.\<close>

definition AuxCommandShm_publish ::
  "int \<Rightarrow> shm_obj \<Rightarrow> pyfloat list \<Rightarrow> pyfloat list \<Rightarrow> (string \<times> bool) list \<Rightarrow> (shm_os, int) action" where
  "AuxCommandShm_publish time_ns obj lin_vel_target ang_vel_target buttons =
     (if length lin_vel_target < 3 \<or> length ang_vel_target < 3
      then raiseA (IndexError ''list index out of range'')
      else let command = empty_aux_command
             \<lparr>ac_timestamp_ns := c_uint 64 time_ns,
              ac_lin_vel_target := map single (take 3 lin_vel_target),
              ac_ang_vel_target := map single (take 3 ang_vel_target),
              ac_button_mask := c_uint 32 (buttons_to_mask buttons)\<rparr>
        in bindA (AuxCommandShm_write obj command) (\<lambda>_. retA (ac_timestamp_ns command)))"

section \<open>Facts\<close>

lemma AUX_COMMAND_SIZE_eq: "AUX_COMMAND_SIZE = 36"
  by (simp add: AUX_COMMAND_SIZE_def AuxCommandC_def)

lemma aux_typed: "aux_command_ok c \<Longrightarrow> c_typed AuxCommandC (aux_to_c c)"
  by (auto simp: aux_command_ok_def AuxCommandC_def aux_to_c_def list_all_iff is_float32_def)

lemma aux_of_to: "aux_of_c (aux_to_c c) = c"
  by (simp add: aux_to_c_def comp_def)

interpretation aux_seg: struct_segment AuxCommandC aux_to_c aux_of_c aux_command_ok
  by unfold_locales (simp_all add: aux_typed aux_of_to)

lemma buttons_mask_from_bit:
  "bit (buttons_mask_from i names buttons msk) k \<longleftrightarrow>
     bit msk k \<or> (\<exists>j < length names. k = i + j \<and> map_of buttons (names ! j) = Some True)"
proof (induction i names buttons msk rule: buttons_mask_from.induct)
  case (2 index name names buttons msk)
  have split: "(\<exists>j < length (name # names). k = index + j \<and> map_of buttons ((name # names) ! j) = Some True) \<longleftrightarrow>
      (k = index \<and> map_of buttons name = Some True) \<or>
      (\<exists>j < length names. k = Suc index + j \<and> map_of buttons (names ! j) = Some True)"
    by (auto simp: less_Suc_eq_0_disj)
  show ?case
    unfolding split using "2.IH" by (auto simp: bit_simps)
qed simp

lemma buttons_to_mask_bit:
  "bit (buttons_to_mask buttons) k \<longleftrightarrow>
     k < length BUTTON_FIELDS \<and> map_of buttons (BUTTON_FIELDS ! k) = Some True"
  by (auto simp: buttons_to_mask_def buttons_mask_from_bit)

lemma mask_to_buttons_bit:
  "mask_to_buttons msk = map (\<lambda>(index, name). (name, bit msk index)) (enumerate 0 BUTTON_FIELDS)"
proof -
  have "and msk (push_bit index 1) \<noteq> 0 \<longleftrightarrow> bit msk index" for index :: nat
    by (rule bit_iff_and_push_bit_not_eq_0 [symmetric])
  then show ?thesis by (simp add: mask_to_buttons_def)
qed

lemma buttons_to_mask_bounds: "0 \<le> buttons_to_mask buttons \<and> buttons_to_mask buttons < 2 ^ 11"
proof -
  have len: "length BUTTON_FIELDS = 11" by (simp add: BUTTON_FIELDS_def)
  have "take_bit 11 (buttons_to_mask buttons) = buttons_to_mask buttons"
    by (rule bit_eqI) (auto simp: bit_take_bit_iff buttons_to_mask_bit len)
  then show ?thesis
    by (metis take_bit_nonnegative take_bit_int_less_exp)
qed

lemma mask_to_buttons_to_mask:
  "mask_to_buttons (buttons_to_mask buttons) =
     map (\<lambda>name. (name, map_of buttons name = Some True)) BUTTON_FIELDS"
  by (rule nth_equalityI) (auto simp: mask_to_buttons_bit buttons_to_mask_bit nth_enumerate_eq)

lemma aux_publish_step:
  assumes "seg_ready AuxCommandC obj os" and "3 \<le> length lin" and "3 \<le> length ang"
  obtains os' command where "AuxCommandShm_publish time_ns obj lin ang buttons os = (Inr (c_uint 64 time_ns), os')"
    and "AuxCommandShm_read_relaxed obj os' = Inr command" and "seg_ready AuxCommandC obj os'"
    and "ac_lin_vel_target command = map single (take 3 lin)"
    and "ac_ang_vel_target command = map single (take 3 ang)"
    and "mask_to_buttons (ac_button_mask command) = map (\<lambda>name. (name, map_of buttons name = Some True)) BUTTON_FIELDS"
proof -
  define c where "c = empty_aux_command
    \<lparr>ac_timestamp_ns := c_uint 64 time_ns, ac_lin_vel_target := map single (take 3 lin),
     ac_ang_vel_target := map single (take 3 ang), ac_button_mask := buttons_to_mask buttons\<rparr>"
  have id: "c_uint 32 (buttons_to_mask buttons) = buttons_to_mask buttons"
    using buttons_to_mask_bounds [of buttons] by (intro c_uint_id) auto
  have "aux_command_ok c"
    using assms(2,3) c_uint_bounds [of 64 time_ns] buttons_to_mask_bounds [of buttons]
    by (simp add: c_def aux_command_ok_def list_all_iff)
  from aux_seg.read_after_write [OF this assms(1)]
  obtain os' where w: "AuxCommandShm_write obj c os = (Inr (), os')"
    and r: "AuxCommandShm_read_relaxed obj os' = Inr c" "seg_ready AuxCommandC obj os'"
    by (auto simp: AuxCommandShm_write_def AuxCommandShm_read_relaxed_def)
  have "AuxCommandShm_publish time_ns obj lin ang buttons os = (Inr (c_uint 64 time_ns), os')"
    using assms(2,3) w by (simp add: AuxCommandShm_publish_def id c_def bindA_Inr)
  from this r show thesis by (rule that) (simp_all add: c_def mask_to_buttons_to_mask)
qed

section \<open>Property\<close>

text \<open>
  Gamepad command round trip: publishing velocity targets of at least three components and a
  dict of buttons into an open segment succeeds, and a reader gets the first three components in
  single precision and, through \<open>mask_to_buttons\<close>, exactly the buttons that were pressed.
\<close>

theorem aux_publish_read:
  assumes "seg_ready AuxCommandC obj os" and "3 \<le> length lin" and "3 \<le> length ang"
  shows "\<exists>os' command. AuxCommandShm_publish time_ns obj lin ang buttons os = (Inr (c_uint 64 time_ns), os') \<and>
    AuxCommandShm_read_relaxed obj os' = Inr command \<and>
    ac_lin_vel_target command = map single (take 3 lin) \<and>
    ac_ang_vel_target command = map single (take 3 ang) \<and>
    mask_to_buttons (ac_button_mask command) =
      map (\<lambda>name. (name, map_of buttons name = Some True)) BUTTON_FIELDS"
  by (rule aux_publish_step [OF assms, of time_ns buttons]) blast

theorem aux_publish_read_witness:
  "\<exists>os' command. AuxCommandShm_publish 7 \<lparr>seg_name = ''a'', seg_shm = Some 0\<rparr>
      [Fin 1, Fin 0, Fin 0] [Fin 0, Fin 0, Fin (1/2)] [(''x_button'', True)]
      (shm_os_init\<lparr>os_mem := (\<lambda>_. replicate 36 0)\<rparr>) = (Inr (c_uint 64 7), os') \<and>
    AuxCommandShm_read_relaxed \<lparr>seg_name = ''a'', seg_shm = Some 0\<rparr> os' = Inr command \<and>
    map_of (mask_to_buttons (ac_button_mask command)) ''x_button'' = Some True"
proof -
  have ready: "seg_ready AuxCommandC \<lparr>seg_name = ''a'', seg_shm = Some 0\<rparr>
      (shm_os_init\<lparr>os_mem := (\<lambda>_. replicate 36 0)\<rparr>)"
    using AUX_COMMAND_SIZE_eq by (simp add: seg_ready_def AUX_COMMAND_SIZE_def)
  show ?thesis
    using aux_publish_read [OF ready, of "[Fin 1, Fin 0, Fin 0]" "[Fin 0, Fin 0, Fin (1/2)]" 7
        "[(''x_button'', True)]"]
    by (auto simp: BUTTON_FIELDS_def)
qed

end
