(* ===== verification/Shm_Manager.thy ===== *)
theory Shm_Manager
  imports Control_Command Aux_Command Operator_Command Robot_State Config
begin

text \<open>
  The owner of the five shared-memory segments (\<open>robot_controller/shm/manager.py\<close>): removal of
  stale segments, creation at start, and removal at shutdown.
\<close>

section \<open>The manager\<close>

text \<open>\<open>_segments\<close>, by name, in insertion order; \<open>None\<close> once closed.\<close>

record shm_manager =
  sg_config :: ShmConfig
  sg_segments :: "(string \<times> nat) list"

definition ShmManager_init :: "ShmConfig \<Rightarrow> shm_manager" where
  "ShmManager_init config = \<lparr>sg_config = config, sg_segments = []\<rparr>"

definition segment_names :: "shm_manager \<Rightarrow> string list" where
  "segment_names m =
     [mc_name (sc_mit_command (sg_config m)),
      rc_name (sc_aux_command (sg_config m)),
      op_name (sc_operator_command (sg_config m)),
      rc_name (sc_control_state (sg_config m)),
      rc_name (sc_dashboard_state (sg_config m))]"

text \<open>Open the name, skip it when it does not exist, else close and unlink it.\<close>

definition unlink_if_present :: "string \<Rightarrow> (shm_os, unit) action" where
  "unlink_if_present name os =
     (case SharedMemory_open name os of
        (Inl (FileNotFoundError _), os') \<Rightarrow> (Inr (), os')
      | (Inl e, os') \<Rightarrow> (Inl e, os')
      | (Inr _, os') \<Rightarrow> SharedMemory_unlink name os')"

definition cleanup_stale :: "shm_manager \<Rightarrow> (shm_os, unit) action" where
  "cleanup_stale m = forA unlink_if_present (segment_names m)"

definition unlink_all :: "shm_manager \<Rightarrow> (shm_os, unit) action" where
  "unlink_all m = forA unlink_if_present (segment_names m)"

text \<open>One creation: the segment class's \<open>create\<close>, then its entry in the manager's dict.\<close>

definition create_into ::
  "string \<Rightarrow> (shm_os, shm_obj) action \<Rightarrow> (shm_manager \<times> shm_os, unit) action" where
  "create_into name mk st =
     (case st of (m, os) \<Rightarrow>
       (case mk os of
          (Inl e, os') \<Rightarrow> (Inl e, (m, os'))
        | (Inr obj, os') \<Rightarrow>
            (Inr (), (m\<lparr>sg_segments := AList.update name (the (seg_shm obj)) (sg_segments m)\<rparr>, os'))))"

definition create_all :: "(shm_manager \<times> shm_os, unit) action" where
  "create_all st =
     (let c = sg_config (fst st)
      in bindA (create_into (mc_name (sc_mit_command c))
            (ControlCommandShm_create (mc_name (sc_mit_command c)) None)) (\<lambda>_.
         bindA (create_into (rc_name (sc_aux_command c))
            (AuxCommandShm_create (rc_name (sc_aux_command c)) (Some (rc_size_bytes (sc_aux_command c))))) (\<lambda>_.
         bindA (create_into (op_name (sc_operator_command c))
            (OperatorCommandShm_create (op_name (sc_operator_command c))
              (Some (op_size_bytes (sc_operator_command c))))) (\<lambda>_.
         bindA (create_into (rc_name (sc_control_state c))
            (RobotStateShm_create (rc_name (sc_control_state c))
              (Some (rc_size_bytes (sc_control_state c))))) (\<lambda>_.
         create_into (rc_name (sc_dashboard_state c))
            (RobotStateShm_create (rc_name (sc_dashboard_state c))
              (Some (rc_size_bytes (sc_dashboard_state c)))))))) st)"

text \<open>Closing the handles leaves the names and the memory in place.\<close>

definition close_all :: "shm_manager \<Rightarrow> shm_manager" where
  "close_all m = m\<lparr>sg_segments := []\<rparr>"

section \<open>Unlinking\<close>

lemma unlink_if_present_eq:
  "unlink_if_present name os = (Inr (), os\<lparr>os_names := (os_names os)(name := None)\<rparr>)"
  by (auto simp: unlink_if_present_def SharedMemory_open_def SharedMemory_unlink_def fun_upd_idem
      split: option.splits)

lemma forA_unlink:
  "forA unlink_if_present names os =
     (Inr (), os\<lparr>os_names := (\<lambda>n. if n \<in> set names then None else os_names os n)\<rparr>)"
proof (induction names arbitrary: os)
  case (Cons a names)
  let ?os = "os\<lparr>os_names := (os_names os)(a := None)\<rparr>"
  have "forA unlink_if_present (a # names) os = forA unlink_if_present names ?os"
    by (simp add: bindA_Inr [OF unlink_if_present_eq])
  also have "\<dots> = (Inr (), ?os\<lparr>os_names := (\<lambda>n. if n \<in> set names then None else os_names ?os n)\<rparr>)"
    by (rule Cons.IH)
  also have "?os\<lparr>os_names := (\<lambda>n. if n \<in> set names then None else os_names ?os n)\<rparr> =
      os\<lparr>os_names := (\<lambda>n. if n \<in> set (a # names) then None else os_names os n)\<rparr>"
    by (rule shm_os.equality) (auto simp: fun_eq_iff)
  finally show ?case .
qed (simp add: fun_eq_iff)

section \<open>Creating\<close>

text \<open>One class's \<open>create\<close> on a free name: a zeroed segment of the requested size, everything else
  untouched.\<close>

definition class_create :: "nat \<Rightarrow> bool \<Rightarrow> string \<Rightarrow> int option \<Rightarrow> (shm_os, shm_obj) action" where
  "class_create required first name sz =
     bindA (segment_init required first name True sz) (\<lambda>obj. bindA (segment_clear obj) (\<lambda>_. retA obj))"

lemmas class_creates =
  ControlCommandShm_create_def ControlCommandShm_init_def AuxCommandShm_create_def AuxCommandShm_init_def
  OperatorCommandShm_create_def OperatorCommandShm_init_def RobotStateShm_create_def RobotStateShm_init_def

lemma class_create_free:
  assumes "os_names os name = None" and "0 < required"
    and "int required \<le> (case sz of None \<Rightarrow> int required | Some s \<Rightarrow> s)"
  shows "class_create required first name sz os =
    (Inr \<lparr>seg_name = name, seg_shm = Some (os_next os)\<rparr>,
     os\<lparr>os_names := (os_names os)(name \<mapsto> os_next os),
        os_mem := (os_mem os)(os_next os := replicate (nat (case sz of None \<Rightarrow> int required | Some s \<Rightarrow> s)) 0),
        os_next := Suc (os_next os)\<rparr>)"
  using assms
  by (auto simp: class_create_def segment_init_def SharedMemory_create_def bindA_def segment_clear_def
      clear_buffer_def Let_def split: option.splits)

text \<open>The segments to create, as name, least size, spelling of the size check and requested size.\<close>

type_synonym seg_item = "string \<times> nat \<times> bool \<times> int option"

fun item_size :: "seg_item \<Rightarrow> int" where
  "item_size (_, required, _, sz) = (case sz of None \<Rightarrow> int required | Some s \<Rightarrow> s)"

fun item_ok :: "seg_item \<Rightarrow> bool" where
  "item_ok (n, required, f, sz) \<longleftrightarrow> 0 < required \<and> int required \<le> item_size (n, required, f, sz)"

fun create_item :: "seg_item \<Rightarrow> (shm_manager \<times> shm_os, unit) action" where
  "create_item (name, required, first, sz) = create_into name (class_create required first name sz)"

definition seg_items :: "shm_manager \<Rightarrow> seg_item list" where
  "seg_items m = (let c = sg_config m in
     [(mc_name (sc_mit_command c), CONTROL_COMMAND_SIZE, True, None),
      (rc_name (sc_aux_command c), AUX_COMMAND_SIZE, True, Some (rc_size_bytes (sc_aux_command c))),
      (op_name (sc_operator_command c), OPERATOR_COMMAND_SIZE, False, Some (op_size_bytes (sc_operator_command c))),
      (rc_name (sc_control_state c), ROBOT_STATE_SIZE, False, Some (rc_size_bytes (sc_control_state c))),
      (rc_name (sc_dashboard_state c), ROBOT_STATE_SIZE, False, Some (rc_size_bytes (sc_dashboard_state c)))])"

lemma seg_items_names: "map fst (seg_items m) = segment_names m"
  by (simp add: seg_items_def segment_names_def Let_def)

lemma create_all_items: "create_all (m, os) = forA create_item (seg_items m) (m, os)"
proof -
  have "bindA a (\<lambda>_. retA ()) = a" for a :: "(shm_manager \<times> shm_os, unit) action"
    by (rule ext) (auto simp: bindA_def split: prod.splits sum.splits)
  then show ?thesis
    by (simp add: create_all_def seg_items_def class_create_def class_creates Let_def)
qed

text \<open>An item's segment exists, zeroed, at its size.\<close>

definition item_made :: "shm_os \<Rightarrow> seg_item \<Rightarrow> bool" where
  "item_made os it \<longleftrightarrow>
     (\<exists>i < os_next os. os_names os (fst it) = Some i \<and> os_mem os i = replicate (nat (item_size it)) 0)"

definition os_extends :: "string set \<Rightarrow> shm_os \<Rightarrow> shm_os \<Rightarrow> bool" where
  "os_extends ns os os' \<longleftrightarrow>
     os_next os \<le> os_next os' \<and> (\<forall>i < os_next os. os_mem os' i = os_mem os i) \<and>
     (\<forall>n. n \<notin> ns \<longrightarrow> os_names os' n = os_names os n)"

lemma item_made_extends: "item_made os it \<Longrightarrow> os_extends ns os os' \<Longrightarrow> fst it \<notin> ns \<Longrightarrow> item_made os' it"
  by (fastforce simp: item_made_def os_extends_def)

lemma create_item_step:
  assumes "item_ok it" and "os_names os (fst it) = None"
  obtains m' os' where "create_item it (m, os) = (Inr (), (m', os'))" and "sg_config m' = sg_config m"
    and "item_made os' it" and "os_extends {fst it} os os'"
proof -
  obtain n r f sz where it: "it = (n, r, f, sz)" by (cases it) auto
  note mk = class_create_free [of os n r sz f]
  let ?os' = "os\<lparr>os_names := (os_names os)(n \<mapsto> os_next os),
        os_mem := (os_mem os)(os_next os := replicate (nat (item_size it)) 0), os_next := Suc (os_next os)\<rparr>"
  show thesis
    by (rule that [of "m\<lparr>sg_segments := AList.update n (os_next os) (sg_segments m)\<rparr>" ?os'])
      (use assms mk in \<open>auto simp: it create_into_def item_made_def os_extends_def\<close>)
qed

lemma create_items:
  assumes "list_all item_ok items" and "distinct (map fst items)"
    and "\<forall>n \<in> set (map fst items). os_names os n = None"
  shows "\<exists>m' os'. forA create_item items (m, os) = (Inr (), (m', os')) \<and> sg_config m' = sg_config m \<and>
    list_all (item_made os') items \<and> os_extends (set (map fst items)) os os'"
  using assms
proof (induction items arbitrary: m os)
  case Nil
  then show ?case by (simp add: os_extends_def)
next
  case (Cons it items)
  obtain m1 os1 where 1: "create_item it (m, os) = (Inr (), (m1, os1))" "sg_config m1 = sg_config m"
      "item_made os1 it" "os_extends {fst it} os os1"
    using create_item_step [of it os m] Cons.prems by auto
  have "\<forall>n \<in> set (map fst items). os_names os1 n = None"
    using Cons.prems(2,3) 1(4) unfolding os_extends_def by (metis distinct.simps(2) list.map(2) list.set_intros(2) singletonD)
  then obtain m' os' where 2: "forA create_item items (m1, os1) = (Inr (), (m', os'))"
      "sg_config m' = sg_config m1" "list_all (item_made os') items" "os_extends (set (map fst items)) os1 os'"
    using Cons.IH [of os1 m1] Cons.prems by auto
  have "item_made os' it" using item_made_extends [OF 1(3) 2(4)] Cons.prems(2) by auto
  moreover have "os_extends (set (map fst (it # items))) os os'"
    using 1(4) 2(4) unfolding os_extends_def by auto
  ultimately show ?case using 1 2 by (auto simp: bindA_def)
qed

section \<open>Property\<close>

text \<open>
  C8. Start-up of the shared memory: with five different segment names and sizes of at least the
  structures', removing stale segments and creating all of them succeeds whatever was there before;
  afterwards every segment exists, zeroed, at its configured size, and no other name is touched.
  The final \<open>unlink_all\<close> then removes exactly the five names.
\<close>

theorem start_creates_segments:
  assumes "distinct (segment_names m)" and "list_all item_ok (seg_items m)"
  shows "\<exists>os1 m' os2 os3.
    cleanup_stale m os = (Inr (), os1) \<and> create_all (m, os1) = (Inr (), (m', os2)) \<and>
    list_all (item_made os2) (seg_items m) \<and>
    (\<forall>n. n \<notin> set (segment_names m) \<longrightarrow> os_names os2 n = os_names os n) \<and>
    unlink_all m' os2 = (Inr (), os3) \<and>
    os_names os3 = (\<lambda>n. if n \<in> set (segment_names m) then None else os_names os n)"
proof -
  let ?os1 = "os\<lparr>os_names := (\<lambda>n. if n \<in> set (segment_names m) then None else os_names os n)\<rparr>"
  have "\<forall>n \<in> set (map fst (seg_items m)). os_names ?os1 n = None"
    by (simp add: seg_items_names)
  then obtain m' os2 where 2: "create_all (m, ?os1) = (Inr (), (m', os2))" "sg_config m' = sg_config m"
      "list_all (item_made os2) (seg_items m)" "os_extends (set (segment_names m)) ?os1 os2"
    using create_items [OF assms(2), of ?os1 m] assms(1) by (auto simp: seg_items_names create_all_items)
  have names: "segment_names m' = segment_names m" using 2(2) by (simp add: segment_names_def)
  have "os_names os2 n = os_names os n" if "n \<notin> set (segment_names m)" for n
    using 2(4) that by (simp add: os_extends_def)
  with 2 show ?thesis
    by (auto simp: cleanup_stale_def unlink_all_def forA_unlink names fun_eq_iff)
qed

definition demo_shm_config :: ShmConfig where
  "demo_shm_config =
     \<lparr>sc_cleanup_stale_on_start = True, sc_unlink_on_shutdown = True,
      sc_mit_command = \<lparr>mc_name = ''qhrr_mit_command'', mc_target_count = 12\<rparr>,
      sc_aux_command = \<lparr>rc_name = ''qhrr_aux_command'', rc_size_bytes = 4096, rc_publish_hz = Fin 100\<rparr>,
      sc_operator_command = \<lparr>op_name = ''qhrr_operator_command'', op_size_bytes = 4096\<rparr>,
      sc_control_state = \<lparr>rc_name = ''qhrr_control_state'', rc_size_bytes = 16384, rc_publish_hz = Fin 500\<rparr>,
      sc_dashboard_state = \<lparr>rc_name = ''qhrr_dashboard_state'', rc_size_bytes = 65536, rc_publish_hz = Fin 10\<rparr>\<rparr>"

theorem start_creates_segments_witness:
  "\<exists>os1 m' os2. cleanup_stale (ShmManager_init demo_shm_config) shm_os_init = (Inr (), os1) \<and>
    create_all (ShmManager_init demo_shm_config, os1) = (Inr (), (m', os2))"
proof -
  have d: "distinct (segment_names (ShmManager_init demo_shm_config))"
    by (simp add: segment_names_def ShmManager_init_def demo_shm_config_def)
  have "list_all item_ok (seg_items (ShmManager_init demo_shm_config))"
    by (simp add: seg_items_def ShmManager_init_def demo_shm_config_def Let_def CONTROL_COMMAND_SIZE_eq
        AUX_COMMAND_SIZE_eq OPERATOR_COMMAND_SIZE_eq ROBOT_STATE_SIZE_eq)
  from start_creates_segments [OF d this, of shm_os_init] show ?thesis by blast
qed

end
