(* ===== verification/Controller.thy ===== *)
theory Controller
  imports Telemetry Actuator_Driver Supervisor Can_Ipc Shm_Manager
begin

text \<open>
  The main controller (\<open>robot_controller/controller.py\<close>): its construction, the control tick, the
  output path of every mode, callback registration and the receive path, start-up and shutdown. All
  methods act on the controller object and its environment; what they send is the environment's log
  of requests.

  The receive thread of the CAN client runs between ticks here; the lists a tick and the receive
  thread share are guarded by locks or copied in the source.
\<close>

section \<open>The object\<close>

datatype RobotControllerState =
    CREATED | INIT_SHM | START_CAN_DAEMON | BRINGUP_IMU | START_CHILD_PROCESSES | RUNNING
  | SHUTTING_DOWN | STOPPED | ERROR

text \<open>The callbacks the controller registers: an actuator's, by its CAN identifier, and the IMU's.\<close>

datatype ctl_callback = Cb_actuator int | Cb_imu

record controller =
  ct_config :: RobotControllerConfig
  ct_controller_state :: RobotControllerState
  ct_robot_spec :: QHRR0RobotSpec
  ct_can :: "ctl_callback can_transport"
  ct_actuators :: "(int \<times> spg_driver) list"
  ct_imu :: imu_driver
  ct_shm_manager :: shm_manager
  ct_control_cmd_shm :: "shm_obj option"
  ct_operator_cmd_shm :: "shm_obj option"
  ct_state_machine :: state_machine
  ct_shm_state_publisher :: "shm_state_publisher option"
  ct_dashboard_publisher :: "shm_state_publisher option"
  ct_processes :: supervisor
  ct_last_output_source :: string
  ct_last_output_t :: pyfloat
  ct_last_output_targets :: "CommandTargetSnapshot list"
  ct_last_consumed_operator_timestamp_ns :: "int option"
  ct_last_ignored_operator_timestamp_ns :: "int option"
  ct_running :: bool

type_synonym 'a ctl = "(controller \<times> env, 'a) action"

definition create_actuator_drivers :: "RobotControllerConfig \<Rightarrow> QHRR0ActuatorSpec list \<Rightarrow> (int \<times> spg_driver) list result" where
  "create_actuator_drivers config specs =
     (let r = ca_mit_protocol_range (cfg_can config); m = pl_spg_mit (cfg_platform config)
      in if fle (pm_iq_full_scale_count m) (Fin 0)
         then Inl (ValueError ''spg_mit.iq_full_scale_count must be positive'')
         else bindE (fdiv (pm_iq_full_scale_current_a m) (pm_iq_full_scale_count m)) (\<lambda>iq_count_to_amp.
           let mit_config = \<lparr>mit_p_max = mp_position_rad r, mit_v_max = mp_velocity_rad_s r, mit_kp_max = mp_kp r,
                 mit_kd_max = mp_kd r, mit_tau_max = mp_torque_ff_nm r,
                 mit_feedback_position_max = mp_feedback_position_rad r\<rparr>
           in bindE (mapE (\<lambda>spec. bindE (create_spg_actuator_driver spec mit_config
                  (ca_command_timeout_s (cfg_can config)) True (Some iq_count_to_amp))
                (\<lambda>d. Inr (sp_can_id spec, d))) specs)
             (\<lambda>items. Inr (foldl (\<lambda>d (k, v). AList.update k v d) [] items))))"

definition create_imu_driver :: "RobotControllerConfig \<Rightarrow> QHRR0ImuSpec \<Rightarrow> imu_driver" where
  "create_imu_driver config spec =
     IMUDriver_init (mu_name spec)
       \<lparr>eb_request_id = mu_request_id spec, eb_quat_id = mu_quat_id spec, eb_gyro_id = mu_gyro_id spec,
        eb_cmd_get_quat = mu_cmd_get_quat spec, eb_cmd_get_gyro = mu_cmd_get_gyro spec,
        eb_cmd_get_all = mu_cmd_get_all spec, eb_quat_scale = mu_quat_scale spec,
        eb_gyro_scale = mu_gyro_scale spec, eb_normalize_quat = mu_normalize_quat spec\<rparr>
       (ca_command_timeout_s (cfg_can config)) (ca_command_timeout_s (cfg_can config))"

text \<open>\<open>processes\<close> is the supervisor built from \<open>config.processes\<close> and the pid files found; \<open>now\<close>
  the clock reading of the state machine's constructor.\<close>

definition RobotController_init :: "RobotControllerConfig \<Rightarrow> supervisor \<Rightarrow> pyfloat \<Rightarrow> controller result" where
  "RobotController_init config processes now =
     (let spec = robot_spec_from_platform (cfg_platform config)
      in bindE (create_actuator_drivers config (rb_actuators spec)) (\<lambda>actuators.
         bindE (ControllerStateMachine_init (cfg_enable_duration_s config) now) (\<lambda>sm.
           Inr \<lparr>ct_config = config, ct_controller_state = CREATED, ct_robot_spec = spec,
                ct_can = CANProcessTransport_init, ct_actuators = actuators,
                ct_imu = create_imu_driver config (rb_imu spec), ct_shm_manager = ShmManager_init (cfg_shm config),
                ct_control_cmd_shm = None, ct_operator_cmd_shm = None, ct_state_machine = sm,
                ct_shm_state_publisher = None, ct_dashboard_publisher = None, ct_processes = processes,
                ct_last_output_source = ''NONE'', ct_last_output_t = Fin 0, ct_last_output_targets = [],
                ct_last_consumed_operator_timestamp_ns = None, ct_last_ignored_operator_timestamp_ns = None,
                ct_running = False\<rparr>)))"

section \<open>Sending\<close>

definition ctl_send :: "can_frame \<Rightarrow> unit ctl" where
  "ctl_send frame s =
     (case s of (c, e) \<Rightarrow>
       (case send_frame frame (ct_can c, e) of (r, (t, e')) \<Rightarrow> (r, (c\<lparr>ct_can := t\<rparr>, e'))))"

text \<open>Send a frame that may fail to encode.\<close>

definition ctl_send_result :: "can_frame result \<Rightarrow> unit ctl" where
  "ctl_send_result r = bindA (liftA r) ctl_send"

definition record_output_command :: "string \<Rightarrow> CommandTargetSnapshot list \<Rightarrow> unit ctl" where
  "record_output_command source targets s =
     (case s of (c, e) \<Rightarrow>
       (case time_monotonic e of (now, e') \<Rightarrow>
         (Inr (), (c\<lparr>ct_last_output_source := source, ct_last_output_t := now, ct_last_output_targets := targets\<rparr>, e'))))"

definition request_imu_on_tick :: "unit ctl" where
  "request_imu_on_tick s =
     (let imu = ca_imu (cfg_can (ct_config (fst s)))
      in if im_enabled imu \<and> im_request_all_each_tick imu
         then ctl_send_result (make_request_all_frame (ct_imu (fst s))) s
         else (Inr (), s))"

definition bringup_imu :: "unit ctl" where
  "bringup_imu s =
     (let imu = ca_imu (cfg_can (ct_config (fst s)))
      in if \<not> im_enabled imu then (Inr (), s)
         else if \<not> im_request_all_on_start imu then (Inr (), s)
         else forA (\<lambda>_ s. ctl_send_result (make_request_all_frame (ct_imu (fst s))) s)
           [0 ..< nat (im_startup_request_count imu)] s)"

definition send_disable_all :: "unit ctl" where
  "send_disable_all s =
     bindA (record_output_command ''DISABLE'' [])
       (\<lambda>_. forA (\<lambda>(_, actuator). ctl_send (make_disable_frame actuator)) (ct_actuators (fst s))) s"

definition send_enable_all :: "unit ctl" where
  "send_enable_all s =
     bindA (record_output_command ''ENABLE'' [])
       (\<lambda>_. forA (\<lambda>(_, actuator). ctl_send (make_enable_frame actuator)) (ct_actuators (fst s))) s"

text \<open>The loop of \<open>_zero_set_offsets_by_can_id\<close> over the first \<open>count\<close> targets.\<close>

definition collect_offsets :: "operator_zero_target list \<Rightarrow> (int \<times> int) list" where
  "collect_offsets targets =
     foldl (\<lambda>offsets t. if zt_can_id t = 0 then offsets
       else AList.update (zt_can_id t) (zt_offset_count t) offsets) [] targets"

definition zero_set_offsets_by_can_id :: "operator_command option \<Rightarrow> (int \<times> int) list result" where
  "zero_set_offsets_by_can_id command =
     (case command of None \<Rightarrow> Inr []
      | Some c \<Rightarrow>
          if oc_zero_target_count c = 0 then Inr []
          else if oc_zero_target_magic c \<noteq> OPERATOR_ZERO_TARGET_MAGIC
          then Inl (RuntimeError ''Malformed ZERO_SET operator command: invalid zero target magic'')
          else if int (length (oc_zero_targets c)) < oc_zero_target_count c
          then Inl (RuntimeError ''Malformed ZERO_SET operator command: target count exceeds capacity'')
          else Inr (collect_offsets (take (nat (oc_zero_target_count c)) (oc_zero_targets c))))"

definition zero_offset_deg :: "(int \<times> int) list \<Rightarrow> int \<Rightarrow> pyfloat" where
  "zero_offset_deg offsets can_id =
     fmul (float_of_int (case map_of offsets can_id of None \<Rightarrow> 0 | Some n \<Rightarrow> n)) (lit (1/100))"

definition zero_target_ids :: "(int \<times> int) list \<Rightarrow> (int \<times> spg_driver) list \<Rightarrow> int list" where
  "zero_target_ids offsets actuators =
     (if offsets \<noteq> [] then sort (map fst offsets) else sort (map fst actuators))"

definition send_zero_set_all :: "operator_command option \<Rightarrow> unit ctl" where
  "send_zero_set_all command s =
     bindA (liftA (zero_set_offsets_by_can_id command)) (\<lambda>offsets.
     bindA (record_output_command ''ZERO_SET'' []) (\<lambda>_.
       forA (\<lambda>can_id. case map_of (ct_actuators (fst s)) can_id of
           None \<Rightarrow> retA ()
         | Some actuator \<Rightarrow> ctl_send_result (make_zero_position_frame (zero_offset_deg offsets can_id) actuator))
         (zero_target_ids offsets (ct_actuators (fst s))))) s"

definition damping_target :: "pyfloat \<Rightarrow> int \<Rightarrow> CommandTargetSnapshot" where
  "damping_target kd can_id =
     \<lparr>tn_can_id = can_id, tn_p_target_rad = Fin 0, tn_v_target_rad_s = Fin 0, tn_kp = Fin 0, tn_kd = kd,
      tn_tau_target_nm = Fin 0\<rparr>"

definition send_damping_all :: "unit ctl" where
  "send_damping_all s =
     (let kd = sp_velocity_damping_kd (cfg_safety (ct_config (fst s)));
          actuators = sort_key fst (ct_actuators (fst s))
      in bindA (record_output_command ''DAMPING'' (map (damping_target kd \<circ> fst) actuators))
           (\<lambda>_. forA (\<lambda>(_, actuator). ctl_send_result
             (make_impedance_command_frame (Fin 0) (Fin 0) (Fin 0) kd (Fin 0) actuator)) actuators) s)"

definition policy_target :: "control_target \<Rightarrow> CommandTargetSnapshot" where
  "policy_target t =
     \<lparr>tn_can_id = ct_can_id t, tn_p_target_rad = ct_q t, tn_v_target_rad_s = ct_dq t, tn_kp = ct_kp t,
      tn_kd = ct_kd t, tn_tau_target_nm = ct_tau t\<rparr>"

fun policy_loop :: "(int \<times> spg_driver) list \<Rightarrow> control_target list \<Rightarrow> CommandTargetSnapshot list \<Rightarrow>
    CommandTargetSnapshot list ctl" where
  "policy_loop actuators [] acc = retA acc"
| "policy_loop actuators (t # ts) acc =
     (case map_of actuators (ct_can_id t) of
        None \<Rightarrow> policy_loop actuators ts acc
      | Some actuator \<Rightarrow>
          bindA (ctl_send_result
            (make_impedance_command_frame (ct_q t) (ct_dq t) (ct_kp t) (ct_kd t) (ct_tau t) actuator))
            (\<lambda>_. policy_loop actuators ts (acc @ [policy_target t])))"

definition policy_targets :: "control_command \<Rightarrow> control_target list" where
  "policy_targets cmd = take (nat (min (cc_num_targets cmd) (int (length (cc_targets cmd))))) (cc_targets cmd)"

definition send_policy_command :: "control_command \<Rightarrow> unit ctl" where
  "send_policy_command cmd s =
     bindA (policy_loop (ct_actuators (fst s)) (policy_targets cmd) [])
       (\<lambda>targets. record_output_command ''POLICY'' targets) s"

section \<open>Publishing\<close>

definition actuator_snapshot :: "pyfloat \<Rightarrow> int \<Rightarrow> spg_driver \<Rightarrow> ActuatorSnapshot" where
  "actuator_snapshot now can_id driver =
     (let state = ad_state driver; comm = cm_status (ad_comm_manager driver)
      in \<lparr>an_can_id = can_id, an_position_rad = av_position_rad state, an_velocity_rad_s = av_velocity_rad_s state,
          an_torque_nm = av_torque_nm state, an_current_a = av_current_a state,
          an_temperature_c = av_temperature_c state, an_fault_code = av_fault_code state,
          an_is_enabled = av_is_enabled state, an_last_feedback_t = av_last_feedback_t state,
          an_age_s = (if fle (av_last_feedback_t state) (Fin 0) then None
            else Some (fmax (Fin 0) (fsub now (av_last_feedback_t state)))),
          an_online = fs_is_online comm, an_stale = fs_is_stale comm\<rparr>)"

text \<open>The loop over the sorted actuators: update the freshness flags, then take the snapshot.\<close>

fun snapshot_actuators :: "pyfloat \<Rightarrow> (int \<times> spg_driver) list \<Rightarrow> controller \<times> env \<Rightarrow>
    ActuatorSnapshot list \<times> (controller \<times> env)" where
  "snapshot_actuators now [] s = ([], s)"
| "snapshot_actuators now ((can_id, driver) # ds) (c, e) =
     (case time_monotonic e of (t, e1) \<Rightarrow>
       let driver' = driver_update_fault_flags t driver;
           c1 = c\<lparr>ct_actuators := AList.update can_id driver' (ct_actuators c)\<rparr>
       in case snapshot_actuators now ds (c1, e1) of
            (items, s') \<Rightarrow> (actuator_snapshot now can_id driver' # items, s'))"

definition imu_snapshot :: "imu_driver \<Rightarrow> ImuSnapshot" where
  "imu_snapshot imu =
     (let st = id_state imu; q = cm_status (id_quat_comm imu); g = cm_status (id_gyro_comm imu)
      in \<lparr>in_quat_xyzw = po_quat_xyzw st, in_projected_gravity_b = po_projected_gravity_b st,
          in_angular_velocity_rad_s = po_angular_velocity_rad_s st, in_last_quat_t = po_last_quat_t st,
          in_last_gyro_t = po_last_gyro_t st, in_quat_online = fs_is_online q, in_gyro_online = fs_is_online g,
          in_quat_stale = fs_is_stale q, in_gyro_stale = fs_is_stale g\<rparr>)"

definition make_snapshot :: "controller \<times> env \<Rightarrow> RobotSnapshot \<times> (controller \<times> env)" where
  "make_snapshot s =
     (case s of (c, e) \<Rightarrow>
      case time_monotonic e of (now, e1) \<Rightarrow>
      case time_monotonic e1 of (t1, e2) \<Rightarrow>
      case time_monotonic e2 of (t2, e3) \<Rightarrow>
      let imu = imu_update_fault_flags t1 t2 (ct_imu c)
      in case snapshot_actuators now (sort_key fst (ct_actuators c)) (c\<lparr>ct_imu := imu\<rparr>, e3) of
        (items, (c', e4)) \<Rightarrow>
         case time_unix e4 of (unix, e5) \<Rightarrow>
           (\<lparr>rn_mode = sm_mode (ct_state_machine c'), rn_timestamp_monotonic = now, rn_timestamp_unix = unix,
             rn_actuators = items, rn_imu = imu_snapshot imu,
             rn_command_output = \<lparr>on_source = ct_last_output_source c', on_timestamp_monotonic = ct_last_output_t c',
               on_targets = ct_last_output_targets c'\<rparr>\<rparr>, (c', e5)))"

definition publish_via :: "bool \<Rightarrow> RobotSnapshot \<Rightarrow> (controller \<Rightarrow> shm_state_publisher option) \<Rightarrow>
    (shm_state_publisher \<Rightarrow> controller \<Rightarrow> controller) \<Rightarrow> unit ctl" where
  "publish_via force snapshot get put s =
     (case s of (c, e) \<Rightarrow>
       (case get c of None \<Rightarrow> (Inr (), s)
        | Some p \<Rightarrow> (case publisher_publish force snapshot (p, e) of (r, (p', e')) \<Rightarrow> (r, (put p' c, e')))))"

definition publish_state :: "bool \<Rightarrow> RobotSnapshot ctl" where
  "publish_state force s =
     (case make_snapshot s of (snapshot, s1) \<Rightarrow>
        bindA (publish_via force snapshot ct_shm_state_publisher (\<lambda>p c. c\<lparr>ct_shm_state_publisher := Some p\<rparr>)) (\<lambda>_.
        bindA (publish_via force snapshot ct_dashboard_publisher (\<lambda>p c. c\<lparr>ct_dashboard_publisher := Some p\<rparr>)) (\<lambda>_.
          retA snapshot)) s1)"

section \<open>The tick\<close>

text \<open>
  \<open>_consume_operator_command\<close>: a command with the timestamp of the last consumed one is released,
  as a command NONE; an unknown code and NONE pass unchanged.
\<close>

definition consume_operator_command :: "operator_command \<Rightarrow> controller \<Rightarrow> operator_command \<times> controller" where
  "consume_operator_command command c =
     (case OperatorCommandCode (oc_command command) of
        Inl _ \<Rightarrow> (command, c)
      | Inr code \<Rightarrow>
          if code = OP_NONE then (command, c)
          else if Some (oc_timestamp_ns command) = ct_last_consumed_operator_timestamp_ns c
          then (empty_operator_command\<lparr>oc_timestamp_ns := oc_timestamp_ns command, oc_command := code_value OP_NONE\<rparr>,
            c\<lparr>ct_last_ignored_operator_timestamp_ns := Some (oc_timestamp_ns command)\<rparr>)
          else (command,
            c\<lparr>ct_last_consumed_operator_timestamp_ns := Some (oc_timestamp_ns command),
              ct_last_ignored_operator_timestamp_ns := None\<rparr>))"

text \<open>The output of the mode, after the state machine has been updated.\<close>

definition mode_output :: "operator_command \<Rightarrow> unit ctl" where
  "mode_output op s =
     (case sm_mode (ct_state_machine (fst s)) of
        ESTOP \<Rightarrow> send_disable_all s
      | DISABLED \<Rightarrow> send_disable_all s
      | ENABLING \<Rightarrow> send_enable_all s
      | ZERO_SETTING \<Rightarrow> send_zero_set_all (Some op) s
      | DAMPING \<Rightarrow> send_damping_all s
      | NORMAL \<Rightarrow>
          (case ct_control_cmd_shm (fst s) of
             None \<Rightarrow> (Inl (AssertionError ''control_cmd_shm''), s)
           | Some shm \<Rightarrow>
               bindA (liftA (ControlCommandShm_read_relaxed shm (env_shm (snd s)))) send_policy_command s))"

definition tick :: "RobotSnapshot ctl" where
  "tick s =
     (case s of (c, e) \<Rightarrow>
      case time_monotonic e of (now, e1) \<Rightarrow>
        bindA request_imu_on_tick (\<lambda>_ s2.
          case ct_operator_cmd_shm (fst s2) of
            None \<Rightarrow> (Inl (AssertionError ''operator_cmd_shm''), s2)
          | Some shm \<Rightarrow>
              bindA (liftA (OperatorCommandShm_read_relaxed shm (env_shm (snd s2)))) (\<lambda>op s3.
                case s3 of (c3, e3) \<Rightarrow>
                case consume_operator_command op c3 of (op', c4) \<Rightarrow>
                let c5 = c4\<lparr>ct_state_machine := update (Some op') now (ct_state_machine c4)\<rparr>
                in bindA (mode_output op') (\<lambda>_. publish_state False) (c5, e3)) s2) (c, e1))"

definition request_stop :: "controller \<Rightarrow> controller" where
  "request_stop c = c\<lparr>ct_running := False\<rparr>"

section \<open>Receiving\<close>

definition register_callbacks :: "unit ctl" where
  "register_callbacks s =
     (let reg = (\<lambda>(can_id, cb) s. case s of (c, e) \<Rightarrow>
            (case register_callback can_id cb (ct_can c) of (r, t) \<Rightarrow> (r, (c\<lparr>ct_can := t\<rparr>, e))))
      in forA reg
        (concat (map (\<lambda>(can_id, driver). map (\<lambda>rx. (rx, Cb_actuator can_id)) (spg_rx_can_ids (ad_protocol driver)))
            (ct_actuators (fst s))) @
         map (\<lambda>rx. (rx, Cb_imu)) (imu_rx_can_ids (id_protocol (ct_imu (fst s))))) s)"

text \<open>An actuator callback drops recent echoes of what was sent.\<close>

definition on_actuator_frame :: "int \<Rightarrow> can_frame \<Rightarrow> controller \<times> env \<Rightarrow> controller \<times> env" where
  "on_actuator_frame can_id frame s =
     (case s of (c, e) \<Rightarrow>
       (case is_recent_tx_echo frame (ct_can c, e) of (echo, (t, e1)) \<Rightarrow>
         let c1 = c\<lparr>ct_can := t\<rparr>
         in if echo then (c1, e1)
            else case time_monotonic e1 of (now, e2) \<Rightarrow>
              case time_monotonic e2 of (clock, e3) \<Rightarrow>
                (case map_of (ct_actuators c1) can_id of
                   None \<Rightarrow> (c1, e3)
                 | Some driver \<Rightarrow>
                     (c1\<lparr>ct_actuators := AList.update can_id (driver_on_frame decode_frame now clock frame driver)
                        (ct_actuators c1)\<rparr>, e3))))"

definition run_callback :: "ctl_callback \<Rightarrow> can_frame \<Rightarrow> unit ctl" where
  "run_callback cb frame s =
     (case cb of
        Cb_actuator can_id \<Rightarrow> (Inr (), on_actuator_frame can_id frame s)
      | Cb_imu \<Rightarrow>
          (case s of (c, e) \<Rightarrow>
           case time_monotonic e of (now, e1) \<Rightarrow>
           case time_monotonic e1 of (now', e2) \<Rightarrow>
             (Inr (), (c\<lparr>ct_imu := imu_on_frame now now' frame (ct_imu c)\<rparr>, e2))))"

text \<open>A frame from the daemon reaches the client's dispatcher.\<close>

definition receive_frame :: "can_frame \<Rightarrow> controller \<times> env \<Rightarrow> controller \<times> env" where
  "receive_frame frame s =
     (case tp_client (ct_can (fst s)) of
        None \<Rightarrow> s
      | Some client \<Rightarrow> snd (dispatch run_callback (cl_dispatcher client) frame s))"

section \<open>Start and shutdown\<close>

definition close_runtime :: "controller \<Rightarrow> controller" where
  "close_runtime c =
     c\<lparr>ct_shm_state_publisher := map_option publisher_close (ct_shm_state_publisher c),
       ct_dashboard_publisher := map_option publisher_close (ct_dashboard_publisher c),
       ct_control_cmd_shm := map_option segment_close (ct_control_cmd_shm c),
       ct_operator_cmd_shm := map_option segment_close (ct_operator_cmd_shm c),
       ct_can := transport_close (ct_can c),
       ct_shm_manager := close_all (ct_shm_manager c)\<rparr>"

definition shutdown :: "sup_world \<Rightarrow> unit ctl" where
  "shutdown W s =
     (case s of (c, e) \<Rightarrow>
       if ct_controller_state c = STOPPED then (Inr (), s)
       else
         let c1 = c\<lparr>ct_running := False, ct_controller_state := SHUTTING_DOWN\<rparr>;
             (c2, e2) = (if is_connected (ct_can c1) then snd (send_disable_all (c1, e)) else (c1, e));
             c3 = c2\<lparr>ct_processes := stop_all W (ct_processes c2)\<rparr>
         in bindA (publish_state True) (\<lambda>_ s4. case s4 of (c4, e4) \<Rightarrow>
              let c5 = close_runtime c4
              in if sc_unlink_on_shutdown (cfg_shm (ct_config c5))
                 then (case shm_act (unlink_all (ct_shm_manager c5)) e4 of
                    (Inl x, e5) \<Rightarrow> (Inl x, (c5, e5))
                  | (Inr _, e5) \<Rightarrow> (Inr (), (c5\<lparr>ct_controller_state := STOPPED\<rparr>, e5)))
                 else (Inr (), (c5\<lparr>ct_controller_state := STOPPED\<rparr>, e4))) (c3, e2))"

definition set_state :: "RobotControllerState \<Rightarrow> unit ctl" where
  "set_state st s = (Inr (), ((fst s)\<lparr>ct_controller_state := st\<rparr>, snd s))"

definition on_env :: "(controller \<Rightarrow> (env, 'a) action) \<Rightarrow> ('a \<Rightarrow> controller \<Rightarrow> controller) \<Rightarrow> unit ctl" where
  "on_env f put s =
     (case s of (c, e) \<Rightarrow>
       (case f c e of (Inl x, e') \<Rightarrow> (Inl x, (c, e')) | (Inr a, e') \<Rightarrow> (Inr (), (put a c, e'))))"

definition on_processes :: "(supervisor, unit) action \<Rightarrow> unit ctl" where
  "on_processes f s =
     (case s of (c, e) \<Rightarrow> (case f (ct_processes c) of (r, p) \<Rightarrow> (r, (c\<lparr>ct_processes := p\<rparr>, e))))"

text \<open>The manager's \<open>create_all\<close>, which keeps what it has created when a later segment fails.\<close>

definition create_segments :: "unit ctl" where
  "create_segments s =
     (case s of (c, e) \<Rightarrow>
       (case create_all (ct_shm_manager c, env_shm e) of
          (r, (m, os)) \<Rightarrow> (r, (c\<lparr>ct_shm_manager := m\<rparr>, e\<lparr>env_shm := os\<rparr>))))"

definition connect_can :: "unit ctl" where
  "connect_can s =
     (case s of (c, e) \<Rightarrow>
       (case transport_connect (ct_can c, e) of (r, (t, e')) \<Rightarrow> (r, (c\<lparr>ct_can := t\<rparr>, e'))))"

text \<open>The body of \<open>start\<close>'s \<open>try\<close>.\<close>

definition start_body :: "sup_world \<Rightarrow> (string \<Rightarrow> string) \<Rightarrow> unit ctl" where
  "start_body W log_file_for s =
     (let shm = cfg_shm (ct_config (fst s)) in
      bindA (set_state INIT_SHM) (\<lambda>_.
      bindA (if sc_cleanup_stale_on_start shm
             then on_env (\<lambda>c. shm_act (cleanup_stale (ct_shm_manager c))) (\<lambda>_ c. c) else retA ()) (\<lambda>_.
      bindA create_segments (\<lambda>_.
      bindA (on_env (\<lambda>c. shm_act (ControlCommandShm_open_reader (mc_name (sc_mit_command shm))))
        (\<lambda>o' c. c\<lparr>ct_control_cmd_shm := Some o'\<rparr>)) (\<lambda>_.
      bindA (on_env (\<lambda>c. shm_act (OperatorCommandShm_open_reader (op_name (sc_operator_command shm))))
        (\<lambda>o' c. c\<lparr>ct_operator_cmd_shm := Some o'\<rparr>)) (\<lambda>_.
      bindA (on_env (\<lambda>c. ShmStatePublisher_init (rc_name (sc_control_state shm)) (rc_publish_hz (sc_control_state shm)))
        (\<lambda>p c. c\<lparr>ct_shm_state_publisher := Some p\<rparr>)) (\<lambda>_.
      bindA (on_env (\<lambda>c. ShmStatePublisher_init (rc_name (sc_dashboard_state shm)) (rc_publish_hz (sc_dashboard_state shm)))
        (\<lambda>p c. c\<lparr>ct_dashboard_publisher := Some p\<rparr>)) (\<lambda>_.
      bindA (set_state START_CAN_DAEMON) (\<lambda>_.
      bindA (on_processes (start_by_name W log_file_for ''can_daemon'')) (\<lambda>_.
      bindA connect_can (\<lambda>_.
      bindA register_callbacks (\<lambda>_.
      bindA (set_state BRINGUP_IMU) (\<lambda>_.
      bindA bringup_imu (\<lambda>_.
      bindA (set_state START_CHILD_PROCESSES) (\<lambda>_.
      bindA (on_processes (start_all W log_file_for)) (\<lambda>_.
      bindA (\<lambda>s. (Inr (), ((fst s)\<lparr>ct_controller_state := RUNNING, ct_running := True\<rparr>, snd s))) (\<lambda>_.
      bindA (publish_state True) (\<lambda>_. retA ()))))))))))))))))) s)"

text \<open>An exception leads through ERROR to shutdown and is raised again.\<close>

definition start :: "sup_world \<Rightarrow> (string \<Rightarrow> string) \<Rightarrow> unit ctl" where
  "start W log_file_for s =
     (case start_body W log_file_for s of
        (Inr _, s') \<Rightarrow> (Inr (), s')
      | (Inl x, (c, e)) \<Rightarrow>
          (case shutdown W (c\<lparr>ct_controller_state := ERROR\<rparr>, e) of
             (Inl y, s') \<Rightarrow> (Inl y, s')
           | (Inr _, s') \<Rightarrow> (Inl x, s')))"

end
