(* ===== verification/Demo.thy ===== *)
theory Demo
  imports Controller
begin

text \<open>
  A concrete controller for the examples the properties are applied to: the configuration follows
  the repository's \<open>config/app_config\<close> with one actuator, no IMU traffic and no publishers, and the
  operator's segment holds a given command.
\<close>

section \<open>The controller and its world\<close>

definition demo_segment :: "string \<Rightarrow> RobotStateShmConfig" where
  "demo_segment name = \<lparr>rc_name = name, rc_size_bytes = 16384, rc_publish_hz = Fin 50\<rparr>"

definition demo_platform :: PlatformConfig where
  "demo_platform =
     \<lparr>pl_path = ''platform.yaml'', pl_robot_name = ''SPARQ'', pl_robots = [],
      pl_can = \<lparr>pc_interface = ''vcan0'', pc_bitrate = 1000000, pc_daemon_socket = ''/tmp/qhrr_can_daemon.sock''\<rparr>,
      pl_shm = \<lparr>ps_mit_command = ''m'', ps_aux_command = ''a'', ps_operator_command = ''o'', ps_control_state = ''c'',
        ps_dashboard_state = ''d''\<rparr>,
      pl_imu = \<lparr>pi_type = ''e2box'', pi_request_id = 0x221, pi_quat_id = 0x2A1, pi_gyro_id = 0x321,
        pi_cmd_get_quat = 1, pi_cmd_get_gyro = 2, pi_cmd_get_all = 3, pi_quat_scale = Fin 10000,
        pi_gyro_scale = Fin 100, pi_normalize_quat = True\<rparr>,
      pl_spg_mit = \<lparr>pm_p_max_rad = Fin (25/2), pm_v_max_rad_s = Fin 45, pm_kp_max = Fin 500, pm_kd_max = Fin 5,
        pm_tau_max_nm = Fin 33, pm_feedback_position_max_rad = Fin (25/2), pm_iq_full_scale_count = Fin 2048,
        pm_iq_full_scale_current_a = Fin 33\<rparr>,
      pl_actuators = [\<lparr>pa_name = ''FL_HR'', pa_enabled = True, pa_can_id = 0x141, pa_mujoco_joint = ''FL_HR'',
        pa_mujoco_actuator = ''FL_HR_motor'', pa_sign = Fin 1, pa_offset_rad = Fin 0\<rparr>]\<rparr>"

definition demo_config :: RobotControllerConfig where
  "demo_config =
     \<lparr>cfg_platform = demo_platform, cfg_runtime_mode = ''virtual'',
      cfg_hardware = \<lparr>hw_allow_real_can = False, hw_require_manual_arm = True, hw_require_estop = True,
        hw_allow_enable_on_start = False, hw_allowed_can_interfaces = [''vcan0'']\<rparr>,
      cfg_safety = \<lparr>sp_velocity_damping_kd = Fin (1/2), sp_damping_timeout_s = Fin 1,
        sp_command_loss_action = ''damping'', sp_feedback_stale_action = ''damping''\<rparr>,
      cfg_enable_duration_s = Fin (1/2),
      cfg_robot_controller = \<lparr>rk_name = ''rc'', rk_control_hz = Fin 500, rk_shutdown_timeout_s = Fin 2\<rparr>,
      cfg_shm = \<lparr>sc_cleanup_stale_on_start = True, sc_unlink_on_shutdown = True,
        sc_mit_command = \<lparr>mc_name = ''m'', mc_target_count = 12\<rparr>, sc_aux_command = demo_segment ''a'',
        sc_operator_command = \<lparr>op_name = ''o'', op_size_bytes = 120\<rparr>, sc_control_state = demo_segment ''c'',
        sc_dashboard_state = demo_segment ''d''\<rparr>,
      cfg_can = \<lparr>ca_interface = ''vcan0'', ca_command_timeout_s = Fin (1/4), ca_bringup_delay_s = Fin 0,
        ca_daemon = \<lparr>cd_rx_timeout_s = Fin (1/4), cd_tx_timeout_s = Fin (1/4), cd_join_timeout_s = Fin 1,
          cd_max_tx_queue_size = 64, cd_send_block = False, cd_send_timeout_s = None,
          cd_ipc_socket_path = ''/tmp/qhrr_can_daemon.sock'', cd_connect_timeout_s = Fin 1\<rparr>,
        ca_motors = \<lparr>mo_can_ids = [0x141], mo_enter_on_start = False, mo_exit_on_shutdown = True,
          mo_set_zero_on_start = False\<rparr>,
        ca_imu = \<lparr>im_enabled = False, im_request_all_on_start = False, im_request_all_each_tick = False,
          im_startup_request_count = 0, im_startup_request_delay_s = Fin 0\<rparr>,
        ca_mit_protocol_range = \<lparr>mp_position_rad = Fin (25/2), mp_velocity_rad_s = Fin 45, mp_kp = Fin 500,
          mp_kd = Fin 5, mp_torque_ff_nm = Fin 33, mp_feedback_position_rad = Fin (25/2)\<rparr>\<rparr>,
      cfg_processes = []\<rparr>"

definition demo_controller :: "controller_mode \<Rightarrow> controller" where
  "demo_controller mode =
     \<lparr>ct_config = demo_config, ct_controller_state = RUNNING, ct_robot_spec = robot_spec_from_platform demo_platform,
      ct_can = CANProcessTransport_init, ct_actuators = [(0x141, ActuatorDriver_init ''FL_HR'' demo_spg (Fin (1/20)))],
      ct_imu = create_imu_driver demo_config (rb_imu (robot_spec_from_platform demo_platform)),
      ct_shm_manager = ShmManager_init (cfg_shm demo_config), ct_control_cmd_shm = None,
      ct_operator_cmd_shm = Some \<lparr>seg_name = ''o'', seg_shm = Some 0\<rparr>,
      ct_state_machine = \<lparr>sm_enable_duration_s = Fin (1/2), sm_mode = mode, sm_mode_enter_time = Fin 0\<rparr>,
      ct_shm_state_publisher = None, ct_dashboard_publisher = None, ct_processes = ProcessSupervisor_init [] Map.empty {} 2,
      ct_last_output_source = ''NONE'', ct_last_output_t = Fin 0, ct_last_output_targets = [],
      ct_last_consumed_operator_timestamp_ns = None, ct_last_ignored_operator_timestamp_ns = None,
      ct_running = True\<rparr>"

definition demo_world :: "operator_command \<Rightarrow> env" where
  "demo_world op =
     demo_env\<lparr>env_shm := shm_os_init\<lparr>os_mem := (\<lambda>_. c_bytes OperatorCommandC (operator_to_c op))\<rparr>\<rparr>"

lemma demo_reads: "operator_command_ok op \<Longrightarrow> OperatorCommandShm_read_relaxed \<lparr>seg_name = ''o'', seg_shm = Some 0\<rparr> (env_shm (demo_world op)) = Inr op"
  using c_bytes_parse [OF operator_typed [of op]]
  by (simp add: demo_world_def OperatorCommandShm_read_relaxed_def read_struct_def operator_of_to)

end
