(* ===== verification/Controller_Facts.thy ===== *)
theory Controller_Facts
  imports Demo "HOL-Library.Sublist"
begin

text \<open>
  What the controller puts on the CAN bus. \<open>mode_frames\<close> is the specification of the output of a
  mode, a list of frames; the lemmas on \<open>sends\<close> show that each output routine sends a prefix of its
  list and, when it returns normally, all of it. The properties are about whole ticks and about
  runs in which ticks, received frames and the outside world interleave.
\<close>

section \<open>Sending lists of frames\<close>

abbreviation isr :: "'a result \<Rightarrow> bool" where
  "isr r \<equiv> \<not> isl r"

text \<open>What an output routine leaves alone.\<close>

definition same_core :: "controller \<Rightarrow> controller \<Rightarrow> bool" where
  "same_core c c' \<longleftrightarrow>
     ct_config c' = ct_config c \<and> ct_actuators c' = ct_actuators c \<and> ct_imu c' = ct_imu c \<and>
     ct_state_machine c' = ct_state_machine c \<and> ct_control_cmd_shm c' = ct_control_cmd_shm c \<and>
     ct_operator_cmd_shm c' = ct_operator_cmd_shm c \<and>
     ct_shm_state_publisher c' = ct_shm_state_publisher c \<and> ct_dashboard_publisher c' = ct_dashboard_publisher c \<and>
     ct_processes c' = ct_processes c \<and> ct_shm_manager c' = ct_shm_manager c \<and> ct_running c' = ct_running c \<and>
     ct_controller_state c' = ct_controller_state c \<and>
     ct_last_consumed_operator_timestamp_ns c' = ct_last_consumed_operator_timestamp_ns c"

text \<open>The frames before the first that cannot be encoded.\<close>

definition encodable :: "can_frame result list \<Rightarrow> can_frame list" where
  "encodable rs = map projr (takeWhile (\<lambda>r. isr r) rs)"

definition sends :: "can_frame result list \<Rightarrow> controller \<times> env \<Rightarrow> 'a result \<times> controller \<times> env \<Rightarrow> bool" where
  "sends rs s out \<longleftrightarrow>
     same_core (fst s) (fst (snd out)) \<and> env_shm (snd (snd out)) = env_shm (snd s) \<and>
     (\<exists>fs. prefix fs (encodable rs) \<and>
       env_requests (snd (snd out)) = env_requests (snd s) @ map tx_request fs \<and>
       (isr (fst out) \<longrightarrow> map Inr fs = rs))"

lemma same_core_refl [simp]: "same_core c c"
  by (simp add: same_core_def)

lemma same_core_trans: "same_core a b \<Longrightarrow> same_core b c \<Longrightarrow> same_core a c"
  by (simp add: same_core_def)

lemma encodable_simps [simp]:
  "encodable [] = []" "encodable (Inr f # rs) = f # encodable rs" "encodable (Inl x # rs) = []"
  "encodable (map Inr fs) = fs" "encodable (map Inr fs @ rs) = fs @ encodable rs"
proof -
  have *: "encodable (map Inr fs @ rs) = fs @ encodable rs" for fs rs by (induction fs) (simp_all add: encodable_def)
  show "encodable (map Inr fs @ rs) = fs @ encodable rs" by (rule *)
  from * [of fs "[]"] show "encodable (map Inr fs) = fs" by (simp add: encodable_def)
qed (simp_all add: encodable_def)

lemma encodable_prefix: "prefix (encodable rs) (encodable (rs @ rs'))"
  by (induction rs) (auto simp: encodable_def)

lemma sends_nil: "sends [] (c, e) (r, (c', e'))"
  if "same_core c c'" "env_shm e' = env_shm e" "env_requests e' = env_requests e"
  using that by (simp add: sends_def)

lemma sends_intro:
  assumes "same_core (fst s) (fst s')" and "env_shm (snd s') = env_shm (snd s)" and "prefix fs (encodable rs)"
    and "env_requests (snd s') = env_requests (snd s) @ map tx_request fs" and "isr r \<Longrightarrow> map Inr fs = rs"
  shows "sends rs s (r, s')"
  using assms by (auto simp: sends_def)

lemma sends_elim:
  assumes "sends rs s (r, s')"
  obtains fs where "same_core (fst s) (fst s')" and "env_shm (snd s') = env_shm (snd s)" and "prefix fs (encodable rs)"
    and "env_requests (snd s') = env_requests (snd s) @ map tx_request fs" and "isr r \<longrightarrow> map Inr fs = rs"
  using assms by (auto simp: sends_def)

lemma sends_bind:
  assumes "sends rs s (m s)" and "\<And>a s'. m s = (Inr a, s') \<Longrightarrow> sends rs' s' (f a s')"
  shows "sends (rs @ rs') s (bindA m f s)"
proof -
  obtain r s' where m: "m s = (r, s')" by (cases "m s")
  from assms(1) [unfolded m] obtain fs where keep: "same_core (fst s) (fst s')" "env_shm (snd s') = env_shm (snd s)"
    and fs: "prefix fs (encodable rs)" "env_requests (snd s') = env_requests (snd s) @ map tx_request fs"
      "isr r \<longrightarrow> map Inr fs = rs"
    by (rule sends_elim)
  show ?thesis
  proof (cases r)
    case (Inl x)
    have "prefix fs (encodable (rs @ rs'))" using fs(1) encodable_prefix prefix_order.trans by blast
    with keep fs(2) have "sends (rs @ rs') s (Inl x, s')" by (auto intro: sends_intro)
    then show ?thesis using m Inl by (simp add: bindA_Inl)
  next
    case (Inr a)
    obtain r' s'' where f: "f a s' = (r', s'')" by (cases "f a s'")
    from assms(2) [of a s'] m Inr f have "sends rs' s' (r', s'')" by simp
    then obtain gs where "same_core (fst s') (fst s'')" "env_shm (snd s'') = env_shm (snd s')"
        and "prefix gs (encodable rs')" "env_requests (snd s'') = env_requests (snd s') @ map tx_request gs"
        and "isr r' \<longrightarrow> map Inr gs = rs'"
      by (rule sends_elim)
    moreover have "rs = map Inr fs" using fs(3) Inr by simp
    ultimately have "sends (rs @ rs') s (r', s'')"
      using keep fs(2) by (intro sends_intro [where fs = "fs @ gs"]) (auto intro: same_core_trans)
    then show ?thesis using m Inr f by (simp add: bindA_Inr)
  qed
qed

text \<open>A call that may raise before anything is sent: its error takes the place of the frames.\<close>

lemma sends_lift_case:
  "(\<And>a. sends (g a) s (f a s)) \<Longrightarrow> sends (case r of Inl x \<Rightarrow> [Inl x] | Inr a \<Rightarrow> g a) s (bindA (liftA r) f s)"
  by (cases r) (auto simp: bindA_def sends_def)

lemma sends_forA:
  assumes "\<And>x s. x \<in> set xs \<Longrightarrow> sends (g x) s (f x s)"
  shows "sends (concat (map g xs)) s (forA f xs s)"
  using assms
proof (induction xs arbitrary: s)
  case Nil
  show ?case by (cases s) (auto intro: sends_nil)
next
  case (Cons x xs)
  have "sends (g x @ concat (map g xs)) s (bindA (f x) (\<lambda>_. forA f xs) s)"
    by (rule sends_bind [OF Cons.prems [of x] Cons.IH [OF Cons.prems]]) simp_all
  then show ?case by simp
qed

lemma sends_one: "sends [Inr f] s (ctl_send f s)"
proof (cases s)
  case (Pair c e)
  obtain r t e' where sent: "send_frame f (ct_can c, e) = (r, (t, e'))" by (metis surj_pair)
  from send_frame_cases [OF sent] sent Pair show ?thesis
    by (cases r) (auto simp: sends_def ctl_send_def same_core_def)
qed

lemma sends_result: "sends [r] s (ctl_send_result r s)"
proof (cases r)
  case (Inl x)
  then show ?thesis by (simp add: ctl_send_result_def bindA_def sends_def)
next
  case (Inr f)
  then show ?thesis using sends_one [of f s] by (simp add: ctl_send_result_def bindA_def)
qed

lemma sends_record: "sends [] s (record_output_command source targets s)"
  by (cases s) (auto simp: record_output_command_def time_monotonic_def same_core_def intro!: sends_nil)

lemma sends_record_then:
  assumes "\<And>s. sends rs s (f s)"
  shows "sends rs s (bindA (record_output_command source targets) (\<lambda>_. f) s)"
  using sends_bind [where rs = "[]" and m = "record_output_command source targets" and f = "\<lambda>_. f" and rs' = rs
      and s = s, OF sends_record assms] by simp

section \<open>The output of a mode\<close>

definition imu_frames :: "controller \<Rightarrow> can_frame result list" where
  "imu_frames c =
     (let imu = ca_imu (cfg_can (ct_config c))
      in if im_enabled imu \<and> im_request_all_each_tick imu then [make_request_all_frame (ct_imu c)] else [])"

definition zero_frames :: "(int \<times> int) list \<Rightarrow> (int \<times> spg_driver) list \<Rightarrow> can_frame result list" where
  "zero_frames offsets actuators =
     map (\<lambda>can_id. make_zero_position_frame (zero_offset_deg offsets can_id) (the (map_of actuators can_id)))
       (filter (\<lambda>can_id. map_of actuators can_id \<noteq> None) (zero_target_ids offsets actuators))"

definition damping_frames :: "pyfloat \<Rightarrow> (int \<times> spg_driver) list \<Rightarrow> can_frame result list" where
  "damping_frames kd actuators =
     map (\<lambda>(_, d). make_impedance_command_frame (Fin 0) (Fin 0) (Fin 0) kd (Fin 0) d) (sort_key fst actuators)"

definition policy_frames :: "(int \<times> spg_driver) list \<Rightarrow> control_target list \<Rightarrow> can_frame result list" where
  "policy_frames actuators targets =
     map (\<lambda>t. make_impedance_command_frame (ct_q t) (ct_dq t) (ct_kp t) (ct_kd t) (ct_tau t)
         (the (map_of actuators (ct_can_id t))))
       (filter (\<lambda>t. map_of actuators (ct_can_id t) \<noteq> None) targets)"

text \<open>
  What a mode sends: \<open>offsets\<close> is the result of reading the zero-set targets of the operator's
  command and \<open>cmd\<close> the result of reading the control segment. An error of either takes the place
  of the frames.
\<close>

definition mode_frames :: "controller \<Rightarrow> (int \<times> int) list result \<Rightarrow> control_command result \<Rightarrow> controller_mode \<Rightarrow>
    can_frame result list" where
  "mode_frames c offsets cmd mode =
     (case mode of
        ESTOP \<Rightarrow> map (\<lambda>(_, d). Inr (make_disable_frame d)) (ct_actuators c)
      | DISABLED \<Rightarrow> map (\<lambda>(_, d). Inr (make_disable_frame d)) (ct_actuators c)
      | ENABLING \<Rightarrow> map (\<lambda>(_, d). Inr (make_enable_frame d)) (ct_actuators c)
      | ZERO_SETTING \<Rightarrow> (case offsets of Inl x \<Rightarrow> [Inl x] | Inr os \<Rightarrow> zero_frames os (ct_actuators c))
      | DAMPING \<Rightarrow> damping_frames (sp_velocity_damping_kd (cfg_safety (ct_config c))) (ct_actuators c)
      | NORMAL \<Rightarrow> (case cmd of Inl x \<Rightarrow> [Inl x] | Inr cmd \<Rightarrow> policy_frames (ct_actuators c) (policy_targets cmd)))"

definition read_control :: "controller \<Rightarrow> env \<Rightarrow> control_command result" where
  "read_control c e =
     (case ct_control_cmd_shm c of None \<Rightarrow> Inl (AssertionError ''control_cmd_shm'')
      | Some shm \<Rightarrow> ControlCommandShm_read_relaxed shm (env_shm e))"

lemma concat_single: "concat (map (\<lambda>x. [h x]) xs) = map h xs"
  by (induction xs) auto

lemma concat_filter_map: "concat (map (\<lambda>x. if P x then [h x] else []) xs) = map h (filter P xs)"
  by (induction xs) auto

lemma sends_request_imu: "sends (imu_frames (fst s)) s (request_imu_on_tick s)"
  using sends_result sends_nil [of "fst s" "fst s" "snd s" "snd s"]
  by (auto simp: imu_frames_def request_imu_on_tick_def Let_def)

lemma sends_disable_all:
  "sends (map (\<lambda>(_, d). Inr (make_disable_frame d)) (ct_actuators (fst s))) s (send_disable_all s)"
  unfolding send_disable_all_def
  using sends_forA [where f = "\<lambda>(_, a). ctl_send (make_disable_frame a)" and g = "\<lambda>(_, d). [Inr (make_disable_frame d)]"]
  by (auto intro!: sends_record_then simp: case_prod_unfold concat_single sends_one)

lemma sends_enable_all:
  "sends (map (\<lambda>(_, d). Inr (make_enable_frame d)) (ct_actuators (fst s))) s (send_enable_all s)"
  unfolding send_enable_all_def
  using sends_forA [where f = "\<lambda>(_, a). ctl_send (make_enable_frame a)" and g = "\<lambda>(_, d). [Inr (make_enable_frame d)]"]
  by (auto intro!: sends_record_then simp: case_prod_unfold concat_single sends_one)

lemma sends_damping_all:
  "sends (damping_frames (sp_velocity_damping_kd (cfg_safety (ct_config (fst s)))) (ct_actuators (fst s))) s
     (send_damping_all s)"
proof -
  let ?h = "\<lambda>(_ :: int, d). make_impedance_command_frame (Fin 0) (Fin 0) (Fin 0)
      (sp_velocity_damping_kd (cfg_safety (ct_config (fst s)))) (Fin 0) d"
  have "sends (map ?h xs) s' (forA (\<lambda>x. ctl_send_result (?h x)) xs s')" for xs s'
    using sends_forA [where f = "\<lambda>x. ctl_send_result (?h x)" and g = "\<lambda>x. [?h x]"] by (simp add: concat_single sends_result)
  then show ?thesis
    by (auto simp: send_damping_all_def damping_frames_def Let_def case_prod_unfold intro!: sends_record_then)
qed

lemma sends_zero_set_all:
  "sends (case zero_set_offsets_by_can_id op of Inl x \<Rightarrow> [Inl x] | Inr os \<Rightarrow> zero_frames os (ct_actuators (fst s))) s
     (send_zero_set_all op s)"
proof -
  let ?f = "\<lambda>os can_id. case map_of (ct_actuators (fst s)) can_id of None \<Rightarrow> retA ()
      | Some a \<Rightarrow> ctl_send_result (make_zero_position_frame (zero_offset_deg os can_id) a)"
  let ?g = "\<lambda>os can_id. if map_of (ct_actuators (fst s)) can_id \<noteq> None
      then [make_zero_position_frame (zero_offset_deg os can_id) (the (map_of (ct_actuators (fst s)) can_id))] else []"
  have one: "sends (?g os x) s' (?f os x s')" for os x s'
    using sends_nil [of "fst s'" "fst s'" "snd s'" "snd s'"] by (auto split: option.split intro: sends_result)
  have "sends (zero_frames os (ct_actuators (fst s))) s'
      (forA (?f os) (zero_target_ids os (ct_actuators (fst s))) s')" for os s'
    using sends_forA [where f = "?f os" and g = "?g os" and xs = "zero_target_ids os (ct_actuators (fst s))"
        and s = s', OF one] unfolding concat_filter_map zero_frames_def .
  then have "sends (zero_frames os (ct_actuators (fst s))) s (bindA (record_output_command ''ZERO_SET'' [])
      (\<lambda>_. forA (?f os) (zero_target_ids os (ct_actuators (fst s)))) s)" for os
    by (intro sends_record_then)
  then show ?thesis unfolding send_zero_set_all_def by (intro sends_lift_case)
qed

lemma sends_policy_loop: "sends (policy_frames actuators ts) s (policy_loop actuators ts acc s)"
proof (induction actuators ts acc arbitrary: s rule: policy_loop.induct)
  case (1 actuators acc)
  show ?case using sends_nil [of "fst s" "fst s" "snd s" "snd s"] by (simp add: policy_frames_def)
next
  case (2 actuators t ts acc)
  show ?case
  proof (cases "map_of actuators (ct_can_id t)")
    case None
    with 2(1) [OF None] show ?thesis by (simp add: policy_frames_def)
  next
    case (Some a)
    let ?r = "make_impedance_command_frame (ct_q t) (ct_dq t) (ct_kp t) (ct_kd t) (ct_tau t) a"
    from sends_bind [where m = "ctl_send_result ?r" and rs' = "policy_frames actuators ts", OF sends_result 2(2) [OF Some]]
    show ?thesis using Some by (simp add: policy_frames_def)
  qed
qed

lemma sends_policy_command: "sends (policy_frames (ct_actuators (fst s)) (policy_targets cmd)) s (send_policy_command cmd s)"
  using sends_bind [where rs' = "[]" and s = s and m = "policy_loop (ct_actuators (fst s)) (policy_targets cmd) []"
      and f = "record_output_command ''POLICY''", OF sends_policy_loop sends_record]
  by (simp add: send_policy_command_def)

lemma sends_mode_output:
  "sends (mode_frames (fst s) (zero_set_offsets_by_can_id (Some op)) (read_control (fst s) (snd s))
      (sm_mode (ct_state_machine (fst s)))) s (mode_output op s)"
proof (cases "sm_mode (ct_state_machine (fst s))")
  case NORMAL
  have *: "sends (policy_frames (ct_actuators (fst s)) (policy_targets cmd)) s (send_policy_command cmd s)" for cmd
    by (rule sends_policy_command)
  show ?thesis
  proof (cases "ct_control_cmd_shm (fst s)")
    case None
    then show ?thesis using NORMAL by (auto simp: mode_frames_def mode_output_def read_control_def sends_def)
  next
    case (Some shm)
    then show ?thesis using NORMAL *
      by (cases "ControlCommandShm_read_relaxed shm (env_shm (snd s))")
        (auto simp: mode_frames_def mode_output_def read_control_def bindA_def sends_def)
  qed
qed (simp_all add: mode_frames_def mode_output_def sends_disable_all sends_enable_all sends_zero_set_all sends_damping_all)

section \<open>Publishing\<close>

text \<open>What stays fixed once the controller has been built and started.\<close>

definition protocols :: "(int \<times> spg_driver) list \<Rightarrow> (int \<times> spg_protocol) list" where
  "protocols actuators = map (map_prod id ad_protocol) actuators"

definition keeps_setup :: "controller \<Rightarrow> controller \<Rightarrow> bool" where
  "keeps_setup c c' \<longleftrightarrow>
     ct_config c' = ct_config c \<and> protocols (ct_actuators c') = protocols (ct_actuators c) \<and>
     id_protocol (ct_imu c') = id_protocol (ct_imu c) \<and> ct_control_cmd_shm c' = ct_control_cmd_shm c \<and>
     ct_operator_cmd_shm c' = ct_operator_cmd_shm c \<and> ct_processes c' = ct_processes c \<and>
     ct_shm_manager c' = ct_shm_manager c \<and> ct_running c' = ct_running c \<and>
     ct_controller_state c' = ct_controller_state c"

definition keeps_mode :: "controller \<times> env \<Rightarrow> controller \<times> env \<Rightarrow> bool" where
  "keeps_mode s s' \<longleftrightarrow>
     keeps_setup (fst s) (fst s') \<and> ct_state_machine (fst s') = ct_state_machine (fst s) \<and>
     ct_last_consumed_operator_timestamp_ns (fst s') = ct_last_consumed_operator_timestamp_ns (fst s) \<and>
     env_requests (snd s') = env_requests (snd s)"

text \<open>A dict has its keys once.\<close>

definition actuators_ok :: "controller \<Rightarrow> bool" where
  "actuators_ok c \<longleftrightarrow> distinct (map fst (ct_actuators c))"

lemma keeps_setup_refl [simp]: "keeps_setup c c"
  by (simp add: keeps_setup_def)

lemma keeps_setup_trans: "keeps_setup a b \<Longrightarrow> keeps_setup b c \<Longrightarrow> keeps_setup a c"
  by (simp add: keeps_setup_def)

lemma keeps_mode_trans: "keeps_mode a b \<Longrightarrow> keeps_mode b c \<Longrightarrow> keeps_mode a c"
  by (auto simp: keeps_mode_def intro: keeps_setup_trans)

lemma keeps_mode_bindA:
  assumes "keeps_mode s (snd (m s))" and "\<And>a s'. keeps_mode s' (snd (f a s'))"
  shows "keeps_mode s (snd (bindA m f s))"
proof -
  obtain r s' where m: "m s = (r, s')" by (cases "m s")
  with assms(1) have "keeps_mode s s'" by simp
  then show ?thesis using m keeps_mode_trans [OF _ assms(2)] by (cases r) (auto simp: bindA_def)
qed

lemma same_core_keeps: "same_core c c' \<Longrightarrow> keeps_setup c c'"
  by (simp add: same_core_def keeps_setup_def)

lemma protocols_keys: "map fst (protocols xs) = map fst xs"
  by (simp add: protocols_def)

lemma actuators_ok_keeps: "keeps_setup c c' \<Longrightarrow> actuators_ok c \<Longrightarrow> actuators_ok c'"
  using protocols_keys [of "ct_actuators c"] protocols_keys [of "ct_actuators c'"]
  by (simp add: keeps_setup_def actuators_ok_def)

lemma protocols_update:
  "map_of al k = Some d0 \<Longrightarrow> ad_protocol d' = ad_protocol d0 \<Longrightarrow> protocols (AList.update k d' al) = protocols al"
  by (induction al) (auto simp: protocols_def split: if_splits)

lemma driver_update_fault_flags_protocol [simp]: "ad_protocol (driver_update_fault_flags t d) = ad_protocol d"
  by (simp add: driver_update_fault_flags_def)

lemma snapshot_actuators_keeps:
  assumes "snapshot_actuators now ds (c, e) = (items, (c', e'))"
    and "\<forall>(k, d) \<in> set ds. \<exists>d0. map_of (ct_actuators c) k = Some d0 \<and> ad_protocol d0 = ad_protocol d"
  shows "keeps_mode (c, e) (c', e') \<and> ct_imu c' = ct_imu c \<and> env_shm e' = env_shm e \<and>
    ct_shm_state_publisher c' = ct_shm_state_publisher c \<and> ct_dashboard_publisher c' = ct_dashboard_publisher c"
  using assms
proof (induction ds arbitrary: c e items)
  case Nil
  then show ?case by (simp add: keeps_mode_def)
next
  case (Cons x ds)
  obtain k d where x: "x = (k, d)" by (cases x)
  obtain t e1 where t: "time_monotonic e = (t, e1)" by (cases "time_monotonic e")
  let ?d = "driver_update_fault_flags t d"
  let ?c1 = "c\<lparr>ct_actuators := AList.update k ?d (ct_actuators c)\<rparr>"
  from Cons.prems(2) x obtain d0 where d0: "map_of (ct_actuators c) k = Some d0" "ad_protocol d0 = ad_protocol d" by auto
  then have p: "protocols (ct_actuators ?c1) = protocols (ct_actuators c)"
    using protocols_update [OF d0(1), of ?d] by simp
  from Cons.prems(1) x t obtain items' where rest: "snapshot_actuators now ds (?c1, e1) = (items', (c', e'))"
    by (auto simp: Let_def split: prod.splits)
  have "\<forall>(k', d') \<in> set ds. \<exists>d1. map_of (ct_actuators ?c1) k' = Some d1 \<and> ad_protocol d1 = ad_protocol d'"
    using Cons.prems(2) x d0 by (fastforce simp: update_conv')
  from Cons.IH [OF rest this] p t show ?case
    by (auto simp: keeps_mode_def keeps_setup_def time_monotonic_def)
qed

lemma map_of_sorted_self:
  assumes "actuators_ok c" and "(k, d) \<in> set (sort_key fst (ct_actuators c))"
  shows "map_of (ct_actuators c) k = Some d"
  using assms by (simp add: actuators_ok_def)

lemma make_snapshot_keeps:
  assumes "actuators_ok (fst s)"
  shows "keeps_mode s (snd (make_snapshot s)) \<and>
    rn_mode (fst (make_snapshot s)) = sm_mode (ct_state_machine (fst s)) \<and>
    env_shm (snd (snd (make_snapshot s))) = env_shm (snd s) \<and>
    ct_shm_state_publisher (fst (snd (make_snapshot s))) = ct_shm_state_publisher (fst s) \<and>
    ct_dashboard_publisher (fst (snd (make_snapshot s))) = ct_dashboard_publisher (fst s)"
proof (cases s)
  case (Pair c e)
  obtain now e1 where 1: "time_monotonic e = (now, e1)" by (cases "time_monotonic e")
  obtain t1 e2 where 2: "time_monotonic e1 = (t1, e2)" by (cases "time_monotonic e1")
  obtain t2 e3 where 3: "time_monotonic e2 = (t2, e3)" by (cases "time_monotonic e2")
  let ?c = "c\<lparr>ct_imu := imu_update_fault_flags t1 t2 (ct_imu c)\<rparr>"
  obtain items c' e4 where 4: "snapshot_actuators now (sort_key fst (ct_actuators c)) (?c, e3) = (items, (c', e4))"
    by (metis surj_pair)
  have "\<forall>(k, d) \<in> set (sort_key fst (ct_actuators c)).
      \<exists>d0. map_of (ct_actuators ?c) k = Some d0 \<and> ad_protocol d0 = ad_protocol d"
    using map_of_sorted_self [of c] assms Pair by auto
  from snapshot_actuators_keeps [OF 4 this] Pair 1 2 3 4 show ?thesis
    by (auto simp: make_snapshot_def Let_def keeps_mode_def keeps_setup_def time_monotonic_def time_unix_def
        imu_update_fault_flags_def split: prod.splits)
qed

lemma publish_via_keeps:
  assumes "\<And>p c. keeps_setup c (put p c) \<and> ct_state_machine (put p c) = ct_state_machine c \<and>
    ct_last_consumed_operator_timestamp_ns (put p c) = ct_last_consumed_operator_timestamp_ns c"
  shows "keeps_mode s (snd (publish_via force snapshot get put s))"
  using assms
  by (auto simp: publish_via_def keeps_mode_def publisher_publish_def time_monotonic_def time_ns_def shm_act_def
      split: prod.splits option.splits sum.splits if_splits)

lemma publish_state_keeps:
  assumes "actuators_ok (fst s)"
  shows "keeps_mode s (snd (publish_state force s)) \<and>
    (\<forall>snap. fst (publish_state force s) = Inr snap \<longrightarrow> rn_mode snap = sm_mode (ct_state_machine (fst s)))"
proof -
  obtain snap s1 where 1: "make_snapshot s = (snap, s1)" by (cases "make_snapshot s")
  let ?p1 = "publish_via force snap ct_shm_state_publisher (\<lambda>p c. c\<lparr>ct_shm_state_publisher := Some p\<rparr>)"
  let ?p2 = "publish_via force snap ct_dashboard_publisher (\<lambda>p c. c\<lparr>ct_dashboard_publisher := Some p\<rparr>)"
  have a: "keeps_mode s s1" "rn_mode snap = sm_mode (ct_state_machine (fst s))"
    using make_snapshot_keeps [OF assms] 1 by auto
  have k: "keeps_mode t (snd (?p1 t))" "keeps_mode t (snd (?p2 t))" for t
    by (rule publish_via_keeps; simp add: keeps_setup_def)+
  have "keeps_mode s1 (snd (bindA ?p1 (\<lambda>_. bindA ?p2 (\<lambda>_. retA snap)) s1))"
    by (intro keeps_mode_bindA k) (simp add: keeps_mode_def)
  then have "keeps_mode s (snd (publish_state force s))"
    using keeps_mode_trans [OF a(1)] 1 by (simp add: publish_state_def)
  moreover have "fst (publish_state force s) = Inr snap' \<Longrightarrow> snap' = snap" for snap'
    using 1 by (auto simp: publish_state_def bindA_def split: prod.splits sum.splits)
  ultimately show ?thesis using a(2) by auto
qed

end
