(* ===== verification/Controller_Safety.thy ===== *)
theory Controller_Safety
  imports Controller_Facts
begin

text \<open>
  Properties of the running controller: what one tick does, and what holds of every run in which
  ticks, received frames and changes made by other processes interleave.
\<close>

section \<open>One tick\<close>

text \<open>The operator command a tick acts on, and the mode it leads to.\<close>

definition tick_command :: "controller \<Rightarrow> env \<Rightarrow> operator_command result" where
  "tick_command c e =
     (case ct_operator_cmd_shm c of None \<Rightarrow> Inl (AssertionError ''operator_cmd_shm'')
      | Some shm \<Rightarrow> bindE (OperatorCommandShm_read_relaxed shm (env_shm e))
          (\<lambda>op. Inr (fst (consume_operator_command op c))))"

definition tick_machine :: "controller \<Rightarrow> env \<Rightarrow> operator_command \<Rightarrow> state_machine" where
  "tick_machine c e op = update (Some op) (env_monotonic e (env_mono_reads e)) (ct_state_machine c)"

definition tick_frames :: "controller \<Rightarrow> env \<Rightarrow> operator_command \<Rightarrow> can_frame result list" where
  "tick_frames c e op =
     mode_frames c (zero_set_offsets_by_can_id (Some op)) (read_control c e) (sm_mode (tick_machine c e op))"

definition tick_consumed :: "controller \<Rightarrow> operator_command \<Rightarrow> int option" where
  "tick_consumed c op =
     (if command_code (Some op) = OP_NONE then ct_last_consumed_operator_timestamp_ns c
      else Some (oc_timestamp_ns op))"

lemma consume_core:
  assumes "consume_operator_command op c = (op', c')"
  shows "keeps_setup c c'" "ct_state_machine c' = ct_state_machine c" "ct_actuators c' = ct_actuators c"
    "ct_can c' = ct_can c" "ct_shm_state_publisher c' = ct_shm_state_publisher c"
    "ct_dashboard_publisher c' = ct_dashboard_publisher c"
  using assms by (auto simp: consume_operator_command_def keeps_setup_def split: sum.splits if_splits)

lemma consume_consumed:
  assumes "consume_operator_command op c = (op', c')"
  shows "ct_last_consumed_operator_timestamp_ns c' = tick_consumed c op'"
  using assms
  by (auto simp: consume_operator_command_def tick_consumed_def command_code_def OperatorCommandCode_def
      split: sum.splits if_splits)

lemma consume_same_core:
  assumes "same_core c c'"
  shows "fst (consume_operator_command op c') = fst (consume_operator_command op c)"
  using assms by (auto simp: consume_operator_command_def same_core_def split: sum.split)

lemma read_control_cong:
  "ct_control_cmd_shm c' = ct_control_cmd_shm c \<Longrightarrow> env_shm e' = env_shm e \<Longrightarrow> read_control c' e' = read_control c e"
  by (cases "ct_control_cmd_shm c") (simp_all add: read_control_def)

lemma mode_frames_cong:
  "ct_actuators c' = ct_actuators c \<Longrightarrow> ct_config c' = ct_config c \<Longrightarrow> mode_frames c' = mode_frames c"
  by (intro ext) (simp add: mode_frames_def split: controller_mode.split sum.split)

text \<open>A tick after its IMU request: the controller on which the mode's output runs.\<close>

lemma tick_unfold:
  assumes op: "tick_command c e = Inr op" and t: "time_monotonic e = (now, e1)"
    and req: "request_imu_on_tick (c, e1) = (Inr u, (c2, e2))" and core: "same_core c c2" "env_shm e2 = env_shm e"
  obtains c5 where "tick (c, e) = bindA (mode_output op) (\<lambda>_. publish_state False) (c5, e2)"
    and "keeps_setup c c5" and "ct_state_machine c5 = tick_machine c e op"
    and "ct_last_consumed_operator_timestamp_ns c5 = tick_consumed c op"
    and "mode_frames c5 (zero_set_offsets_by_can_id (Some op)) (read_control c5 e2) (sm_mode (ct_state_machine c5)) =
      tick_frames c e op"
    and "ct_can c5 = ct_can c2" and "ct_shm_state_publisher c5 = ct_shm_state_publisher c"
    and "ct_dashboard_publisher c5 = ct_dashboard_publisher c"
proof -
  from op obtain shm op0 where shm: "ct_operator_cmd_shm c = Some shm"
    "OperatorCommandShm_read_relaxed shm (env_shm e) = Inr op0" "op = fst (consume_operator_command op0 c)"
    by (auto simp: tick_command_def bindE_eq_Inr split: option.splits)
  have shm2: "ct_operator_cmd_shm c2 = Some shm" "OperatorCommandShm_read_relaxed shm (env_shm e2) = Inr op0"
    using shm core by (simp_all add: same_core_def)
  obtain c4 where c4: "consume_operator_command op0 c2 = (op, c4)"
    using shm(3) consume_same_core [OF core(1)] by (metis prod.collapse)
  define c5 where "c5 = c4\<lparr>ct_state_machine := update (Some op) now (ct_state_machine c4)\<rparr>"
  note c4' = consume_core [OF c4]
  have now: "now = env_monotonic e (env_mono_reads e)" using t by (auto simp: time_monotonic_def)
  have "ct_state_machine c4 = ct_state_machine c" "ct_actuators c4 = ct_actuators c"
    using c4'(2,3) core(1) by (simp_all add: same_core_def)
  then have sm: "ct_state_machine c5 = tick_machine c e op" "ct_actuators c5 = ct_actuators c"
    using now by (simp_all add: c5_def tick_machine_def)
  have keep5: "keeps_setup c c5"
    using keeps_setup_trans [OF same_core_keeps [OF core(1)] c4'(1)] by (simp add: c5_def keeps_setup_def)
  have frames: "mode_frames c5 (zero_set_offsets_by_can_id (Some op)) (read_control c5 e2) (sm_mode (ct_state_machine c5)) =
      tick_frames c e op"
    using keep5 sm core(2) read_control_cong [of c5 c e2 e] mode_frames_cong [of c5 c]
    by (simp add: tick_frames_def keeps_setup_def)
  show thesis
  proof (rule that [OF _ keep5 sm(1) _ frames])
    show "tick (c, e) = bindA (mode_output op) (\<lambda>_. publish_state False) (c5, e2)"
      using t req shm2 c4 by (simp add: tick_def bindA_def c5_def Let_def)
    show "ct_last_consumed_operator_timestamp_ns c5 = tick_consumed c op"
      using consume_consumed [OF c4] core(1) by (simp add: c5_def tick_consumed_def same_core_def)
  qed (use c4'(4-6) core(1) in \<open>simp_all add: c5_def same_core_def\<close>)
qed

text \<open>The two ways a tick goes: the IMU request raises and nothing else happens, or the mode's output is sent.\<close>

lemma tick_cases:
  assumes "actuators_ok c" and op: "tick_command c e = Inr op" and "tick (c, e) = (r, (c', e'))"
  obtains
    (imu_failed) fs x where "r = Inl x" "ct_state_machine c' = ct_state_machine c" "keeps_setup c c'"
      "prefix fs (encodable (imu_frames c))" "env_requests e' = env_requests e @ map tx_request fs"
  | (sent) imu fs where "ct_state_machine c' = tick_machine c e op" "keeps_setup c c'"
      "map Inr imu = imu_frames c" "prefix fs (encodable (tick_frames c e op))"
      "env_requests e' = env_requests e @ map tx_request (imu @ fs)"
      "\<forall>snap. r = Inr snap \<longrightarrow> map Inr fs = tick_frames c e op \<and> rn_mode snap = sm_mode (tick_machine c e op)"
      "ct_last_consumed_operator_timestamp_ns c' = tick_consumed c op"
proof -
  obtain now e1 where t: "time_monotonic e = (now, e1)" by (cases "time_monotonic e")
  then have e1: "env_shm e1 = env_shm e" "env_requests e1 = env_requests e" by (auto simp: time_monotonic_def)
  obtain r2 c2 e2 where req: "request_imu_on_tick (c, e1) = (r2, (c2, e2))" by (metis surj_pair)
  from sends_request_imu [of "(c, e1)"] req obtain imu where
    imu: "same_core c c2" "env_shm e2 = env_shm e" "prefix imu (encodable (imu_frames c))"
      "env_requests e2 = env_requests e @ map tx_request imu" "isr r2 \<longrightarrow> map Inr imu = imu_frames c"
    using e1 by (auto simp: sends_def)
  show thesis
  proof (cases r2)
    case (Inl x)
    with assms(3) t req have "r = Inl x" "c' = c2" "e' = e2" by (auto simp: tick_def bindA_def)
    with imu show thesis
      by (intro imu_failed [of x imu]) (auto simp: same_core_def keeps_setup_def)
  next
    case (Inr u)
    obtain c5 where tick: "tick (c, e) = bindA (mode_output op) (\<lambda>_. publish_state False) (c5, e2)"
      and c5: "keeps_setup c c5" "ct_state_machine c5 = tick_machine c e op"
        "ct_last_consumed_operator_timestamp_ns c5 = tick_consumed c op"
      and frames: "mode_frames c5 (zero_set_offsets_by_can_id (Some op)) (read_control c5 e2)
        (sm_mode (ct_state_machine c5)) = tick_frames c e op"
      using tick_unfold [OF op t req [unfolded Inr] imu(1,2)] by metis
    obtain r6 c6 e6 where m: "mode_output op (c5, e2) = (r6, (c6, e6))" by (metis surj_pair)
    from sends_mode_output [of "(c5, e2)" op] frames m obtain fs where
      fs: "same_core c5 c6" "prefix fs (encodable (tick_frames c e op))"
        "env_requests e6 = env_requests e2 @ map tx_request fs" "isr r6 \<longrightarrow> map Inr fs = tick_frames c e op"
      by (auto simp: sends_def)
    have c6: "keeps_setup c c6" "ct_state_machine c6 = tick_machine c e op"
        "ct_last_consumed_operator_timestamp_ns c6 = tick_consumed c op"
      using keeps_setup_trans [OF c5(1) same_core_keeps [OF fs(1)]] fs(1) c5 by (simp_all add: same_core_def)
    show thesis
    proof (cases r6)
      case (Inl x)
      then have "r = Inl x" "c' = c6" "e' = e6" using tick assms(3) m by (auto simp: bindA_def)
      with c6 fs imu Inr show thesis by (intro sent [of imu fs]) auto
    next
      case (Inr v)
      then have "publish_state False (c6, e6) = (r, (c', e'))" using tick assms(3) m by (auto simp: bindA_def)
      with publish_state_keeps [of "(c6, e6)" False] actuators_ok_keeps [OF c6(1) assms(1)]
      have p: "keeps_mode (c6, e6) (c', e')" "\<forall>snap. r = Inr snap \<longrightarrow> rn_mode snap = sm_mode (ct_state_machine c6)" by auto
      from p(1) c6 have "keeps_setup c c'" "ct_state_machine c' = tick_machine c e op" "env_requests e' = env_requests e6"
          "ct_last_consumed_operator_timestamp_ns c' = tick_consumed c op"
        by (auto simp: keeps_mode_def intro: keeps_setup_trans)
      with p(2) c6 fs imu Inr \<open>r2 = Inr u\<close> show thesis by (intro sent [of imu fs]) auto
    qed
  qed
qed

lemma tick_mode:
  assumes "actuators_ok c" and "tick_command c e = Inr op" and "tick (c, e) = (Inr snap, s')"
  shows "rn_mode snap = sm_mode (tick_machine c e op)"
proof -
  obtain c' e' where "s' = (c', e')" by (cases s')
  with assms(3) have "tick (c, e) = (Inr snap, (c', e'))" by simp
  with assms(1,2) show ?thesis by (cases rule: tick_cases) auto
qed

lemma tick_no_command:
  assumes "tick_command c e = Inl x" and "tick (c, e) = (r, (c', e'))"
  shows "isl r \<and> same_core c c' \<and>
    (\<exists>fs. prefix fs (encodable (imu_frames c)) \<and> env_requests e' = env_requests e @ map tx_request fs)"
proof -
  obtain now e1 where t: "time_monotonic e = (now, e1)" by (cases "time_monotonic e")
  then have e1: "env_shm e1 = env_shm e" "env_requests e1 = env_requests e" by (auto simp: time_monotonic_def)
  obtain r2 c2 e2 where req: "request_imu_on_tick (c, e1) = (r2, (c2, e2))" by (metis surj_pair)
  from sends_request_imu [of "(c, e1)"] req obtain imu where
    imu: "same_core c c2" "env_shm e2 = env_shm e" "prefix imu (encodable (imu_frames c))"
      "env_requests e2 = env_requests e @ map tx_request imu"
    using e1 by (auto simp: sends_def)
  have shm2: "ct_operator_cmd_shm c2 = ct_operator_cmd_shm c" using imu(1) by (simp add: same_core_def)
  have "isl r \<and> c' = c2 \<and> e' = e2"
    using assms t req shm2 imu(2)
    by (cases r2; cases "ct_operator_cmd_shm c")
      (auto simp: tick_def bindA_def tick_command_def bindE_def split: sum.splits)
  with imu show ?thesis by blast
qed

text \<open>
  C1. What a tick puts on the bus: for every controller state, operator command and answer of the
  daemon, the frames a tick hands to the CAN client are the IMU request (when configured) followed
  by the output of the one mode the state machine has moved to, in order and without gaps; a tick
  that returns has sent all of them and reports that mode; a tick that raises has sent an initial
  part.
\<close>

theorem tick_sends_mode_output:
  assumes "actuators_ok c" and "tick_command c e = Inr op" and "tick (c, e) = (r, (c', e'))"
  shows "\<exists>fs. env_requests e' = env_requests e @ map tx_request fs \<and>
    prefix fs (encodable (imu_frames c @ tick_frames c e op)) \<and>
    (\<forall>snap. r = Inr snap \<longrightarrow> map Inr fs = imu_frames c @ tick_frames c e op \<and>
      ct_state_machine c' = tick_machine c e op \<and> rn_mode snap = sm_mode (tick_machine c e op))"
  using assms
proof (cases rule: tick_cases)
  case (imu_failed fs x)
  then have "prefix fs (encodable (imu_frames c @ tick_frames c e op))"
    using encodable_prefix prefix_order.trans by blast
  with imu_failed show ?thesis by (intro exI [of _ fs]) auto
next
  case (sent imu fs)
  have "prefix (imu @ fs) (encodable (imu_frames c @ tick_frames c e op))"
    using sent(3) [symmetric] sent(4) by simp
  with sent show ?thesis by (intro exI [of _ "imu @ fs"]) auto
qed

section \<open>Runs\<close>

lemma call_all_keeps:
  assumes "\<And>cb w. Q w \<Longrightarrow> Q (snd (call cb frame w))" and "Q w"
  shows "Q (snd (call_all call frame cbs w))"
  using assms(2)
proof (induction cbs arbitrary: w)
  case (Cons cb cbs)
  obtain r w' where call: "call cb frame w = (r, w')" by (cases "call cb frame w")
  with assms(1) [OF Cons.prems, of cb] have "Q w'" by simp
  from Cons.IH [OF this] call show ?case by (cases r) (auto split: prod.splits)
qed simp

lemma dispatch_keeps:
  assumes "\<And>cb w. Q w \<Longrightarrow> Q (snd (call cb frame w))" and "Q w"
  shows "Q (snd (dispatch call d frame w))"
proof -
  note keep = call_all_keeps [where Q = Q and call = call and frame = frame, OF assms(1)]
  have "Q (snd (call_all call frame (di_wildcard_callbacks d)
      (snd (call_all call frame (callbacks_of d (fr_can_id frame)) w))))"
    by (rule keep [OF _ keep [OF _ assms(2)]])
  then show ?thesis by (simp add: dispatch_def case_prod_unfold)
qed

lemma imu_on_frame_protocol [simp]: "id_protocol (imu_on_frame now now' frame d) = id_protocol d"
  by (auto simp: imu_on_frame_def imu_mark_decode_error_def imu_merge_state_def Let_def
      split: sum.splits option.splits)

lemma run_callback_keeps: "keeps_mode s (snd (run_callback cb frame s))"
proof (cases cb)
  case (Cb_actuator k)
  obtain c e where s: "s = (c, e)" by (cases s)
  obtain b t e1 where echo: "is_recent_tx_echo frame (ct_can c, e) = (b, (t, e1))" by (metis surj_pair)
  then have "env_requests e1 = env_requests e" by (auto simp: is_recent_tx_echo_def time_monotonic_def Let_def)
  then show ?thesis
    using Cb_actuator s echo protocols_update
    by (auto simp: run_callback_def on_actuator_frame_def Let_def keeps_mode_def keeps_setup_def time_monotonic_def
        split: option.splits)
qed (cases s, auto simp: run_callback_def keeps_mode_def keeps_setup_def time_monotonic_def)

lemma receive_frame_keeps: "keeps_mode s (receive_frame frame s)"
proof (cases "tp_client (ct_can (fst s))")
  case (Some client)
  have "keeps_mode s (snd (dispatch run_callback (cl_dispatcher client) frame s))"
    by (rule dispatch_keeps [of "keeps_mode s"])
      (blast intro: keeps_mode_trans run_callback_keeps, simp add: keeps_mode_def)
  with Some show ?thesis by (simp add: receive_frame_def)
qed (simp add: receive_frame_def keeps_mode_def)

text \<open>
  A step of the running system: a tick, labelled with the code it acted on; a frame from the bus;
  or anything other processes do to the shared memory, the clock and the daemon.
\<close>

inductive ctl_step :: "controller \<times> env \<Rightarrow> operator_code option \<Rightarrow> controller \<times> env \<Rightarrow> bool" where
  tick: "tick_command c e = Inr op \<Longrightarrow> tick (c, e) = (r, s') \<Longrightarrow> ctl_step (c, e) (Some (command_code (Some op))) s'"
| blind: "tick_command c e = Inl x \<Longrightarrow> tick (c, e) = (r, s') \<Longrightarrow> ctl_step (c, e) None s'"
| receive: "ctl_step s None (receive_frame frame s)"
| outside: "env_requests e' = env_requests e \<Longrightarrow> ctl_step (c, e) None (c, e')"

inductive_cases ctl_step_cases: "ctl_step s l s'"

inductive ctl_run :: "controller \<times> env \<Rightarrow> operator_code option list \<Rightarrow> controller \<times> env \<Rightarrow> bool" where
  nil: "ctl_run s [] s"
| cons: "ctl_step s l s' \<Longrightarrow> ctl_run s' ls s'' \<Longrightarrow> ctl_run s (l # ls) s''"

inductive_cases ctl_run_nil: "ctl_run s [] s'"
inductive_cases ctl_run_cons: "ctl_run s (l # ls) s'"

lemma ctl_run_invariant:
  assumes "ctl_run s ls s'" and "Q s" and "\<forall>l \<in> set ls. P l"
    and "\<And>s l s'. Q s \<Longrightarrow> P l \<Longrightarrow> ctl_step s l s' \<Longrightarrow> Q s'"
  shows "Q s'"
  using assms(1-3) by induction (auto intro: assms(4))

text \<open>The frames that cannot move a motor: disabling, and asking the IMU.\<close>

definition quiet_frame :: "controller \<Rightarrow> can_frame \<Rightarrow> bool" where
  "quiet_frame c f \<longleftrightarrow>
     Inr f = encode_request_all (id_protocol (ct_imu c)) \<or>
     (\<exists>p \<in> snd ` set (protocols (ct_actuators c)). f = encode_disable_frame p)"

definition only_quiet :: "controller \<times> env \<Rightarrow> controller \<times> env \<Rightarrow> bool" where
  "only_quiet s s' \<longleftrightarrow>
     (\<exists>fs. env_requests (snd s') = env_requests (snd s) @ map tx_request fs \<and> (\<forall>f \<in> set fs. quiet_frame (fst s) f))"

definition estopped :: "controller \<times> env \<Rightarrow> controller \<times> env \<Rightarrow> bool" where
  "estopped s0 s \<longleftrightarrow>
     keeps_setup (fst s0) (fst s) \<and> sm_mode (ct_state_machine (fst s)) = ESTOP \<and> only_quiet s0 s"

lemma quiet_frame_keeps: "keeps_setup c c' \<Longrightarrow> quiet_frame c' f \<longleftrightarrow> quiet_frame c f"
  by (simp add: keeps_setup_def quiet_frame_def)

lemma only_quiet_trans:
  assumes "only_quiet a b" and "only_quiet b c" and "keeps_setup (fst a) (fst b)"
  shows "only_quiet a c"
proof -
  from assms(1,2) obtain fs gs where
    "env_requests (snd b) = env_requests (snd a) @ map tx_request fs" "\<forall>f \<in> set fs. quiet_frame (fst a) f"
    "env_requests (snd c) = env_requests (snd b) @ map tx_request gs" "\<forall>f \<in> set gs. quiet_frame (fst b) f"
    by (auto simp: only_quiet_def)
  then show ?thesis using quiet_frame_keeps [OF assms(3)]
    unfolding only_quiet_def by (intro exI [of _ "fs @ gs"]) auto
qed

lemma estopped_trans: "estopped a b \<Longrightarrow> estopped b c \<Longrightarrow> estopped a c"
  by (auto simp: estopped_def intro: keeps_setup_trans only_quiet_trans)

lemma keeps_mode_estopped:
  "keeps_mode s s' \<Longrightarrow> sm_mode (ct_state_machine (fst s)) = ESTOP \<Longrightarrow> estopped s s'"
  by (auto simp: keeps_mode_def estopped_def only_quiet_def intro!: exI [of _ "[]"])

lemma prefix_set: "prefix fs gs \<Longrightarrow> set fs \<subseteq> set gs"
  by (rule set_mono_prefix)

lemma imu_frames_quiet: "\<forall>f \<in> set (encodable (imu_frames c)). quiet_frame c f"
proof (cases "make_request_all_frame (ct_imu c)")
  case (Inr f)
  then show ?thesis by (auto simp: imu_frames_def Let_def quiet_frame_def make_request_all_frame_def)
qed (auto simp: imu_frames_def Let_def)

lemma encodable_map_Inr: "encodable (map (\<lambda>x. Inr (h x)) xs) = map h xs"
  by (induction xs) simp_all

lemma disable_frames_quiet:
  "\<forall>f \<in> set (encodable (map (\<lambda>(_, d). Inr (make_disable_frame d)) (ct_actuators c))). quiet_frame c f"
  by (force simp: case_prod_unfold encodable_map_Inr quiet_frame_def protocols_def make_disable_frame_def)

lemma estopped_step:
  assumes "actuators_ok (fst s)" and "sm_mode (ct_state_machine (fst s)) = ESTOP" and "ctl_step s l s'"
    and "l \<noteq> Some OP_RESET_FAULT"
  shows "estopped s s'"
  using assms(3)
proof cases
  case (tick c e op r)
  obtain c' e' where s': "s' = (c', e')" by (cases s')
  have "sm_mode (tick_machine c e op) = ESTOP"
    using assms(2,4) tick(1,2) by (simp add: tick_machine_def update_def enter_def Let_def)
  then have quiet: "\<forall>f \<in> set (encodable (tick_frames c e op)). quiet_frame c f"
    using disable_frames_quiet [of c] by (simp add: tick_frames_def mode_frames_def)
  from assms(1) tick(1) have "actuators_ok c" by simp
  from this tick(3) tick(4) [unfolded s'] show ?thesis
  proof (cases rule: tick_cases)
    case (imu_failed fs x)
    then show ?thesis
      using imu_frames_quiet [of c] set_mono_prefix [OF imu_failed(4)] assms(2) s' tick(1)
      by (auto simp: estopped_def only_quiet_def)
  next
    case (sent imu fs)
    have "\<forall>f \<in> set (imu @ fs). quiet_frame c f"
      using imu_frames_quiet [of c] sent(3) [symmetric] quiet set_mono_prefix [OF sent(4)] by auto
    then show ?thesis using sent \<open>sm_mode (tick_machine c e op) = ESTOP\<close> s' tick(1)
      by (auto simp: estopped_def only_quiet_def simp del: map_append)
  qed
next
  case (blind c e x r)
  obtain c' e' where s': "s' = (c', e')" by (cases s')
  from tick_no_command [OF blind(3) blind(4) [unfolded s']] obtain fs where
    "same_core c c'" "prefix fs (encodable (imu_frames c))" "env_requests e' = env_requests e @ map tx_request fs" by auto
  then show ?thesis
    using imu_frames_quiet [of c] set_mono_prefix [of fs] assms(2) s' blind(1)
    by (auto simp: estopped_def only_quiet_def same_core_keeps) (auto simp: same_core_def)
next
  case (receive frame)
  then show ?thesis using receive_frame_keeps keeps_mode_estopped assms(2) by blast
next
  case (outside e' e c)
  then show ?thesis using assms(2) by (auto simp: estopped_def only_quiet_def intro!: exI [of _ "[]"])
qed

section \<open>Emergency stop\<close>

lemma estopped_run:
  assumes "ctl_run s ls s'" and "actuators_ok (fst s)" and "sm_mode (ct_state_machine (fst s)) = ESTOP"
    and "Some OP_RESET_FAULT \<notin> set ls"
  shows "estopped s s'"
proof -
  have "actuators_ok (fst s') \<and> estopped s s'"
  proof (rule ctl_run_invariant [OF assms(1), where P = "\<lambda>l. l \<noteq> Some OP_RESET_FAULT"])
    show "actuators_ok (fst s) \<and> estopped s s"
      using assms(2,3) by (simp add: keeps_mode_estopped keeps_mode_def)
    show "\<forall>l \<in> set ls. l \<noteq> Some OP_RESET_FAULT" using assms(4) by auto
  next
    fix t l t'
    assume "actuators_ok (fst t) \<and> estopped s t" "l \<noteq> Some OP_RESET_FAULT" "ctl_step t l t'"
    moreover from this have "estopped t t'" by (intro estopped_step) (auto simp: estopped_def)
    ultimately show "actuators_ok (fst t') \<and> estopped s t'"
      by (auto intro: estopped_trans actuators_ok_keeps simp: estopped_def [of t t'])
  qed
  then show ?thesis by simp
qed

text \<open>
  C2. Emergency stop on the wire: a tick that acts on an ESTOP command sends a disable frame to every
  actuator, in order, and nothing else but the IMU request; and from then on, in every interleaving
  of ticks (also ones that raise), received frames and changes made by other processes, the
  controller stays in ESTOP and only ever sends disable frames and IMU requests, until a tick acts
  on a RESET_FAULT command.
\<close>

theorem estop_silences:
  assumes "actuators_ok c" and "tick_command c e = Inr op" and "command_code (Some op) = OP_ESTOP"
    and "tick (c, e) = (Inr snap, s1)" and "ctl_run s1 ls s2" and "Some OP_RESET_FAULT \<notin> set ls"
  shows "rn_mode snap = ESTOP \<and>
    (\<exists>imu. map Inr imu = imu_frames c \<and> env_requests (snd s1) = env_requests e @
      map tx_request (imu @ map (\<lambda>(_, d). make_disable_frame d) (ct_actuators c))) \<and>
    sm_mode (ct_state_machine (fst s2)) = ESTOP \<and> only_quiet s1 s2"
proof -
  have stop: "sm_mode (tick_machine c e op) = ESTOP"
    using assms(3) by (simp add: tick_machine_def update_def enter_def)
  obtain c1 e1 where s1: "s1 = (c1, e1)" by (cases s1)
  from assms(1,2) assms(4) [unfolded s1] show ?thesis
  proof (cases rule: tick_cases)
    case (sent imu fs)
    then have fs: "(map Inr fs :: can_frame result list) = map (\<lambda>(_, d). Inr (make_disable_frame d)) (ct_actuators c)"
      using stop by (simp add: tick_frames_def mode_frames_def)
    from arg_cong [OF this, of encodable]
    have "fs = map (\<lambda>(_, d). make_disable_frame d) (ct_actuators c)"
      by (simp add: case_prod_unfold encodable_map_Inr)
    moreover have "estopped s1 s2"
      using assms(1,5,6) sent(1,2) stop s1 by (intro estopped_run) (auto intro: actuators_ok_keeps)
    ultimately show ?thesis using sent stop s1 by (auto simp: estopped_def)
  qed simp
qed

lemma demo_tick_command:
  assumes "operator_command_ok op" and "oc_command op \<noteq> 0"
  shows "tick_command (demo_controller mode) (demo_world op) = Inr op"
  using assms
  by (auto simp: tick_command_def demo_reads consume_operator_command_def demo_controller_def OperatorCommandCode_def
      split: sum.splits if_splits)

lemma demo_imu_frames [simp]: "imu_frames (demo_controller mode) = []"
  by (simp add: imu_frames_def demo_controller_def demo_config_def)

lemma demo_ok [simp]: "actuators_ok (demo_controller mode)"
  by (simp add: actuators_ok_def demo_controller_def)

definition estop_command :: operator_command where
  "estop_command = (code_command OP_ESTOP)\<lparr>oc_timestamp_ns := 7\<rparr>"

lemma estop_command_facts [simp]:
  "operator_command_ok estop_command" "oc_command estop_command = 5" "command_code (Some estop_command) = OP_ESTOP"
  using empty_operator_command_ok
  by (simp_all add: estop_command_def operator_command_ok_def code_command_def command_code_def OperatorCommandCode_def)

theorem tick_sends_mode_output_witness:
  "\<exists>r c' e' fs. tick (demo_controller NORMAL, demo_world estop_command) = (r, (c', e')) \<and>
     env_requests e' = env_requests (demo_world estop_command) @ map tx_request fs"
proof -
  obtain r c' e' where t: "tick (demo_controller NORMAL, demo_world estop_command) = (r, (c', e'))" by (metis surj_pair)
  have "tick_command (demo_controller NORMAL) (demo_world estop_command) = Inr estop_command"
    by (simp add: demo_tick_command)
  from tick_sends_mode_output [OF demo_ok this t] t show ?thesis by blast
qed

end
