(* ===== verification/Controller_Live.thy ===== *)
theory Controller_Live
  imports Controller_Safety
begin

text \<open>
  When a tick returns. Publishing never raises on an open segment that is large enough, sending
  never raises while the daemon accepts frames, so a tick raises only for a reason the model names.
\<close>

section \<open>Publishing does not raise\<close>

text \<open>The shape of a value, without the ranges: enough to know how many bytes it has.\<close>

fun c_shaped :: "ctype \<Rightarrow> cval \<Rightarrow> bool" where
  "c_shaped (CUInt k) v = (case v of CI _ \<Rightarrow> True | _ \<Rightarrow> False)"
| "c_shaped (CSInt k) v = (case v of CI _ \<Rightarrow> True | _ \<Rightarrow> False)"
| "c_shaped CFloat v = (case v of CF _ \<Rightarrow> True | _ \<Rightarrow> False)"
| "c_shaped CDouble v = (case v of CF _ \<Rightarrow> True | _ \<Rightarrow> False)"
| "c_shaped (CArray n t) v = (case v of CL vs \<Rightarrow> length vs = n \<and> list_all (c_shaped t) vs | _ \<Rightarrow> False)"
| "c_shaped (CStruct ts) v =
     (case v of CL vs \<Rightarrow> length vs = length ts \<and> list_all2 (\<lambda>f u. f u) (map (\<lambda>t u. c_shaped t u) ts) vs
      | _ \<Rightarrow> False)"

lemma c_bytes_length: "c_shaped t v \<Longrightarrow> length (c_bytes t v) = csize t"
proof (induction t arbitrary: v)
  case (CArray n t)
  from CArray.prems obtain vs where v: "v = CL vs" "length vs = n" "list_all (c_shaped t) vs"
    by (auto split: cval.splits)
  have "map length (map (c_bytes t) vs) = replicate n (csize t)"
    using v CArray.IH by (auto simp: list_all_iff intro!: replicate_eqI)
  then have "length (concat (map (c_bytes t) vs)) = n * csize t"
    by (simp only: length_concat sum_list_replicate) simp
  then show ?case using v(1) by simp
next
  case (CStruct ts)
  from CStruct.prems obtain vs where v1: "v = CL vs" by (cases v) auto
  with CStruct.prems have v2: "length vs = length ts"
      "list_all2 (\<lambda>f u. f u) (map (\<lambda>t u. c_shaped t u) ts) vs" by simp_all
  have "length (c_bytes (ts ! i) (vs ! i)) = csize (ts ! i)" if "i < length ts" for i
    using that list_all2_nthD [OF v2(2), of i] CStruct.IH [of "ts ! i" "vs ! i"] by simp
  then have "map length (map2 c_bytes ts vs) = map csize ts"
    using v2(1) by (intro nth_equalityI) auto
  then have "length (concat (map2 c_bytes ts vs)) = sum_list (map csize ts)" by (simp add: length_concat)
  then show ?case using v1 by (simp add: map2_apply)
qed (auto split: cval.splits)

lemma write_shaped:
  assumes "c_shaped t v" and "seg_ready t obj os"
  obtains os' where "write_struct t obj v os = (Inr (), os')" and "os_names os' = os_names os"
    and "\<And>i. length (os_mem os' i) = length (os_mem os i)"
proof -
  from assms(2) obtain i where i: "seg_shm obj = Some i" "csize t \<le> length (os_mem os i)"
    by (auto simp: seg_ready_def)
  show thesis
    using i c_bytes_length [OF assms(1)]
    by (intro that [of "os\<lparr>os_mem := (os_mem os)(i := overwrite (c_bytes t v) (os_mem os i))\<rparr>"])
      (auto simp: write_struct_def Let_def length_overwrite)
qed

lemma actuator_shaped: "length (as_pad a) = 2 \<Longrightarrow> c_shaped ActuatorStateC (actuator_to_c a)"
  by (simp add: ActuatorStateC_def actuator_to_c_def list_all_iff)

lemma target_shaped: "c_shaped CommandTargetStateC (command_target_to_c t)"
  by (simp add: CommandTargetStateC_def command_target_to_c_def)

lemma snapshot_shaped: "c_shaped RobotStateC (robot_to_c (snapshot_to_cstruct ns snap))"
proof -
  let ?s = "snapshot_to_cstruct ns snap"
  have a: "list_all (c_shaped ActuatorStateC) (map actuator_to_c (rs_actuators ?s))"
    using fill_slots_all [of "rn_actuators snap" "\<lambda>a. length (as_pad a) = 2" actuator_cstruct empty_actuator_state]
    by (simp add: snapshot_to_cstruct_def Let_def list_all_iff actuator_shaped actuator_cstruct_def empty_actuator_state_def)
  have t: "list_all (c_shaped CommandTargetStateC) (map command_target_to_c (co_targets (rs_command_output ?s)))"
    by (simp add: list_all_iff target_shaped)
  have i: "c_shaped ImuStateC (imu_to_c (rs_imu ?s))"
    by (simp add: ImuStateC_def imu_to_c_def snapshot_to_cstruct_def Let_def list_all_iff fill_array_length)
  have l: "length (rs_actuators ?s) = MAX_ROBOT_STATE_ACTUATORS" "length (co_targets (rs_command_output ?s)) = MAX_ROBOT_STATE_ACTUATORS"
    by (simp_all add: snapshot_to_cstruct_def Let_def fill_slots_length)
  show ?thesis using a t i l
    by (simp add: RobotStateC_def robot_to_c_def command_output_to_c_def CommandOutputStateC_def)
qed

section \<open>Ticks that return\<close>

text \<open>The daemon accepts frames and connections, and a client that exists is connected.\<close>

definition daemon_accepts :: "controller \<times> env \<Rightarrow> bool" where
  "daemon_accepts s \<longleftrightarrow>
     (\<forall>k. env_answers (snd s) k = Inr (tx_result True)) \<and> (\<forall>k. env_connects (snd s) k = Inr ()) \<and>
     (case tp_client (ct_can (fst s)) of None \<Rightarrow> True | Some client \<Rightarrow> cl_open client)"

definition publisher_ready :: "shm_state_publisher option \<Rightarrow> shm_os \<Rightarrow> bool" where
  "publisher_ready p os \<longleftrightarrow> (case p of None \<Rightarrow> True | Some p \<Rightarrow> seg_ready RobotStateC (pb_writer p) os)"

definition publishers_ready :: "controller \<times> env \<Rightarrow> bool" where
  "publishers_ready s \<longleftrightarrow>
     publisher_ready (ct_shm_state_publisher (fst s)) (env_shm (snd s)) \<and>
     publisher_ready (ct_dashboard_publisher (fst s)) (env_shm (snd s))"

lemma publisher_ready_lengths:
  assumes "\<And>i. length (os_mem os' i) = length (os_mem os i)"
  shows "publisher_ready p os' = publisher_ready p os"
  using assms by (simp add: publisher_ready_def seg_ready_def split: option.split)

lemma publisher_publish_ok:
  assumes "seg_ready RobotStateC (pb_writer p) (env_shm e)"
  obtains p' e' where "publisher_publish force snap (p, e) = (Inr (), (p', e'))" and "pb_writer p' = pb_writer p"
    and "\<And>i. length (os_mem (env_shm e') i) = length (os_mem (env_shm e) i)"
proof -
  obtain now e1 where 1: "time_monotonic e = (now, e1)" by (cases "time_monotonic e")
  obtain ns e2 where 2: "time_ns e1 = (ns, e2)" by (cases "time_ns e1")
  have shm: "env_shm e1 = env_shm e" "env_shm e2 = env_shm e" using 1 2 by (auto simp: time_monotonic_def time_ns_def)
  obtain os' where w: "RobotStateShm_write (pb_writer p) (snapshot_to_cstruct ns snap) (env_shm e) = (Inr (), os')"
    "\<And>i. length (os_mem os' i) = length (os_mem (env_shm e) i)"
    using write_shaped [OF snapshot_shaped assms] unfolding RobotStateShm_write_def by metis
  show thesis
  proof (cases "\<not> force \<and> flt (fsub now (pb_last_publish_t p)) (pb_publish_period_s p)")
    case True
    then show thesis using 1 shm by (intro that [of p e1]) (auto simp: publisher_publish_def)
  next
    case False
    then show thesis using 1 2 shm w
      by (intro that [of "p\<lparr>pb_last_publish_t := now\<rparr>" "e2\<lparr>env_shm := os'\<rparr>"])
        (auto simp: publisher_publish_def shm_act_def)
  qed
qed

lemma publish_via_ok:
  assumes "publisher_ready (get (fst s)) (env_shm (snd s))"
  obtains s' where "publish_via force snap get put s = (Inr (), s')"
    and "\<And>i. length (os_mem (env_shm (snd s')) i) = length (os_mem (env_shm (snd s)) i)"
    and "fst s' = fst s \<or> (\<exists>p p'. get (fst s) = Some p \<and> pb_writer p' = pb_writer p \<and> fst s' = put p' (fst s))"
proof (cases "get (fst s)")
  case None
  then show thesis by (intro that [of s]) (auto simp: publish_via_def split: prod.split)
next
  case (Some p)
  then have "seg_ready RobotStateC (pb_writer p) (env_shm (snd s))" using assms by (simp add: publisher_ready_def)
  then obtain p' e' where "publisher_publish force snap (p, snd s) = (Inr (), (p', e'))" "pb_writer p' = pb_writer p"
    "\<And>i. length (os_mem (env_shm e') i) = length (os_mem (env_shm (snd s)) i)"
    by (rule publisher_publish_ok) blast
  with Some show thesis
    by (intro that [of "(put p' (fst s), e')"]) (auto simp: publish_via_def split: prod.split)
qed

lemma publish_state_ok:
  assumes "actuators_ok (fst s)" and "publishers_ready s"
  shows "\<exists>snap s'. publish_state force s = (Inr snap, s') \<and> publishers_ready s'"
proof -
  obtain snap s1 where 1: "make_snapshot s = (snap, s1)" by (cases "make_snapshot s")
  have r: "publisher_ready (ct_shm_state_publisher (fst s1)) (env_shm (snd s1))"
      "publisher_ready (ct_dashboard_publisher (fst s1)) (env_shm (snd s1))"
    using make_snapshot_keeps [OF assms(1)] assms(2) 1 by (auto simp: publishers_ready_def)
  obtain s2 where 2: "publish_via force snap ct_shm_state_publisher (\<lambda>p c. c\<lparr>ct_shm_state_publisher := Some p\<rparr>) s1 = (Inr (), s2)"
    and len: "\<And>i. length (os_mem (env_shm (snd s2)) i) = length (os_mem (env_shm (snd s1)) i)"
    and d: "ct_dashboard_publisher (fst s2) = ct_dashboard_publisher (fst s1)"
      "publisher_ready (ct_shm_state_publisher (fst s2)) os = publisher_ready (ct_shm_state_publisher (fst s1)) os" for os
    by (rule publish_via_ok [where s = s1 and get = ct_shm_state_publisher and force = force and snap = snap
          and put = "\<lambda>p c. c\<lparr>ct_shm_state_publisher := Some p\<rparr>", OF r(1)]) (auto simp: publisher_ready_def seg_ready_def)
  have r2: "publisher_ready (ct_shm_state_publisher (fst s2)) (env_shm (snd s2))"
      "publisher_ready (ct_dashboard_publisher (fst s2)) (env_shm (snd s2))"
    using r d publisher_ready_lengths [OF len] by simp_all
  obtain s3 where 3: "publish_via force snap ct_dashboard_publisher (\<lambda>p c. c\<lparr>ct_dashboard_publisher := Some p\<rparr>) s2 = (Inr (), s3)"
    and len3: "\<And>i. length (os_mem (env_shm (snd s3)) i) = length (os_mem (env_shm (snd s2)) i)"
    and d3: "ct_shm_state_publisher (fst s3) = ct_shm_state_publisher (fst s2)"
      "publisher_ready (ct_dashboard_publisher (fst s3)) os = publisher_ready (ct_dashboard_publisher (fst s2)) os" for os
    by (rule publish_via_ok [where s = s2 and get = ct_dashboard_publisher and force = force and snap = snap
          and put = "\<lambda>p c. c\<lparr>ct_dashboard_publisher := Some p\<rparr>", OF r2(2)]) (auto simp: publisher_ready_def seg_ready_def)
  have "publishers_ready s3"
    using r2 d3 publisher_ready_lengths [OF len3] by (simp add: publishers_ready_def)
  with 1 2 3 show ?thesis by (simp add: publish_state_def bindA_def)
qed

definition ready :: "controller \<times> env \<Rightarrow> bool" where
  "ready s \<longleftrightarrow> daemon_accepts s \<and> publishers_ready s \<and> actuators_ok (fst s)"

definition deliverable :: "can_frame result \<Rightarrow> bool" where
  "deliverable r \<longleftrightarrow> (case r of Inl _ \<Rightarrow> False | Inr f \<Rightarrow> 0 \<le> fr_can_id f \<and> fr_can_id f \<le> CAN_SFF_MASK)"

text \<open>From a ready state the action returns normally in a ready state.\<close>

definition returns_ready :: "'a ctl \<Rightarrow> bool" where
  "returns_ready m \<longleftrightarrow> (\<forall>s. ready s \<longrightarrow> (\<exists>a s'. m s = (Inr a, s') \<and> ready s'))"

lemma ctl_send_ready: "deliverable (Inr f) \<Longrightarrow> returns_ready (ctl_send f)"
  by (auto simp: returns_ready_def ready_def deliverable_def ctl_send_def send_frame_def bindA_def transport_connect_def
      CANProcessClient_send_def CANProcessClient_init_def exchange_def daemon_accepts_def read_tx_result
      remember_tx_frame_def time_monotonic_def Let_def publishers_ready_def actuators_ok_def split: option.splits)

lemma ctl_send_result_ready: "deliverable r \<Longrightarrow> returns_ready (ctl_send_result r)"
  using ctl_send_ready
  by (cases r) (auto simp: deliverable_def ctl_send_result_def returns_ready_def bindA_def)

lemma record_ready: "returns_ready (record_output_command source targets)"
  by (auto simp: returns_ready_def ready_def record_output_command_def time_monotonic_def daemon_accepts_def
      publishers_ready_def actuators_ok_def)

lemma returns_ready_bind:
  "returns_ready m \<Longrightarrow> (\<And>a. returns_ready (f a)) \<Longrightarrow> returns_ready (bindA m f)"
  by (fastforce simp: returns_ready_def bindA_def)

lemma returns_ready_ret: "returns_ready (retA a)"
  by (simp add: returns_ready_def)

lemma returns_ready_forA: "(\<And>x. x \<in> set xs \<Longrightarrow> returns_ready (f x)) \<Longrightarrow> returns_ready (forA f xs)"
  by (induction xs) (auto intro: returns_ready_bind returns_ready_ret)

lemma returns_ready_at:
  assumes "ready s" and "returns_ready m" and "f s = m s"
  shows "\<exists>a s'. f s = (Inr a, s') \<and> ready s'"
  using assms unfolding returns_ready_def by metis

lemmas returns_ready_intros =
  returns_ready_bind returns_ready_forA returns_ready_ret record_ready ctl_send_ready ctl_send_result_ready

lemma policy_loop_ready:
  "\<forall>r \<in> set (policy_frames actuators ts). deliverable r \<Longrightarrow> returns_ready (policy_loop actuators ts acc)"
proof (induction actuators ts acc rule: policy_loop.induct)
  case (2 actuators t ts acc)
  then show ?case
    by (cases "map_of actuators (ct_can_id t)") (auto simp: policy_frames_def intro!: returns_ready_intros)
qed (simp add: returns_ready_ret)

lemma zero_loop_ready:
  assumes "\<forall>r \<in> set (zero_frames os actuators). deliverable r"
  shows "returns_ready (forA (\<lambda>can_id. case map_of actuators can_id of None \<Rightarrow> retA ()
      | Some a \<Rightarrow> ctl_send_result (make_zero_position_frame (zero_offset_deg os can_id) a)) (zero_target_ids os actuators))"
  using assms by (intro returns_ready_forA) (auto simp: zero_frames_def split: option.split intro!: returns_ready_intros)

lemma to_all_ready:
  assumes "ready s" and "\<forall>r \<in> set (map (\<lambda>(k, a). g k a) xs). deliverable r"
    and "f s = bindA (record_output_command source targets) (\<lambda>_. forA (\<lambda>(k, a). ctl_send_result (g k a)) xs) s"
  shows "\<exists>a s'. f s = (Inr a, s') \<and> ready s'"
proof -
  have "returns_ready (bindA (record_output_command source targets) (\<lambda>_. forA (\<lambda>(k, a). ctl_send_result (g k a)) xs))"
    using assms(2) by (auto intro!: returns_ready_intros)
  then show ?thesis using returns_ready_at [OF assms(1)] assms(3) by blast
qed

lemma ctl_send_result_Inr: "ctl_send_result (Inr f) = ctl_send f"
  by (rule ext) (simp add: ctl_send_result_def bindA_def)

lemma zero_set_ready:
  assumes "ready s" and "zero_set_offsets_by_can_id (Some op) = Inr os"
    and "\<forall>r \<in> set (zero_frames os (ct_actuators (fst s))). deliverable r"
  shows "\<exists>a s'. send_zero_set_all (Some op) s = (Inr a, s') \<and> ready s'"
proof -
  let ?m = "bindA (record_output_command ''ZERO_SET'' []) (\<lambda>_. forA (\<lambda>can_id.
      case map_of (ct_actuators (fst s)) can_id of None \<Rightarrow> retA ()
      | Some a \<Rightarrow> ctl_send_result (make_zero_position_frame (zero_offset_deg os can_id) a))
      (zero_target_ids os (ct_actuators (fst s))))"
  have m: "returns_ready ?m" by (intro returns_ready_bind record_ready zero_loop_ready assms(3))
  have "send_zero_set_all (Some op) s = ?m s" using assms(2) by (simp add: send_zero_set_all_def bindA_def [of "liftA _"])
  with m show ?thesis by (intro returns_ready_at [OF assms(1), where m = ?m])
qed

lemma policy_ready:
  assumes "ready s" and "\<forall>r \<in> set (policy_frames (ct_actuators (fst s)) (policy_targets cmd)). deliverable r"
  shows "\<exists>a s'. send_policy_command cmd s = (Inr a, s') \<and> ready s'"
proof -
  let ?m = "bindA (policy_loop (ct_actuators (fst s)) (policy_targets cmd) []) (record_output_command ''POLICY'')"
  have "returns_ready ?m" by (intro returns_ready_bind policy_loop_ready assms(2) record_ready)
  then show ?thesis by (intro returns_ready_at [OF assms(1), where m = ?m]) (simp_all add: send_policy_command_def)
qed

lemma mode_output_ready:
  assumes "ready s" and "\<forall>r \<in> set (mode_frames (fst s) (zero_set_offsets_by_can_id (Some op))
      (read_control (fst s) (snd s)) (sm_mode (ct_state_machine (fst s)))). deliverable r"
  shows "\<exists>a s'. mode_output op s = (Inr a, s') \<and> ready s'"
proof -
  have disable: "\<exists>a s'. mode_output op s = (Inr a, s') \<and> ready s'" if "sm_mode (ct_state_machine (fst s)) \<in> {DISABLED, ESTOP}"
    by (rule to_all_ready [OF assms(1), where g = "\<lambda>_ a. Inr (make_disable_frame a)"])
      (use that assms(2) in \<open>auto simp: mode_frames_def mode_output_def send_disable_all_def Let_def ctl_send_result_Inr\<close>)
  show ?thesis
  proof (cases "sm_mode (ct_state_machine (fst s))")
    case ENABLING
    show ?thesis
      by (rule to_all_ready [OF assms(1), where g = "\<lambda>_ a. Inr (make_enable_frame a)"])
        (use ENABLING assms(2) in \<open>auto simp: mode_frames_def mode_output_def send_enable_all_def Let_def ctl_send_result_Inr\<close>)
  next
    case DAMPING
    show ?thesis
      by (rule to_all_ready [OF assms(1), where g = "\<lambda>_. make_impedance_command_frame (Fin 0) (Fin 0) (Fin 0)
          (sp_velocity_damping_kd (cfg_safety (ct_config (fst s)))) (Fin 0)"])
        (use DAMPING assms(2) in \<open>auto simp: mode_frames_def damping_frames_def mode_output_def send_damping_all_def Let_def\<close>)
  next
    case ZERO_SETTING
    with assms(2) obtain os where "zero_set_offsets_by_can_id (Some op) = Inr os"
      "\<forall>r \<in> set (zero_frames os (ct_actuators (fst s))). deliverable r"
      by (cases "zero_set_offsets_by_can_id (Some op)") (auto simp: mode_frames_def deliverable_def)
    then show ?thesis using zero_set_ready [OF assms(1)] ZERO_SETTING by (simp add: mode_output_def)
  next
    case NORMAL
    with assms(2) obtain cmd where cmd: "read_control (fst s) (snd s) = Inr cmd"
      "\<forall>r \<in> set (policy_frames (ct_actuators (fst s)) (policy_targets cmd)). deliverable r"
      by (cases "read_control (fst s) (snd s)") (auto simp: mode_frames_def deliverable_def)
    then obtain shm where "ct_control_cmd_shm (fst s) = Some shm" "ControlCommandShm_read_relaxed shm (env_shm (snd s)) = Inr cmd"
      by (auto simp: read_control_def split: option.splits)
    then show ?thesis using policy_ready [OF assms(1) cmd(2)] NORMAL by (simp add: mode_output_def bindA_def [of "liftA _"])
  qed (use disable in auto)
qed

lemma ready_keeps:
  assumes "ready (c, e)" and "keeps_setup c c'" and "ct_can c' = ct_can c2" and "daemon_accepts (c2, e')"
    and "env_shm e' = env_shm e" and "ct_shm_state_publisher c' = ct_shm_state_publisher c"
    and "ct_dashboard_publisher c' = ct_dashboard_publisher c"
  shows "ready (c', e')"
  using assms actuators_ok_keeps by (auto simp: ready_def publishers_ready_def daemon_accepts_def)

lemma tick_ok:
  assumes "ready (c, e)" and "tick_command c e = Inr op"
    and "\<forall>r \<in> set (imu_frames c @ tick_frames c e op). deliverable r"
  shows "\<exists>snap s'. tick (c, e) = (Inr snap, s')"
proof -
  obtain now e1 where t: "time_monotonic e = (now, e1)" by (cases "time_monotonic e")
  then have e1: "env_shm e1 = env_shm e" "ready (c, e1)"
    using assms(1) by (auto simp: time_monotonic_def ready_def daemon_accepts_def publishers_ready_def)
  have "\<exists>a s'. request_imu_on_tick (c, e1) = (Inr a, s') \<and> ready s'"
    using returns_ready_at [OF e1(2), where m = "ctl_send_result (make_request_all_frame (ct_imu c))"] assms(3) e1(2)
      ctl_send_result_ready
    by (auto simp: imu_frames_def request_imu_on_tick_def Let_def split: if_splits)
  then obtain u c2 e2 where req: "request_imu_on_tick (c, e1) = (Inr u, (c2, e2))" and r2: "ready (c2, e2)" by auto
  from sends_request_imu [of "(c, e1)"] req e1 have core: "same_core c c2" "env_shm e2 = env_shm e"
    by (auto simp: sends_def)
  obtain c5 where tick: "tick (c, e) = bindA (mode_output op) (\<lambda>_. publish_state False) (c5, e2)"
    and c5: "keeps_setup c c5" "ct_can c5 = ct_can c2" "ct_shm_state_publisher c5 = ct_shm_state_publisher c"
      "ct_dashboard_publisher c5 = ct_dashboard_publisher c"
    and frames: "mode_frames c5 (zero_set_offsets_by_can_id (Some op)) (read_control c5 e2)
      (sm_mode (ct_state_machine c5)) = tick_frames c e op"
    using tick_unfold [OF assms(2) t req core] by metis
  have "ready (c5, e2)"
    using ready_keeps [OF assms(1) c5(1,2) _ core(2) c5(3,4)] r2 by (simp add: ready_def)
  then obtain v c6 e6 where "mode_output op (c5, e2) = (Inr v, (c6, e6))" "ready (c6, e6)"
    using mode_output_ready [of "(c5, e2)" op] frames assms(3) by auto
  with publish_state_ok [of "(c6, e6)" False] tick show ?thesis by (auto simp: ready_def bindA_def)
qed

text \<open>
  C24. A tick returns: as long as the daemon accepts frames, the segments are open and large enough,
  and the frames of the mode can be encoded and carry 11-bit identifiers, a tick does not raise. It
  has then sent every one of those frames, moved the state machine by exactly one update and reports
  the mode it reached.
\<close>

theorem tick_returns:
  assumes "ready (c, e)" and "tick_command c e = Inr op"
    and "\<forall>r \<in> set (imu_frames c @ tick_frames c e op). deliverable r"
  shows "\<exists>snap c' e' fs. tick (c, e) = (Inr snap, (c', e')) \<and>
    map Inr fs = imu_frames c @ tick_frames c e op \<and> env_requests e' = env_requests e @ map tx_request fs \<and>
    ct_state_machine c' = tick_machine c e op \<and> rn_mode snap = sm_mode (tick_machine c e op)"
proof -
  obtain snap c' e' where t: "tick (c, e) = (Inr snap, (c', e'))" using tick_ok [OF assms] by auto
  have "actuators_ok c" using assms(1) by (simp add: ready_def)
  from this assms(2) t show ?thesis
  proof (cases rule: tick_cases)
    case (sent imu fs)
    then show ?thesis using t
      by (intro exI [of _ snap] exI [of _ c'] exI [of _ e'] exI [of _ "imu @ fs"]) (simp del: map_append, simp)
  qed simp
qed

lemma demo_ready: "ready (demo_controller mode, demo_world op)"
  by (simp add: ready_def daemon_accepts_def publishers_ready_def publisher_ready_def demo_controller_def
      demo_world_def demo_env_def CANProcessTransport_init_def tx_result_def actuators_ok_def)

lemma demo_frames_deliverable:
  "deliverable (Inr (make_enable_frame (ActuatorDriver_init ''FL_HR'' demo_spg t)))"
  "deliverable (Inr (make_disable_frame (ActuatorDriver_init ''FL_HR'' demo_spg t)))"
  by (simp_all add: deliverable_def make_enable_frame_def make_disable_frame_def encode_enable_frame_def
      encode_disable_frame_def command_frame_def ActuatorDriver_init_def demo_spg_def CAN_SFF_MASK_def)

definition enable_command :: operator_command where
  "enable_command = (code_command OP_ENABLE)\<lparr>oc_timestamp_ns := 9\<rparr>"

theorem tick_returns_witness:
  "\<exists>snap s'. tick (demo_controller DISABLED, demo_world enable_command) = (Inr snap, s') \<and> rn_mode snap = ENABLING"
proof -
  have ok: "operator_command_ok enable_command" "oc_command enable_command = 1" "command_code (Some enable_command) = OP_ENABLE"
    using empty_operator_command_ok
    by (simp_all add: enable_command_def operator_command_ok_def code_command_def command_code_def OperatorCommandCode_def)
  have cmd: "tick_command (demo_controller DISABLED) (demo_world enable_command) = Inr enable_command"
    using ok by (simp add: demo_tick_command)
  have mode: "sm_mode (tick_machine (demo_controller DISABLED) (demo_world enable_command) enable_command) = ENABLING"
    using ok(3) by (simp add: tick_machine_def update_def enter_def demo_controller_def)
  have "\<forall>r \<in> set (imu_frames (demo_controller DISABLED) @
      tick_frames (demo_controller DISABLED) (demo_world enable_command) enable_command). deliverable r"
    using mode by (simp add: tick_frames_def mode_frames_def demo_frames_deliverable) (simp add: demo_controller_def demo_frames_deliverable)
  from tick_returns [OF demo_ready cmd this] mode show ?thesis by fastforce
qed

theorem estop_silences_witness:
  "\<exists>snap s1. tick (demo_controller NORMAL, demo_world estop_command) = (Inr snap, s1) \<and> rn_mode snap = ESTOP \<and>
     sm_mode (ct_state_machine (fst (receive_frame \<lparr>fr_can_id = 0x141, fr_data = []\<rparr> s1))) = ESTOP"
proof -
  have cmd: "tick_command (demo_controller NORMAL) (demo_world estop_command) = Inr estop_command"
    by (simp add: demo_tick_command)
  have "sm_mode (tick_machine (demo_controller NORMAL) (demo_world estop_command) estop_command) = ESTOP"
    by (simp add: tick_machine_def update_def enter_def)
  then have frames: "\<forall>r \<in> set (imu_frames (demo_controller NORMAL) @
      tick_frames (demo_controller NORMAL) (demo_world estop_command) estop_command). deliverable r"
    by (simp add: tick_frames_def mode_frames_def) (simp add: demo_controller_def demo_frames_deliverable)
  obtain snap s1 where t: "tick (demo_controller NORMAL, demo_world estop_command) = (Inr snap, s1)"
    using tick_ok [OF demo_ready cmd] frames by auto
  let ?s2 = "receive_frame \<lparr>fr_can_id = 0x141, fr_data = []\<rparr> s1"
  have run: "ctl_run s1 [None] ?s2" by (rule ctl_run.cons [OF ctl_step.receive ctl_run.nil])
  have "Some OP_RESET_FAULT \<notin> set [None]" by simp
  from estop_silences [OF demo_ok cmd _ t run this] t show ?thesis by auto
qed

end
