(* ===== verification/Zero_Set.thy ===== *)
theory Zero_Set
  imports Controller_Live
begin

text \<open>
  The zero-set command from the operator's writer to the frames on the bus: what is published is
  what the controller sends, exactly once; a malformed command sends nothing; and what happens when
  a RUN command arrives while the controller is still zero-setting.
\<close>

section \<open>The published command\<close>

definition zero_targets_ok :: "(int \<times> int) list \<Rightarrow> bool" where
  "zero_targets_ok targets \<longleftrightarrow>
     length targets \<le> OPERATOR_ZERO_TARGET_CAPACITY \<and> distinct (map fst targets) \<and>
     (\<forall>(i, n) \<in> set targets. 0 < i \<and> i \<le> 0x1FFFFFFF \<and> - 32768 \<le> n \<and> n \<le> 32767)"

definition zero_slot :: "int \<times> int \<Rightarrow> operator_zero_target" where
  "zero_slot t = \<lparr>zt_can_id = fst t, zt_offset_count = snd t, zt_reserved = 0\<rparr>"

lemma fill_zero_targets_eq:
  assumes "\<forall>(i, n) \<in> set ts. 0 < i \<and> i \<le> 0x1FFFFFFF \<and> - 32768 \<le> n \<and> n \<le> 32767"
    and "index + length ts \<le> length (oc_zero_targets c)"
    and "\<forall>z \<in> set (drop index (oc_zero_targets c)). zt_reserved z = 0"
  shows "fill_zero_targets index ts c =
    Inr (c\<lparr>oc_zero_targets := take index (oc_zero_targets c) @ map zero_slot ts @
      drop (index + length ts) (oc_zero_targets c)\<rparr>)"
  using assms
proof (induction ts arbitrary: index c)
  case (Cons t ts)
  obtain can_id n where t: "t = (can_id, n)" by (cases t)
  let ?zs = "oc_zero_targets c"
  let ?z = "(?zs ! index)\<lparr>zt_can_id := c_uint 32 can_id, zt_offset_count := c_int 16 n\<rparr>"
  let ?c = "c\<lparr>oc_zero_targets := ?zs[index := ?z]\<rparr>"
  have r: "0 < can_id" "can_id \<le> 0x1FFFFFFF" "- 32768 \<le> n" "n \<le> 32767" and i: "index < length ?zs"
    using Cons.prems(1,2) t by auto
  have split: "drop index ?zs = ?zs ! index # drop (Suc index) ?zs" using i by (simp add: Cons_nth_drop_Suc)
  have z: "?z = zero_slot t"
    using r Cons.prems(3) split t by (simp add: zero_slot_def c_uint_id c_int_id)
  have "fill_zero_targets (Suc index) ts ?c =
      Inr (?c\<lparr>oc_zero_targets := take (Suc index) (oc_zero_targets ?c) @ map zero_slot ts @
        drop (Suc index + length ts) (oc_zero_targets ?c)\<rparr>)"
    using Cons.prems split by (intro Cons.IH) auto
  then show ?case using r i z t
    by (simp add: upd_conv_take_nth_drop take_Suc_conv_app_nth min_def add.commute)
qed simp

text \<open>The command \<open>publish_zero_set\<close> writes.\<close>

definition zero_set_command :: "int \<Rightarrow> (int \<times> int) list \<Rightarrow> operator_command" where
  "zero_set_command now targets =
     \<lparr>oc_timestamp_ns = c_uint 64 now, oc_command = code_value OP_ZERO_SET, oc_target_mask = 0,
      oc_zero_target_count = int (length targets),
      oc_zero_target_magic = (if targets \<noteq> [] then OPERATOR_ZERO_TARGET_MAGIC else 0),
      oc_zero_targets = map zero_slot targets @
        replicate (OPERATOR_ZERO_TARGET_CAPACITY - length targets) empty_zero_target\<rparr>"

lemma build_zero_set_command:
  assumes "zero_targets_ok targets"
  shows "build_command now (code_value OP_ZERO_SET) 0 targets = Inr (zero_set_command now targets)"
proof -
  have len: "length targets \<le> OPERATOR_ZERO_TARGET_CAPACITY" using assms by (simp add: zero_targets_ok_def)
  then have "int (length targets) < 2 ^ 32" by (simp add: OPERATOR_ZERO_TARGET_CAPACITY_def)
  then have c: "c_uint 32 (int (length targets)) = int (length targets)" "c_uint 32 4 = 4" "c_uint 32 0 = 0"
      "c_uint 32 OPERATOR_ZERO_TARGET_MAGIC = OPERATOR_ZERO_TARGET_MAGIC"
    by (simp_all add: c_uint_id OPERATOR_ZERO_TARGET_MAGIC_def)
  show ?thesis
    using len assms
    by (simp add: build_command_def Let_def zero_set_command_def c empty_operator_command_def fill_zero_targets_eq
        zero_targets_ok_def empty_zero_target_def)
qed

lemma zero_set_command_ok: "zero_targets_ok targets \<Longrightarrow> operator_command_ok (zero_set_command now targets)"
  using c_uint_bounds [of 64 now]
  by (auto simp: operator_command_ok_def zero_set_command_def zero_targets_ok_def list_all_iff zero_target_ok_def
      zero_slot_def empty_zero_target_def OPERATOR_ZERO_TARGET_MAGIC_def OPERATOR_ZERO_TARGET_CAPACITY_def)

lemma update_fresh: "k \<notin> set (map fst al) \<Longrightarrow> AList.update k v al = al @ [(k, v)]"
  by (induction al) auto

lemma collect_offsets_distinct:
  assumes "distinct (map fst (acc @ targets))" and "\<forall>(i, n) \<in> set targets. 0 < i"
  shows "foldl (\<lambda>offsets t. if zt_can_id t = 0 then offsets
      else AList.update (zt_can_id t) (zt_offset_count t) offsets) acc (map zero_slot targets) = acc @ targets"
  using assms
proof (induction targets arbitrary: acc)
  case (Cons t targets)
  from Cons.prems have "AList.update (fst t) (snd t) acc = acc @ [t]" by (simp add: update_fresh)
  then show ?case using Cons.IH [of "acc @ [t]"] Cons.prems by (auto simp: zero_slot_def)
qed simp

lemma zero_set_offsets:
  assumes "zero_targets_ok targets" and "targets \<noteq> []"
  shows "zero_set_offsets_by_can_id (Some (zero_set_command now targets)) = Inr targets"
  using assms collect_offsets_distinct [of "[]" targets]
  by (simp add: zero_set_offsets_by_can_id_def zero_set_command_def zero_targets_ok_def collect_offsets_def case_prod_unfold)

lemma map_fst_sort_key: "map fst (sort_key fst xs) = sort (map fst xs)"
proof (induction xs)
  case (Cons x xs)
  have "map fst (insort_key fst x ys) = insort (fst x) (map fst ys)" for ys
    by (induction ys) auto
  with Cons show ?case by simp
qed simp

definition set_zero_frame :: "(int \<times> spg_driver) list \<Rightarrow> int \<times> int \<Rightarrow> can_frame" where
  "set_zero_frame actuators t =
     \<lparr>fr_can_id = sq_command_id (ad_protocol (the (map_of actuators (fst t)))),
      fr_data = [0xC3, 0, 0, 0, 0, 0] @ le_bytes 2 (snd t)\<rparr>"

lemma zero_frames_targets:
  assumes "zero_targets_ok targets" and "targets \<noteq> []"
  shows "zero_frames targets actuators =
    map (Inr \<circ> set_zero_frame actuators) (sort_key fst (filter (\<lambda>(i, _). map_of actuators i \<noteq> None) targets))"
proof -
  let ?known = "\<lambda>i. map_of actuators i \<noteq> None"
  have "filter ?known (zero_target_ids targets actuators) =
      map fst (filter (\<lambda>(i, _). ?known i) (sort_key fst targets))"
    using assms(2) by (simp add: zero_target_ids_def map_fst_sort_key [symmetric] filter_map comp_def case_prod_unfold)
  then have "zero_frames targets actuators =
      map (\<lambda>t. make_zero_position_frame (zero_offset_deg targets (fst t)) (the (map_of actuators (fst t))))
        (sort_key fst (filter (\<lambda>(i, _). ?known i) targets))"
    by (simp add: zero_frames_def filter_sort comp_def)
  moreover have "make_zero_position_frame (zero_offset_deg targets (fst t)) d =
      Inr \<lparr>fr_can_id = sq_command_id (ad_protocol d), fr_data = [0xC3, 0, 0, 0, 0, 0] @ le_bytes 2 (snd t)\<rparr>"
    if "t \<in> set targets" for t d
  proof -
    have "map_of targets (fst t) = Some (snd t)" "- 32768 \<le> snd t" "snd t \<le> 32767"
      using that assms(1) by (auto simp: zero_targets_ok_def intro: map_of_is_SomeI)
    then show ?thesis by (simp add: make_zero_position_frame_def zero_offset_deg_def zero_frame_exact)
  qed
  ultimately show ?thesis by (auto simp: set_zero_frame_def)
qed

section \<open>Properties\<close>

lemma zero_set_command_code [simp]: "command_code (Some (zero_set_command now targets)) = OP_ZERO_SET"
  by (simp add: command_code_def zero_set_command_def OperatorCommandCode_def)

lemma publish_zero_set_read:
  assumes "seg_ready OperatorCommandC obj os" and "zero_targets_ok targets"
  obtains os' where "OperatorCommandShm_publish_zero_set now obj targets os = (Inr (c_uint 64 now), os')"
    and "OperatorCommandShm_read_relaxed obj os' = Inr (zero_set_command now targets)"
proof -
  from operator_seg.read_after_write [OF zero_set_command_ok [OF assms(2), of now] assms(1)] obtain os' where
    "write_struct OperatorCommandC obj (operator_to_c (zero_set_command now targets)) os = (Inr (), os')"
    "bindE (read_struct OperatorCommandC obj os') (\<lambda>c. Inr (operator_of_c c)) = Inr (zero_set_command now targets)"
    by auto
  then show thesis
    by (intro that [of os'])
      (simp_all add: OperatorCommandShm_publish_zero_set_def build_zero_set_command [OF assms(2), unfolded code_value.simps] bindA_def
        OperatorCommandShm_write_def OperatorCommandShm_read_relaxed_def, simp add: zero_set_command_def)
qed

lemma zero_set_consumed:
  assumes "ct_last_consumed_operator_timestamp_ns c \<noteq> Some (c_uint 64 now)"
  shows "fst (consume_operator_command (zero_set_command now targets) c) = zero_set_command now targets"
  using assms by (simp add: consume_operator_command_def zero_set_command_def OperatorCommandCode_def)

lemma consumed_again:
  assumes "ct_last_consumed_operator_timestamp_ns c = Some (oc_timestamp_ns op)"
  shows "command_code (Some (fst (consume_operator_command op c))) = OP_NONE"
  using assms
  by (auto simp: consume_operator_command_def command_code_def split: sum.splits)
    (auto simp: OperatorCommandCode_def)

text \<open>
  C25. Zero-setting from the operator to the bus: when an operator process publishes zero-set targets
  (at most twelve, with distinct identifiers and 16-bit offsets in hundredths of a degree) and the
  controller's next tick returns, that tick was in ZERO_SETTING and sent to exactly the known ones
  among the targets, in ascending order, a set-zero frame that carries exactly the published
  offset. As long as the segment still holds that command, the tick after it acts on no command
  and falls back to DISABLED: the zero is set once.
\<close>

theorem zero_set_reaches_bus_once:
  assumes "seg_ready OperatorCommandC obj os" and "zero_targets_ok targets" and "targets \<noteq> []"
    and "OperatorCommandShm_publish_zero_set now obj targets os = (r, os')"
    and "actuators_ok c" and "ct_operator_cmd_shm c = Some obj" and "env_shm e = os'"
    and "ct_last_consumed_operator_timestamp_ns c \<noteq> Some (c_uint 64 now)"
    and "sm_mode (ct_state_machine c) \<noteq> ESTOP" and "tick (c, e) = (Inr snap, (c', e'))"
  shows "r = Inr (c_uint 64 now) \<and> rn_mode snap = ZERO_SETTING \<and>
    (\<exists>imu. map Inr imu = imu_frames c \<and> env_requests e' = env_requests e @ map tx_request (imu @
      map (set_zero_frame (ct_actuators c))
        (sort_key fst (filter (\<lambda>(i, _). map_of (ct_actuators c) i \<noteq> None) targets)))) \<and>
    (\<forall>e2 snap2 s2. OperatorCommandShm_read_relaxed obj (env_shm e2) = OperatorCommandShm_read_relaxed obj os' \<longrightarrow>
      tick (c', e2) = (Inr snap2, s2) \<longrightarrow> rn_mode snap2 = DISABLED)"
proof -
  obtain os2 where pub: "OperatorCommandShm_publish_zero_set now obj targets os = (Inr (c_uint 64 now), os2)"
    "OperatorCommandShm_read_relaxed obj os2 = Inr (zero_set_command now targets)"
    by (rule publish_zero_set_read [OF assms(1,2)])
  then have r: "r = Inr (c_uint 64 now)" "OperatorCommandShm_read_relaxed obj os' = Inr (zero_set_command now targets)"
    using assms(4) by auto
  let ?op = "zero_set_command now targets"
  have cmd: "tick_command c e = Inr ?op"
    using r(2) assms(6-8) zero_set_consumed by (simp add: tick_command_def)
  have mode: "sm_mode (tick_machine c e ?op) = ZERO_SETTING"
    using assms(9) by (simp add: tick_machine_def update_def update_tail_def enter_def)
  from assms(5) cmd assms(10) show ?thesis
  proof (cases rule: tick_cases)
    case (sent imu fs)
    then have "(map Inr fs :: can_frame result list) = zero_frames targets (ct_actuators c)" and snap: "rn_mode snap = ZERO_SETTING"
      using mode by (auto simp: tick_frames_def mode_frames_def zero_set_offsets [OF assms(2,3)])
    from arg_cong [OF this(1), of encodable] have fs: "fs = map (set_zero_frame (ct_actuators c))
        (sort_key fst (filter (\<lambda>(i, _). map_of (ct_actuators c) i \<noteq> None) targets))"
      by (simp add: zero_frames_targets [OF assms(2,3)] encodable_map_Inr comp_def)
    have "rn_mode snap2 = DISABLED"
      if "OperatorCommandShm_read_relaxed obj (env_shm e2) = OperatorCommandShm_read_relaxed obj os'"
        and t2: "tick (c', e2) = (Inr snap2, s2)" for e2 snap2 s2
    proof -
      have last: "ct_last_consumed_operator_timestamp_ns c' = Some (oc_timestamp_ns ?op)"
        using sent(7) by (simp add: tick_consumed_def)
      define op2 where "op2 = fst (consume_operator_command ?op c')"
      have read2: "OperatorCommandShm_read_relaxed obj (env_shm e2) = Inr ?op" using that(1) r(2) by simp
      have op2: "tick_command c' e2 = Inr op2" "command_code (Some op2) = OP_NONE"
        using read2 sent(2) assms(6) consumed_again [OF last] by (simp_all add: tick_command_def keeps_setup_def op2_def)
      have "sm_mode (tick_machine c' e2 op2) = DISABLED"
        using op2(2) sent(1) mode by (simp add: tick_machine_def update_def update_tail_def enter_def)
      then show ?thesis
        using tick_mode [OF actuators_ok_keeps [OF sent(2) assms(5)] op2(1) t2] by simp
    qed
    then show ?thesis using r(1) snap sent(3,5) fs by blast
  qed simp
qed

text \<open>
  C26. A malformed zero-set command moves nothing: when a tick is in ZERO_SETTING with a command whose
  target count is not zero and whose marker is wrong or whose count exceeds the twelve slots, the
  tick raises, and all it has sent is the IMU request.
\<close>

theorem malformed_zero_set_sends_nothing:
  assumes "actuators_ok c" and "tick_command c e = Inr op" and "sm_mode (tick_machine c e op) = ZERO_SETTING"
    and "oc_zero_target_count op \<noteq> 0"
    and "oc_zero_target_magic op \<noteq> OPERATOR_ZERO_TARGET_MAGIC \<or> int (length (oc_zero_targets op)) < oc_zero_target_count op"
    and "tick (c, e) = (r, (c', e'))"
  shows "\<exists>x fs. r = Inl x \<and> prefix fs (encodable (imu_frames c)) \<and> env_requests e' = env_requests e @ map tx_request fs"
proof -
  obtain x where "zero_set_offsets_by_can_id (Some op) = Inl x"
    using assms(4,5) by (cases "zero_set_offsets_by_can_id (Some op)")
      (auto simp: zero_set_offsets_by_can_id_def split: if_splits)
  then have frames: "tick_frames c e op = [Inl x]" using assms(3) by (simp add: tick_frames_def mode_frames_def)
  from assms(1,2,6) show ?thesis
  proof (cases rule: tick_cases)
    case (imu_failed fs y)
    then show ?thesis by blast
  next
    case (sent imu fs)
    have fs: "fs = []" using sent(4) frames by simp
    have "imu = encodable (imu_frames c)" using arg_cong [OF sent(3), of encodable] by simp
    moreover have "isl r"
      using sent(6) frames fs by (cases r) auto
    ultimately show ?thesis using sent(5) fs by (auto simp: isl_def)
  qed
qed

definition demo_targets :: "(int \<times> int) list" where
  "demo_targets = [(0x142, 5), (0x141, 8250)]"

lemma demo_targets_ok: "zero_targets_ok demo_targets" "demo_targets \<noteq> []"
  by (simp_all add: zero_targets_ok_def demo_targets_def OPERATOR_ZERO_TARGET_CAPACITY_def)

theorem zero_set_reaches_bus_once_witness:
  "\<exists>os' snap c' e'. OperatorCommandShm_publish_zero_set 7 \<lparr>seg_name = ''o'', seg_shm = Some 0\<rparr> demo_targets
      (env_shm demo_env) = (Inr 7, os') \<and>
    tick (demo_controller DISABLED, demo_env\<lparr>env_shm := os'\<rparr>) = (Inr snap, (c', e')) \<and> rn_mode snap = ZERO_SETTING \<and>
    env_requests e' = [tx_request \<lparr>fr_can_id = 0x141, fr_data = [0xC3, 0, 0, 0, 0, 0] @ le_bytes 2 8250\<rparr>]"
proof -
  let ?obj = "\<lparr>seg_name = ''o'', seg_shm = Some 0\<rparr>"
  let ?c = "demo_controller DISABLED"
  have seg: "seg_ready OperatorCommandC ?obj (env_shm demo_env)"
    using OPERATOR_COMMAND_SIZE_eq by (simp add: seg_ready_def demo_env_def OPERATOR_COMMAND_SIZE_def)
  obtain os' where pub: "OperatorCommandShm_publish_zero_set 7 ?obj demo_targets (env_shm demo_env) = (Inr (c_uint 64 7), os')"
    "OperatorCommandShm_read_relaxed ?obj os' = Inr (zero_set_command 7 demo_targets)"
    by (rule publish_zero_set_read [OF seg demo_targets_ok(1)])
  let ?e = "demo_env\<lparr>env_shm := os'\<rparr>"
  let ?op = "zero_set_command 7 demo_targets"
  have c: "ct_operator_cmd_shm ?c = Some ?obj" "ct_last_consumed_operator_timestamp_ns ?c = None"
      "ct_actuators ?c = [(0x141, ActuatorDriver_init ''FL_HR'' demo_spg (Fin (1/20)))]" "sm_mode (ct_state_machine ?c) = DISABLED"
    by (simp_all add: demo_controller_def)
  have cmd: "tick_command ?c ?e = Inr ?op" using pub(2) c zero_set_consumed [of ?c 7] by (simp add: tick_command_def)
  have ready: "ready (?c, ?e)"
    using demo_ready [of DISABLED ?op] by (simp add: ready_def daemon_accepts_def publishers_ready_def publisher_ready_def
        demo_world_def demo_controller_def)
  have frame: "set_zero_frame (ct_actuators ?c) (0x141, 8250) =
      \<lparr>fr_can_id = 0x141, fr_data = [0xC3, 0, 0, 0, 0, 0] @ le_bytes 2 8250\<rparr>"
    by (simp add: set_zero_frame_def c ActuatorDriver_init_def demo_spg_def)
  have known: "sort_key fst (filter (\<lambda>(i, _). map_of (ct_actuators ?c) i \<noteq> None) demo_targets) = [(0x141, 8250)]"
    by (simp add: demo_targets_def c)
  have "sm_mode (tick_machine ?c ?e ?op) = ZERO_SETTING"
    using c by (simp add: tick_machine_def update_def update_tail_def enter_def)
  then have "tick_frames ?c ?e ?op = [Inr (set_zero_frame (ct_actuators ?c) (0x141, 8250))]"
    by (simp add: tick_frames_def mode_frames_def zero_set_offsets [OF demo_targets_ok] zero_frames_targets [OF demo_targets_ok] known
        del: not_None_eq)
  then have "\<forall>r \<in> set (imu_frames ?c @ tick_frames ?c ?e ?op). deliverable r"
    by (simp add: frame deliverable_def CAN_SFF_MASK_def)
  then obtain snap c' e' where t: "tick (?c, ?e) = (Inr snap, (c', e'))" using tick_ok [OF ready cmd] by auto
  have "ct_last_consumed_operator_timestamp_ns ?c \<noteq> Some (c_uint 64 7)" "sm_mode (ct_state_machine ?c) \<noteq> ESTOP" "env_shm ?e = os'"
    using c by simp_all
  from zero_set_reaches_bus_once [OF seg demo_targets_ok pub(1) demo_ok c(1) this(3,1,2) t] pub(1) t
  show ?thesis by (simp add: known frame c_uint_id del: not_None_eq) (simp add: demo_env_def)
qed

theorem malformed_zero_set_sends_nothing_witness:
  "let op = (code_command OP_ZERO_SET)\<lparr>oc_timestamp_ns := 3, oc_zero_target_count := 1\<rparr>
   in \<exists>x. fst (tick (demo_controller DISABLED, demo_world op)) = Inl x"
proof -
  define op where "op = (code_command OP_ZERO_SET)\<lparr>oc_timestamp_ns := 3, oc_zero_target_count := 1\<rparr>"
  have ok: "operator_command_ok op" "oc_command op = 4" "oc_zero_target_count op = 1" "oc_zero_target_magic op = 0"
    using empty_operator_command_ok by (simp_all add: op_def operator_command_ok_def code_command_def empty_operator_command_def)
  have cmd: "tick_command (demo_controller DISABLED) (demo_world op) = Inr op" using ok by (simp add: demo_tick_command)
  have mode: "sm_mode (tick_machine (demo_controller DISABLED) (demo_world op) op) = ZERO_SETTING"
    using ok by (simp add: tick_machine_def update_def update_tail_def enter_def demo_controller_def command_code_def OperatorCommandCode_def)
  obtain r c' e' where t: "tick (demo_controller DISABLED, demo_world op) = (r, (c', e'))" by (metis surj_pair)
  have "oc_zero_target_count op \<noteq> 0"
    "oc_zero_target_magic op \<noteq> OPERATOR_ZERO_TARGET_MAGIC \<or> int (length (oc_zero_targets op)) < oc_zero_target_count op"
    using ok by (simp_all add: OPERATOR_ZERO_TARGET_MAGIC_def)
  from malformed_zero_set_sends_nothing [OF demo_ok cmd mode this t] t show ?thesis by (auto simp: op_def [symmetric])
qed

text \<open>
  A RUN command that arrives while the controller is in ZERO_SETTING is ignored by the state machine,
  which stays in ZERO_SETTING; the tick then zero-sets every actuator at its present position, with
  no offset, although the operator asked for nothing of the kind.
\<close>

lemma run_while_zeroing_zeroes_all:
  assumes "sm_mode (ct_state_machine c) = ZERO_SETTING" and "command_code (Some op) = OP_RUN"
    and "oc_zero_target_count op = 0"
  shows "tick_frames c e op =
    map (\<lambda>i. make_zero_position_frame (zero_offset_deg [] i) (the (map_of (ct_actuators c) i)))
      (sort (map fst (ct_actuators c)))"
proof -
  have "sm_mode (tick_machine c e op) = ZERO_SETTING"
    using assms by (simp add: tick_machine_def update_def update_tail_def)
  moreover have "filter (\<lambda>i. map_of (ct_actuators c) i \<noteq> None) (sort (map fst (ct_actuators c))) = sort (map fst (ct_actuators c))"
    by (auto simp: filter_id_conv map_of_eq_None_iff)
  ultimately show ?thesis
    using assms(3)
    by (simp add: tick_frames_def mode_frames_def zero_set_offsets_by_can_id_def zero_frames_def zero_target_ids_def)
qed

end
