(* ===== verification/Config_Loader.thy ===== *)
theory Config_Loader
  imports Config PyVal
begin

text \<open>
  Loading the configuration: \<open>robot_controller/core/platform_config.py\<close> and the loader and validator
  of \<open>robot_controller/core/config.py\<close>. Reading and parsing a YAML file and resolving a path are
  the YAML library's and the file system's; they are the functions of \<open>config_files\<close>. The keys of
  a YAML mapping are taken to be strings.
\<close>

record config_files =
  cf_load :: "string \<Rightarrow> pyval result"
  cf_resolve :: "string \<Rightarrow> string"
  cf_beside :: "string \<Rightarrow> string \<Rightarrow> string"

section \<open>Reading keys (platform_config.py)\<close>

type_synonym mapping = "(string \<times> pyval) list"

definition load_yaml_mapping :: "config_files \<Rightarrow> string \<Rightarrow> mapping result" where
  "load_yaml_mapping F path =
     bindE (cf_load F path) (\<lambda>raw. case raw of PDict m \<Rightarrow> Inr m
       | _ \<Rightarrow> Inl (PlatformConfigError (path @ '' must contain a YAML mapping'')))"

text \<open>\<open>cf_beside F base value\<close> is the resolved path of \<open>value\<close>, relative to the directory of \<open>base\<close>.\<close>

definition resolve_config_path :: "config_files \<Rightarrow> string \<Rightarrow> string \<Rightarrow> string \<Rightarrow> string result" where
  "resolve_config_path F base_path value path =
     (if value = [] then Inl (PlatformConfigError (''Config key must not be empty: '' @ path))
      else Inr (cf_beside F base_path value))"

definition missing_key :: "string \<Rightarrow> string \<Rightarrow> string" where
  "missing_key path key = ''Missing required config key: '' @ path @ ''.'' @ key"

definition require_key :: "mapping \<Rightarrow> string \<Rightarrow> string \<Rightarrow> pyval result" where
  "require_key m key path =
     (case map_of m key of None \<Rightarrow> Inl (PlatformConfigError (missing_key path key)) | Some v \<Rightarrow> Inr v)"

definition require_mapping :: "mapping \<Rightarrow> string \<Rightarrow> string \<Rightarrow> mapping result" where
  "require_mapping m key path =
     bindE (require_key m key path) (\<lambda>v. case v of PDict d \<Rightarrow> Inr d
       | _ \<Rightarrow> Inl (PlatformConfigError (''Config key must be a mapping: '' @ path @ ''.'' @ key)))"

definition require_list :: "mapping \<Rightarrow> string \<Rightarrow> string \<Rightarrow> pyval list result" where
  "require_list m key path =
     bindE (require_key m key path) (\<lambda>v. case v of PList xs \<Rightarrow> Inr xs
       | _ \<Rightarrow> Inl (PlatformConfigError (''Config key must be a list: '' @ path @ ''.'' @ key)))"

definition parse_int :: "py_text \<Rightarrow> pyval \<Rightarrow> int result" where
  "parse_int T v = (case v of PStr s \<Rightarrow> text_int0 T s | _ \<Rightarrow> py_int T v)"

text \<open>The conversions of a required key that the loaders use.\<close>

definition key_str :: "py_text \<Rightarrow> mapping \<Rightarrow> string \<Rightarrow> string \<Rightarrow> string result" where
  "key_str T m path key = bindE (require_key m key path) (\<lambda>v. Inr (py_str T v))"

definition key_int :: "py_text \<Rightarrow> mapping \<Rightarrow> string \<Rightarrow> string \<Rightarrow> int result" where
  "key_int T m path key = bindE (require_key m key path) (parse_int T)"

definition key_float :: "py_text \<Rightarrow> mapping \<Rightarrow> string \<Rightarrow> string \<Rightarrow> pyfloat result" where
  "key_float T m path key = bindE (require_key m key path) (py_float T)"

definition key_bool :: "mapping \<Rightarrow> string \<Rightarrow> string \<Rightarrow> bool result" where
  "key_bool m path key = bindE (require_key m key path) (\<lambda>v. Inr (py_truthy v))"

section \<open>The platform file\<close>

definition parse_robot_asset :: "py_text \<Rightarrow> string \<times> pyval \<Rightarrow> (string \<times> PlatformRobotAssetConfig) result" where
  "parse_robot_asset T entry =
     (case snd entry of
        PDict item \<Rightarrow>
          let path = ''robots.'' @ fst entry in
          bindE (key_str T item path ''model_path'') (\<lambda>model_path.
          bindE (key_str T item path ''policy_config_dir'') (\<lambda>policy_config_dir.
          bindE (key_str T item path ''pd_config_path'') (\<lambda>pd_config_path.
            Inr (fst entry, \<lparr>ra_model_path = model_path, ra_policy_config_dir = policy_config_dir,
              ra_pd_config_path = pd_config_path\<rparr>))))
      | _ \<Rightarrow> Inl (PlatformConfigError (''Config key must be a mapping: robots.'' @ fst entry)))"

definition parse_robot_assets :: "py_text \<Rightarrow> mapping \<Rightarrow> (string \<times> PlatformRobotAssetConfig) list result" where
  "parse_robot_assets T raw =
     bindE (mapE (parse_robot_asset T) raw) (\<lambda>items.
       let robots = foldl (\<lambda>d (k, v). AList.update k v d) [] items
       in if robots = [] then Inl (PlatformConfigError ''robots must not be empty'') else Inr robots)"

text \<open>The loop of \<open>parse_actuators\<close> from item \<open>index\<close> on, with the names and identifiers seen.\<close>

fun parse_actuator_items ::
  "py_text \<Rightarrow> nat \<Rightarrow> string list \<Rightarrow> int list \<Rightarrow> pyval list \<Rightarrow> PlatformActuatorConfig list result" where
  "parse_actuator_items T index seen_names seen_can_ids [] = Inr []"
| "parse_actuator_items T index seen_names seen_can_ids (entry # raw) =
     (let path = ''actuators['' @ str_of_int (int index) @ '']'' in
      case entry of
        PDict item \<Rightarrow>
          bindE (key_str T item path ''name'') (\<lambda>name.
          bindE (key_int T item path ''can_id'') (\<lambda>can_id.
            if name \<in> set seen_names then Inl (PlatformConfigError (''Duplicate actuator name: '' @ name))
            else if can_id \<in> set seen_can_ids
            then Inl (PlatformConfigError (''Duplicate actuator CAN ID: 0x'' @ hex_of_int can_id))
            else bindE (key_bool item path ''enabled'') (\<lambda>enabled.
              bindE (key_str T item path ''mujoco_joint'') (\<lambda>mujoco_joint.
              bindE (key_str T item path ''mujoco_actuator'') (\<lambda>mujoco_actuator.
              bindE (key_float T item path ''sign'') (\<lambda>sign.
              bindE (key_float T item path ''offset_rad'') (\<lambda>offset_rad.
              bindE (parse_actuator_items T (Suc index) (name # seen_names) (can_id # seen_can_ids) raw) (\<lambda>rest.
                Inr (\<lparr>pa_name = name, pa_enabled = enabled, pa_can_id = can_id, pa_mujoco_joint = mujoco_joint,
                  pa_mujoco_actuator = mujoco_actuator, pa_sign = sign, pa_offset_rad = offset_rad\<rparr> # rest)))))))))
      | _ \<Rightarrow> Inl (PlatformConfigError (''Config key must be a mapping: '' @ path)))"

definition parse_actuators :: "py_text \<Rightarrow> pyval list \<Rightarrow> PlatformActuatorConfig list result" where
  "parse_actuators T raw =
     bindE (parse_actuator_items T 0 [] [] raw) (\<lambda>actuators.
       if actuators = [] then Inl (PlatformConfigError ''actuators must not be empty'')
       else if \<not> list_ex pa_enabled actuators
       then Inl (PlatformConfigError ''at least one actuator must be enabled'')
       else Inr actuators)"

definition parse_platform_can :: "py_text \<Rightarrow> mapping \<Rightarrow> PlatformCanConfig result" where
  "parse_platform_can T m =
     bindE (key_str T m ''can'' ''interface'') (\<lambda>interface.
     bindE (bindE (require_key m ''bitrate'' ''can'') (py_int T)) (\<lambda>bitrate.
     bindE (key_str T m ''can'' ''daemon_socket'') (\<lambda>daemon_socket.
       Inr \<lparr>pc_interface = interface, pc_bitrate = bitrate, pc_daemon_socket = daemon_socket\<rparr>)))"

definition parse_platform_shm :: "py_text \<Rightarrow> mapping \<Rightarrow> PlatformShmConfig result" where
  "parse_platform_shm T m =
     bindE (key_str T m ''shm'' ''mit_command'') (\<lambda>mit_command.
     bindE (key_str T m ''shm'' ''aux_command'') (\<lambda>aux_command.
     bindE (key_str T m ''shm'' ''operator_command'') (\<lambda>operator_command.
     bindE (key_str T m ''shm'' ''control_state'') (\<lambda>control_state.
     bindE (key_str T m ''shm'' ''dashboard_state'') (\<lambda>dashboard_state.
       Inr \<lparr>ps_mit_command = mit_command, ps_aux_command = aux_command, ps_operator_command = operator_command,
            ps_control_state = control_state, ps_dashboard_state = dashboard_state\<rparr>)))))"

definition parse_platform_imu :: "py_text \<Rightarrow> mapping \<Rightarrow> PlatformImuConfig result" where
  "parse_platform_imu T m =
     bindE (key_str T m ''imu'' ''type'') (\<lambda>typ.
     bindE (key_int T m ''imu'' ''request_id'') (\<lambda>request_id.
     bindE (key_int T m ''imu'' ''quat_id'') (\<lambda>quat_id.
     bindE (key_int T m ''imu'' ''gyro_id'') (\<lambda>gyro_id.
     bindE (key_int T m ''imu'' ''cmd_get_quat'') (\<lambda>cmd_get_quat.
     bindE (key_int T m ''imu'' ''cmd_get_gyro'') (\<lambda>cmd_get_gyro.
     bindE (key_int T m ''imu'' ''cmd_get_all'') (\<lambda>cmd_get_all.
     bindE (key_float T m ''imu'' ''quat_scale'') (\<lambda>quat_scale.
     bindE (key_float T m ''imu'' ''gyro_scale'') (\<lambda>gyro_scale.
     bindE (key_bool m ''imu'' ''normalize_quat'') (\<lambda>normalize_quat.
       Inr \<lparr>pi_type = typ, pi_request_id = request_id, pi_quat_id = quat_id, pi_gyro_id = gyro_id,
            pi_cmd_get_quat = cmd_get_quat, pi_cmd_get_gyro = cmd_get_gyro, pi_cmd_get_all = cmd_get_all,
            pi_quat_scale = quat_scale, pi_gyro_scale = gyro_scale, pi_normalize_quat = normalize_quat\<rparr>))))))))))"

definition parse_platform_spg_mit :: "py_text \<Rightarrow> mapping \<Rightarrow> PlatformSpgMitConfig result" where
  "parse_platform_spg_mit T m =
     bindE (key_float T m ''spg_mit'' ''p_max_rad'') (\<lambda>p_max_rad.
     bindE (key_float T m ''spg_mit'' ''v_max_rad_s'') (\<lambda>v_max_rad_s.
     bindE (key_float T m ''spg_mit'' ''kp_max'') (\<lambda>kp_max.
     bindE (key_float T m ''spg_mit'' ''kd_max'') (\<lambda>kd_max.
     bindE (key_float T m ''spg_mit'' ''tau_max_nm'') (\<lambda>tau_max_nm.
     bindE (key_float T m ''spg_mit'' ''feedback_position_max_rad'') (\<lambda>feedback_position_max_rad.
     bindE (key_float T m ''spg_mit'' ''iq_full_scale_count'') (\<lambda>iq_full_scale_count.
     bindE (key_float T m ''spg_mit'' ''iq_full_scale_current_a'') (\<lambda>iq_full_scale_current_a.
       Inr \<lparr>pm_p_max_rad = p_max_rad, pm_v_max_rad_s = v_max_rad_s, pm_kp_max = kp_max, pm_kd_max = kd_max,
            pm_tau_max_nm = tau_max_nm, pm_feedback_position_max_rad = feedback_position_max_rad,
            pm_iq_full_scale_count = iq_full_scale_count,
            pm_iq_full_scale_current_a = iq_full_scale_current_a\<rparr>))))))))"

definition load_platform_config :: "py_text \<Rightarrow> config_files \<Rightarrow> string \<Rightarrow> PlatformConfig result" where
  "load_platform_config T F path =
     (let config_path = cf_resolve F path in
      bindE (load_yaml_mapping F config_path) (\<lambda>raw.
      bindE (require_mapping raw ''robot'' ''<root>'') (\<lambda>robot_raw.
      bindE (require_mapping raw ''can'' ''<root>'') (\<lambda>can_raw.
      bindE (require_mapping raw ''shm'' ''<root>'') (\<lambda>shm_raw.
      bindE (require_mapping raw ''imu'' ''<root>'') (\<lambda>imu_raw.
      bindE (require_mapping raw ''spg_mit'' ''<root>'') (\<lambda>spg_raw.
      bindE (key_str T robot_raw ''robot'' ''name'') (\<lambda>name.
      bindE (bindE (require_mapping raw ''robots'' ''<root>'') (parse_robot_assets T)) (\<lambda>robots.
      bindE (parse_platform_can T can_raw) (\<lambda>can.
      bindE (parse_platform_shm T shm_raw) (\<lambda>shm.
      bindE (parse_platform_imu T imu_raw) (\<lambda>imu.
      bindE (parse_platform_spg_mit T spg_raw) (\<lambda>spg_mit.
      bindE (bindE (require_list raw ''actuators'' ''<root>'') (parse_actuators T)) (\<lambda>actuators.
        if map_of robots name = None
        then Inl (PlatformConfigError (''robot.name has no robots entry: '' @ name))
        else Inr \<lparr>pl_path = config_path, pl_robot_name = name, pl_robots = robots, pl_can = can, pl_shm = shm,
               pl_imu = imu, pl_spg_mit = spg_mit, pl_actuators = actuators\<rparr>))))))))))))))"

section \<open>Reading keys (config.py)\<close>

definition c_require_key :: "mapping \<Rightarrow> string \<Rightarrow> string \<Rightarrow> pyval result" where
  "c_require_key m key path =
     (case map_of m key of None \<Rightarrow> Inl (ConfigError (missing_key path key)) | Some v \<Rightarrow> Inr v)"

definition c_require_mapping :: "mapping \<Rightarrow> string \<Rightarrow> string \<Rightarrow> mapping result" where
  "c_require_mapping m key path =
     bindE (c_require_key m key path) (\<lambda>v. case v of PDict d \<Rightarrow> Inr d
       | _ \<Rightarrow> Inl (ConfigError (''Config key must be a mapping: '' @ path @ ''.'' @ key)))"

definition c_require_list :: "mapping \<Rightarrow> string \<Rightarrow> string \<Rightarrow> pyval list result" where
  "c_require_list m key path =
     bindE (c_require_key m key path) (\<lambda>v. case v of PList xs \<Rightarrow> Inr xs
       | _ \<Rightarrow> Inl (ConfigError (''Config key must be a list: '' @ path @ ''.'' @ key)))"

definition c_require_int_list :: "py_text \<Rightarrow> mapping \<Rightarrow> string \<Rightarrow> string \<Rightarrow> int list result" where
  "c_require_int_list T m key path = bindE (c_require_list m key path) (mapE (parse_int T))"

definition c_require_bool :: "mapping \<Rightarrow> string \<Rightarrow> string \<Rightarrow> bool result" where
  "c_require_bool m key path =
     bindE (c_require_key m key path) (\<lambda>v. case v of PBool b \<Rightarrow> Inr b
       | _ \<Rightarrow> Inl (ConfigError (''Config key must be a boolean: '' @ path @ ''.'' @ key)))"

definition c_require_float :: "py_text \<Rightarrow> mapping \<Rightarrow> string \<Rightarrow> string \<Rightarrow> pyfloat result" where
  "c_require_float T m key path = bindE (c_require_key m key path) (py_float T)"

definition c_require_int :: "py_text \<Rightarrow> mapping \<Rightarrow> string \<Rightarrow> string \<Rightarrow> int result" where
  "c_require_int T m key path = bindE (c_require_key m key path) (py_int T)"

definition optional_float_or_none :: "py_text \<Rightarrow> mapping \<Rightarrow> string \<Rightarrow> string \<Rightarrow> pyfloat option result" where
  "optional_float_or_none T m key path =
     bindE (c_require_key m key path) (\<lambda>v. case v of PNone \<Rightarrow> Inr None
       | _ \<Rightarrow> bindE (py_float T v) (\<lambda>x. Inr (Some x)))"

definition c_str :: "py_text \<Rightarrow> mapping \<Rightarrow> string \<Rightarrow> string \<Rightarrow> string result" where
  "c_str T m key path = bindE (c_require_key m key path) (\<lambda>v. Inr (py_str T v))"

section \<open>Child processes\<close>

definition process_config :: "py_text \<Rightarrow> pyval \<Rightarrow> nat \<Rightarrow> ProcessConfig result" where
  "process_config T entry index =
     (let path = ''processes['' @ str_of_int (int index) @ '']'' in
      case entry of
        PDict item \<Rightarrow>
          bindE (c_require_list item ''command'' path) (\<lambda>command.
          if command = [] then Inl (ConfigError (''Config key must not be empty: '' @ path @ ''.command''))
          else
          bindE (c_require_mapping item ''env'' path) (\<lambda>env_raw.
          bindE (c_str T item ''name'' path) (\<lambda>name.
          bindE (c_require_int T item ''start_order'' path) (\<lambda>start_order.
          bindE (c_require_int T item ''stop_order'' path) (\<lambda>stop_order.
          bindE (c_require_bool item ''new_terminal'' path) (\<lambda>new_terminal.
          bindE (c_require_list item ''terminal_command'' path) (\<lambda>terminal_command.
          bindE (c_str T item ''working_dir'' path) (\<lambda>working_dir.
            Inr \<lparr>pr_name = name, pr_command = map (py_str T) command, pr_start_order = start_order,
                 pr_stop_order = stop_order, pr_new_terminal = new_terminal,
                 pr_terminal_command = map (py_str T) terminal_command, pr_working_dir = working_dir,
                 pr_env = map (\<lambda>(k, v). (k, py_str T v)) env_raw\<rparr>))))))))
      | _ \<Rightarrow> Inl (ConfigError (''Config key must be a mapping: '' @ path)))"

definition load_processes :: "py_text \<Rightarrow> config_files \<Rightarrow> string \<Rightarrow> ProcessConfig list result" where
  "load_processes T F path =
     bindE (load_yaml_mapping F path) (\<lambda>raw.
     bindE (c_require_list raw ''processes'' path) (\<lambda>items.
       mapE (\<lambda>(index, item). process_config T item index) (enumerate 0 items)))"

section \<open>The controller file\<close>

definition parse_hardware :: "py_text \<Rightarrow> mapping \<Rightarrow> HardwareSafetyConfig result" where
  "parse_hardware T m =
     bindE (c_require_bool m ''allow_real_can'' ''hardware'') (\<lambda>allow_real_can.
     bindE (c_require_bool m ''require_manual_arm'' ''hardware'') (\<lambda>require_manual_arm.
     bindE (c_require_bool m ''require_estop'' ''hardware'') (\<lambda>require_estop.
     bindE (c_require_bool m ''allow_enable_on_start'' ''hardware'') (\<lambda>allow_enable_on_start.
     bindE (c_require_list m ''allowed_can_interfaces'' ''hardware'') (\<lambda>allowed.
       Inr \<lparr>hw_allow_real_can = allow_real_can, hw_require_manual_arm = require_manual_arm,
            hw_require_estop = require_estop, hw_allow_enable_on_start = allow_enable_on_start,
            hw_allowed_can_interfaces = map (py_str T) allowed\<rparr>)))))"

definition parse_safety :: "py_text \<Rightarrow> mapping \<Rightarrow> SafetyPolicyConfig result" where
  "parse_safety T m =
     bindE (c_require_float T m ''velocity_damping_kd'' ''safety'') (\<lambda>kd.
     bindE (c_require_float T m ''damping_timeout_s'' ''safety'') (\<lambda>timeout.
     bindE (c_str T m ''command_loss_action'' ''safety'') (\<lambda>loss.
     bindE (c_str T m ''feedback_stale_action'' ''safety'') (\<lambda>stale.
       Inr \<lparr>sp_velocity_damping_kd = kd, sp_damping_timeout_s = timeout, sp_command_loss_action = loss,
            sp_feedback_stale_action = stale\<rparr>))))"

definition parse_core :: "py_text \<Rightarrow> mapping \<Rightarrow> RobotControllerCoreConfig result" where
  "parse_core T m =
     bindE (c_str T m ''name'' ''robot_controller'') (\<lambda>name.
     bindE (c_require_float T m ''control_hz'' ''robot_controller'') (\<lambda>control_hz.
     bindE (c_require_float T m ''shutdown_timeout_s'' ''robot_controller'') (\<lambda>shutdown_timeout_s.
       Inr \<lparr>rk_name = name, rk_control_hz = control_hz, rk_shutdown_timeout_s = shutdown_timeout_s\<rparr>)))"

definition parse_state_segment :: "py_text \<Rightarrow> mapping \<Rightarrow> string \<Rightarrow> string \<Rightarrow> RobotStateShmConfig result" where
  "parse_state_segment T m path name =
     bindE (c_require_int T m ''size_bytes'' path) (\<lambda>size_bytes.
     bindE (c_require_float T m ''publish_hz'' path) (\<lambda>publish_hz.
       Inr \<lparr>rc_name = name, rc_size_bytes = size_bytes, rc_publish_hz = publish_hz\<rparr>))"

definition parse_shm :: "py_text \<Rightarrow> PlatformConfig \<Rightarrow> mapping \<Rightarrow> mapping \<Rightarrow> mapping \<Rightarrow> mapping \<Rightarrow> mapping \<Rightarrow>
    ShmConfig result" where
  "parse_shm T platform shm_raw aux_raw operator_raw control_raw dashboard_raw =
     bindE (c_require_bool shm_raw ''cleanup_stale_on_start'' ''shm'') (\<lambda>cleanup.
     bindE (c_require_bool shm_raw ''unlink_on_shutdown'' ''shm'') (\<lambda>unlink.
     bindE (parse_state_segment T aux_raw ''shm.aux_command'' (ps_aux_command (pl_shm platform))) (\<lambda>aux_command.
     bindE (c_require_int T operator_raw ''size_bytes'' ''shm.operator_command'') (\<lambda>operator_size.
     bindE (parse_state_segment T control_raw ''shm.control_state'' (ps_control_state (pl_shm platform))) (\<lambda>control_state.
     bindE (parse_state_segment T dashboard_raw ''shm.dashboard_state'' (ps_dashboard_state (pl_shm platform))) (\<lambda>dashboard_state.
       Inr \<lparr>sc_cleanup_stale_on_start = cleanup, sc_unlink_on_shutdown = unlink,
            sc_mit_command = \<lparr>mc_name = ps_mit_command (pl_shm platform),
              mc_target_count = int (length (enabled_actuators platform))\<rparr>,
            sc_aux_command = aux_command,
            sc_operator_command = \<lparr>op_name = ps_operator_command (pl_shm platform), op_size_bytes = operator_size\<rparr>,
            sc_control_state = control_state, sc_dashboard_state = dashboard_state\<rparr>))))))"

definition parse_daemon :: "py_text \<Rightarrow> PlatformConfig \<Rightarrow> mapping \<Rightarrow> CANDaemonConfig result" where
  "parse_daemon T platform m =
     bindE (c_require_float T m ''rx_timeout_s'' ''can.daemon'') (\<lambda>rx_timeout_s.
     bindE (c_require_float T m ''tx_timeout_s'' ''can.daemon'') (\<lambda>tx_timeout_s.
     bindE (c_require_float T m ''join_timeout_s'' ''can.daemon'') (\<lambda>join_timeout_s.
     bindE (c_require_int T m ''max_tx_queue_size'' ''can.daemon'') (\<lambda>max_tx_queue_size.
     bindE (c_require_bool m ''send_block'' ''can.daemon'') (\<lambda>send_block.
     bindE (optional_float_or_none T m ''send_timeout_s'' ''can.daemon'') (\<lambda>send_timeout_s.
     bindE (c_require_float T m ''connect_timeout_s'' ''can.daemon'') (\<lambda>connect_timeout_s.
       Inr \<lparr>cd_rx_timeout_s = rx_timeout_s, cd_tx_timeout_s = tx_timeout_s, cd_join_timeout_s = join_timeout_s,
            cd_max_tx_queue_size = max_tx_queue_size, cd_send_block = send_block, cd_send_timeout_s = send_timeout_s,
            cd_ipc_socket_path = pc_daemon_socket (pl_can platform), cd_connect_timeout_s = connect_timeout_s\<rparr>)))))))"

definition parse_motors :: "PlatformConfig \<Rightarrow> mapping \<Rightarrow> MotorConfig result" where
  "parse_motors platform m =
     bindE (c_require_bool m ''enter_on_start'' ''can.motors'') (\<lambda>enter_on_start.
     bindE (c_require_bool m ''exit_on_shutdown'' ''can.motors'') (\<lambda>exit_on_shutdown.
     bindE (c_require_bool m ''set_zero_on_start'' ''can.motors'') (\<lambda>set_zero_on_start.
       Inr \<lparr>mo_can_ids = map pa_can_id (enabled_actuators platform), mo_enter_on_start = enter_on_start,
            mo_exit_on_shutdown = exit_on_shutdown, mo_set_zero_on_start = set_zero_on_start\<rparr>)))"

definition parse_imu :: "py_text \<Rightarrow> mapping \<Rightarrow> ImuConfig result" where
  "parse_imu T m =
     bindE (c_require_bool m ''enabled'' ''can.imu'') (\<lambda>enabled.
     bindE (c_require_bool m ''request_all_on_start'' ''can.imu'') (\<lambda>on_start.
     bindE (c_require_bool m ''request_all_each_tick'' ''can.imu'') (\<lambda>each_tick.
     bindE (c_require_int T m ''startup_request_count'' ''can.imu'') (\<lambda>count.
     bindE (c_require_float T m ''startup_request_delay_s'' ''can.imu'') (\<lambda>delay.
       Inr \<lparr>im_enabled = enabled, im_request_all_on_start = on_start, im_request_all_each_tick = each_tick,
            im_startup_request_count = count, im_startup_request_delay_s = delay\<rparr>)))))"

definition protocol_range :: "PlatformSpgMitConfig \<Rightarrow> MitProtocolRangeConfig" where
  "protocol_range m =
     \<lparr>mp_position_rad = pm_p_max_rad m, mp_velocity_rad_s = pm_v_max_rad_s m, mp_kp = pm_kp_max m,
      mp_kd = pm_kd_max m, mp_torque_ff_nm = pm_tau_max_nm m,
      mp_feedback_position_rad = pm_feedback_position_max_rad m\<rparr>"

definition parse_can :: "py_text \<Rightarrow> PlatformConfig \<Rightarrow> mapping \<Rightarrow> mapping \<Rightarrow> mapping \<Rightarrow> mapping \<Rightarrow> CanConfig result" where
  "parse_can T platform can_raw daemon_raw motors_raw imu_raw =
     bindE (c_require_float T can_raw ''command_timeout_s'' ''can'') (\<lambda>command_timeout_s.
     bindE (c_require_float T can_raw ''bringup_delay_s'' ''can'') (\<lambda>bringup_delay_s.
     bindE (parse_daemon T platform daemon_raw) (\<lambda>daemon.
     bindE (parse_motors platform motors_raw) (\<lambda>motors.
     bindE (parse_imu T imu_raw) (\<lambda>imu.
       Inr \<lparr>ca_interface = pc_interface (pl_can platform), ca_command_timeout_s = command_timeout_s,
            ca_bringup_delay_s = bringup_delay_s, ca_daemon = daemon, ca_motors = motors, ca_imu = imu,
            ca_mit_protocol_range = protocol_range (pl_spg_mit platform)\<rparr>)))))"

text \<open>The loader. Its call of \<open>_validate_config\<close> is commented out in the source.\<close>

definition load_robot_controller_config :: "py_text \<Rightarrow> config_files \<Rightarrow> string \<Rightarrow> RobotControllerConfig result" where
  "load_robot_controller_config T F config_path =
     bindE (load_yaml_mapping F config_path) (\<lambda>raw.
     bindE (c_str T raw ''platform_config'' ''<root>'') (\<lambda>platform_value.
     bindE (resolve_config_path F config_path platform_value ''platform_config'') (\<lambda>platform_config_path.
     bindE (load_platform_config T F platform_config_path) (\<lambda>platform.
     bindE (c_require_mapping raw ''runtime'' ''<root>'') (\<lambda>runtime_raw.
     bindE (c_require_mapping raw ''hardware'' ''<root>'') (\<lambda>hardware_raw.
     bindE (c_require_mapping raw ''safety'' ''<root>'') (\<lambda>safety_raw.
     bindE (c_require_mapping raw ''state_machine'' ''<root>'') (\<lambda>state_machine_raw.
     bindE (c_require_mapping raw ''robot_controller'' ''<root>'') (\<lambda>core_raw.
     bindE (c_require_mapping raw ''shm'' ''<root>'') (\<lambda>shm_raw.
     bindE (c_require_mapping shm_raw ''aux_command'' ''shm'') (\<lambda>aux_raw.
     bindE (c_require_mapping shm_raw ''operator_command'' ''shm'') (\<lambda>operator_raw.
     bindE (c_require_mapping shm_raw ''control_state'' ''shm'') (\<lambda>control_raw.
     bindE (c_require_mapping shm_raw ''dashboard_state'' ''shm'') (\<lambda>dashboard_raw.
     bindE (c_require_mapping raw ''can'' ''<root>'') (\<lambda>can_raw.
     bindE (c_require_mapping can_raw ''daemon'' ''can'') (\<lambda>daemon_raw.
     bindE (c_require_mapping can_raw ''motors'' ''can'') (\<lambda>motors_raw.
     bindE (c_require_mapping can_raw ''imu'' ''can'') (\<lambda>imu_raw.
     bindE (c_str T raw ''processes_config'' ''<root>'') (\<lambda>processes_value.
     bindE (resolve_config_path F config_path processes_value ''processes_config'') (\<lambda>processes_config_path.
     bindE (load_processes T F processes_config_path) (\<lambda>processes.
     bindE (c_str T runtime_raw ''mode'' ''runtime'') (\<lambda>mode.
     bindE (parse_hardware T hardware_raw) (\<lambda>hardware.
     bindE (parse_safety T safety_raw) (\<lambda>safety.
     bindE (c_require_float T state_machine_raw ''enable_duration_s'' ''state_machine'') (\<lambda>enable_duration_s.
     bindE (parse_core T core_raw) (\<lambda>core.
     bindE (parse_shm T platform shm_raw aux_raw operator_raw control_raw dashboard_raw) (\<lambda>shm.
     bindE (parse_can T platform can_raw daemon_raw motors_raw imu_raw) (\<lambda>can.
       Inr \<lparr>cfg_platform = platform, cfg_runtime_mode = mode, cfg_hardware = hardware, cfg_safety = safety,
            cfg_enable_duration_s = enable_duration_s, cfg_robot_controller = core, cfg_shm = shm, cfg_can = can,
            cfg_processes = processes\<rparr>))))))))))))))))))))))))))))"

section \<open>Validation\<close>

text \<open>The checks of \<open>_validate_config\<close>, in order: what must not hold, and the message.\<close>

definition config_checks :: "RobotControllerConfig \<Rightarrow> (bool \<times> string) list" where
  "config_checks c =
     (let sf = cfg_safety c; rk = cfg_robot_controller c; sh = cfg_shm c; ca = cfg_can c; dm = ca_daemon ca;
          rg = ca_mit_protocol_range ca; names = map pr_name (cfg_processes c)
      in
      [(cfg_runtime_mode c \<notin> {''simulation'', ''hardware''}, ''runtime.mode must be simulation or hardware''),
       (hw_allowed_can_interfaces (cfg_hardware c) = [], ''hardware.allowed_can_interfaces must not be empty''),
       (flt (sp_velocity_damping_kd sf) (Fin 0), ''safety.velocity_damping_kd must be >= 0''),
       (fle (sp_damping_timeout_s sf) (Fin 0), ''safety.damping_timeout_s must be > 0''),
       (sp_command_loss_action sf \<notin> {''damping'', ''disable'', ''fault''}, ''safety.command_loss_action must be damping, disable, or fault''),
       (sp_feedback_stale_action sf \<notin> {''damping'', ''disable'', ''fault''}, ''safety.feedback_stale_action must be damping, disable, or fault''),
       (fle (rk_control_hz rk) (Fin 0), ''robot_controller.control_hz must be > 0''),
       (flt (rk_shutdown_timeout_s rk) (Fin 0), ''robot_controller.shutdown_timeout_s must be >= 0''),
       (flt (cfg_enable_duration_s c) (Fin 0), ''state_machine.enable_duration_s must be >= 0''),
       (mc_target_count (sc_mit_command sh) \<le> 0, ''shm.mit_command.target_count must be > 0''),
       (rc_size_bytes (sc_control_state sh) < 4096, ''shm.control_state.size_bytes must be >= 4096''),
       (fle (rc_publish_hz (sc_control_state sh)) (Fin 0), ''shm.control_state.publish_hz must be > 0''),
       (rc_size_bytes (sc_aux_command sh) < 4096, ''shm.aux_command.size_bytes must be >= 4096''),
       (fle (rc_publish_hz (sc_aux_command sh)) (Fin 0), ''shm.aux_command.publish_hz must be > 0''),
       (op_size_bytes (sc_operator_command sh) < 4096, ''shm.operator_command.size_bytes must be >= 4096''),
       (rc_size_bytes (sc_dashboard_state sh) < 4096, ''shm.dashboard_state.size_bytes must be >= 4096''),
       (fle (rc_publish_hz (sc_dashboard_state sh)) (Fin 0), ''shm.dashboard_state.publish_hz must be > 0''),
       (card {mc_name (sc_mit_command sh), rc_name (sc_aux_command sh), op_name (sc_operator_command sh),
          rc_name (sc_control_state sh), rc_name (sc_dashboard_state sh)} \<noteq> 5, ''shm segment names must be unique''),
       (fle (ca_command_timeout_s ca) (Fin 0), ''can.command_timeout_s must be > 0''),
       (flt (ca_bringup_delay_s ca) (Fin 0), ''can.bringup_delay_s must be >= 0''),
       (flt (cd_rx_timeout_s dm) (Fin 0), ''can.daemon.rx_timeout_s must be >= 0''),
       (flt (cd_tx_timeout_s dm) (Fin 0), ''can.daemon.tx_timeout_s must be >= 0''),
       (flt (cd_join_timeout_s dm) (Fin 0), ''can.daemon.join_timeout_s must be >= 0''),
       (cd_max_tx_queue_size dm \<le> 0, ''can.daemon.max_tx_queue_size must be > 0''),
       ((case cd_send_timeout_s dm of None \<Rightarrow> False | Some t \<Rightarrow> flt t (Fin 0)), ''can.daemon.send_timeout_s must be null or >= 0''),
       (cd_ipc_socket_path dm = [], ''can.daemon.ipc_socket_path must not be empty''),
       (fle (cd_connect_timeout_s dm) (Fin 0), ''can.daemon.connect_timeout_s must be > 0''),
       (mo_can_ids (ca_motors ca) = [], ''can.motors.can_ids must not be empty''),
       (card (set (mo_can_ids (ca_motors ca))) \<noteq> length (mo_can_ids (ca_motors ca)), ''can.motors.can_ids must not contain duplicates''),
       (mc_target_count (sc_mit_command sh) \<noteq> int (length (mo_can_ids (ca_motors ca))), ''shm.mit_command.target_count must match len(can.motors.can_ids)''),
       (im_startup_request_count (ca_imu ca) < 0, ''can.imu.startup_request_count must be >= 0''),
       (flt (im_startup_request_delay_s (ca_imu ca)) (Fin 0), ''can.imu.startup_request_delay_s must be >= 0''),
       (fle (mp_position_rad rg) (Fin 0), ''can.mit_protocol_range.position_rad must be > 0''),
       (fle (mp_velocity_rad_s rg) (Fin 0), ''can.mit_protocol_range.velocity_rad_s must be > 0''),
       (flt (mp_kp rg) (Fin 0), ''can.mit_protocol_range.kp must be >= 0''),
       (flt (mp_kd rg) (Fin (1/2)), ''can.mit_protocol_range.kd must be >= 0.5 for shutdown damping''),
       (fle (mp_torque_ff_nm rg) (Fin 0), ''can.mit_protocol_range.torque_ff_nm must be > 0''),
       (fle (mp_feedback_position_rad rg) (Fin 0), ''can.mit_protocol_range.feedback_position_rad must be > 0''),
       (fgt (sp_velocity_damping_kd sf) (mp_kd rg), ''safety.velocity_damping_kd must be <= can.mit_protocol_range.kd''),
       (card (set names) \<noteq> length names, ''processes must not contain duplicate names''),
       (''can_daemon'' \<notin> set names, ''processes must include a can_daemon subprocess'')] @
      concat (map (\<lambda>p. [(pr_working_dir p = [], ''working_dir must not be empty''),
        (pr_new_terminal p \<and> pr_terminal_command p = [],
         ''terminal_command must not be empty when new_terminal is true'')]) (cfg_processes c)))"

definition validate_config :: "RobotControllerConfig \<Rightarrow> unit result" where
  "validate_config c =
     (case find fst (config_checks c) of None \<Rightarrow> Inr () | Some (_, m) \<Rightarrow> Inl (ConfigError m))"

end
