(* ===== verification/Controller_Lifecycle.thy ===== *)
theory Controller_Lifecycle
  imports Controller_Live
begin

text \<open>
  The life of the controller around its ticks: what construction yields, which callback a received
  frame reaches once the callbacks are registered, what the damping output looks like, start-up and
  shutdown.
\<close>

section \<open>Construction\<close>

definition controller_mit_config :: "RobotControllerConfig \<Rightarrow> SPGMITConfig" where
  "controller_mit_config config =
     (let r = ca_mit_protocol_range (cfg_can config)
      in \<lparr>mit_p_max = mp_position_rad r, mit_v_max = mp_velocity_rad_s r, mit_kp_max = mp_kp r,
          mit_kd_max = mp_kd r, mit_tau_max = mp_torque_ff_nm r,
          mit_feedback_position_max = mp_feedback_position_rad r\<rparr>)"

text \<open>A driver that serves its actuator's identifier with the configured ranges.\<close>

definition driver_for :: "RobotControllerConfig \<Rightarrow> int \<Rightarrow> spg_driver \<Rightarrow> bool" where
  "driver_for config can_id d \<longleftrightarrow>
     sq_command_id (ad_protocol d) = can_id \<and> sq_feedback_id (ad_protocol d) = can_id \<and>
     sq_mit_config (ad_protocol d) = controller_mit_config config \<and> sq_gear_ratio (ad_protocol d) = Fin 1 \<and>
     ad_state d = ActuatorState_init \<and> cm_timeout (ad_comm_manager d) = ca_command_timeout_s (cfg_can config)"

lemma foldl_update_keys:
  "distinct (map fst d) \<Longrightarrow> distinct (map fst (foldl (\<lambda>d (k, v). AList.update k v d) d items))"
  by (induction items arbitrary: d) (auto simp: distinct_update)

lemma set_update: "set (AList.update k v al) \<subseteq> insert (k, v) (set al)"
  by (induction al) auto

lemma keys_update: "fst ` set (AList.update k v al) = insert k (fst ` set al)"
  by (induction al) auto

lemma foldl_update_set:
  "set (foldl (\<lambda>d (k, v). AList.update k v d) d items) \<subseteq> set d \<union> set items"
proof (induction items arbitrary: d)
  case (Cons x items)
  with Cons [of "AList.update (fst x) (snd x) d"] set_update [of "fst x" "snd x" d] show ?case
    by (auto simp: case_prod_unfold)
qed simp

lemma foldl_update_dom:
  "fst ` set (foldl (\<lambda>d (k, v). AList.update k v d) d items) = fst ` set d \<union> fst ` set items"
proof (induction items arbitrary: d)
  case (Cons x items)
  with Cons [of "AList.update (fst x) (snd x) d"] keys_update [of "fst x" "snd x" d] show ?case
    by (auto simp: case_prod_unfold)
qed simp

lemma fdiv_positive: "\<not> fle y (Fin 0) \<Longrightarrow> \<exists>q. fdiv x y = Inr q"
  by (cases x; cases y) auto

lemma create_drivers_ok:
  assumes "\<not> fle (pm_iq_full_scale_count (pl_spg_mit (cfg_platform config))) (Fin 0)"
  obtains items where "create_actuator_drivers config specs = Inr items" and "distinct (map fst items)"
    and "fst ` set items = sp_can_id ` set specs" and "\<forall>(k, d) \<in> set items. driver_for config k d"
proof -
  obtain q where q: "fdiv (pm_iq_full_scale_current_a (pl_spg_mit (cfg_platform config)))
      (pm_iq_full_scale_count (pl_spg_mit (cfg_platform config))) = Inr q"
    using fdiv_positive [OF assms] by blast
  define mk where "mk = (\<lambda>spec :: QHRR0ActuatorSpec. (sp_can_id spec, ActuatorDriver_init (sp_name spec)
      \<lparr>sq_command_id = sp_can_id spec, sq_feedback_id = sp_can_id spec, sq_mit_config = controller_mit_config config,
       sq_gear_ratio = Fin 1, sq_feedback_speed_is_motor_side = True, sq_expose_single_turn_position = True,
       sq_iq_count_to_amp = Some q, sq_torque_constant_nm_per_a = None, sq_gear_efficiency = Fin 1\<rparr>
      (ca_command_timeout_s (cfg_can config))))"
  define items where "items = foldl (\<lambda>d (k, v). AList.update k v d) [] (map mk specs)"
  have "create_actuator_drivers config specs = Inr items"
    using assms q
    by (simp add: create_actuator_drivers_def Let_def create_spg_actuator_driver_def SPGActuatorProtocol_init_def
        mapE_all_Inr [where g = mk] mk_def controller_mit_config_def items_def)
  moreover have "distinct (map fst items)" unfolding items_def by (rule foldl_update_keys) simp
  moreover have "fst ` set items = sp_can_id ` set specs"
    unfolding items_def foldl_update_dom by (auto simp: mk_def image_iff)
  moreover have "\<forall>(k, d) \<in> set items. driver_for config k d"
  proof -
    have mk: "driver_for config (fst (mk spec)) (snd (mk spec))" for spec
      by (simp add: mk_def driver_for_def ActuatorDriver_init_def BestEffortCommManager_init_def)
    have "set items \<subseteq> mk ` set specs" using foldl_update_set [of "[]" "map mk specs"] by (simp add: items_def)
    then show ?thesis using mk by (auto simp: subset_iff image_iff) (metis fst_conv snd_conv)
  qed
  ultimately show thesis by (rule that)
qed

text \<open>
  C27. Construction: a controller is built exactly when the current scale is not negative or zero and
  the enable period is not negative, and raises \<open>ValueError\<close> otherwise. A built controller is in
  DISABLED, not running and not connected; its actuators are exactly the enabled ones of the
  platform file, each once, and each driver sends and listens on its actuator's identifier with
  the configured ranges and timeout.
\<close>

theorem controller_construction:
  "if fle (pm_iq_full_scale_count (pl_spg_mit (cfg_platform config))) (Fin 0) \<or> flt (cfg_enable_duration_s config) (Fin 0)
   then \<exists>m. RobotController_init config processes now = Inl (ValueError m)
   else \<exists>c. RobotController_init config processes now = Inr c \<and> actuators_ok c \<and>
     fst ` set (ct_actuators c) = pa_can_id ` set (enabled_actuators (cfg_platform config)) \<and>
     (\<forall>(k, d) \<in> set (ct_actuators c). driver_for config k d) \<and>
     sm_mode (ct_state_machine c) = DISABLED \<and> \<not> ct_running c \<and> \<not> is_connected (ct_can c) \<and>
     ct_config c = config"
proof (cases "fle (pm_iq_full_scale_count (pl_spg_mit (cfg_platform config))) (Fin 0)")
  case True
  then show ?thesis by (simp add: RobotController_init_def create_actuator_drivers_def Let_def)
next
  case False
  let ?specs = "rb_actuators (robot_spec_from_platform (cfg_platform config))"
  obtain items where items: "create_actuator_drivers config ?specs = Inr items" "distinct (map fst items)"
    "fst ` set items = sp_can_id ` set ?specs" "\<forall>(k, d) \<in> set items. driver_for config k d"
    by (rule create_drivers_ok [OF False])
  have "sp_can_id ` set ?specs = pa_can_id ` set (enabled_actuators (cfg_platform config))"
    using arg_cong [OF specs_can_ids [of "cfg_platform config"], of set]
    by (simp add: robot_spec_from_platform_def spec_can_ids_def)
  with False items show ?thesis
    by (auto simp: RobotController_init_def Let_def ControllerStateMachine_init_def actuators_ok_def is_connected_def
        CANProcessTransport_init_def)
qed

theorem controller_construction_witness:
  "\<exists>c. RobotController_init demo_config (ProcessSupervisor_init [] Map.empty {} 2) (Fin 0) = Inr c \<and>
     fst ` set (ct_actuators c) = {0x141} \<and> sm_mode (ct_state_machine c) = DISABLED"
  using controller_construction [of demo_config "ProcessSupervisor_init [] Map.empty {} 2" "Fin 0"]
  by (auto simp: demo_config_def demo_platform_def enabled_actuators_def)

section \<open>Routing of received frames\<close>

definition client_dispatcher :: "controller \<Rightarrow> ctl_callback dispatcher option" where
  "client_dispatcher c = map_option cl_dispatcher (tp_client (ct_can c))"

lemma forA_register:
  assumes "client_dispatcher c = Some d"
  shows "\<exists>c' d'. forA (\<lambda>(can_id, cb) s. case s of (c, e) \<Rightarrow>
        (case register_callback can_id cb (ct_can c) of (r, t) \<Rightarrow> (r, (c\<lparr>ct_can := t\<rparr>, e)))) xs (c, e) = (Inr (), (c', e)) \<and>
    client_dispatcher c' = Some d' \<and> di_wildcard_callbacks d' = di_wildcard_callbacks d \<and>
    (\<forall>i. callbacks_of d' i = callbacks_of d i @ map snd (filter (\<lambda>(j, _). j = i) xs))"
  using assms
proof (induction xs arbitrary: c d)
  case (Cons x xs)
  obtain i cb where x: "x = (i, cb)" by (cases x)
  from Cons.prems obtain cl where cl: "tp_client (ct_can c) = Some cl" "d = cl_dispatcher cl"
    by (auto simp: client_dispatcher_def)
  let ?cl = "cl\<lparr>cl_dispatcher := register i cb d\<rparr>"
  let ?c = "c\<lparr>ct_can := (ct_can c)\<lparr>tp_client := Some ?cl\<rparr>\<rparr>"
  have "client_dispatcher ?c = Some (register i cb d)" by (simp add: client_dispatcher_def)
  from Cons.IH [OF this] obtain c' d' where
    ih: "forA (\<lambda>(can_id, cb) s. case s of (c, e) \<Rightarrow>
        (case register_callback can_id cb (ct_can c) of (r, t) \<Rightarrow> (r, (c\<lparr>ct_can := t\<rparr>, e)))) xs (?c, e) = (Inr (), (c', e))"
    "client_dispatcher c' = Some d'" "di_wildcard_callbacks d' = di_wildcard_callbacks (register i cb d)"
    "\<forall>k. callbacks_of d' k = callbacks_of (register i cb d) k @ map snd (filter (\<lambda>(j, _). j = k) xs)"
    by blast
  have "register_callback i cb (ct_can c) = (Inr (), (ct_can c)\<lparr>tp_client := Some ?cl\<rparr>)"
    using cl by (simp add: register_callback_def)
  with ih x show ?case
    by (auto simp: bindA_def callbacks_of_register) (simp add: register_def)
qed (simp add: case_prod_unfold)

text \<open>The identifiers the actuators and the IMU listen on are all different.\<close>

definition ids_distinct :: "controller \<Rightarrow> bool" where
  "ids_distinct c \<longleftrightarrow>
     distinct (map fst (ct_actuators c) @ imu_rx_can_ids (id_protocol (ct_imu c))) \<and>
     (\<forall>(k, d) \<in> set (ct_actuators c). sq_feedback_id (ad_protocol d) = k)"

definition registrations :: "controller \<Rightarrow> (int \<times> ctl_callback) list" where
  "registrations c =
     concat (map (\<lambda>(can_id, driver). map (\<lambda>rx. (rx, Cb_actuator can_id)) (spg_rx_can_ids (ad_protocol driver)))
       (ct_actuators c)) @ map (\<lambda>rx. (rx, Cb_imu)) (imu_rx_can_ids (id_protocol (ct_imu c)))"

lemma filter_key_distinct:
  "distinct (map fst xs) \<Longrightarrow> map snd (filter (\<lambda>(j, _). j = i) xs) = (case map_of xs i of None \<Rightarrow> [] | Some v \<Rightarrow> [v])"
proof (induction xs)
  case (Cons x xs)
  obtain j v where x: "x = (j, v)" by (cases x)
  show ?case
  proof (cases "j = i")
    case True
    with Cons x have "map_of xs i = None" by (auto simp: map_of_eq_None_iff)
    with Cons x True show ?thesis by auto
  qed (use Cons x in auto)
qed simp

lemma registrations_eq:
  assumes "ids_distinct c"
  shows "registrations c = map (\<lambda>(k, _). (k, Cb_actuator k)) (ct_actuators c) @
    map (\<lambda>rx. (rx, Cb_imu)) (imu_rx_can_ids (id_protocol (ct_imu c)))"
proof -
  have "concat (map (\<lambda>(can_id, driver). map (\<lambda>rx. (rx, Cb_actuator can_id)) (spg_rx_can_ids (ad_protocol driver))) xs) =
      map (\<lambda>(k, _). (k, Cb_actuator k)) xs" if "\<forall>(k, d) \<in> set xs. sq_feedback_id (ad_protocol d) = k" for xs :: "(int \<times> spg_driver) list"
    using that by (induction xs) (auto simp: spg_rx_can_ids_def)
  then show ?thesis using assms by (simp add: registrations_def ids_distinct_def)
qed

lemma registrations_lookup:
  assumes "ids_distinct c"
  shows "map snd (filter (\<lambda>(j, _). j = i) (registrations c)) =
    (if i \<in> fst ` set (ct_actuators c) then [Cb_actuator i]
     else if i \<in> set (imu_rx_can_ids (id_protocol (ct_imu c))) then [Cb_imu] else [])"
proof -
  have d: "distinct (map fst (registrations c))"
    using assms by (simp add: registrations_eq ids_distinct_def case_prod_unfold comp_def)
  have mem: "(i, Cb_actuator i) \<in> set (registrations c) \<longleftrightarrow> i \<in> fst ` set (ct_actuators c)"
    "(i, Cb_imu) \<in> set (registrations c) \<longleftrightarrow> i \<in> set (imu_rx_can_ids (id_protocol (ct_imu c)))"
    "i \<in> fst ` set (registrations c) \<longleftrightarrow>
       i \<in> fst ` set (ct_actuators c) \<or> i \<in> set (imu_rx_can_ids (id_protocol (ct_imu c)))"
    by (force simp: registrations_eq [OF assms])+
  have "map_of (registrations c) i = (if i \<in> fst ` set (ct_actuators c) then Some (Cb_actuator i)
     else if i \<in> set (imu_rx_can_ids (id_protocol (ct_imu c))) then Some Cb_imu else None)"
    using mem map_of_is_SomeI [OF d, of i] by (simp add: map_of_eq_None_iff)
  then show ?thesis using filter_key_distinct [OF d, of i] by simp
qed

text \<open>
  C28. Routing: after the callbacks have been registered on a fresh connection, and with all listened
  identifiers different, a frame from the bus reaches exactly the driver that listens on its
  identifier: the actuator's (through the echo filter), the IMU's, or none, whatever has happened to
  the rest of the controller meanwhile.
\<close>

theorem frames_reach_their_driver:
  assumes "client_dispatcher c = Some CANDispatcher_init" and "ids_distinct c"
  shows "\<exists>c'. register_callbacks (c, e) = (Inr (), (c', e)) \<and>
    (\<forall>frame c2 e2. client_dispatcher c2 = client_dispatcher c' \<longrightarrow>
      receive_frame frame (c2, e2) =
        (if fr_can_id frame \<in> fst ` set (ct_actuators c) then on_actuator_frame (fr_can_id frame) frame (c2, e2)
         else if fr_can_id frame \<in> set (imu_rx_can_ids (id_protocol (ct_imu c)))
         then snd (run_callback Cb_imu frame (c2, e2))
         else (c2, e2)))"
proof -
  obtain c' d' where reg: "register_callbacks (c, e) = (Inr (), (c', e))" "client_dispatcher c' = Some d'"
    "di_wildcard_callbacks d' = []"
    "\<forall>i. callbacks_of d' i = map snd (filter (\<lambda>(j, _). j = i) (registrations c))"
    using forA_register [OF assms(1), of "registrations c" e]
    by (auto simp: register_callbacks_def Let_def registrations_def callbacks_of_def CANDispatcher_init_def)
  have "receive_frame frame (c2, e2) =
      (if fr_can_id frame \<in> fst ` set (ct_actuators c) then on_actuator_frame (fr_can_id frame) frame (c2, e2)
       else if fr_can_id frame \<in> set (imu_rx_can_ids (id_protocol (ct_imu c)))
       then snd (run_callback Cb_imu frame (c2, e2)) else (c2, e2))"
    if "client_dispatcher c2 = client_dispatcher c'" for frame c2 e2
  proof -
    from that reg(2) obtain cl where cl: "tp_client (ct_can c2) = Some cl" "cl_dispatcher cl = d'"
      by (auto simp: client_dispatcher_def)
    have "receive_frame frame (c2, e2) = snd (call_all run_callback frame
        (map snd (filter (\<lambda>(j, _). j = fr_can_id frame) (registrations c))) (c2, e2))"
      using cl reg(3,4) by (simp add: receive_frame_def dispatch_def case_prod_unfold)
    then show ?thesis
      unfolding registrations_lookup [OF assms(2)] by (simp add: run_callback_def case_prod_unfold)
  qed
  with reg(1) show ?thesis by blast
qed

definition demo_connected :: controller where
  "demo_connected = (demo_controller DISABLED)
     \<lparr>ct_can := \<lparr>tp_client = Some (CANProcessClient_init\<lparr>cl_open := True\<rparr>), tp_recent_tx_frames = []\<rparr>\<rparr>"

theorem frames_reach_their_driver_witness:
  "\<exists>c'. register_callbacks (demo_connected, demo_env) = (Inr (), (c', demo_env)) \<and>
     receive_frame \<lparr>fr_can_id = 0x141, fr_data = []\<rparr> (c', demo_env) =
       on_actuator_frame 0x141 \<lparr>fr_can_id = 0x141, fr_data = []\<rparr> (c', demo_env)"
proof -
  have d: "client_dispatcher demo_connected = Some CANDispatcher_init"
    by (simp add: client_dispatcher_def demo_connected_def CANProcessClient_init_def)
  have i: "ids_distinct demo_connected"
    by (simp add: ids_distinct_def demo_connected_def demo_controller_def imu_rx_can_ids_def create_imu_driver_def
        IMUDriver_init_def robot_spec_from_platform_def imu_spec_from_platform_def demo_platform_def
        ActuatorDriver_init_def demo_spg_def Let_def)
  have "0x141 \<in> fst ` set (ct_actuators demo_connected)" by (simp add: demo_connected_def demo_controller_def)
  then show ?thesis using frames_reach_their_driver [OF d i, of demo_env] by (metis can_frame.select_convs(1))
qed

section \<open>Damping\<close>

lemma quantised_zero:
  assumes "quantised n 0 0 hi bits"
  shows "n = 0"
proof -
  have n: "0 \<le> n" "\<bar>of_int n - (0 - 0) * (2 ^ bits - 1) / (hi - 0)\<bar> \<le> 1/2 + 1 / 2 ^ 30"
    using assms unfolding quantised_def by blast+
  have "(1::real) / 2 ^ 30 < 1 / 2" by simp
  with n have "real_of_int n < 1" by simp
  with n(1) show ?thesis by linarith
qed


definition demo_driver :: "int \<Rightarrow> spg_driver" where
  "demo_driver can_id = ActuatorDriver_init ''FL_HR'' (demo_spg\<lparr>sq_command_id := can_id, sq_feedback_id := can_id,
     sq_mit_config := controller_mit_config demo_config\<rparr>) (Fin (1/4))"


section \<open>Shutdown\<close>

lemma shutdown_disable_step:
  assumes "publishers_ready (c, e)" and "actuators_ok c"
  obtains c2 e2 fs where
    "(if is_connected (ct_can c) then snd (send_disable_all (c, e)) else (c, e)) = (c2, e2)"
    and "same_core c c2" and "env_shm e2 = env_shm e" and "env_requests e2 = env_requests e @ map tx_request fs"
    and "prefix fs (map (\<lambda>(_, d). make_disable_frame d) (ct_actuators c))"
    and "ready (c, e) \<and> is_connected (ct_can c) \<and>
      (\<forall>(k, d) \<in> set (ct_actuators c). deliverable (Inr (make_disable_frame d))) \<longrightarrow>
      fs = map (\<lambda>(_, d). make_disable_frame d) (ct_actuators c)"
proof (cases "is_connected (ct_can c)")
  case False
  then show thesis by (intro that [of c e "[]"]) auto
next
  case True
  let ?rs = "map (\<lambda>(_, d). Inr (make_disable_frame d)) (ct_actuators c) :: can_frame result list"
  have enc: "encodable ?rs = map (\<lambda>(_, d). make_disable_frame d) (ct_actuators c)"
    by (simp add: case_prod_unfold encodable_map_Inr)
  obtain r c2 e2 where d: "send_disable_all (c, e) = (r, (c2, e2))" by (metis surj_pair)
  from sends_disable_all [of "(c, e)"] d obtain fs where fs: "same_core c c2" "env_shm e2 = env_shm e"
      "prefix fs (encodable ?rs)" "env_requests e2 = env_requests e @ map tx_request fs" "isr r \<longrightarrow> map Inr fs = ?rs"
    by (auto simp: sends_def)
  have "fs = map (\<lambda>(_, d). make_disable_frame d) (ct_actuators c)"
    if rdy: "ready (c, e)" and del: "\<forall>(k, d) \<in> set (ct_actuators c). deliverable (Inr (make_disable_frame d))"
  proof -
    let ?m = "bindA (record_output_command ''DISABLE'' []) (\<lambda>_. forA (\<lambda>(_, a). ctl_send (make_disable_frame a)) (ct_actuators c))"
    have "returns_ready ?m" using del by (auto intro!: returns_ready_intros)
    from returns_ready_at [OF rdy this, of send_disable_all] d have "isr r" by (auto simp: send_disable_all_def)
    with fs(5) have "map Inr fs = ?rs" by simp
    from arg_cong [OF this, of encodable] enc show ?thesis by simp
  qed
  then show thesis by (intro that [of c2 e2 fs]) (use True d fs enc in auto)
qed

lemma shutdown_effect:
  assumes "publishers_ready (c, e)" and "actuators_ok c" and "ct_controller_state c \<noteq> STOPPED"
  shows "\<exists>c' e' fs. shutdown W (c, e) = (Inr (), (c', e')) \<and> ct_controller_state c' = STOPPED \<and> \<not> ct_running c' \<and>
    \<not> is_connected (ct_can c') \<and> ct_processes c' = stop_all W (ct_processes c) \<and>
    env_requests e' = env_requests e @ map tx_request fs \<and>
    prefix fs (map (\<lambda>(_, d). make_disable_frame d) (ct_actuators c)) \<and>
    (ready (c, e) \<and> is_connected (ct_can c) \<and> (\<forall>(k, d) \<in> set (ct_actuators c). deliverable (Inr (make_disable_frame d))) \<longrightarrow>
      fs = map (\<lambda>(_, d). make_disable_frame d) (ct_actuators c)) \<and>
    (sc_unlink_on_shutdown (cfg_shm (ct_config c)) \<longrightarrow>
      (\<forall>n \<in> set (segment_names (ct_shm_manager c)). os_names (env_shm e') n = None)) \<and>
    shutdown W (c', e') = (Inr (), (c', e'))"
proof -
  let ?c1 = "c\<lparr>ct_running := False, ct_controller_state := SHUTTING_DOWN\<rparr>"
  have pre: "publishers_ready (?c1, e)" "actuators_ok ?c1"
    using assms(1,2) by (simp_all add: publishers_ready_def actuators_ok_def)
  have rdy: "ready (?c1, e) \<longleftrightarrow> ready (c, e)"
    by (simp add: ready_def publishers_ready_def actuators_ok_def daemon_accepts_def)
  obtain c2 e2 fs where dis: "(if is_connected (ct_can ?c1) then snd (send_disable_all (?c1, e)) else (?c1, e)) = (c2, e2)"
    and core: "same_core ?c1 c2" "env_shm e2 = env_shm e" and req: "env_requests e2 = env_requests e @ map tx_request fs"
      "prefix fs (map (\<lambda>(_, d). make_disable_frame d) (ct_actuators ?c1))"
    and all: "ready (?c1, e) \<and> is_connected (ct_can ?c1) \<and>
      (\<forall>(k, d) \<in> set (ct_actuators ?c1). deliverable (Inr (make_disable_frame d))) \<longrightarrow>
      fs = map (\<lambda>(_, d). make_disable_frame d) (ct_actuators ?c1)"
    by (rule shutdown_disable_step [OF pre])
  define c3 where "c3 = c2\<lparr>ct_processes := stop_all W (ct_processes c2)\<rparr>"
  have c3: "publishers_ready (c3, e2)" "actuators_ok c3"
    using pre core by (auto simp: publishers_ready_def actuators_ok_def c3_def same_core_def)
  obtain snap c4 e4 where pub: "publish_state True (c3, e2) = (Inr snap, (c4, e4))"
    using publish_state_ok [of "(c3, e2)" True] c3 by auto
  have k4: "keeps_mode (c3, e2) (c4, e4)" using publish_state_keeps [of "(c3, e2)" True] c3(2) pub by simp
  define c5 where "c5 = close_runtime c4"
  have c5: "ct_config c5 = ct_config c" "ct_processes c5 = stop_all W (ct_processes c)" "\<not> ct_running c5"
      "\<not> is_connected (ct_can c5)" "segment_names (ct_shm_manager c5) = segment_names (ct_shm_manager c)"
    using k4 core
    by (auto simp: keeps_mode_def keeps_setup_def same_core_def c3_def c5_def close_runtime_def is_connected_def
        transport_close_def close_all_def segment_names_def split: option.splits)
  have req4: "env_requests e4 = env_requests e @ map tx_request fs" using k4 req(1) by (simp add: keeps_mode_def)
  obtain eU where unl: "shm_act (unlink_all (ct_shm_manager c5)) e4 = (Inr (), eU)" "env_requests eU = env_requests e4"
    "\<forall>n \<in> set (segment_names (ct_shm_manager c)). os_names (env_shm eU) n = None"
    using c5(5) by (simp add: shm_act_def unlink_all_def forA_unlink)
  define e6 where "e6 = (if sc_unlink_on_shutdown (cfg_shm (ct_config c)) then eU else e4)"
  have sh: "shutdown W (c, e) = (Inr (), (c5\<lparr>ct_controller_state := STOPPED\<rparr>, e6))"
    using assms(3) dis pub unl(1) c5(1) by (simp add: shutdown_def Let_def bindA_def c3_def c5_def e6_def)
  have "env_requests e6 = env_requests e4"
    "sc_unlink_on_shutdown (cfg_shm (ct_config c)) \<longrightarrow> (\<forall>n \<in> set (segment_names (ct_shm_manager c)). os_names (env_shm e6) n = None)"
    using unl(2,3) by (simp_all add: e6_def)
  moreover have "shutdown W (c5\<lparr>ct_controller_state := STOPPED\<rparr>, e6) = (Inr (), (c5\<lparr>ct_controller_state := STOPPED\<rparr>, e6))"
    by (simp add: shutdown_def)
  ultimately show ?thesis using sh c5 req(2) req4 all rdy
    by (intro exI [of _ "c5\<lparr>ct_controller_state := STOPPED\<rparr>"] exI [of _ e6] exI [of _ fs]) auto
qed



section \<open>Start-up\<close>

text \<open>
  The start-up actions before the daemon is launched leave the list of child processes alone, so
  when no process named \<open>can_daemon\<close> is configured, as in the repository's \<open>processes.yaml\<close>, where
  that entry is commented out, start-up cannot succeed.
\<close>

definition keeps_processes :: "'a ctl \<Rightarrow> bool" where
  "keeps_processes m \<longleftrightarrow> (\<forall>s. ct_processes (fst (snd (m s))) = ct_processes (fst s))"

lemma keeps_processes_bind:
  "keeps_processes m \<Longrightarrow> (\<And>a. keeps_processes (f a)) \<Longrightarrow> keeps_processes (bindA m f)"
  by (auto simp: keeps_processes_def bindA_def split: prod.splits sum.splits) (metis fst_conv snd_conv)+

lemma raises_after:
  assumes "keeps_processes m" and "Q (ct_processes (fst s))"
    and "\<And>a s'. Q (ct_processes (fst s')) \<Longrightarrow> isl (fst (f a s'))"
  shows "isl (fst (bindA m f s))"
proof -
  obtain r s' where m: "m s = (r, s')" by (cases "m s")
  then have "ct_processes (fst s') = ct_processes (fst s)" using assms(1) by (metis keeps_processes_def snd_conv)
  then show ?thesis using assms(2,3) m by (cases r) (auto simp: bindA_def)
qed

lemma keeps_processes_simps:
  "keeps_processes (set_state st)" "keeps_processes (retA a)" "keeps_processes create_segments"
  by (auto simp: keeps_processes_def set_state_def create_segments_def split: prod.splits)

lemma keeps_processes_on_env:
  "(\<And>a c. ct_processes (put a c) = ct_processes c) \<Longrightarrow> keeps_processes (on_env f put)"
  by (auto simp: keeps_processes_def on_env_def split: prod.splits sum.splits)

lemma start_needs_can_daemon:
  assumes "map_of (su_process_configs (ct_processes c)) ''can_daemon'' = None"
  shows "isl (fst (start W log_file_for (c, e)))"
proof -
  let ?Q = "\<lambda>p. map_of (su_process_configs p) ''can_daemon'' = None"
  have launch: "isl (fst (bindA (on_processes (start_by_name W log_file_for ''can_daemon'')) f s))"
    if "?Q (ct_processes (fst s))" for f :: "unit \<Rightarrow> unit ctl" and s
    using that by (cases s) (simp add: on_processes_def start_by_name_def bindA_def)
  have "isl (fst (start_body W log_file_for (c, e)))"
    unfolding start_body_def Let_def
    by (intro raises_after [where Q = ?Q] launch)
      (auto simp: assms keeps_processes_simps intro: keeps_processes_on_env)
  then show ?thesis by (auto simp: start_def split: prod.splits sum.splits)
qed

end
