(* ===== verification/Config_Facts.thy ===== *)
theory Config_Facts
  imports Config_Loader Controller_Lifecycle "HOL-Library.Multiset"
begin

text \<open>
  What the configuration loader guarantees: which actuator lists it accepts, that the parts of a
  loaded configuration agree with each other and with the controller built from it, and what the
  validator rules out.
\<close>

section \<open>Actuators\<close>

text \<open>What an item of the actuator list says.\<close>

definition reads_actuator :: "py_text \<Rightarrow> pyval \<Rightarrow> PlatformActuatorConfig \<Rightarrow> bool" where
  "reads_actuator T entry a \<longleftrightarrow>
     (\<exists>item n i en mj ma sg off. entry = PDict item \<and>
       map_of item ''name'' = Some n \<and> pa_name a = py_str T n \<and>
       map_of item ''can_id'' = Some i \<and> parse_int T i = Inr (pa_can_id a) \<and>
       map_of item ''enabled'' = Some en \<and> pa_enabled a = py_truthy en \<and>
       map_of item ''mujoco_joint'' = Some mj \<and> pa_mujoco_joint a = py_str T mj \<and>
       map_of item ''mujoco_actuator'' = Some ma \<and> pa_mujoco_actuator a = py_str T ma \<and>
       map_of item ''sign'' = Some sg \<and> py_float T sg = Inr (pa_sign a) \<and>
       map_of item ''offset_rad'' = Some off \<and> py_float T off = Inr (pa_offset_rad a))"

lemma require_key_eq_Inr: "require_key m key path = Inr v \<longleftrightarrow> map_of m key = Some v"
  by (simp add: require_key_def split: option.splits)

lemmas key_eq_Inr = key_str_def key_int_def key_float_def key_bool_def bindE_eq_Inr require_key_eq_Inr

lemma parse_actuator_step:
  "parse_actuator_items T index names ids (entry # raw) = Inr as \<longleftrightarrow>
     (\<exists>a rest. as = a # rest \<and> reads_actuator T entry a \<and> pa_name a \<notin> set names \<and> pa_can_id a \<notin> set ids \<and>
        parse_actuator_items T (Suc index) (pa_name a # names) (pa_can_id a # ids) raw = Inr rest)" (is "?l = ?r")
proof
  assume ?l
  then show ?r
    by (cases entry) (fastforce simp: Let_def key_eq_Inr reads_actuator_def split: if_splits)+
next
  assume ?r
  then obtain a rest where a: "as = a # rest" "reads_actuator T entry a" "pa_name a \<notin> set names" "pa_can_id a \<notin> set ids"
    "parse_actuator_items T (Suc index) (pa_name a # names) (pa_can_id a # ids) raw = Inr rest"
    by blast
  then show ?l by (cases a) (auto simp: reads_actuator_def key_str_def key_int_def key_float_def key_bool_def require_key_def)
qed

lemma parse_actuator_items_eq:
  "parse_actuator_items T index names ids raw = Inr as \<longleftrightarrow>
     list_all2 (reads_actuator T) raw as \<and> distinct (map pa_name as) \<and> distinct (map pa_can_id as) \<and>
     (\<forall>x \<in> set as. pa_name x \<notin> set names \<and> pa_can_id x \<notin> set ids)"
proof (induction raw arbitrary: index names ids as)
  case (Cons entry raw)
  show ?case unfolding parse_actuator_step Cons.IH list_all2_Cons1 by (auto simp: image_iff) (metis)+
qed auto

text \<open>
  C31. The actuator list of the platform file: \<open>parse_actuators\<close> accepts exactly the non-empty lists whose
  items are all readable, whose names and whose CAN identifiers are pairwise different and of which
  at least one is enabled, and returns the actuators in file order; everything else raises.
\<close>

theorem parse_actuators_exact:
  "parse_actuators T raw = Inr as \<longleftrightarrow>
     list_all2 (reads_actuator T) raw as \<and> distinct (map pa_name as) \<and> distinct (map pa_can_id as) \<and>
     list_ex pa_enabled as"
  by (auto simp: parse_actuators_def bindE_eq_Inr parse_actuator_items_eq)

section \<open>A loaded configuration\<close>

text \<open>What a loaded platform file satisfies.\<close>

definition platform_ok :: "PlatformConfig \<Rightarrow> bool" where
  "platform_ok p \<longleftrightarrow> distinct (map pa_name (pl_actuators p)) \<and> distinct (map pa_can_id (pl_actuators p)) \<and>
     enabled_actuators p \<noteq> [] \<and> map_of (pl_robots p) (pl_robot_name p) \<noteq> None"

lemma load_platform_ok:
  assumes "load_platform_config T F path = Inr p"
  shows "platform_ok p"
proof -
  from assms obtain raw where a: "parse_actuators T raw = Inr (pl_actuators p)"
    and n: "map_of (pl_robots p) (pl_robot_name p) \<noteq> None"
    by (auto simp: load_platform_config_def Let_def bindE_eq_Inr split: if_splits)
  from a have "distinct (map pa_name (pl_actuators p)) \<and> distinct (map pa_can_id (pl_actuators p)) \<and> list_ex pa_enabled (pl_actuators p)"
    by (auto simp: parse_actuators_def bindE_eq_Inr parse_actuator_items_eq split: if_splits)
  with n show ?thesis by (auto simp: platform_ok_def enabled_actuators_def list_ex_iff filter_empty_conv)
qed

text \<open>What the loader takes over from the platform file.\<close>

definition follows_platform :: "RobotControllerConfig \<Rightarrow> bool" where
  "follows_platform c \<longleftrightarrow>
     (let p = cfg_platform c; sh = cfg_shm c; ca = cfg_can c in
      mc_target_count (sc_mit_command sh) = int (length (enabled_actuators p)) \<and>
      mo_can_ids (ca_motors ca) = map pa_can_id (enabled_actuators p) \<and>
      ca_mit_protocol_range ca = protocol_range (pl_spg_mit p) \<and> ca_interface ca = pc_interface (pl_can p) \<and>
      cd_ipc_socket_path (ca_daemon ca) = pc_daemon_socket (pl_can p) \<and>
      segment_names (ShmManager_init sh) = [ps_mit_command (pl_shm p), ps_aux_command (pl_shm p),
        ps_operator_command (pl_shm p), ps_control_state (pl_shm p), ps_dashboard_state (pl_shm p)])"

lemma parse_shm_takes:
  "parse_shm T p m aux op ctrl dash = Inr sh \<Longrightarrow>
     mc_target_count (sc_mit_command sh) = int (length (enabled_actuators p)) \<and>
     segment_names (ShmManager_init sh) = [ps_mit_command (pl_shm p), ps_aux_command (pl_shm p),
       ps_operator_command (pl_shm p), ps_control_state (pl_shm p), ps_dashboard_state (pl_shm p)]"
  by (auto simp: parse_shm_def parse_state_segment_def bindE_eq_Inr segment_names_def ShmManager_init_def)

lemma parse_can_takes:
  "parse_can T p m dm mo im = Inr ca \<Longrightarrow>
     mo_can_ids (ca_motors ca) = map pa_can_id (enabled_actuators p) \<and>
     ca_mit_protocol_range ca = protocol_range (pl_spg_mit p) \<and> ca_interface ca = pc_interface (pl_can p) \<and>
     cd_ipc_socket_path (ca_daemon ca) = pc_daemon_socket (pl_can p)"
  by (auto simp: parse_can_def parse_daemon_def parse_motors_def bindE_eq_Inr)

lemma load_follows_platform:
  assumes "load_robot_controller_config T F path = Inr c"
  shows "platform_ok (cfg_platform c)" and "follows_platform c"
proof -
  from assms obtain path' p shm_raw aux op ctrl dash can_raw dm mo im where
    p: "load_platform_config T F path' = Inr p" "cfg_platform c = p"
    and shm: "parse_shm T p shm_raw aux op ctrl dash = Inr (cfg_shm c)"
    and can: "parse_can T p can_raw dm mo im = Inr (cfg_can c)"
    by (auto simp: load_robot_controller_config_def bindE_eq_Inr)
  show "platform_ok (cfg_platform c)" using load_platform_ok [OF p(1)] p(2) by simp
  show "follows_platform c"
    using parse_shm_takes [OF shm] parse_can_takes [OF can] by (simp add: follows_platform_def p(2) Let_def)
qed

lemma enabled_ids_distinct: "platform_ok p \<Longrightarrow> distinct (map pa_can_id (enabled_actuators p))"
  by (simp add: platform_ok_def enabled_actuators_def distinct_map_filter)

lemma built_actuators:
  assumes "RobotController_init config processes now = Inr ctl"
  shows "distinct (map fst (ct_actuators ctl))"
    and "fst ` set (ct_actuators ctl) = pa_can_id ` set (enabled_actuators (cfg_platform config))"
    and "ct_config ctl = config"
proof -
  let ?specs = "rb_actuators (robot_spec_from_platform (cfg_platform config))"
  from assms obtain items sm where items: "create_actuator_drivers config ?specs = Inr items" "ct_actuators ctl = items"
    and cfg: "ct_config ctl = config"
    by (auto simp: RobotController_init_def Let_def bindE_eq_Inr)
  have pos: "\<not> fle (pm_iq_full_scale_count (pl_spg_mit (cfg_platform config))) (Fin 0)"
    using items(1) by (auto simp: create_actuator_drivers_def Let_def)
  obtain items' where i': "create_actuator_drivers config ?specs = Inr items'" "distinct (map fst items')"
    "fst ` set items' = sp_can_id ` set ?specs"
    by (rule create_drivers_ok [OF pos])
  have "sp_can_id ` set ?specs = pa_can_id ` set (enabled_actuators (cfg_platform config))"
    using arg_cong [OF specs_can_ids [of "cfg_platform config"], of set]
    by (simp add: robot_spec_from_platform_def spec_can_ids_def)
  with i' items show "distinct (map fst (ct_actuators ctl))"
    "fst ` set (ct_actuators ctl) = pa_can_id ` set (enabled_actuators (cfg_platform config))" by simp_all
  show "ct_config ctl = config" by (rule cfg)
qed

text \<open>
  C32. A controller built from a loaded configuration: the command segment has exactly one slot per
  driver, there is at least one, the drivers serve exactly the configured motor identifiers, which
  are pairwise different, and the protocol ranges and the segment names are those of the platform
  file.
\<close>

theorem loaded_controller_consistent:
  assumes "load_robot_controller_config T F path = Inr config"
    and "RobotController_init config processes now = Inr ctl"
  shows "mc_target_count (sc_mit_command (cfg_shm config)) = int (length (ct_actuators ctl)) \<and>
    ct_actuators ctl \<noteq> [] \<and> mset (map fst (ct_actuators ctl)) = mset (mo_can_ids (ca_motors (cfg_can config))) \<and>
    distinct (mo_can_ids (ca_motors (cfg_can config))) \<and> follows_platform config"
proof -
  note ok = load_follows_platform [OF assms(1)]
  note ctl = built_actuators [OF assms(2)]
  let ?ids = "map pa_can_id (enabled_actuators (cfg_platform config))"
  have d: "distinct ?ids" by (rule enabled_ids_distinct [OF ok(1)])
  have "set (map fst (ct_actuators ctl)) = set ?ids" using ctl(2) by simp
  then have m: "mset (map fst (ct_actuators ctl)) = mset ?ids"
    using d ctl(1) set_eq_iff_mset_eq_distinct by blast
  have l: "length (ct_actuators ctl) = length (enabled_actuators (cfg_platform config))"
    using arg_cong [OF m, of size] by simp
  moreover have "enabled_actuators (cfg_platform config) \<noteq> []" using ok(1) by (simp add: platform_ok_def)
  moreover have "mc_target_count (sc_mit_command (cfg_shm config)) = int (length (enabled_actuators (cfg_platform config)))"
    "mo_can_ids (ca_motors (cfg_can config)) = ?ids"
    using ok(2) by (simp_all add: follows_platform_def Let_def)
  ultimately show ?thesis using m d ok(2) by auto
qed

text \<open>A set of files on which both theorems apply: the repository's configuration with two actuators.\<close>

definition demo_actuator_item :: "string \<Rightarrow> int \<Rightarrow> bool \<Rightarrow> pyval" where
  "demo_actuator_item name can_id enabled =
     PDict [(''name'', PStr name), (''can_id'', PInt can_id), (''enabled'', PBool enabled), (''mujoco_joint'', PStr name),
       (''mujoco_actuator'', PStr name), (''sign'', PFloat (Fin 1)), (''offset_rad'', PFloat (Fin 0))]"

definition demo_platform_file :: pyval where
  "demo_platform_file =
     PDict [(''robot'', PDict [(''name'', PStr ''SPARQ'')]),
       (''robots'', PDict [(''SPARQ'', PDict [(''model_path'', PStr ''m.xml''), (''policy_config_dir'', PStr ''p''),
          (''pd_config_path'', PStr ''pd.yaml'')])]),
       (''can'', PDict [(''interface'', PStr ''vcan0''), (''bitrate'', PInt 1000000), (''daemon_socket'', PStr ''/tmp/s'')]),
       (''shm'', PDict [(''mit_command'', PStr ''m''), (''aux_command'', PStr ''a''), (''operator_command'', PStr ''o''),
          (''control_state'', PStr ''c''), (''dashboard_state'', PStr ''d'')]),
       (''imu'', PDict [(''type'', PStr ''e2box''), (''request_id'', PInt 545), (''quat_id'', PInt 673), (''gyro_id'', PInt 801),
          (''cmd_get_quat'', PInt 1), (''cmd_get_gyro'', PInt 2), (''cmd_get_all'', PInt 3), (''quat_scale'', PFloat (Fin 10000)),
          (''gyro_scale'', PFloat (Fin 100)), (''normalize_quat'', PBool True)]),
       (''spg_mit'', PDict [(''p_max_rad'', PFloat (Fin (25/2))), (''v_max_rad_s'', PFloat (Fin 45)), (''kp_max'', PFloat (Fin 500)),
          (''kd_max'', PFloat (Fin 5)), (''tau_max_nm'', PFloat (Fin 33)), (''feedback_position_max_rad'', PFloat (Fin (25/2))),
          (''iq_full_scale_count'', PFloat (Fin 2048)), (''iq_full_scale_current_a'', PFloat (Fin 33))]),
       (''actuators'', PList [demo_actuator_item ''FL_HR'' 2 True, demo_actuator_item ''FL_HP'' 3 False,
          demo_actuator_item ''FL_KP'' 4 True])]"

definition demo_state_file :: pyval where
  "demo_state_file = PDict [(''size_bytes'', PInt 16384), (''publish_hz'', PFloat (Fin 50))]"

definition demo_controller_file :: pyval where
  "demo_controller_file =
     PDict [(''platform_config'', PStr ''platform.yaml''), (''processes_config'', PStr ''processes.yaml''),
       (''runtime'', PDict [(''mode'', PStr ''simulation'')]),
       (''hardware'', PDict [(''allow_real_can'', PBool False), (''require_manual_arm'', PBool True), (''require_estop'', PBool True),
          (''allow_enable_on_start'', PBool False), (''allowed_can_interfaces'', PList [PStr ''vcan0''])]),
       (''safety'', PDict [(''velocity_damping_kd'', PFloat (Fin (1/2))), (''damping_timeout_s'', PFloat (Fin 2)),
          (''command_loss_action'', PStr ''damping''), (''feedback_stale_action'', PStr ''damping'')]),
       (''state_machine'', PDict [(''enable_duration_s'', PFloat (Fin (1/2)))]),
       (''robot_controller'', PDict [(''name'', PStr ''rc''), (''control_hz'', PFloat (Fin 500)), (''shutdown_timeout_s'', PFloat (Fin 2))]),
       (''shm'', PDict [(''cleanup_stale_on_start'', PBool True), (''unlink_on_shutdown'', PBool True), (''aux_command'', demo_state_file),
          (''operator_command'', demo_state_file), (''control_state'', demo_state_file), (''dashboard_state'', demo_state_file)]),
       (''can'', PDict [(''command_timeout_s'', PFloat (Fin (1/4))), (''bringup_delay_s'', PFloat (Fin 0)),
          (''daemon'', PDict [(''rx_timeout_s'', PFloat (Fin (1/4))), (''tx_timeout_s'', PFloat (Fin (1/4))),
             (''join_timeout_s'', PFloat (Fin 2)), (''max_tx_queue_size'', PInt 64), (''send_block'', PBool False),
             (''send_timeout_s'', PNone), (''connect_timeout_s'', PFloat (Fin 2))]),
          (''motors'', PDict [(''enter_on_start'', PBool False), (''exit_on_shutdown'', PBool True), (''set_zero_on_start'', PBool False)]),
          (''imu'', PDict [(''enabled'', PBool True), (''request_all_on_start'', PBool True), (''request_all_each_tick'', PBool True),
             (''startup_request_count'', PInt 3), (''startup_request_delay_s'', PFloat (Fin 0))])])]"

definition demo_processes_file :: pyval where
  "demo_processes_file =
     PDict [(''processes'', PList [PDict [(''name'', PStr ''can_daemon''), (''command'', PList [PStr ''python'', PStr ''-m'']),
       (''start_order'', PInt 10), (''stop_order'', PInt 90), (''new_terminal'', PBool False), (''terminal_command'', PList []),
       (''working_dir'', PStr ''.''), (''env'', PDict [])]])]"

definition demo_files :: "pyval \<Rightarrow> config_files" where
  "demo_files platform =
     \<lparr>cf_load = (\<lambda>path. case map_of [(''rc.yaml'', demo_controller_file), (''platform.yaml'', platform),
          (''processes.yaml'', demo_processes_file)] path of Some v \<Rightarrow> Inr v | None \<Rightarrow> Inl (FileNotFoundError path)),
      cf_resolve = id, cf_beside = (\<lambda>base value. value)\<rparr>"

lemmas load_eval = load_robot_controller_config_def load_platform_config_def load_yaml_mapping_def demo_files_def
  demo_controller_file_def demo_platform_file_def demo_processes_file_def demo_state_file_def
  c_str_def c_require_key_def c_require_mapping_def c_require_list_def c_require_bool_def c_require_float_def
  c_require_int_def optional_float_or_none_def resolve_config_path_def require_mapping_def require_list_def require_key_def
  key_str_def key_int_def key_float_def key_bool_def parse_int_def Let_def
  parse_robot_assets_def parse_robot_asset_def parse_platform_can_def parse_platform_shm_def parse_platform_imu_def
  parse_platform_spg_mit_def parse_actuators_def demo_actuator_item_def load_processes_def process_config_def
  parse_hardware_def parse_safety_def parse_core_def parse_shm_def parse_state_segment_def parse_can_def parse_daemon_def
  parse_motors_def parse_imu_def enumerate_eq_zip

lemma demo_loads:
  obtains c where "load_robot_controller_config demo_text (demo_files demo_platform_file) ''rc.yaml'' = Inr c"
    and "pm_iq_full_scale_count (pl_spg_mit (cfg_platform c)) = Fin 2048" and "cfg_enable_duration_s c = Fin (1/2)"
    and "mc_target_count (sc_mit_command (cfg_shm c)) = 2"
proof -
  have "\<exists>c. load_robot_controller_config demo_text (demo_files demo_platform_file) ''rc.yaml'' = Inr c \<and>
    pm_iq_full_scale_count (pl_spg_mit (cfg_platform c)) = Fin 2048 \<and> cfg_enable_duration_s c = Fin (1/2) \<and>
    mc_target_count (sc_mit_command (cfg_shm c)) = 2"
    by (simp add: load_eval enabled_actuators_def)
  then show thesis using that by blast
qed

theorem loaded_controller_consistent_witness:
  "\<exists>c ctl. load_robot_controller_config demo_text (demo_files demo_platform_file) ''rc.yaml'' = Inr c \<and>
     RobotController_init c (ProcessSupervisor_init [] Map.empty {} 2) (Fin 0) = Inr ctl \<and> length (ct_actuators ctl) = 2"
proof -
  obtain c where c: "load_robot_controller_config demo_text (demo_files demo_platform_file) ''rc.yaml'' = Inr c"
    "pm_iq_full_scale_count (pl_spg_mit (cfg_platform c)) = Fin 2048" "cfg_enable_duration_s c = Fin (1/2)"
    "mc_target_count (sc_mit_command (cfg_shm c)) = 2"
    by (rule demo_loads)
  have pos: "\<not> fle (pm_iq_full_scale_count (pl_spg_mit (cfg_platform c))) (Fin 0)" by (simp add: c(2))
  obtain ctl where ctl: "RobotController_init c (ProcessSupervisor_init [] Map.empty {} 2) (Fin 0) = Inr ctl"
    using create_drivers_ok [OF pos, of "rb_actuators (robot_spec_from_platform (cfg_platform c))"]
    by (metis (no_types, lifting) RobotController_init_def ControllerStateMachine_init_def bindE_Inr c(3) flt.simps(1)
        zero_le_divide_1_iff zero_le_numeral linorder_not_less)
  have "int (length (ct_actuators ctl)) = 2"
    using loaded_controller_consistent [OF c(1) ctl] c(4) by linarith
  with c(1) ctl show ?thesis by auto
qed

section \<open>Validation\<close>

lemma validate_config_ok: "validate_config c = Inr () \<longleftrightarrow> list_all (\<lambda>(bad, _). \<not> bad) (config_checks c)"
proof (cases "find fst (config_checks c)")
  case None
  then have "validate_config c = Inr ()" "\<forall>x \<in> set (config_checks c). \<not> fst x"
    by (simp add: validate_config_def, auto simp: find_None_iff)
  then show ?thesis by (auto simp: list_all_iff)
next
  case (Some x)
  then have "x \<in> set (config_checks c)" "fst x" by (auto simp: find_Some_iff)
  with Some show ?thesis by (cases x) (auto simp: validate_config_def list_all_iff)
qed

lemma configs_by_name_keys: "fst ` set (configs_by_name configs) = pr_name ` set configs"
  using foldl_update_dom [of "[]" "map (\<lambda>c. (pr_name c, c)) configs"]
  by (simp add: configs_by_name_def foldl_map image_image)

lemma card_five_distinct: "card {a, b, c, d, e} = 5 \<Longrightarrow> distinct [a, b, c, d, e]"
  using card_distinct [of "[a, b, c, d, e]"] by simp


text \<open>
  The demonstration configuration completed to what the validator asks for, with a given stiffness range.
\<close>

definition demo_valid_config :: "real \<Rightarrow> RobotControllerConfig" where
  "demo_valid_config kp =
     demo_config\<lparr>cfg_runtime_mode := ''simulation'',
       cfg_shm := (cfg_shm demo_config)\<lparr>sc_mit_command := \<lparr>mc_name = ''m'', mc_target_count = 1\<rparr>,
         sc_operator_command := \<lparr>op_name = ''o'', op_size_bytes = 4096\<rparr>\<rparr>,
       cfg_can := (cfg_can demo_config)\<lparr>ca_mit_protocol_range :=
         (ca_mit_protocol_range (cfg_can demo_config))\<lparr>mp_kp := Fin kp\<rparr>\<rparr>,
       cfg_processes := [\<lparr>pr_name = ''can_daemon'', pr_command = [''python''], pr_start_order = 10, pr_stop_order = 90,
         pr_new_terminal = False, pr_terminal_command = [], pr_working_dir = ''.'', pr_env = []\<rparr>]\<rparr>"

lemma demo_valid: "0 \<le> kp \<Longrightarrow> validate_config (demo_valid_config kp) = Inr ()"
  by (simp add: validate_config_ok config_checks_def demo_valid_config_def demo_config_def demo_segment_def card_insert_if Let_def)


text \<open>
  A stiffness range of zero is accepted by the validator, and then no impedance command, not even
  the damping one, can be encoded: the conversion divides by the range.
\<close>

lemma zero_stiffness_range_breaks_damping:
  "validate_config (demo_valid_config 0) = Inr () \<and>
   (\<exists>m. pack_mit_payload (controller_mit_config (demo_valid_config 0)) (Fin 0) (Fin 0) (Fin 0) (Fin (1/2)) (Fin 0) =
      Inl (ZeroDivisionError m))"
proof
  show "validate_config (demo_valid_config 0) = Inr ()" by (rule demo_valid) simp
  show "\<exists>m. pack_mit_payload (controller_mit_config (demo_valid_config 0)) (Fin 0) (Fin 0) (Fin 0) (Fin (1/2)) (Fin 0) =
      Inl (ZeroDivisionError m)"
  proof -
    let ?cfg = "controller_mit_config (demo_valid_config 0)"
    have cfg: "mit_p_max ?cfg = Fin (25/2)" "mit_v_max ?cfg = Fin 45" "mit_kp_max ?cfg = Fin 0" "mit_kd_max ?cfg = Fin 5"
      "mit_tau_max ?cfg = Fin 33"
      by (simp_all add: controller_mit_config_def demo_valid_config_def demo_config_def)
    obtain p where "float_to_uint (Fin 0) (fneg (Fin (25/2))) (Fin (25/2)) 16 = Inr p"
      by (rule float_to_uint_signed [of "Fin (25/2)" 0 16]) simp_all
    moreover obtain v where "float_to_uint (Fin 0) (fneg (Fin 45)) (Fin 45) 12 = Inr v"
      by (rule float_to_uint_signed [of "Fin 45" 0 12]) simp_all
    moreover have "float_to_uint (Fin 0) (Fin 0) (Fin 0) 12 = Inl (ZeroDivisionError ''float division by zero'')"
      by (simp add: float_to_uint_def require_range_def fsub_def Let_def)
    ultimately show ?thesis by (simp add: pack_mit_payload_def cfg require_range_def)
  qed
qed

end
