(* ===== verification/Controller_Run.thy ===== *)
theory Controller_Run
  imports Controller_Lifecycle Config_Facts
begin

text \<open>
  The controller process around the controller: the paced loop \<open>RobotController.run\<close> and the entry point
  \<open>robot_controller/main.py\<close>, which starts, runs and always shuts down. A round of the loop carries what
  happens while the loop sleeps: frames received, what other processes do to the shared memory, a signal.
\<close>

section \<open>The loop\<close>

record run_round =
  rd_others :: "shm_os \<Rightarrow> shm_os"
  rd_frames :: "can_frame list"
  rd_signal :: bool
  rd_ended :: pyfloat

text \<open>The deadline of the next tick, from the present one and the clock after the tick.\<close>

definition next_deadline :: "pyfloat \<Rightarrow> pyfloat \<Rightarrow> pyfloat \<Rightarrow> pyfloat" where
  "next_deadline control_period_s next_t now =
     (let t = fadd next_t control_period_s in if flt t now then fadd now control_period_s else t)"

definition while_asleep :: "run_round \<Rightarrow> controller \<times> env \<Rightarrow> controller \<times> env" where
  "while_asleep r s =
     (let s1 = fold receive_frame (rd_frames r) (fst s, (snd s)\<lparr>env_shm := rd_others r (env_shm (snd s))\<rparr>)
      in if rd_signal r then (request_stop (fst s1), snd s1) else s1)"

fun run_rounds :: "pyfloat \<Rightarrow> pyfloat \<Rightarrow> run_round list \<Rightarrow> pyfloat ctl" where
  "run_rounds control_period_s next_t [] s = (Inr next_t, s)"
| "run_rounds control_period_s next_t (r # rs) s =
     (if \<not> ct_running (fst s) then (Inr next_t, s)
      else let s1 = while_asleep r s in
        if \<not> ct_running (fst s1) then (Inr next_t, s1)
        else bindA tick (\<lambda>_. run_rounds control_period_s (next_deadline control_period_s next_t (rd_ended r)) rs) s1)"

definition controller_run :: "pyfloat \<Rightarrow> run_round list \<Rightarrow> pyfloat ctl" where
  "controller_run start_t rounds s =
     bindA (liftA (fdiv (Fin 1) (rk_control_hz (cfg_robot_controller (ct_config (fst s))))))
       (\<lambda>control_period_s. run_rounds control_period_s start_t rounds) s"

section \<open>The process\<close>

text \<open>\<open>try ... finally\<close>: an exception of the last part replaces the one before.\<close>

definition finallyA :: "('s, 'a) action \<Rightarrow> ('s, 'b) action \<Rightarrow> ('s, 'a) action" where
  "finallyA m f s =
     (case m s of (r, s1) \<Rightarrow> (case f s1 of (Inl x, s2) \<Rightarrow> (Inl x, s2) | (Inr _, s2) \<Rightarrow> (r, s2)))"

definition main_body :: "sup_world \<Rightarrow> (string \<Rightarrow> string) \<Rightarrow> pyfloat \<Rightarrow> run_round list \<Rightarrow> pyfloat ctl" where
  "main_body W log_file_for start_t rounds =
     finallyA (bindA (start W log_file_for) (\<lambda>_. controller_run start_t rounds)) (shutdown W)"

text \<open>\<open>main\<close>; the supervisor is made of the loaded processes by the constructor.\<close>

definition controller_main ::
  "sup_world \<Rightarrow> py_text \<Rightarrow> config_files \<Rightarrow> (ProcessConfig list \<Rightarrow> supervisor) \<Rightarrow> (string \<Rightarrow> string) \<Rightarrow> string \<Rightarrow>
   pyfloat \<Rightarrow> pyfloat \<Rightarrow> run_round list \<Rightarrow> env \<Rightarrow> pyfloat result \<times> controller option \<times> env" where
  "controller_main W T F supervisor_of log_file_for config_path now start_t rounds e =
     (case bindE (load_robot_controller_config T F config_path) (\<lambda>config.
          RobotController_init config (supervisor_of (cfg_processes config)) now) of
        Inl x \<Rightarrow> (Inl x, None, e)
      | Inr c \<Rightarrow> (case main_body W log_file_for start_t rounds (c, e) of (r, (c', e')) \<Rightarrow> (r, Some c', e')))"

text \<open>After a successful start the process runs and shuts down; after a failed one it has shut down already.\<close>

lemma main_body_started:
  "start W log_file_for s = (Inr u, s1) \<Longrightarrow>
     main_body W log_file_for start_t rounds s = finallyA (controller_run start_t rounds) (shutdown W) s1"
  by (simp add: main_body_def finallyA_def bindA_def)

lemma main_body_failed:
  assumes "start W log_file_for s = (Inl x, s1)" and "ct_controller_state (fst s1) = STOPPED"
  shows "main_body W log_file_for start_t rounds s = (Inl x, s1)"
proof -
  have "shutdown W s1 = (Inr (), s1)" using assms(2) unfolding shutdown_def by (cases s1) simp
  then show ?thesis using assms(1) by (simp add: main_body_def finallyA_def bindA_def)
qed

section \<open>What a round keeps\<close>

definition good :: "controller \<times> env \<Rightarrow> bool" where
  "good s \<longleftrightarrow> publishers_ready s \<and> actuators_ok (fst s)"

text \<open>Set-up apart from the flag that ends the loop.\<close>

definition same_job :: "controller \<Rightarrow> controller \<Rightarrow> bool" where
  "same_job c c' \<longleftrightarrow> ct_config c' = ct_config c \<and> protocols (ct_actuators c') = protocols (ct_actuators c) \<and>
     ct_processes c' = ct_processes c \<and> ct_shm_manager c' = ct_shm_manager c \<and>
     ct_controller_state c' = ct_controller_state c"

lemma same_job_trans: "same_job a b \<Longrightarrow> same_job b c \<Longrightarrow> same_job a c"
  by (simp add: same_job_def)

lemma same_job_refl [simp]: "same_job c c"
  by (simp add: same_job_def)

lemma same_job_keeps: "keeps_setup c c' \<Longrightarrow> same_job c c'"
  by (simp add: keeps_setup_def same_job_def)

text \<open>A tick that ends early changes neither set-up nor segments; the last thing a full one does is to publish.\<close>

lemma tick_shape:
  assumes "tick (c, e) = (r, (c', e'))"
  obtains c6 e6 where "keeps_setup c c6" and "ct_shm_state_publisher c6 = ct_shm_state_publisher c"
    and "ct_dashboard_publisher c6 = ct_dashboard_publisher c" and "env_shm e6 = env_shm e"
    and "(c', e') = (c6, e6) \<or> publish_state False (c6, e6) = (r, (c', e'))"
proof -
  note shape = that
  obtain now e1 where t: "time_monotonic e = (now, e1)" by (cases "time_monotonic e")
  then have e1: "env_shm e1 = env_shm e" by (auto simp: time_monotonic_def)
  obtain r2 c2 e2 where req: "request_imu_on_tick (c, e1) = (r2, (c2, e2))" by (metis surj_pair)
  from sends_request_imu [of "(c, e1)"] req have core: "same_core c c2" "env_shm e2 = env_shm e"
    using e1 by (auto simp: sends_def)
  have early: thesis if "c' = c2" "e' = e2"
    using that core same_core_keeps [OF core(1)] by (intro shape [of c2 e2]) (simp_all add: same_core_def)
  show thesis
  proof (cases "tick_command c e")
    case (Inl x)
    then have "c' = c2 \<and> e' = e2"
      using assms t req core
      by (cases r2; cases "ct_operator_cmd_shm c")
        (auto simp: tick_def bindA_def tick_command_def bindE_def same_core_def split: sum.splits)
    then show thesis using early by simp
  next
    case (Inr op)
    show thesis
    proof (cases r2)
      case (Inl x)
      with assms t req have "c' = c2" "e' = e2" by (auto simp: tick_def bindA_def)
      then show thesis by (rule early)
    next
      case r2: (Inr u)
      obtain c5 where tick: "tick (c, e) = bindA (mode_output op) (\<lambda>_. publish_state False) (c5, e2)"
        and c5: "keeps_setup c c5" "ct_shm_state_publisher c5 = ct_shm_state_publisher c"
          "ct_dashboard_publisher c5 = ct_dashboard_publisher c"
        using tick_unfold [OF Inr t req [unfolded r2] core] by metis
      obtain r6 c6 e6 where m: "mode_output op (c5, e2) = (r6, (c6, e6))" by (metis surj_pair)
      from sends_mode_output [of "(c5, e2)" op] m have c6: "same_core c5 c6" "env_shm e6 = env_shm e2" by (auto simp: sends_def)
      have "(c', e') = (c6, e6) \<or> publish_state False (c6, e6) = (r, (c', e'))"
        using tick assms m by (cases r6) (auto simp: bindA_def)
      then show thesis
        using shape [of c6 e6] keeps_setup_trans [OF c5(1) same_core_keeps [OF c6(1)]] c5 c6 core by (simp add: same_core_def)
    qed
  qed
qed

lemma tick_good:
  assumes "good s" and "tick s = (r, s')"
  shows "good s' \<and> same_job (fst s) (fst s') \<and> ct_running (fst s') = ct_running (fst s)"
proof -
  obtain c e c' e' where s: "s = (c, e)" "s' = (c', e')" by (metis surj_pair)
  obtain c6 e6 where k6: "keeps_setup c c6" "ct_shm_state_publisher c6 = ct_shm_state_publisher c"
      "ct_dashboard_publisher c6 = ct_dashboard_publisher c" "env_shm e6 = env_shm e"
    and p: "(c', e') = (c6, e6) \<or> publish_state False (c6, e6) = (r, (c', e'))"
    using tick_shape assms(2) unfolding s by blast
  have g6: "good (c6, e6)"
    using assms(1) k6 actuators_ok_keeps [OF k6(1)] by (simp add: good_def s publishers_ready_def)
  have g: "keeps_setup c c' \<and> publishers_ready (c', e')"
    using p
  proof
    assume "(c', e') = (c6, e6)"
    then show ?thesis using k6(1) g6 by (simp add: good_def)
  next
    assume p: "publish_state False (c6, e6) = (r, (c', e'))"
    have "keeps_setup c6 c'" using publish_state_keeps [of "(c6, e6)" False] g6 p by (auto simp: good_def keeps_mode_def)
    then have "keeps_setup c c'" using k6(1) keeps_setup_trans by blast
    moreover have "publishers_ready (c', e')" using publish_state_ok [of "(c6, e6)" False] g6 p by (auto simp: good_def)
    ultimately show ?thesis by blast
  qed
  then show ?thesis
    using actuators_ok_keeps [of c c'] assms(1) same_job_keeps by (simp add: s good_def keeps_setup_def)
qed

definition same_segments :: "controller \<times> env \<Rightarrow> controller \<times> env \<Rightarrow> bool" where
  "same_segments s s' \<longleftrightarrow> ct_shm_state_publisher (fst s') = ct_shm_state_publisher (fst s) \<and>
     ct_dashboard_publisher (fst s') = ct_dashboard_publisher (fst s) \<and> env_shm (snd s') = env_shm (snd s)"

lemma same_segments_trans: "same_segments a b \<Longrightarrow> same_segments b c \<Longrightarrow> same_segments a c"
  by (simp add: same_segments_def)

lemma run_callback_segments: "same_segments s (snd (run_callback cb frame s))"
proof (cases cb)
  case (Cb_actuator k)
  obtain c e where s: "s = (c, e)" by (cases s)
  obtain b t e1 where echo: "is_recent_tx_echo frame (ct_can c, e) = (b, (t, e1))" by (metis surj_pair)
  then have "env_shm e1 = env_shm e" by (auto simp: is_recent_tx_echo_def time_monotonic_def Let_def)
  then show ?thesis
    using Cb_actuator s echo
    by (auto simp: run_callback_def on_actuator_frame_def Let_def same_segments_def time_monotonic_def split: option.splits)
qed (cases s, auto simp: run_callback_def same_segments_def time_monotonic_def)

lemma receive_frame_segments: "same_segments s (receive_frame frame s)"
proof (cases "tp_client (ct_can (fst s))")
  case (Some client)
  have "same_segments s (snd (dispatch run_callback (cl_dispatcher client) frame s))"
    by (rule dispatch_keeps [of "same_segments s"])
      (rule same_segments_trans, assumption, rule run_callback_segments, simp add: same_segments_def)
  with Some show ?thesis by (simp add: receive_frame_def)
qed (simp add: receive_frame_def same_segments_def)

lemma receive_frame_good:
  assumes "good s"
  shows "good (receive_frame frame s) \<and> same_job (fst s) (fst (receive_frame frame s))"
proof -
  have k: "keeps_setup (fst s) (fst (receive_frame frame s))" using receive_frame_keeps by (simp add: keeps_mode_def)
  then show ?thesis
    using assms receive_frame_segments [of s frame] actuators_ok_keeps [OF k] same_job_keeps
    by (simp add: good_def publishers_ready_def same_segments_def)
qed

lemma receive_frames_good:
  "good s \<Longrightarrow> good (fold receive_frame fs s) \<and> same_job (fst s) (fst (fold receive_frame fs s))"
proof (induction fs arbitrary: s)
  case (Cons f fs)
  then show ?case using receive_frame_good [OF Cons.prems, of f] same_job_trans by fastforce
qed simp

text \<open>Other processes write into the segments and do not resize them.\<close>

definition no_resize :: "run_round \<Rightarrow> bool" where
  "no_resize r \<longleftrightarrow> (\<forall>os i. length (os_mem (rd_others r os) i) = length (os_mem os i))"

lemma while_asleep_good:
  assumes "good s" and "no_resize r"
  shows "good (while_asleep r s) \<and> same_job (fst s) (fst (while_asleep r s))"
proof -
  let ?s = "(fst s, (snd s)\<lparr>env_shm := rd_others r (env_shm (snd s))\<rparr>)"
  have "publisher_ready p (rd_others r os) = publisher_ready p os" for p os
    using assms(2) by (intro publisher_ready_lengths) (simp add: no_resize_def)
  then have "good ?s" using assms(1) by (simp add: good_def publishers_ready_def)
  from receive_frames_good [OF this, of "rd_frames r"] show ?thesis
    by (simp add: while_asleep_def Let_def good_def publishers_ready_def actuators_ok_def same_job_def request_stop_def)
qed

lemma run_rounds_good:
  assumes "good s" and "\<forall>r \<in> set rounds. no_resize r" and "run_rounds P t rounds s = (res, s')"
  shows "good s' \<and> same_job (fst s) (fst s')"
  using assms
proof (induction rounds arbitrary: t s)
  case (Cons r rs)
  have w: "good (while_asleep r s)" "same_job (fst s) (fst (while_asleep r s))"
    using while_asleep_good [OF Cons.prems(1)] Cons.prems(2) by simp_all
  show ?case
  proof (cases "ct_running (fst s) \<and> ct_running (fst (while_asleep r s))")
    case False
    then have "s' = s \<or> s' = while_asleep r s" using Cons.prems(3) by (auto simp: Let_def split: if_splits)
    then show ?thesis using Cons.prems(1) w by auto
  next
    case True
    obtain v s2 where t2: "tick (while_asleep r s) = (v, s2)" by (cases "tick (while_asleep r s)")
    note g2 = tick_good [OF w(1) t2]
    have j: "same_job (fst s) (fst s2)" using g2 w(2) same_job_trans by blast
    show ?thesis
    proof (cases v)
      case (Inl x)
      then show ?thesis using Cons.prems(3) True t2 g2 j by (simp add: Let_def bindA_def)
    next
      case (Inr snap)
      then have "run_rounds P (next_deadline P t (rd_ended r)) rs s2 = (res, s')"
        using Cons.prems(3) True t2 by (simp add: Let_def bindA_def)
      then show ?thesis using Cons.IH g2 Cons.prems(2) j same_job_trans by (metis list.set_intros(2))
    qed
  qed
qed simp

section \<open>The loop is an interleaving of the controller's steps\<close>

lemma ctl_run_append: "ctl_run s ls t \<Longrightarrow> ctl_run t ms u \<Longrightarrow> ctl_run s (ls @ ms) u"
  by (induction rule: ctl_run.induct) (auto intro: ctl_run.cons)

lemma receive_frames_run: "\<exists>ls. ctl_run s ls (fold receive_frame fs s)"
proof (induction fs arbitrary: s)
  case Nil
  show ?case using ctl_run.nil [of s] by auto
next
  case (Cons f fs)
  obtain ls where "ctl_run (receive_frame f s) ls (fold receive_frame fs (receive_frame f s))" using Cons.IH by blast
  then have "ctl_run s (None # ls) (fold receive_frame (f # fs) s)" by (auto intro: ctl_run.cons ctl_step.receive)
  then show ?case by blast
qed

lemma while_asleep_run: "\<exists>ls t. ctl_run s ls t \<and>
    while_asleep r s = (if rd_signal r then (request_stop (fst t), snd t) else t)"
proof -
  let ?s = "(fst s, (snd s)\<lparr>env_shm := rd_others r (env_shm (snd s))\<rparr>)"
  obtain ls where "ctl_run ?s ls (fold receive_frame (rd_frames r) ?s)" using receive_frames_run by blast
  moreover have "ctl_step s None ?s" using ctl_step.outside [of "snd ?s" "snd s" "fst s"] by simp
  ultimately have "ctl_run s (None # ls) (fold receive_frame (rd_frames r) ?s)" by (rule ctl_run.cons [rotated])
  then show ?thesis unfolding while_asleep_def Let_def by blast
qed

lemma tick_run:
  assumes "tick s = (r, s')"
  shows "\<exists>l. ctl_run s [l] s'"
proof -
  obtain c e where s: "s = (c, e)" by (cases s)
  show ?thesis
  proof (cases "tick_command c e")
    case (Inl x)
    from ctl_step.blind [OF Inl assms [unfolded s]] s ctl_run.nil show ?thesis by (blast intro: ctl_run.cons)
  next
    case (Inr op)
    from ctl_step.tick [OF Inr assms [unfolded s]] s ctl_run.nil show ?thesis by (blast intro: ctl_run.cons)
  qed
qed

text \<open>A signal only clears the flag of the loop.\<close>

definition up_to_stop :: "controller \<times> env \<Rightarrow> controller \<times> env \<Rightarrow> bool" where
  "up_to_stop u s \<longleftrightarrow> s = u \<or> s = (request_stop (fst u), snd u)"

lemma run_rounds_run:
  "run_rounds P t rounds s = (res, s') \<Longrightarrow> \<exists>ls u. ctl_run s ls u \<and> up_to_stop u s'"
proof (induction rounds arbitrary: t s)
  case Nil
  then have "up_to_stop s s'" by (simp add: up_to_stop_def)
  then show ?case using ctl_run.nil [of s] by blast
next
  case (Cons r rs)
  obtain ls w where w: "ctl_run s ls w" "while_asleep r s = (if rd_signal r then (request_stop (fst w), snd w) else w)"
    using while_asleep_run by blast
  show ?case
  proof (cases "ct_running (fst s) \<and> ct_running (fst (while_asleep r s))")
    case False
    then have "s' = s \<or> s' = while_asleep r s" using Cons.prems by (auto simp: Let_def split: if_splits)
    then have "up_to_stop s s' \<or> up_to_stop w s'" using w(2) by (auto simp: up_to_stop_def)
    then show ?thesis using w(1) ctl_run.nil [of s] by blast
  next
    case True
    then have ws: "while_asleep r s = w" using w(2) by (auto simp: request_stop_def split: if_splits)
    obtain v s2 where t2: "tick w = (v, s2)" by (cases "tick w")
    then obtain l where l: "ctl_run s (ls @ [l]) s2" using tick_run ctl_run_append [OF w(1)] by blast
    show ?thesis
    proof (cases v)
      case (Inl x)
      then have "up_to_stop s2 s'" using Cons.prems True ws t2 by (simp add: Let_def bindA_def up_to_stop_def)
      then show ?thesis using l by blast
    next
      case (Inr snap)
      then have "run_rounds P (next_deadline P t (rd_ended r)) rs s2 = (res, s')"
        using Cons.prems True ws t2 by (simp add: Let_def bindA_def)
      from Cons.IH [OF this] show ?thesis using ctl_run_append [OF l] by blast
    qed
  qed
qed

lemma controller_run_facts:
  assumes "good s" and "\<forall>r \<in> set rounds. no_resize r" and "controller_run start_t rounds s = (res, s')"
  shows "good s' \<and> same_job (fst s) (fst s') \<and> (\<exists>ls u. ctl_run s ls u \<and> up_to_stop u s')"
proof (cases "fdiv (Fin 1) (rk_control_hz (cfg_robot_controller (ct_config (fst s))))")
  case (Inl x)
  then have "s' = s" using assms(3) by (simp add: controller_run_def bindA_def)
  then have "up_to_stop s s'" by (simp add: up_to_stop_def)
  then show ?thesis using assms(1) ctl_run.nil [of s] \<open>s' = s\<close> same_job_refl by metis
next
  case (Inr P)
  then have r: "run_rounds P start_t rounds s = (res, s')" using assms(3) by (simp add: controller_run_def bindA_def)
  show ?thesis using run_rounds_good [OF assms(1,2) r] run_rounds_run [OF r] by blast
qed

section \<open>Pacing\<close>

lemma deadline_not_past:
  assumes "is_double t" and "at_least 0 P"
  shows "\<not> flt (next_deadline P next_t (Fin t)) (Fin t)"
proof -
  have "at_least t (fadd (Fin t) P)" using assms by (intro fadd_at_least [where A = t and B = 0]) (auto simp: at_least_def)
  then show ?thesis by (auto simp: next_deadline_def Let_def at_least_def)
qed

section \<open>Properties\<close>

lemma disable_frames_protocols:
  assumes "protocols xs = protocols ys"
  shows "map (\<lambda>(_, d). make_disable_frame d) xs = map (\<lambda>(_, d). make_disable_frame d) ys"
proof -
  have "map (\<lambda>(_, d). make_disable_frame d) zs = map (encode_disable_frame \<circ> snd) (protocols zs)" for zs
    by (simp add: protocols_def make_disable_frame_def case_prod_unfold)
  then show ?thesis using assms by simp
qed


definition demo_rounds :: "run_round list" where
  "demo_rounds = [\<lparr>rd_others = id, rd_frames = [\<lparr>fr_can_id = 0x141, fr_data = []\<rparr>], rd_signal = False, rd_ended = Fin 1\<rparr>,
     \<lparr>rd_others = id, rd_frames = [], rd_signal = True, rd_ended = Fin 2\<rparr>]"


end
