(* ===== verification/Can_Process.thy ===== *)
theory Can_Process
  imports Can_Ipc Config_Facts
begin

text \<open>
  The CAN daemon process (\<open>robot_controller/subprocesses/can_daemon/main.py\<close>): start-up, the accept loop,
  a handler thread per client, the subscribers of received frames, and shutdown. The threads are
  interleaved: an event is one round of the main loop, of a client's handler, or of the receive or
  transmit thread of the CAN daemon inside the process. What the sockets do is part of the event.
\<close>

section \<open>State\<close>

datatype client_phase = Greeting | Transmitting | Receiving | Ended

text \<open>
  The fields of \<open>CANSubprocessDaemon\<close>, the file at the socket's path, whether the accept loop runs,
  and what has happened: the messages written to clients, the frames received from the bus, those
  taken over from clients and those put on the wire.
\<close>

record can_process =
  dp_config :: RobotControllerConfig
  dp_replace_existing_socket :: bool
  dp_subscribers :: "nat list"
  dp_stop_event :: bool
  dp_server_sock :: bool
  dp_can_bus :: bool
  dp_can_daemon :: "can_daemon option"
  dp_clients :: "nat \<Rightarrow> client_phase option"
  dp_socket_exists :: bool
  dp_serving :: bool
  dp_written :: "(nat \<times> pyval) list"
  dp_received :: "can_frame list"
  dp_accepted :: "can_frame list"
  dp_taken :: "can_frame list"
  dp_wire :: "byte list list"

definition CANSubprocessDaemon_init ::
  "py_text \<Rightarrow> config_files \<Rightarrow> string \<Rightarrow> bool \<Rightarrow> bool \<Rightarrow> can_process result" where
  "CANSubprocessDaemon_init T F config_path replace_existing_socket socket_exists =
     bindE (load_robot_controller_config T F config_path) (\<lambda>config.
       Inr \<lparr>dp_config = config, dp_replace_existing_socket = replace_existing_socket, dp_subscribers = [],
         dp_stop_event = False, dp_server_sock = False, dp_can_bus = False, dp_can_daemon = None,
         dp_clients = Map.empty, dp_socket_exists = socket_exists, dp_serving = False, dp_written = [],
         dp_received = [], dp_accepted = [], dp_taken = [], dp_wire = []\<rparr>)"

section \<open>Start-up and shutdown\<close>

text \<open>\<open>opened\<close> and \<open>own_off\<close> are what opening the bus and switching off its own frames give.\<close>

definition start_can :: "unit result \<Rightarrow> unit result \<Rightarrow> (can_process, unit) action" where
  "start_can opened own_off p =
     (case opened of
        Inl x \<Rightarrow> (Inl x, p)
      | Inr _ \<Rightarrow>
          let p1 = p\<lparr>dp_can_bus := True\<rparr> in
          (case own_off of
             Inl x \<Rightarrow> (Inl x, p1)
           | Inr _ \<Rightarrow> (Inr (), p1\<lparr>dp_can_daemon := Some (CANDaemon_start (CANDaemon_init
               (nat (CANDaemonConfig.cd_max_tx_queue_size (ca_daemon (cfg_can (dp_config p)))))))\<rparr>)))"

text \<open>\<open>bound\<close> is what creating, binding and listening gives.\<close>

definition start_server :: "unit result \<Rightarrow> (can_process, unit) action" where
  "start_server bound p =
     (if dp_socket_exists p \<and> \<not> dp_replace_existing_socket p
      then (Inl (RuntimeError (''CAN daemon IPC socket already exists: '' @
        cd_ipc_socket_path (ca_daemon (cfg_can (dp_config p))))), p)
      else let p1 = p\<lparr>dp_socket_exists := False, dp_server_sock := True\<rparr> in
        (case bound of Inl x \<Rightarrow> (Inl x, p1) | Inr _ \<Rightarrow> (Inr (), p1\<lparr>dp_socket_exists := True\<rparr>)))"

definition process_shutdown :: "can_process \<Rightarrow> can_process" where
  "process_shutdown p =
     p\<lparr>dp_stop_event := True, dp_server_sock := False, dp_can_daemon := None, dp_can_bus := False,
       dp_socket_exists := False, dp_serving := False\<rparr>"

text \<open>\<open>run\<close> up to its loop.\<close>

definition run_start :: "unit result \<Rightarrow> unit result \<Rightarrow> unit result \<Rightarrow> (can_process, unit) action" where
  "run_start opened own_off bound =
     bindA (start_can opened own_off) (\<lambda>_. bindA (start_server bound) (\<lambda>_ p. (Inr (), p\<lparr>dp_serving := True\<rparr>)))"

section \<open>Rounds of the threads\<close>

text \<open>A round of the accept loop. Each connection has a socket of its own.\<close>

datatype accept = Accepted nat | Accept_timeout | Accept_error

definition accept_iteration :: "accept \<Rightarrow> can_process \<Rightarrow> can_process" where
  "accept_iteration a p =
     (if \<not> dp_serving p then p
      else if dp_stop_event p then process_shutdown p
      else case a of
        Accept_timeout \<Rightarrow> p
      | Accept_error \<Rightarrow> process_shutdown p
      | Accepted s \<Rightarrow> if dp_clients p s = None then p\<lparr>dp_clients := (dp_clients p)(s \<mapsto> Greeting)\<rparr> else p)"

text \<open>The \<open>finally\<close> block of \<open>_handle_client\<close>, and the test at the head of a handler's loop.\<close>

definition end_client :: "nat \<Rightarrow> can_process \<Rightarrow> can_process" where
  "end_client s p =
     p\<lparr>dp_subscribers := subscribers_remove s (dp_subscribers p), dp_clients := (dp_clients p)(s \<mapsto> Ended)\<rparr>"

definition next_round :: "nat \<Rightarrow> can_process \<Rightarrow> can_process" where
  "next_round s p = (if dp_stop_event p then end_client s p else p)"

definition write_client :: "nat \<Rightarrow> pyval list \<Rightarrow> can_process \<Rightarrow> can_process" where
  "write_client s ms p = p\<lparr>dp_written := dp_written p @ map (Pair s) ms\<rparr>"

definition greet_client :: "bool \<Rightarrow> nat \<Rightarrow> pyval result \<Rightarrow> can_process \<Rightarrow> can_process" where
  "greet_client alive s line p =
     (case handle_hello line of (ms, role) \<Rightarrow>
        if ms \<noteq> [] \<and> \<not> alive then end_client s p
        else let p1 = write_client s ms p in
          (case role of
             Role_tx \<Rightarrow> next_round s (p1\<lparr>dp_clients := (dp_clients p1)(s \<mapsto> Transmitting)\<rparr>)
           | Role_rx \<Rightarrow> next_round s (p1\<lparr>dp_subscribers := subscribers_add s (dp_subscribers p1),
                                        dp_clients := (dp_clients p1)(s \<mapsto> Receiving)\<rparr>)
           | Role_rejected \<Rightarrow> end_client s p1))"

text \<open>After shutdown there is no CAN daemon left and the assertion fails, with no text.\<close>

definition tx_frame_of :: "py_text \<Rightarrow> pyval \<Rightarrow> can_frame result" where
  "tx_frame_of T message =
     bindE (bindE (dict_item message ''can_id'') (py_int T)) (\<lambda>can_id.
     bindE (dict_item message ''data'') (\<lambda>v.
     bindE (bytes_fromhex (py_str T v)) (\<lambda>data. Inr \<lparr>fr_can_id = can_id, fr_data = data\<rparr>)))"

definition process_tx_message :: "py_text \<Rightarrow> pyval \<Rightarrow> can_process \<Rightarrow> pyval \<times> can_process" where
  "process_tx_message T message p =
     (if dict_get message ''type'' \<noteq> PStr ''tx'' then (tx_error ''expected tx'', p)
      else case tx_frame_of T message of
        Inl x \<Rightarrow> (tx_error (exc_text x), p)
      | Inr frame \<Rightarrow>
          (case dp_can_daemon p of
             None \<Rightarrow> (tx_error [], p)
           | Some d \<Rightarrow> (case CANDaemon_send frame d of (ok, d') \<Rightarrow>
               (tx_result ok, p\<lparr>dp_can_daemon := Some d', dp_accepted := dp_accepted p @ (if ok then [frame] else [])\<rparr>))))"

definition transmit_round :: "py_text \<Rightarrow> bool \<Rightarrow> nat \<Rightarrow> pyval result \<Rightarrow> can_process \<Rightarrow> can_process" where
  "transmit_round T alive s line p =
     (case read_json_line line of
        Inl _ \<Rightarrow> end_client s p
      | Inr message \<Rightarrow> (case process_tx_message T message p of (resp, p1) \<Rightarrow>
          if alive then next_round s (write_client s [resp] p1) else end_client s p1))"

text \<open>A line read from a client; \<open>alive\<close> tells whether writing to it succeeds.\<close>

definition client_line :: "py_text \<Rightarrow> bool \<Rightarrow> nat \<Rightarrow> pyval result \<Rightarrow> can_process \<Rightarrow> can_process" where
  "client_line T alive s line p =
     (case dp_clients p s of
        Some Greeting \<Rightarrow> greet_client alive s line p
      | Some Transmitting \<Rightarrow> transmit_round T alive s line p
      | _ \<Rightarrow> p)"

text \<open>A receiving client is only watched for its end; \<open>gone\<close> is an empty read or an \<open>OSError\<close>.\<close>

definition client_peek :: "bool \<Rightarrow> nat \<Rightarrow> can_process \<Rightarrow> can_process" where
  "client_peek gone s p =
     (if dp_clients p s = Some Receiving then (if gone then end_client s p else next_round s p) else p)"

text \<open>\<open>subscribers.publish\<close> as the wildcard callback of the CAN daemon, and its receive and transmit threads.\<close>

definition publish_frame :: "(nat \<Rightarrow> bool) \<Rightarrow> unit \<Rightarrow> can_frame \<Rightarrow> (can_process, unit) action" where
  "publish_frame alive cb frame p =
     (case subscribers_publish alive frame (dp_subscribers p) of (out, subs) \<Rightarrow>
        (Inr (), p\<lparr>dp_written := dp_written p @ out, dp_subscribers := subs, dp_received := dp_received p @ [frame]\<rparr>))"

definition bus_round :: "(nat \<Rightarrow> bool) \<Rightarrow> byte list option \<Rightarrow> can_process \<Rightarrow> can_process" where
  "bus_round alive raw p =
     (if dp_can_daemon p = None then p
      else CANDaemon_rx_iteration (publish_frame alive) (register_wildcard () CANDispatcher_init) raw p)"

definition transmit_thread :: "can_process \<Rightarrow> can_process" where
  "transmit_thread p =
     (case dp_can_daemon p of
        None \<Rightarrow> p
      | Some d \<Rightarrow> (case CANDaemon_tx_iteration d of (taken, wire, d') \<Rightarrow>
          p\<lparr>dp_can_daemon := Some d', dp_wire := dp_wire p @ wire,
            dp_taken := dp_taken p @ (case taken of None \<Rightarrow> [] | Some f \<Rightarrow> [f])\<rparr>))"

section \<open>Interleavings\<close>

datatype process_event =
    Main accept
  | Line bool nat "pyval result"
  | Peek bool nat
  | Bus "nat \<Rightarrow> bool" "byte list option"
  | Transmit
  | Signal

fun process_step :: "py_text \<Rightarrow> process_event \<Rightarrow> can_process \<Rightarrow> can_process" where
  "process_step T (Main a) p = accept_iteration a p"
| "process_step T (Line alive s line) p = client_line T alive s line p"
| "process_step T (Peek gone s) p = client_peek gone s p"
| "process_step T (Bus alive raw) p = bus_round alive raw p"
| "process_step T Transmit p = transmit_thread p"
| "process_step T Signal p = p\<lparr>dp_stop_event := True\<rparr>"

definition process_run :: "py_text \<Rightarrow> process_event list \<Rightarrow> can_process \<Rightarrow> can_process" where
  "process_run T = fold (process_step T)"

definition messages_to :: "nat \<Rightarrow> can_process \<Rightarrow> pyval list" where
  "messages_to s p = map snd (filter (\<lambda>(c, _). c = s) (dp_written p))"

section \<open>Subscribers\<close>

lemma publish_to_eq:
  "publish_to alive payload ss subs =
     (map (\<lambda>s. (s, payload)) (filter alive ss), filter (\<lambda>s. s \<notin> set ss \<or> alive s) subs)"
proof (induction ss arbitrary: subs)
  case (Cons a ss)
  then show ?case by (auto simp: subscribers_remove_def intro!: filter_cong)
qed simp

lemma messages_append [simp]:
  "map snd (filter (\<lambda>(c, _). c = s) (xs @ ys)) = map snd (filter (\<lambda>(c, _). c = s) xs) @ map snd (filter (\<lambda>(c, _). c = s) ys)"
  by simp

lemma messages_other: "s \<noteq> c \<Longrightarrow> filter (\<lambda>(d, _). d = s) (map (Pair c) ms) = []"
  by (induction ms) auto

lemma messages_once:
  "distinct ss \<Longrightarrow> map snd (filter (\<lambda>(c, _). c = s) (map (\<lambda>c. (c, m)) (filter alive ss))) =
     (if s \<in> set ss \<and> alive s then [m] else [])"
  by (induction ss) auto

text \<open>What one round changes for a subscriber: if it stays, it has got exactly the frames received.\<close>

definition subscribed :: "nat \<Rightarrow> can_process \<Rightarrow> bool" where
  "subscribed s p \<longleftrightarrow> distinct (dp_subscribers p) \<and> s \<in> set (dp_subscribers p) \<and> dp_clients p s = Some Receiving"

definition kept_up :: "nat \<Rightarrow> can_process \<Rightarrow> can_process \<Rightarrow> bool" where
  "kept_up s p q \<longleftrightarrow> (\<exists>new. dp_received q = dp_received p @ new \<and> messages_to s q = messages_to s p @ map rx_message new)"

lemma kept_up_refl [simp]: "kept_up s p p"
  by (simp add: kept_up_def)

lemma kept_up_trans: "kept_up s p q \<Longrightarrow> kept_up s q r \<Longrightarrow> kept_up s p r"
  by (auto simp: kept_up_def)

text \<open>A round of a client's handler concerns that client only.\<close>

definition only_client :: "nat \<Rightarrow> can_process \<Rightarrow> can_process \<Rightarrow> bool" where
  "only_client c p q \<longleftrightarrow> dp_received q = dp_received p \<and>
     (\<forall>s. s \<noteq> c \<longrightarrow> messages_to s q = messages_to s p \<and> dp_clients q s = dp_clients p s \<and>
       (s \<in> set (dp_subscribers q) \<longleftrightarrow> s \<in> set (dp_subscribers p)))"

lemma only_client_trans: "only_client c p q \<Longrightarrow> only_client c q r \<Longrightarrow> only_client c p r"
  by (auto simp: only_client_def)

lemma only_client_refl [simp]: "only_client c p p"
  by (simp add: only_client_def)

lemma only_client_end: "only_client c p (end_client c p)"
  by (auto simp: only_client_def end_client_def messages_to_def subscribers_remove_def)

lemma only_client_next: "only_client c p (next_round c p)"
  by (simp add: next_round_def only_client_end)

lemma only_client_write: "only_client c p (write_client c ms p)"
  by (auto simp: only_client_def write_client_def messages_to_def messages_other)

lemma only_client_phase: "only_client c p (p\<lparr>dp_clients := (dp_clients p)(c \<mapsto> ph)\<rparr>)"
  by (auto simp: only_client_def messages_to_def)

lemma only_client_subscribe:
  "only_client c p (p\<lparr>dp_subscribers := subscribers_add c (dp_subscribers p), dp_clients := (dp_clients p)(c \<mapsto> ph)\<rparr>)"
  by (auto simp: only_client_def messages_to_def subscribers_add_def)

lemma only_client_tx: "only_client c p (snd (process_tx_message T message p))"
  by (auto simp: only_client_def messages_to_def process_tx_message_def split: sum.splits option.splits prod.splits)

lemma only_client_greet: "only_client c p (greet_client alive c line p)"
proof -
  obtain ms role where "handle_hello line = (ms, role)" by (metis surj_pair)
  then show ?thesis
    by (cases role) (auto simp: greet_client_def Let_def intro!: only_client_end
      intro: only_client_trans [OF only_client_write] only_client_trans [OF only_client_phase only_client_next]
        only_client_trans [OF only_client_subscribe only_client_next])
qed

lemma only_client_transmit: "only_client c p (transmit_round T alive c line p)"
proof (cases "read_json_line line")
  case (Inr message)
  obtain resp p1 where t: "process_tx_message T message p = (resp, p1)" by (metis surj_pair)
  then have "only_client c p p1" using only_client_tx [of c p T message] by simp
  then show ?thesis
    using only_client_trans [OF only_client_write only_client_next]
    by (auto simp: transmit_round_def Inr t intro: only_client_trans only_client_end)
qed (simp add: transmit_round_def only_client_end)

lemma only_client_line: "only_client c p (client_line T alive c line p)"
  by (auto simp: client_line_def only_client_greet only_client_transmit split: option.splits client_phase.splits)

lemma only_client_peek: "only_client c p (client_peek gone c p)"
  by (simp add: client_peek_def only_client_end only_client_next)

lemma subscribers_publish_eq:
  "subscribers_publish alive frame subs = (map (\<lambda>s. (s, rx_message frame)) (filter alive subs), filter alive subs)"
  by (auto simp: subscribers_publish_def publish_to_eq intro!: filter_cong)

lemma bus_round_cases:
  "bus_round alive raw p = p \<or> (\<exists>frame. bus_round alive raw p = snd (publish_frame alive () frame p))"
proof (cases "SocketCANBus_recv_frame raw")
  case (Inr r)
  have d: "snd (dispatch call (register_wildcard () CANDispatcher_init) frame w) = snd (call () frame w)"
    for call :: "unit \<Rightarrow> can_frame \<Rightarrow> (can_process, unit) action" and frame w
    by (simp add: dispatch_def callbacks_of_def register_wildcard_def CANDispatcher_init_def case_prod_unfold split: sum.splits)
  show ?thesis
  proof (cases r)
    case (Some frame)
    then show ?thesis by (cases "dp_can_daemon p = None") (auto simp: Inr d bus_round_def CANDaemon_rx_iteration_def)
  qed (simp add: Inr bus_round_def CANDaemon_rx_iteration_def)
qed (simp add: bus_round_def CANDaemon_rx_iteration_def)

lemma publish_frame_fields:
  "dp_received (snd (publish_frame alive cb frame p)) = dp_received p @ [frame]"
  "dp_subscribers (snd (publish_frame alive cb frame p)) = filter alive (dp_subscribers p)"
  "dp_written (snd (publish_frame alive cb frame p)) =
     dp_written p @ map (\<lambda>s. (s, rx_message frame)) (filter alive (dp_subscribers p))"
  "dp_clients (snd (publish_frame alive cb frame p)) = dp_clients p"
  "dp_can_daemon (snd (publish_frame alive cb frame p)) = dp_can_daemon p"
  "dp_accepted (snd (publish_frame alive cb frame p)) = dp_accepted p"
  "dp_taken (snd (publish_frame alive cb frame p)) = dp_taken p"
  "dp_wire (snd (publish_frame alive cb frame p)) = dp_wire p"
  "dp_serving (snd (publish_frame alive cb frame p)) = dp_serving p"
  "dp_can_bus (snd (publish_frame alive cb frame p)) = dp_can_bus p"
  "dp_socket_exists (snd (publish_frame alive cb frame p)) = dp_socket_exists p"
  "dp_server_sock (snd (publish_frame alive cb frame p)) = dp_server_sock p"
  by (simp_all add: publish_frame_def subscribers_publish_eq)

lemma publish_keeps_up:
  assumes "subscribed s p" and "alive s"
  shows "kept_up s p (snd (publish_frame alive cb frame p))"
proof -
  have "messages_to s (snd (publish_frame alive cb frame p)) = messages_to s p @ [rx_message frame]"
    using assms messages_once [of "dp_subscribers p" s "rx_message frame" alive]
    by (simp add: messages_to_def publish_frame_fields subscribed_def)
  then show ?thesis by (simp add: kept_up_def publish_frame_fields)
qed

lemma client_own:
  assumes "dp_clients p c = Some Receiving"
  shows "client_line T alive c line p = p"
    and "c \<in> set (dp_subscribers (client_peek gone c p)) \<Longrightarrow> client_peek gone c p = p"
  using assms by (auto simp: client_line_def client_peek_def next_round_def end_client_def subscribers_remove_def split: if_splits)

lemma kept_up_only: "only_client c p q \<Longrightarrow> s \<noteq> c \<Longrightarrow> kept_up s p q"
  by (auto simp: only_client_def kept_up_def)

lemma same_log: "dp_received q = dp_received p \<Longrightarrow> dp_written q = dp_written p \<Longrightarrow> kept_up s p q"
  by (simp add: kept_up_def messages_to_def)

lemma step_keeps_up:
  assumes "subscribed s p" and "s \<in> set (dp_subscribers (process_step T e p))"
  shows "kept_up s p (process_step T e p)"
proof (cases e)
  case (Main a)
  then show ?thesis by (intro same_log) (auto simp: accept_iteration_def process_shutdown_def split: accept.splits)
next
  case (Line alive c line)
  then show ?thesis
    using assms client_own(1) [of p c] kept_up_only [OF only_client_line] by (cases "c = s") (auto simp: subscribed_def)
next
  case (Peek gone c)
  then show ?thesis
    using assms client_own(2) [of p c gone] kept_up_only [OF only_client_peek] by (cases "c = s") (auto simp: subscribed_def)
next
  case (Bus alive raw)
  then show ?thesis
    using bus_round_cases [of alive raw p] assms publish_keeps_up [OF assms(1)] by (auto simp: publish_frame_fields)
next
  case Transmit
  then show ?thesis by (intro same_log) (auto simp: transmit_thread_def split: option.splits prod.splits)
next
  case Signal
  then show ?thesis by (intro same_log) auto
qed

section \<open>Invariants\<close>

definition subs_inv :: "can_process \<Rightarrow> bool" where
  "subs_inv p \<longleftrightarrow> distinct (dp_subscribers p) \<and> (\<forall>s \<in> set (dp_subscribers p). dp_clients p s = Some Receiving)"

lemma subs_inv_end: "subs_inv p \<Longrightarrow> subs_inv (end_client c p)"
  by (auto simp: subs_inv_def end_client_def subscribers_remove_def)

lemma subs_inv_next: "subs_inv p \<Longrightarrow> subs_inv (next_round c p)"
  by (simp add: next_round_def subs_inv_end)

lemma subs_inv_cong:
  "dp_subscribers q = dp_subscribers p \<Longrightarrow> dp_clients q = dp_clients p \<Longrightarrow> subs_inv q \<longleftrightarrow> subs_inv p"
  by (simp add: subs_inv_def)

lemma subs_inv_tx: "subs_inv (snd (process_tx_message T message p)) \<longleftrightarrow> subs_inv p"
  by (rule subs_inv_cong) (auto simp: process_tx_message_def split: sum.splits option.splits prod.splits)

lemma subs_inv_greet:
  assumes "subs_inv p" and "dp_clients p c = Some Greeting"
  shows "subs_inv (greet_client alive c line p)"
proof -
  obtain ms role where h: "handle_hello line = (ms, role)" by (metis surj_pair)
  have w: "subs_inv (write_client c ms p)" using assms(1) by (simp add: subs_inv_def write_client_def)
  have c: "c \<notin> set (dp_subscribers (write_client c ms p))" using assms by (auto simp: subs_inv_def write_client_def)
  let ?q = "write_client c ms p"
  have "subs_inv (?q\<lparr>dp_clients := (dp_clients ?q)(c \<mapsto> Transmitting)\<rparr>)"
    and "subs_inv (?q\<lparr>dp_subscribers := subscribers_add c (dp_subscribers ?q), dp_clients := (dp_clients ?q)(c \<mapsto> Receiving)\<rparr>)"
    using w c by (auto simp: subs_inv_def subscribers_add_def)
  then show ?thesis
    using assms(1) w by (cases role) (simp_all add: greet_client_def h Let_def subs_inv_end subs_inv_next)
qed

lemma subs_inv_transmit: "subs_inv p \<Longrightarrow> subs_inv (transmit_round T alive c line p)"
proof (cases "read_json_line line")
  case (Inr message)
  assume p: "subs_inv p"
  obtain resp p1 where t: "process_tx_message T message p = (resp, p1)" by (metis surj_pair)
  then have "subs_inv p1" using p subs_inv_tx [of T message p] by simp
  moreover from this have "subs_inv (write_client c [resp] p1)" by (simp add: subs_inv_def write_client_def)
  ultimately show ?thesis by (simp add: transmit_round_def Inr t subs_inv_end subs_inv_next)
qed (simp add: transmit_round_def subs_inv_end)

lemma subs_inv_step:
  assumes "subs_inv p"
  shows "subs_inv (process_step T e p)"
proof (cases e)
  case (Main a)
  then show ?thesis using assms
    by (auto simp: accept_iteration_def process_shutdown_def subs_inv_def split: accept.splits)
next
  case (Line alive c line)
  then show ?thesis using assms
    by (auto simp: client_line_def subs_inv_greet subs_inv_transmit split: option.splits client_phase.splits)
next
  case (Peek gone c)
  then show ?thesis using assms by (simp add: client_peek_def subs_inv_end subs_inv_next)
next
  case (Bus alive raw)
  then show ?thesis using assms bus_round_cases [of alive raw p] by (auto simp: subs_inv_def publish_frame_fields)
next
  case Transmit
  then show ?thesis using assms by (auto simp: transmit_thread_def subs_inv_def split: option.splits prod.splits)
next
  case Signal
  then show ?thesis using assms by (simp add: subs_inv_def)
qed

text \<open>A receiving client whose subscription has ended does not come back.\<close>

definition greeted :: "nat \<Rightarrow> can_process \<Rightarrow> bool" where
  "greeted s p \<longleftrightarrow> dp_clients p s \<in> {Some Receiving, Some Ended}"

lemma greeted_step:
  assumes "greeted s p"
  shows "greeted s (process_step T e p) \<and>
    (s \<in> set (dp_subscribers (process_step T e p)) \<longrightarrow> s \<in> set (dp_subscribers p))"
proof (cases e)
  case (Main a)
  then show ?thesis using assms
    by (auto simp: accept_iteration_def process_shutdown_def greeted_def split: accept.splits)
next
  case (Line alive c line)
  show ?thesis
  proof (cases "c = s")
    case True
    then have "client_line T alive c line p = p" using assms by (auto simp: greeted_def client_line_def)
    then show ?thesis using assms Line by simp
  next
    case False
    then show ?thesis using assms only_client_line [of c p T alive line] by (auto simp: Line only_client_def greeted_def)
  qed
next
  case (Peek gone c)
  show ?thesis
  proof (cases "c = s")
    case True
    then show ?thesis using assms Peek
      by (auto simp: greeted_def client_peek_def next_round_def end_client_def subscribers_remove_def)
  next
    case False
    then show ?thesis using assms only_client_peek [of c p gone] by (auto simp: Peek only_client_def greeted_def)
  qed
next
  case (Bus alive raw)
  then show ?thesis using assms bus_round_cases [of alive raw p] by (auto simp: greeted_def publish_frame_fields)
next
  case Transmit
  then show ?thesis using assms by (auto simp: transmit_thread_def greeted_def split: option.splits prod.splits)
next
  case Signal
  then show ?thesis using assms by (simp add: greeted_def)
qed

lemma process_run_snoc: "process_run T (es @ [e]) p = process_step T e (process_run T es p)"
  by (simp add: process_run_def)

lemma subs_inv_run: "subs_inv p \<Longrightarrow> subs_inv (process_run T es p)"
  by (induction es rule: rev_induct) (simp_all add: process_run_def subs_inv_step)

lemma greeted_run: "greeted s p \<Longrightarrow> greeted s (process_run T es p)"
  by (induction es rule: rev_induct) (simp_all add: process_run_def greeted_step)

lemma run_keeps_up:
  assumes "subs_inv p" and "s \<in> set (dp_subscribers p)" and "s \<in> set (dp_subscribers (process_run T es p))"
  shows "kept_up s p (process_run T es p)"
  using assms(3)
proof (induction es rule: rev_induct)
  case (snoc e es)
  have g: "greeted s (process_run T es p)" using assms(1,2) by (intro greeted_run) (auto simp: subs_inv_def greeted_def)
  then have s: "s \<in> set (dp_subscribers (process_run T es p))"
    using greeted_step [of s "process_run T es p" T e] snoc.prems unfolding process_run_snoc by blast
  then have "subscribed s (process_run T es p)"
    using subs_inv_run [OF assms(1), of T es] by (auto simp: subs_inv_def subscribed_def)
  then show ?case
    using snoc.IH [OF s] step_keeps_up snoc.prems unfolding process_run_snoc by (blast intro: kept_up_trans)
qed (simp add: process_run_def)

section \<open>Frames of the clients\<close>

definition positive_answers :: "(nat \<times> pyval) list \<Rightarrow> nat" where
  "positive_answers ws = length (filter (\<lambda>(_, m). m = tx_result True) ws)"

definition tx_inv :: "nat \<Rightarrow> can_process \<Rightarrow> bool" where
  "tx_inv n p \<longleftrightarrow> dp_wire p = wire_of (dp_taken p) \<and> positive_answers (dp_written p) \<le> length (dp_accepted p) \<and>
     (\<exists>pending. dp_accepted p = dp_taken p @ pending \<and>
       (\<forall>d. dp_can_daemon p = Some d \<longrightarrow> pending = cd_tx_queue d \<and> can_daemon.cd_max_tx_queue_size d = n \<and>
         (0 < n \<longrightarrow> length pending \<le> n))) \<and>
     (dp_serving p \<longleftrightarrow> dp_can_daemon p \<noteq> None) \<and>
     (\<not> dp_serving p \<longrightarrow> \<not> dp_can_bus p \<and> \<not> dp_server_sock p \<and> \<not> dp_socket_exists p)"

lemma answers_append [simp]: "positive_answers (xs @ ys) = positive_answers xs + positive_answers ys"
  by (simp add: positive_answers_def)

lemma answers_other [simp]:
  "positive_answers (map (\<lambda>s. (s, rx_message f)) ss) = 0" "positive_answers [] = 0"
  by (auto simp: positive_answers_def filter_empty_conv rx_message_def tx_result_def)

lemma answers_hello: "positive_answers (map (Pair c) (fst (handle_hello line))) = 0"
  by (auto simp: positive_answers_def handle_hello_def tx_result_def split: sum.splits)

text \<open>The invariant does not depend on the clients and subscribers.\<close>

definition same_tx :: "can_process \<Rightarrow> can_process \<Rightarrow> bool" where
  "same_tx p q \<longleftrightarrow> dp_wire q = dp_wire p \<and> dp_taken q = dp_taken p \<and> dp_accepted q = dp_accepted p \<and>
     dp_can_daemon q = dp_can_daemon p \<and> dp_serving q = dp_serving p \<and> dp_can_bus q = dp_can_bus p \<and>
     dp_server_sock q = dp_server_sock p \<and> dp_socket_exists q = dp_socket_exists p \<and>
     positive_answers (dp_written q) = positive_answers (dp_written p)"

lemma tx_inv_cong: "same_tx p q \<Longrightarrow> tx_inv n q \<longleftrightarrow> tx_inv n p"
  by (simp add: same_tx_def tx_inv_def)

lemma same_tx_client [simp]: "same_tx p (end_client c q) \<longleftrightarrow> same_tx p q" "same_tx p (next_round c q) \<longleftrightarrow> same_tx p q" "same_tx p p"
  by (simp_all add: same_tx_def end_client_def next_round_def)

lemma same_tx_greet: "same_tx p (greet_client alive c line p)"
proof -
  obtain ms role where h: "handle_hello line = (ms, role)" by (metis surj_pair)
  then have "positive_answers (map (Pair c) ms) = 0" using answers_hello [of c line] by simp
  then show ?thesis
    by (cases role) (simp_all add: greet_client_def h Let_def, simp_all add: same_tx_def write_client_def)
qed

definition queued :: "can_frame \<Rightarrow> can_daemon \<Rightarrow> can_process \<Rightarrow> can_process" where
  "queued frame d p = p\<lparr>dp_can_daemon := Some (snd (CANDaemon_send frame d)),
     dp_accepted := dp_accepted p @ (if fst (CANDaemon_send frame d) then [frame] else [])\<rparr>"

lemma process_tx_cases:
  "(\<exists>t. process_tx_message T message p = (tx_error t, p)) \<or>
   (\<exists>frame d. dp_can_daemon p = Some d \<and>
      process_tx_message T message p = (tx_result (fst (CANDaemon_send frame d)), queued frame d p))"
  by (simp add: process_tx_message_def queued_def case_prod_unfold split: sum.splits option.splits) blast

lemma tx_inv_queued:
  assumes "tx_inv n p" and "dp_can_daemon p = Some d"
  shows "tx_inv n (queued frame d p) \<and> tx_inv n (write_client c [tx_result (fst (CANDaemon_send frame d))] (queued frame d p))"
  using assms
  by (auto simp: tx_inv_def queued_def write_client_def CANDaemon_send_def queue_full_def positive_answers_def tx_result_def)

lemma tx_inv_message:
  assumes "tx_inv n p" and "process_tx_message T message p = (resp, q)"
  shows "tx_inv n q \<and> tx_inv n (write_client c [resp] q)"
proof -
  have "same_tx p (write_client c [tx_error t] p)" for t
    by (simp add: same_tx_def write_client_def positive_answers_def tx_error_def tx_result_def)
  then have "tx_inv n (write_client c [tx_error t] p)" for t using assms(1) tx_inv_cong by blast
  then show ?thesis using process_tx_cases [of T message p] assms tx_inv_queued [OF assms(1)] by auto
qed

lemma tx_inv_client [simp]: "tx_inv n (end_client c p) = tx_inv n p" "tx_inv n (next_round c p) = tx_inv n p"
  by (rule tx_inv_cong, simp)+

lemma tx_inv_transmit: "tx_inv n p \<Longrightarrow> tx_inv n (transmit_round T alive c line p)"
proof (cases "read_json_line line")
  case (Inr message)
  assume p: "tx_inv n p"
  obtain resp p1 where t: "process_tx_message T message p = (resp, p1)" by (metis surj_pair)
  show ?thesis using tx_inv_message [OF p t, of c] by (simp add: transmit_round_def Inr t)
qed (simp add: transmit_round_def)

lemma tx_inv_step:
  assumes "tx_inv n p"
  shows "tx_inv n (process_step T e p)"
proof (cases e)
  case (Main a)
  then show ?thesis using assms
    by (auto simp: accept_iteration_def process_shutdown_def tx_inv_def split: accept.splits)
next
  case (Line alive c line)
  then show ?thesis using assms tx_inv_cong [OF same_tx_greet] tx_inv_transmit
    by (simp add: client_line_def split: option.splits client_phase.splits)
next
  case (Peek gone c)
  have "same_tx p (client_peek gone c p)" by (simp add: client_peek_def)
  then show ?thesis using assms tx_inv_cong Peek by simp
next
  case (Bus alive raw)
  have "same_tx p (snd (publish_frame alive () frame p))" for frame
    unfolding same_tx_def publish_frame_fields by simp
  then show ?thesis using assms bus_round_cases [of alive raw p] tx_inv_cong Bus by fastforce
next
  case Transmit
  then show ?thesis using assms
    by (auto simp: transmit_thread_def tx_inv_def CANDaemon_tx_iteration_def wire_of_def split: option.splits list.splits sum.splits)
next
  case Signal
  then show ?thesis using assms by (simp add: tx_inv_def)
qed

lemma tx_inv_run: "tx_inv n p \<Longrightarrow> tx_inv n (process_run T es p)"
  by (induction es rule: rev_induct) (simp_all add: process_run_def tx_inv_step)

section \<open>Properties\<close>

text \<open>What the process answers a client is what the daemon's handler alone answers.\<close>

lemma process_tx_refines:
  "dp_can_daemon p = Some d \<Longrightarrow>
   fst (process_tx_message T message p) = fst (handle_tx_message T message d) \<and>
   dp_can_daemon (snd (process_tx_message T message p)) = Some (snd (handle_tx_message T message d))"
  by (auto simp: process_tx_message_def handle_tx_message_def tx_frame_of_def case_prod_unfold split: sum.splits)

lemma run_start_inv:
  assumes "CANSubprocessDaemon_init T F path rep ex = Inr p0" and "run_start opened own_off bound p0 = (Inr (), p1)"
  shows "subs_inv p1 \<and>
    tx_inv (nat (CANDaemonConfig.cd_max_tx_queue_size (ca_daemon (cfg_can (dp_config p1))))) p1 \<and>
    (ex \<longrightarrow> rep)"
proof -
  obtain config where "load_robot_controller_config T F path = Inr config"
    and p0: "p0 = \<lparr>dp_config = config, dp_replace_existing_socket = rep, dp_subscribers = [],
         dp_stop_event = False, dp_server_sock = False, dp_can_bus = False, dp_can_daemon = None,
         dp_clients = Map.empty, dp_socket_exists = ex, dp_serving = False, dp_written = [],
         dp_received = [], dp_accepted = [], dp_taken = [], dp_wire = []\<rparr>"
    using assms(1) by (auto simp: CANSubprocessDaemon_init_def bindE_eq_Inr)
  show ?thesis
    using assms(2)
    by (auto simp: p0 run_start_def bindA_def start_can_def start_server_def Let_def subs_inv_def tx_inv_def wire_of_def
      CANDaemon_start_def CANDaemon_init_def split: sum.splits if_splits)
qed


definition demo_subscribe :: "process_event list" where
  "demo_subscribe = [Main (Accepted 5), Line True 5 (Inr (PDict [(''type'', PStr ''hello''), (''role'', PStr ''rx'')]))]"

definition demo_frame :: "process_event list" where
  "demo_frame = [Bus (\<lambda>_. True) (Some (le_bytes 4 0x141 @ [1, 0, 0, 0] @ ljust8 [7]))]"


end
