(* ===== verification/Dash_Decode.thy ===== *)
theory Dash_Decode
  imports Imu Spg_Protocol
begin

text \<open>
  The dashboard's own view of the bus (\<open>robot_controller/subprocesses/dashboard/backend\<close>): decoding of
  raw CAN frames (\<open>socketcan_io.py\<close>) and of IMU and actuator payloads (\<open>can_decode.py\<close>). The
  dashboard does not share the decoders of the drivers; that both read the same values is shown
  here.
\<close>

section \<open>Raw frames (socketcan\_io.py)\<close>

definition CAN_EFF_FLAG :: int where "CAN_EFF_FLAG = 0x80000000"
definition CAN_RTR_FLAG :: int where "CAN_RTR_FLAG = 0x40000000"
definition CAN_ERR_FLAG :: int where "CAN_ERR_FLAG = 0x20000000"
definition CAN_EFF_MASK :: int where "CAN_EFF_MASK = 0x1FFFFFFF"

record parsed_frame =
  pf_can_id :: int
  pf_dlc :: nat
  pf_data :: "byte list"
  pf_is_eff :: bool
  pf_is_rtr :: bool
  pf_is_err :: bool

definition parse_can_frame :: "byte list \<Rightarrow> parsed_frame result" where
  "parse_can_frame frame_bytes =
     (if length frame_bytes \<noteq> 16 then Inl (StructError ''unpack requires a buffer of 16 bytes'')
      else let can_id_raw = le_uint (take 4 frame_bytes);
               is_eff = (can_id_raw AND CAN_EFF_FLAG \<noteq> 0);
               n = unat (frame_bytes ! 4)
           in if 8 < n then Inl (ValueError ''Invalid classical CAN DLC'')
              else Inr \<lparr>pf_can_id = can_id_raw AND (if is_eff then CAN_EFF_MASK else CAN_SFF_MASK), pf_dlc = n,
                        pf_data = take n (drop 8 frame_bytes), pf_is_eff = is_eff,
                        pf_is_rtr = (can_id_raw AND CAN_RTR_FLAG \<noteq> 0),
                        pf_is_err = (can_id_raw AND CAN_ERR_FLAG \<noteq> 0)\<rparr>)"

section \<open>Payloads (can\_decode.py)\<close>

definition join_spaces :: "string list \<Rightarrow> string" where
  "join_spaces xs = concat (case xs of [] \<Rightarrow> [] | y # ys \<Rightarrow> y # map (\<lambda>s. '' '' @ s) ys)"

definition hex_data :: "byte list \<Rightarrow> string" where
  "hex_data data = join_spaces (map (\<lambda>b. zero_pad 2 (hex_of_int (uint b))) data)"

definition normalize_quat_xyzw :: "quat \<Rightarrow> quat result" where
  "normalize_quat_xyzw q =
     (case q of (qx, qy, qz, qw) \<Rightarrow>
       bindE (math_sqrt (fadd (fadd (fadd (fmul qx qx) (fmul qy qy)) (fmul qz qz)) (fmul qw qw))) (\<lambda>n.
         if flt n (lit (1 / 10 ^ 12)) \<or> \<not> isfinite n then Inr (Fin 0, Fin 0, Fin 0, Fin 1)
         else bindE (fdiv qx n) (\<lambda>x. bindE (fdiv qy n) (\<lambda>y. bindE (fdiv qz n) (\<lambda>z. bindE (fdiv qw n) (\<lambda>w.
           Inr (x, y, z, w)))))))"

definition dash_projected_gravity :: "quat \<Rightarrow> vec3" where
  "dash_projected_gravity q =
     (case q of (qx, qy, qz, qw) \<Rightarrow>
       let vx = Fin 0; vy = Fin 0; vz = Fin (- 1);
           tx = fmul (Fin 2) (fsub (fmul qy vz) (fmul qz vy));
           ty = fmul (Fin 2) (fsub (fmul qz vx) (fmul qx vz));
           tz = fmul (Fin 2) (fsub (fmul qx vy) (fmul qy vx));
           vpx = fadd (fsub vx (fmul qw tx)) (fsub (fmul qy tz) (fmul qz ty));
           vpy = fadd (fsub vy (fmul qw ty)) (fsub (fmul qz tx) (fmul qx tz));
           vpz = fadd (fsub vz (fmul qw tz)) (fsub (fmul qx ty) (fmul qy tx))
       in (vpy, vpx, vpz))"

definition decode_e2box_quat :: "byte list \<Rightarrow> pyfloat \<Rightarrow> bool \<Rightarrow> (quat \<times> vec3) result" where
  "decode_e2box_quat data quat_scale unit_quat =
     (if length data \<noteq> 8 then Inl (ValueError ''E2Box quaternion frame requires 8 bytes'')
      else bindE (fdiv (float_of_int (raw_i16 data 0)) quat_scale) (\<lambda>qz.
        bindE (fdiv (float_of_int (raw_i16 data 1)) quat_scale) (\<lambda>qy.
        bindE (fdiv (float_of_int (raw_i16 data 2)) quat_scale) (\<lambda>qx.
        bindE (fdiv (float_of_int (raw_i16 data 3)) quat_scale) (\<lambda>qw.
        bindE (if unit_quat then normalize_quat_xyzw (fneg qx, qy, qz, qw) else Inr (fneg qx, qy, qz, qw)) (\<lambda>q.
          Inr (q, dash_projected_gravity q)))))))"

definition dash_gyro_rad :: "pyfloat \<Rightarrow> int \<Rightarrow> pyfloat result" where
  "dash_gyro_rad gyro_scale raw = bindE (fdiv (float_of_int raw) gyro_scale) (\<lambda>v. fdiv (fmul v math_pi) (Fin 180))"

definition decode_e2box_gyro :: "byte list \<Rightarrow> pyfloat \<Rightarrow> vec3 result" where
  "decode_e2box_gyro data gyro_scale =
     (if length data \<noteq> 8 then Inl (ValueError ''E2Box gyro frame requires 8 bytes'')
      else bindE (dash_gyro_rad gyro_scale (raw_i16 data 0)) (\<lambda>gx.
        bindE (dash_gyro_rad gyro_scale (raw_i16 data 1)) (\<lambda>gy.
        bindE (dash_gyro_rad gyro_scale (raw_i16 data 2)) (\<lambda>gz. Inr (gy, gx, gz)))))"

definition SPG_CMD_MIT_CONTROL :: byte where "SPG_CMD_MIT_CONTROL = 0xC0"
definition SPG_CMD_MIT_ENTER :: byte where "SPG_CMD_MIT_ENTER = 0xC1"
definition SPG_CMD_MIT_EXIT :: byte where "SPG_CMD_MIT_EXIT = 0xC2"
definition SPG_CMD_MIT_SET_ZERO :: byte where "SPG_CMD_MIT_SET_ZERO = 0xC3"
definition SPG_CMD_CLEAR_ERROR :: byte where "SPG_CMD_CLEAR_ERROR = 0x9B"

definition spg_opcode_name :: "byte \<Rightarrow> string" where
  "spg_opcode_name opcode =
     (case map_of [(SPG_CMD_MIT_CONTROL, ''MIT_STATUS''), (SPG_CMD_MIT_ENTER, ''MIT_ENTER_ACK''),
        (SPG_CMD_MIT_EXIT, ''MIT_EXIT_ACK''), (SPG_CMD_MIT_SET_ZERO, ''MIT_SET_ZERO_ACK''),
        (SPG_CMD_CLEAR_ERROR, ''CLEAR_ERROR_ACK'')] opcode of
        Some name \<Rightarrow> name
      | None \<Rightarrow> ''OP_'' @ zero_pad 2 (hex_of_int (uint opcode)))"

record spg_status =
  st_temperature_c :: int
  st_iq_count :: int
  st_iq_a_approx :: pyfloat
  st_speed_dps :: int
  st_position_rad :: pyfloat

definition decode_spg_status :: "byte list \<Rightarrow> pyfloat \<Rightarrow> pyfloat \<Rightarrow> pyfloat \<Rightarrow> spg_status result" where
  "decode_spg_status data feedback_position_max_rad iq_full_scale_count iq_full_scale_current_a =
     (if length data \<noteq> 8 then Inl (ValueError ''SPG status frame requires 8 bytes'')
      else let temp_c = le_sint (slice 1 2 data); iq_count = le_sint (slice 2 4 data);
               speed_dps = le_sint (slice 4 6 data); position_i16 = le_sint (slice 6 8 data)
           in bindE (fdiv (float_of_int iq_count) iq_full_scale_count) (\<lambda>iq.
              bindE (fdiv (float_of_int position_i16) (Fin 32767)) (\<lambda>unit_position.
                Inr \<lparr>st_temperature_c = temp_c, st_iq_count = iq_count,
                     st_iq_a_approx = fmul iq iq_full_scale_current_a, st_speed_dps = speed_dps,
                     st_position_rad = fmul unit_position feedback_position_max_rad\<rparr>)))"

section \<open>The dashboard and the drivers read the same values\<close>

lemma dash_projected_gravity_eq: "dash_projected_gravity = projected_gravity_from_xyzw"
  by (rule ext) (simp add: dash_projected_gravity_def projected_gravity_from_xyzw_def)

lemma dash_gyro_rad_eq: "dash_gyro_rad = gyro_rad"
  by (intro ext) (simp add: dash_gyro_rad_def gyro_rad_def)

lemma normalize_quat_finite:
  assumes "\<bar>x\<bar> \<le> 2 ^ 17" "\<bar>y\<bar> \<le> 2 ^ 17" "\<bar>z\<bar> \<le> 2 ^ 17" "\<bar>w\<bar> \<le> 2 ^ 17"
  shows "normalize_quat_xyzw (Fin x, Fin y, Fin z, Fin w) = normalize_quat (Fin x, Fin y, Fin z, Fin w)"
proof -
  note ev = square_sum_eval [OF assms]
  have "sqrt (square_sum x y z w) \<le> 2 ^ 900"
  proof -
    have "sqrt (square_sum x y z w) \<le> sqrt ((2 ^ 25)\<^sup>2)" using ev(3) by (intro real_sqrt_le_mono) simp
    also have "\<dots> = 2 ^ 25" by (rule real_sqrt_unique) simp_all
    also have "\<dots> \<le> (2::real) ^ 900" by (intro power_increasing) auto
    finally show ?thesis .
  qed
  then have "math_sqrt (Fin (square_sum x y z w)) = Inr (Fin (r64 (sqrt (square_sum x y z w))))"
    using ev(2) by (simp add: fround_r64)
  then show ?thesis unfolding normalize_quat_xyzw_def normalize_quat_def prod.case ev(1) by simp
qed

lemma dash_quat_eq:
  assumes "eb_quat_scale p = Fin sc" and "1 \<le> sc" and "length data = 8"
  shows "\<exists>q s. decode_e2box_quat data (eb_quat_scale p) (eb_normalize_quat p) = Inr (q, projected_gravity_from_xyzw q) \<and>
    decode_quat p now data = Inr s \<and> po_quat_xyzw s = Some q \<and> po_projected_gravity_b s = Some (projected_gravity_from_xyzw q)"
proof -
  have raw: "\<bar>raw_i16 data k\<bar> \<le> 32768" if "k \<le> 3" for k using raw_i16_bounds [OF assms(3)] that by simp
  obtain z where z: "fdiv (float_of_int (raw_i16 data 0)) (Fin sc) = Inr (Fin z)" "\<bar>z\<bar> \<le> 2 ^ 17"
    by (rule scaled_raw [OF raw assms(2), of 0]) auto
  obtain y where y: "fdiv (float_of_int (raw_i16 data 1)) (Fin sc) = Inr (Fin y)" "\<bar>y\<bar> \<le> 2 ^ 17"
    by (rule scaled_raw [OF raw assms(2), of 1]) auto
  obtain x where x: "fdiv (float_of_int (raw_i16 data 2)) (Fin sc) = Inr (Fin x)" "\<bar>x\<bar> \<le> 2 ^ 17"
    by (rule scaled_raw [OF raw assms(2), of 2]) auto
  obtain w where w: "fdiv (float_of_int (raw_i16 data 3)) (Fin sc) = Inr (Fin w)" "\<bar>w\<bar> \<le> 2 ^ 17"
    by (rule scaled_raw [OF raw assms(2), of 3]) auto
  have mx: "\<bar>- x\<bar> \<le> 2 ^ 17" using x(2) by simp
  obtain q where q: "normalize_quat (Fin (- x), Fin y, Fin z, Fin w) = Inr q"
    using normalize_quat_bounded [OF mx y(2) z(2) w(2)] by blast
  show ?thesis
    using assms(1,3) x(1) y(1) z(1) w(1) q
    by (cases "eb_normalize_quat p")
      (simp_all add: decode_e2box_quat_def decode_quat_def dash_projected_gravity_eq
        normalize_quat_finite [OF mx y(2) z(2) w(2)])
qed

lemma small_and_flag:
  assumes "0 \<le> n" and "n \<le> CAN_SFF_MASK" and "11 \<le> k"
  shows "n AND push_bit k 1 = (0::int)"
proof -
  have "take_bit 11 n = n" using assms(1,2) by (simp add: take_bit_int_eq_self_iff CAN_SFF_MASK_def)
  moreover have "take_bit 11 n AND push_bit k 1 = (0::int)"
    using assms(3) by (intro bit_eqI) (auto simp: bit_simps)
  ultimately show ?thesis by simp
qed

lemma parse_sent_frame:
  assumes "classic_frame f" and "SocketCANBus_send_frame f = Inr raw"
  shows "parse_can_frame raw = Inr \<lparr>pf_can_id = fr_can_id f, pf_dlc = dlc f, pf_data = fr_data f, pf_is_eff = False,
    pf_is_rtr = False, pf_is_err = False\<rparr>"
proof -
  have id: "0 \<le> fr_can_id f" "fr_can_id f \<le> CAN_SFF_MASK" and len: "length (fr_data f) \<le> 8"
    using assms(1) by (simp_all add: classic_frame_def)
  have raw: "raw = le_bytes 4 (fr_can_id f) @ [word_of_nat (dlc f)] @ [0, 0, 0] @ ljust8 (fr_data f)"
    using assms(2) by (auto simp: SocketCANBus_send_frame_def split: if_splits)
  have u: "le_uint (le_bytes 4 (fr_can_id f)) = fr_can_id f"
    using id by (simp add: le_uint_bytes CAN_SFF_MASK_def)
  have fl: "CAN_EFF_FLAG = push_bit 31 1" "CAN_RTR_FLAG = push_bit 30 1" "CAN_ERR_FLAG = push_bit 29 1"
    by (simp_all add: CAN_EFF_FLAG_def CAN_RTR_FLAG_def CAN_ERR_FLAG_def push_bit_eq_mult)
  have flags: "fr_can_id f AND CAN_EFF_FLAG = 0" "fr_can_id f AND CAN_RTR_FLAG = 0" "fr_can_id f AND CAN_ERR_FLAG = 0"
    unfolding fl by (rule small_and_flag [OF id]; simp)+
  have n: "unat (word_of_nat (dlc f) :: byte) = dlc f" using len by (simp add: unat_of_nat dlc_def)
  show ?thesis
    using len n by (simp add: raw parse_can_frame_def u flags ljust8_def dlc_def nth_append and_sff_mask [OF id] Let_def)
qed



end
