(* ===== verification/Dash_Window.thy ===== *)
theory Dash_Window
  imports Dash_Decode
begin

text \<open>
  Sliding time windows of the dashboard: the bus load estimate (\<open>bus_load.py\<close>) and the heartbeat of a
  node (\<open>NodeState\<close> in \<open>state.py\<close>). Both keep a deque of timestamps, prune its old end on every
  arrival, and count what is left.
\<close>

section \<open>Bus load (bus\_load.py)\<close>

definition estimate_classical_can_bits :: "nat \<Rightarrow> bool \<Rightarrow> bool \<Rightarrow> pyfloat \<Rightarrow> bool \<Rightarrow> int result" where
  "estimate_classical_can_bits n is_eff is_rtr stuff_factor include_intermission =
     (let n = min n 8;
          data_bits = (if is_rtr then 0 else 8 * int n);
          base_bits = (if is_eff then 67 else 47) + data_bits;
          base_bits = (if \<not> include_intermission then base_bits - 3 else base_bits)
      in bindE (math_ceil (fmul (float_of_int base_bits) stuff_factor)) (\<lambda>b. Inr (max 0 b)))"

record bus_window =
  bw_window_s :: pyfloat
  bw_bitrate :: pyfloat
  bw_events :: "(pyfloat \<times> int \<times> string) list"

definition bus_prune :: "pyfloat \<Rightarrow> bus_window \<Rightarrow> bus_window" where
  "bus_prune now w =
     (let cutoff = fsub now (bw_window_s w)
      in w\<lparr>bw_events := dropWhile (\<lambda>(t, _). flt t cutoff) (bw_events w)\<rparr>)"

definition bus_add :: "pyfloat \<Rightarrow> int \<Rightarrow> string \<Rightarrow> bus_window \<Rightarrow> bus_window" where
  "bus_add timestamp bits direction w =
     bus_prune timestamp (w\<lparr>bw_events := bw_events w @ [(timestamp, max 0 bits, direction)]\<rparr>)"

record bus_snapshot =
  bs_rx_frames :: int
  bs_tx_frames :: int
  bs_rx_rate :: pyfloat
  bs_tx_rate :: pyfloat
  bs_rx_bits :: int
  bs_tx_bits :: int
  bs_estimated_bps :: pyfloat
  bs_estimated_kbps :: pyfloat
  bs_load_percent :: pyfloat
  bs_bitrate :: pyfloat
  bs_window_s :: pyfloat

fun count_events :: "(pyfloat \<times> int \<times> string) list \<Rightarrow> int \<times> int \<times> int \<times> int" where
  "count_events [] = (0, 0, 0, 0)"
| "count_events ((t, bits, direction) # events) =
     (case count_events events of (rx_frames, tx_frames, rx_bits, tx_bits) \<Rightarrow>
      if direction = ''rx'' then (rx_frames + 1, tx_frames, rx_bits + bits, tx_bits)
      else if direction = ''tx'' then (rx_frames, tx_frames + 1, rx_bits, tx_bits + bits)
      else (rx_frames, tx_frames, rx_bits, tx_bits))"

definition bus_snapshot_of :: "pyfloat \<Rightarrow> bus_window \<Rightarrow> bus_snapshot result \<times> bus_window" where
  "bus_snapshot_of now w =
     (let w' = bus_prune now w
      in case count_events (bw_events w') of (rx_frames, tx_frames, rx_bits, tx_bits) \<Rightarrow>
        let duration = fmax (bw_window_s w') (lit (1 / 10 ^ 9)) in
        (bindE (fdiv (float_of_int (rx_bits + tx_bits)) duration) (\<lambda>estimated_bps.
         bindE (fdiv (float_of_int rx_frames) duration) (\<lambda>rx_rate.
         bindE (fdiv (float_of_int tx_frames) duration) (\<lambda>tx_rate.
         bindE (fdiv estimated_bps (Fin 1000)) (\<lambda>estimated_kbps.
         bindE (fdiv estimated_bps (fmax (bw_bitrate w') (lit (1 / 10 ^ 9)))) (\<lambda>load.
           Inr \<lparr>bs_rx_frames = rx_frames, bs_tx_frames = tx_frames, bs_rx_rate = rx_rate, bs_tx_rate = tx_rate,
                bs_rx_bits = rx_bits, bs_tx_bits = tx_bits, bs_estimated_bps = estimated_bps,
                bs_estimated_kbps = estimated_kbps, bs_load_percent = fmul load (Fin 100),
                bs_bitrate = bw_bitrate w', bs_window_s = bw_window_s w'\<rparr>))))), w'))"

section \<open>Node heartbeat (state.py)\<close>

definition hex_id :: "int \<Rightarrow> string" where
  "hex_id can_id = ''0x'' @ zero_pad 3 (hex_of_int can_id)"

record node_state =
  nd_key :: string
  nd_name :: string
  nd_can_id :: int
  nd_role :: string
  nd_timeout_s :: pyfloat
  nd_heartbeat_window_s :: pyfloat
  nd_rx_count :: int
  nd_last_t :: pyfloat
  nd_last_data :: "byte list"
  nd_timestamps :: "pyfloat list"

definition node_prune :: "pyfloat \<Rightarrow> node_state \<Rightarrow> node_state" where
  "node_prune now n =
     (let cutoff = fsub now (nd_heartbeat_window_s n)
      in n\<lparr>nd_timestamps := dropWhile (\<lambda>t. flt t cutoff) (nd_timestamps n)\<rparr>)"

definition node_mark_rx :: "pyfloat \<Rightarrow> byte list \<Rightarrow> node_state \<Rightarrow> node_state" where
  "node_mark_rx now data n =
     node_prune now (n\<lparr>nd_rx_count := nd_rx_count n + 1, nd_last_t := now, nd_last_data := data,
       nd_timestamps := nd_timestamps n @ [now]\<rparr>)"

definition heartbeat_hz :: "node_state \<Rightarrow> pyfloat result" where
  "heartbeat_hz n =
     (if length (nd_timestamps n) < 2 then Inr (Fin 0)
      else let duration_s = fsub (last (nd_timestamps n)) (hd (nd_timestamps n))
           in if fle duration_s (lit (1 / 10 ^ 9)) then Inr (Fin 0)
              else fdiv (float_of_int (int (length (nd_timestamps n)) - 1)) duration_s)"

definition node_age :: "pyfloat \<Rightarrow> node_state \<Rightarrow> pyfloat option" where
  "node_age now n = (if fle (nd_last_t n) (Fin 0) then None else Some (fmax (Fin 0) (fsub now (nd_last_t n))))"

definition node_status :: "pyfloat \<Rightarrow> node_state \<Rightarrow> string" where
  "node_status now n =
     (case node_age now n of None \<Rightarrow> ''never''
      | Some age_s \<Rightarrow> if fgt age_s (nd_timeout_s n) then ''timeout'' else ''online'')"

text \<open>\<open>None\<close> in a dict that goes to JSON.\<close>

definition popt :: "('a \<Rightarrow> pyval) \<Rightarrow> 'a option \<Rightarrow> pyval" where
  "popt f v = (case v of None \<Rightarrow> PNone | Some x \<Rightarrow> f x)"

definition node_snapshot :: "pyfloat \<Rightarrow> node_state \<Rightarrow> pyval result \<times> node_state" where
  "node_snapshot now n =
     (let n' = node_prune now n
      in (bindE (heartbeat_hz n') (\<lambda>hz.
            Inr (PDict [(''key'', PStr (nd_key n')), (''name'', PStr (nd_name n')),
              (''can_id'', PStr (hex_id (nd_can_id n'))), (''role'', PStr (nd_role n')),
              (''heartbeat_hz'', PFloat hz), (''last_seen_s'', popt PFloat (node_age now n')),
              (''timeout_s'', PFloat (nd_timeout_s n')), (''status'', PStr (node_status now n')),
              (''rx_count'', PInt (nd_rx_count n')), (''last_data'', PStr (hex_data (nd_last_data n')))])), n'))"

section \<open>Order of rounded times\<close>

lemma flt_down: "x \<le> y \<Longrightarrow> flt (Fin y) c \<Longrightarrow> flt (Fin x) c"
  by (cases c) auto

lemma flt_fround_mono:
  assumes "p \<le> q" and "flt (Fin x) (fround p)"
  shows "flt (Fin x) (fround q)"
proof -
  have "rnd 53 (-1074) p \<le> rnd 53 (-1074) q" using assms(1) by (intro rnd_mono) auto
  moreover have "0 < fbound 1024" by simp
  ultimately show ?thesis
    using assms(2) unfolding fround_def to_format_def Let_def overflows_def by (auto split: if_splits)
qed

lemma flt_cutoff_mono: "a \<le> b \<Longrightarrow> flt (Fin x) (fsub (Fin a) w) \<Longrightarrow> flt (Fin x) (fsub (Fin b) w)"
proof (cases w)
  case (Fin c)
  assume "a \<le> b" "flt (Fin x) (fsub (Fin a) w)"
  then show ?thesis using flt_fround_mono [of "a - c" "b - c" x] Fin by (simp add: fsub_def)
qed (auto simp: fsub_def)

section \<open>Sliding windows\<close>

text \<open>
  A window holds entries with a time, appends one and drops the old end on every arrival, and drops
  the old end on demand. With arrivals in order it holds exactly the entries that are not older
  than its width.
\<close>

definition in_window :: "('e \<Rightarrow> pyfloat) \<Rightarrow> pyfloat \<Rightarrow> real \<Rightarrow> 'e \<Rightarrow> bool" where
  "in_window stamp v now = (\<lambda>e. \<not> flt (stamp e) (fsub (Fin now) v))"

definition timed :: "('e \<Rightarrow> pyfloat) \<Rightarrow> 'e list \<Rightarrow> real list \<Rightarrow> bool" where
  "timed stamp es ts \<longleftrightarrow> map stamp es = map Fin ts \<and> sorted ts"

locale sliding_window =
  fixes entries :: "'w \<Rightarrow> 'e list"
    and stamp :: "'e \<Rightarrow> pyfloat"
    and width :: "'w \<Rightarrow> pyfloat"
    and item :: "'i \<Rightarrow> 'e"
    and push :: "'i \<Rightarrow> 'w \<Rightarrow> 'w"
    and prune :: "pyfloat \<Rightarrow> 'w \<Rightarrow> 'w"
  assumes entries_push: "entries (push i w) =
      dropWhile (\<lambda>e. flt (stamp e) (fsub (stamp (item i)) (width w))) (entries w @ [item i])"
    and entries_prune: "entries (prune now w) = dropWhile (\<lambda>e. flt (stamp e) (fsub now (width w))) (entries w)"
    and width_push: "width (push i w) = width w"
begin

lemma dropWhile_sorted:
  "timed stamp es ts \<Longrightarrow> dropWhile (\<lambda>e. flt (stamp e) c) es = filter (\<lambda>e. \<not> flt (stamp e) c) es"
proof (induction es arbitrary: ts)
  case (Cons e es)
  then obtain t ts' where ts: "ts = t # ts'" "stamp e = Fin t" "map stamp es = map Fin ts'" "sorted ts'" "\<forall>u \<in> set ts'. t \<le> u"
    by (cases ts) (auto simp: timed_def)
  show ?case
  proof (cases "flt (stamp e) c")
    case True
    then show ?thesis using Cons.IH [of ts'] ts by (simp add: timed_def)
  next
    case False
    have "\<not> flt (stamp e') c" if "e' \<in> set es" for e'
    proof -
      have "stamp e' \<in> set (map Fin ts')" using that ts(3) by (metis image_eqI list.set_map)
      then obtain u where "stamp e' = Fin u" "t \<le> u" using ts(5) by auto
      then show ?thesis using False ts(2) flt_down by metis
    qed
    then show ?thesis using False by simp
  qed
qed simp

lemma timed_filter: "timed stamp es ts \<Longrightarrow> \<exists>ts'. timed stamp (filter P es) ts' \<and> set ts' \<subseteq> set ts"
proof (induction es arbitrary: ts)
  case (Cons e es)
  then obtain t ts1 where ts: "ts = t # ts1" "stamp e = Fin t" "timed stamp es ts1" "\<forall>u \<in> set ts1. t \<le> u"
    by (cases ts) (auto simp: timed_def)
  then obtain ts' where t': "timed stamp (filter P es) ts'" "set ts' \<subseteq> set ts1" using Cons.IH by blast
  show ?case
  proof (cases "P e")
    case True
    then show ?thesis using t' ts by (intro exI [of _ "t # ts'"]) (auto simp: timed_def)
  next
    case False
    then show ?thesis using t' ts by auto
  qed
qed (auto simp: timed_def intro: exI [of _ "[]"])

text \<open>What has been dropped already would be dropped at any later time.\<close>

lemma pushes:
  assumes "entries w = []" and "timed stamp (map item is) ts"
  shows "(\<exists>ts'. timed stamp (entries (fold push is w)) ts' \<and> set ts' \<subseteq> set ts) \<and> width (fold push is w) = width w \<and>
    (\<forall>now. (\<forall>t \<in> set ts. t \<le> now) \<longrightarrow>
      filter (in_window stamp (width w) now) (entries (fold push is w)) = filter (in_window stamp (width w) now) (map item is))"
  using assms(2)
proof (induction "is" arbitrary: ts rule: rev_induct)
  case Nil
  then show ?case using assms(1) by (auto simp: timed_def)
next
  case (snoc i js)
  let ?W = "fold push js w"
  from snoc.prems obtain ts0 t where ts: "ts = ts0 @ [t]" "timed stamp (map item js) ts0" "stamp (item i) = Fin t" "\<forall>u \<in> set ts0. u \<le> t"
    by (cases ts rule: rev_cases) (auto simp: timed_def sorted_append)
  from snoc.IH [OF ts(2)] obtain ts' where IH: "timed stamp (entries ?W) ts'" "set ts' \<subseteq> set ts0" "width ?W = width w"
    "\<And>now. \<forall>u \<in> set ts0. u \<le> now \<Longrightarrow>
      filter (in_window stamp (width w) now) (entries ?W) = filter (in_window stamp (width w) now) (map item js)"
    by blast
  have tm: "timed stamp (entries ?W @ [item i]) (ts' @ [t])"
    using IH(1,2) ts(3,4) by (auto simp: timed_def sorted_append)
  have ev: "entries (push i ?W) = filter (in_window stamp (width w) t) (entries ?W @ [item i])"
    using dropWhile_sorted [OF tm] by (simp add: entries_push IH(3) ts(3) in_window_def)
  have "filter (in_window stamp (width w) now) (entries (push i ?W)) = filter (in_window stamp (width w) now) (map item (js @ [i]))"
    if "\<forall>u \<in> set ts. u \<le> now" for now
  proof -
    have t: "t \<le> now" "\<forall>u \<in> set ts0. u \<le> now" using that ts(1) by auto
    have imp: "in_window stamp (width w) t e" if "in_window stamp (width w) now e" "e \<in> set (entries ?W @ [item i])" for e
    proof -
      have "stamp e \<in> set (map Fin (ts' @ [t]))" using that(2) tm unfolding timed_def by (metis image_eqI list.set_map)
      then obtain u where "stamp e = Fin u" by auto
      then show ?thesis using that(1) flt_cutoff_mono [OF t(1)] by (auto simp: in_window_def)
    qed
    have "filter (in_window stamp (width w) now) (entries (push i ?W)) = filter (in_window stamp (width w) now) (entries ?W @ [item i])"
      unfolding ev filter_filter using imp by (intro filter_cong) auto
    then show ?thesis using IH(4) [OF t(2)] by simp
  qed
  moreover have "\<exists>ts''. timed stamp (entries (push i ?W)) ts'' \<and> set ts'' \<subseteq> set ts"
    using timed_filter [OF tm, of "in_window stamp (width w) t"] IH(2) ts(1) unfolding ev by fastforce
  ultimately show ?case by (simp add: width_push IH(3))
qed

lemma window_exact:
  assumes "entries w = []" and "timed stamp (map item is) ts" and "\<forall>t \<in> set ts. t \<le> now"
  shows "entries (prune (Fin now) (fold push is w)) = filter (in_window stamp (width w) now) (map item is)"
proof -
  from pushes [OF assms(1,2)] obtain ts' where "timed stamp (entries (fold push is w)) ts'" "width (fold push is w) = width w"
    and f: "filter (in_window stamp (width w) now) (entries (fold push is w)) = filter (in_window stamp (width w) now) (map item is)"
    using assms(3) by blast
  then show ?thesis using dropWhile_sorted by (simp add: entries_prune in_window_def)
qed

end

interpretation bus: sliding_window bw_events fst bw_window_s "\<lambda>(t, bits, d). (t, max 0 bits, d)"
  "\<lambda>(t, bits, d). bus_add t bits d" bus_prune
  by unfold_locales (auto simp: bus_add_def bus_prune_def Let_def case_prod_unfold)

interpretation node: sliding_window nd_timestamps "\<lambda>t. t" nd_heartbeat_window_s fst
  "\<lambda>(t, data). node_mark_rx t data" node_prune
  by unfold_locales (auto simp: node_mark_rx_def node_prune_def Let_def)

section \<open>Properties\<close>

lemma nano_limit: obtains l where "lit (1 / 10 ^ 9) = Fin l" and "0 < l"
proof -
  have "\<bar>1 / 10 ^ 9\<bar> \<le> (2::real) ^ 900" by (rule order_trans [of _ 1]) simp_all
  then have "lit (1 / 10 ^ 9) = Fin (r64 (1 / 10 ^ 9))" by (simp only: lit_def fround_r64)
  moreover have "0 < (1::real) / 10 ^ 9 * (1 - 1 / 2 ^ 53) - 1 / 2 ^ 100" by simp
  then have "0 < r64 (1 / 10 ^ 9)" using r64_bounds(1) [of "1 / 10 ^ 9"] tiny_le by simp
  ultimately show thesis by (rule that)
qed

lemma fdiv_fmax_nano: "\<exists>q. fdiv x (fmax y (lit (1 / 10 ^ 9))) = Inr q"
proof -
  obtain l where "lit (1 / 10 ^ 9) = Fin l" "0 < l" by (rule nano_limit)
  then show ?thesis by (cases x; cases y) (auto simp: fmax_def)
qed

lemma count_events_eq:
  "count_events es =
     (int (length (filter (\<lambda>(_, _, d). d = ''rx'') es)), int (length (filter (\<lambda>(_, _, d). d = ''tx'') es)),
      (\<Sum>(_, b, _) \<leftarrow> filter (\<lambda>(_, _, d). d = ''rx'') es. b), (\<Sum>(_, b, _) \<leftarrow> filter (\<lambda>(_, _, d). d = ''tx'') es. b))"
  by (induction es rule: count_events.induct) auto

lemma bus_snapshot_counts:
  assumes "count_events (bw_events (bus_prune now w)) = (rx, tx, rx_bits, tx_bits)"
  shows "\<exists>s. fst (bus_snapshot_of now w) = Inr s \<and> bs_rx_frames s = rx \<and> bs_tx_frames s = tx \<and>
    bs_rx_bits s = rx_bits \<and> bs_tx_bits s = tx_bits"
proof -
  let ?d = "fmax (bw_window_s (bus_prune now w)) (lit (1 / 10 ^ 9))"
  obtain bps where 1: "fdiv (float_of_int (rx_bits + tx_bits)) ?d = Inr bps" using fdiv_fmax_nano by blast
  obtain r t where 2: "fdiv (float_of_int rx) ?d = Inr r" "fdiv (float_of_int tx) ?d = Inr t" using fdiv_fmax_nano by meson
  obtain kb where 3: "fdiv bps (Fin 1000) = Inr kb" by (cases bps) auto
  obtain ld where 4: "fdiv bps (fmax (bw_bitrate (bus_prune now w)) (lit (1 / 10 ^ 9))) = Inr ld" using fdiv_fmax_nano by blast
  show ?thesis using assms 1 2 3 4 by (simp add: bus_snapshot_of_def Let_def)
qed

text \<open>
  C36. The bus load window: with frames recorded in the order of their times, the figures shown at any later
  time count exactly the received and sent frames, and their bits, that are not older than the
  window, in spite of the pruning on every arrival and of rounding; the snapshot never raises.
\<close>

theorem bus_load_exact:
  assumes "bw_events w = []" and "map fst evs = map Fin ts" and "sorted ts" and "\<forall>t \<in> set ts. t \<le> now"
  shows "let recent = (\<lambda>dir. filter (\<lambda>(t, _, d). \<not> flt t (fsub (Fin now) (bw_window_s w)) \<and> d = dir) evs) in
    \<exists>s. fst (bus_snapshot_of (Fin now) (fold (\<lambda>(t, bits, d). bus_add t bits d) evs w)) = Inr s \<and>
      bs_rx_frames s = int (length (recent ''rx'')) \<and> bs_tx_frames s = int (length (recent ''tx'')) \<and>
      bs_rx_bits s = (\<Sum>(_, bits, _) \<leftarrow> recent ''rx''. max 0 bits) \<and>
      bs_tx_bits s = (\<Sum>(_, bits, _) \<leftarrow> recent ''tx''. max 0 bits)"
proof -
  let ?W = "fold (\<lambda>(t, bits, d). bus_add t bits d) evs w"
  let ?item = "\<lambda>(t, bits, d). (t, max 0 bits, d)"
  have "timed fst (map ?item evs) ts"
    using assms(2,3) by (simp add: timed_def comp_def case_prod_unfold)
  then have e: "bw_events (bus_prune (Fin now) ?W) = filter (in_window fst (bw_window_s w) now) (map ?item evs)"
    by (rule bus.window_exact [OF assms(1) _ assms(4)])
  have f: "filter (\<lambda>(_, _, d). d = dir) (filter (in_window fst (bw_window_s w) now) (map ?item evs)) =
      map ?item (filter (\<lambda>(t, _, d). \<not> flt t (fsub (Fin now) (bw_window_s w)) \<and> d = dir) evs)" for dir
    by (auto simp: filter_map comp_def case_prod_unfold in_window_def intro!: arg_cong [where f = "map _"] filter_cong)
  have c: "count_events (bw_events (bus_prune (Fin now) ?W)) =
      (let recent = (\<lambda>dir. filter (\<lambda>(t, _, d). \<not> flt t (fsub (Fin now) (bw_window_s w)) \<and> d = dir) evs) in
       (int (length (recent ''rx'')), int (length (recent ''tx'')),
        (\<Sum>(_, bits, _) \<leftarrow> recent ''rx''. max 0 bits), (\<Sum>(_, bits, _) \<leftarrow> recent ''tx''. max 0 bits)))"
    unfolding count_events_eq e f by (simp add: Let_def case_prod_unfold comp_def)
  show ?thesis unfolding Let_def by (rule bus_snapshot_counts [OF c [unfolded Let_def]])
qed

theorem bus_load_exact_witness:
  "\<exists>s. fst (bus_snapshot_of (Fin 3) (fold (\<lambda>(t, bits, d). bus_add t bits d)
       [(Fin (3/2), 70, ''rx''), (Fin (5/2), 80, ''rx''), (Fin (11/4), 90, ''tx'')]
       \<lparr>bw_window_s = Fin 1, bw_bitrate = Fin 1000000, bw_events = []\<rparr>)) = Inr s \<and>
     bs_rx_frames s = 1 \<and> bs_rx_bits s = 80 \<and> bs_tx_bits s = 90"
proof -
  have "fsub (Fin 3) (Fin 1) = Fin 2" using float_of_int_exact [of 2] by (simp add: fsub_def float_of_int_def)
  then show ?thesis
    using bus_load_exact [of "\<lparr>bw_window_s = Fin 1, bw_bitrate = Fin 1000000, bw_events = []\<rparr>"
        "[(Fin (3/2), 70, ''rx''), (Fin (5/2), 80, ''rx''), (Fin (11/4), 90, ''tx'')]" "[3/2, 5/2, 11/4]" 3]
    by (auto simp: Let_def)
qed

end
