(* ===== verification/Dash_State.thy ===== *)
theory Dash_State
  imports Dash_Window Env
begin

text \<open>
  The dashboard's monitor of the bus (\<open>dashboard/backend/state.py\<close>): counters per identifier and channel,
  node heartbeats, the decoded IMU and motor values, and the snapshot sent to the browser. Dicts are
  association lists in insertion order.
\<close>

section \<open>Data\<close>

record raw_frame_state =
  rf_can_id :: int
  rf_count :: int
  rf_last_t :: pyfloat
  rf_last_dlc :: nat
  rf_last_data :: "byte list"

record e2box_state =
  ex_req_count :: int
  ex_quat_count :: int
  ex_gyro_count :: int
  ex_quat_last_t :: pyfloat
  ex_gyro_last_t :: pyfloat
  ex_quat_xyzw :: quat
  ex_projected_gravity_b :: vec3
  ex_angular_velocity_rad_s :: vec3

definition E2BoxState_init :: e2box_state where
  "E2BoxState_init =
     \<lparr>ex_req_count = 0, ex_quat_count = 0, ex_gyro_count = 0, ex_quat_last_t = Fin 0, ex_gyro_last_t = Fin 0,
      ex_quat_xyzw = (Fin 0, Fin 0, Fin 0, Fin 1), ex_projected_gravity_b = (Fin 0, Fin 0, Fin (- 1)),
      ex_angular_velocity_rad_s = (Fin 0, Fin 0, Fin 0)\<rparr>"

record motor_state =
  mt_can_id :: int
  mt_name :: string
  mt_rx_count :: int
  mt_last_t :: pyfloat
  mt_last_kind :: string
  mt_enabled_hint :: "bool option"
  mt_temperature_c :: "int option"
  mt_iq_a_approx :: "pyfloat option"
  mt_speed_dps :: "int option"
  mt_position_rad :: "pyfloat option"
  mt_zero_offset_count :: "int option"
  mt_raw_data :: "byte list"

definition SPGMotorState_init :: "int \<Rightarrow> string \<Rightarrow> motor_state" where
  "SPGMotorState_init can_id name =
     \<lparr>mt_can_id = can_id, mt_name = name, mt_rx_count = 0, mt_last_t = Fin 0, mt_last_kind = ''never'',
      mt_enabled_hint = None, mt_temperature_c = None, mt_iq_a_approx = None, mt_speed_dps = None,
      mt_position_rad = None, mt_zero_offset_count = None, mt_raw_data = []\<rparr>"

record can_channel =
  ch_key :: string
  ch_name :: string
  ch_iface :: string
  ch_bitrate :: int
  ch_bus_window_s :: pyfloat
  ch_stuff_factor :: pyfloat
  ch_socket_status :: string
  ch_socket_error :: "string option"
  ch_total_rx :: int
  ch_total_tx :: int
  ch_bus_load :: bus_window

definition CanChannelState_init :: "string \<Rightarrow> string \<Rightarrow> string \<Rightarrow> int \<Rightarrow> pyfloat \<Rightarrow> pyfloat \<Rightarrow> can_channel" where
  "CanChannelState_init key name iface bitrate bus_window_s stuff_factor =
     \<lparr>ch_key = key, ch_name = name, ch_iface = iface, ch_bitrate = bitrate, ch_bus_window_s = bus_window_s,
      ch_stuff_factor = stuff_factor, ch_socket_status = ''disconnected'', ch_socket_error = None, ch_total_rx = 0,
      ch_total_tx = 0,
      ch_bus_load = \<lparr>bw_window_s = bus_window_s, bw_bitrate = float_of_int bitrate, bw_events = []\<rparr>\<rparr>"

definition channel_mark_rx :: "parsed_frame \<Rightarrow> pyfloat \<Rightarrow> (can_channel, unit) action" where
  "channel_mark_rx frame now c =
     (let c1 = c\<lparr>ch_total_rx := ch_total_rx c + 1\<rparr>
      in case estimate_classical_can_bits (pf_dlc frame) (pf_is_eff frame) (pf_is_rtr frame) (ch_stuff_factor c1) True of
           Inl e \<Rightarrow> (Inl e, c1)
         | Inr bits \<Rightarrow> (Inr (), c1\<lparr>ch_bus_load := bus_add now bits ''rx'' (ch_bus_load c1)\<rparr>))"

definition channel_mark_tx :: "byte list \<Rightarrow> pyfloat \<Rightarrow> (can_channel, unit) action" where
  "channel_mark_tx data now c =
     (let c1 = c\<lparr>ch_total_tx := ch_total_tx c + 1\<rparr>
      in case estimate_classical_can_bits (length data) False False (ch_stuff_factor c1) True of
           Inl e \<Rightarrow> (Inl e, c1)
         | Inr bits \<Rightarrow> (Inr (), c1\<lparr>ch_bus_load := bus_add now bits ''tx'' (ch_bus_load c1)\<rparr>))"

record monitor =
  mn_heartbeat_window_s :: pyfloat
  mn_node_timeout_s :: pyfloat
  mn_feedback_position_max_rad :: pyfloat
  mn_iq_full_scale_count :: pyfloat
  mn_iq_full_scale_current_a :: pyfloat
  mn_mit_config :: SPGMITConfig
  mn_imu_request_id :: int
  mn_imu_quat_id :: int
  mn_imu_gyro_id :: int
  mn_imu_quat_scale :: pyfloat
  mn_imu_gyro_scale :: pyfloat
  mn_imu_normalize_quat :: bool
  mn_can_channels :: "can_channel list"
  mn_actuator_configs :: "(int \<times> string) list"
  mn_tx_enabled :: bool
  mn_allow_actuator_commands :: bool
  mn_mit_poll_can_ids :: "int set"
  mn_mit_poll_hz :: pyfloat
  mn_start_t :: pyfloat
  mn_raw_frames :: "(int \<times> raw_frame_state) list"
  mn_nodes :: "(string \<times> node_state) list"
  mn_imu :: e2box_state
  mn_motors :: "(int \<times> motor_state) list"

section \<open>Construction\<close>

definition ensure_node :: "string \<Rightarrow> string \<Rightarrow> int \<Rightarrow> string \<Rightarrow> monitor \<Rightarrow> monitor" where
  "ensure_node key name can_id role m =
     (case map_of (mn_nodes m) key of
        Some _ \<Rightarrow> m
      | None \<Rightarrow> m\<lparr>mn_nodes := mn_nodes m @ [(key, \<lparr>nd_key = key, nd_name = name, nd_can_id = can_id, nd_role = role,
          nd_timeout_s = mn_node_timeout_s m, nd_heartbeat_window_s = mn_heartbeat_window_s m, nd_rx_count = 0,
          nd_last_t = Fin 0, nd_last_data = [], nd_timestamps = []\<rparr>)]\<rparr>)"

definition can_key :: "int \<Rightarrow> string" where
  "can_key can_id = ''can_'' @ zero_pad 3 (hex_of_int can_id)"

text \<open>\<open>dict.setdefault\<close>.\<close>

definition setdefault :: "'k \<Rightarrow> 'v \<Rightarrow> ('k \<times> 'v) list \<Rightarrow> ('k \<times> 'v) list" where
  "setdefault k v d = (case map_of d k of Some _ \<Rightarrow> d | None \<Rightarrow> d @ [(k, v)])"

definition ensure_actuator :: "int \<times> string \<Rightarrow> monitor \<Rightarrow> monitor" where
  "ensure_actuator actuator m =
     (let m1 = ensure_node (can_key (fst actuator)) (snd actuator) (fst actuator) ''Actuator'' m
      in m1\<lparr>mn_motors := setdefault (fst actuator) (SPGMotorState_init (fst actuator) (snd actuator)) (mn_motors m1)\<rparr>)"

definition ensure_known_nodes :: "monitor \<Rightarrow> monitor" where
  "ensure_known_nodes m =
     (let m1 = ensure_node ''imu_req'' ''E2Box command'' (mn_imu_request_id m) ''IMU'' m;
          m2 = ensure_node ''imu_quat'' ''E2Box quaternion'' (mn_imu_quat_id m1) ''IMU'' m1;
          m3 = ensure_node ''imu_gyro'' ''E2Box gyro'' (mn_imu_gyro_id m2) ''IMU'' m2
      in fold ensure_actuator (mn_actuator_configs m3) m3)"

text \<open>\<open>__post_init__\<close>, on the values the dataclass was called with.\<close>

definition MonitorState_post_init :: "monitor \<Rightarrow> monitor result" where
  "MonitorState_post_init m =
     (if mn_can_channels m = [] then Inl (ValueError ''MonitorState requires at least one CAN display channel'')
      else Inr (ensure_known_nodes (m\<lparr>mn_actuator_configs := sort_key fst (mn_actuator_configs m)\<rparr>)))"

definition socket_error :: "monitor \<Rightarrow> string option" where
  "socket_error m = ch_socket_error (hd (mn_can_channels m))"

definition set_socket_error :: "string option \<Rightarrow> monitor \<Rightarrow> monitor" where
  "set_socket_error v m =
     m\<lparr>mn_can_channels := (mn_can_channels m)[0 := (mn_can_channels m ! 0)\<lparr>ch_socket_error := v\<rparr>]\<rparr>"

definition actuator_config_for_can_id :: "int \<Rightarrow> monitor \<Rightarrow> (int \<times> string) option" where
  "actuator_config_for_can_id can_id m = find (\<lambda>a. fst a = can_id) (mn_actuator_configs m)"

section \<open>Reception\<close>

definition node_for_can_id :: "int \<Rightarrow> monitor \<Rightarrow> string \<times> monitor" where
  "node_for_can_id can_id m =
     (case find (\<lambda>(_, n). nd_can_id n = can_id) (mn_nodes m) of
        Some (key, _) \<Rightarrow> (key, m)
      | None \<Rightarrow> (can_key can_id, ensure_node (can_key can_id) (''CAN '' @ zero_pad 3 (hex_of_int can_id)) can_id ''Raw'' m))"

definition update_node :: "int \<Rightarrow> pyfloat \<Rightarrow> byte list \<Rightarrow> monitor \<Rightarrow> monitor" where
  "update_node can_id now data m =
     (case node_for_can_id can_id m of (key, m1) \<Rightarrow>
      m1\<lparr>mn_nodes := AList.map_entry key (node_mark_rx now data) (mn_nodes m1)\<rparr>)"

definition update_raw_frame :: "parsed_frame \<Rightarrow> pyfloat \<Rightarrow> monitor \<Rightarrow> monitor" where
  "update_raw_frame frame now m =
     (let raw = (case map_of (mn_raw_frames m) (pf_can_id frame) of Some r \<Rightarrow> r
        | None \<Rightarrow> \<lparr>rf_can_id = pf_can_id frame, rf_count = 0, rf_last_t = Fin 0, rf_last_dlc = 0, rf_last_data = []\<rparr>)
      in m\<lparr>mn_raw_frames := AList.update (pf_can_id frame)
           (raw\<lparr>rf_count := rf_count raw + 1, rf_last_t := now, rf_last_dlc := pf_dlc frame, rf_last_data := pf_data frame\<rparr>)
           (mn_raw_frames m)\<rparr>)"

text \<open>\<open>ValueError\<close> is logged and swallowed; anything else leaves the method.\<close>

definition update_imu :: "parsed_frame \<Rightarrow> pyfloat \<Rightarrow> (monitor, unit) action" where
  "update_imu frame now m =
     (let i = mn_imu m in
      if pf_can_id frame = mn_imu_request_id m
      then (Inr (), m\<lparr>mn_imu := i\<lparr>ex_req_count := ex_req_count i + 1\<rparr>\<rparr>)
      else if pf_can_id frame = mn_imu_quat_id m \<and> pf_dlc frame = 8
      then (case decode_e2box_quat (pf_data frame) (mn_imu_quat_scale m) (mn_imu_normalize_quat m) of
              Inl (ValueError _) \<Rightarrow> (Inr (), m)
            | Inl e \<Rightarrow> (Inl e, m)
            | Inr (q, g) \<Rightarrow> (Inr (), m\<lparr>mn_imu := i\<lparr>ex_quat_count := ex_quat_count i + 1, ex_quat_last_t := now,
                ex_quat_xyzw := q, ex_projected_gravity_b := g\<rparr>\<rparr>))
      else if pf_can_id frame = mn_imu_gyro_id m \<and> pf_dlc frame = 8
      then (case decode_e2box_gyro (pf_data frame) (mn_imu_gyro_scale m) of
              Inl (ValueError _) \<Rightarrow> (Inr (), m)
            | Inl e \<Rightarrow> (Inl e, m)
            | Inr g \<Rightarrow> (Inr (), m\<lparr>mn_imu := i\<lparr>ex_gyro_count := ex_gyro_count i + 1, ex_gyro_last_t := now,
                ex_angular_velocity_rad_s := g\<rparr>\<rparr>))
      else (Inr (), m))"

text \<open>What a received frame does to its motor, after the counters.\<close>

definition motor_decode :: "parsed_frame \<Rightarrow> monitor \<Rightarrow> motor_state \<Rightarrow> unit result \<times> motor_state" where
  "motor_decode frame m mt =
     (if pf_dlc frame < 1 then (Inr (), mt\<lparr>mt_last_kind := ''empty''\<rparr>)
      else let opcode = pf_data frame ! 0; mt1 = mt\<lparr>mt_last_kind := spg_opcode_name opcode\<rparr>
           in if opcode = SPG_CMD_MIT_CONTROL \<and> pf_dlc frame = 8
              then (case decode_spg_status (pf_data frame) (mn_feedback_position_max_rad m) (mn_iq_full_scale_count m)
                      (mn_iq_full_scale_current_a m) of
                      Inl (ValueError _) \<Rightarrow> (Inr (), mt1)
                    | Inl e \<Rightarrow> (Inl e, mt1)
                    | Inr st \<Rightarrow> (Inr (), mt1\<lparr>mt_temperature_c := Some (st_temperature_c st),
                        mt_iq_a_approx := Some (st_iq_a_approx st), mt_speed_dps := Some (st_speed_dps st),
                        mt_position_rad := Some (st_position_rad st)\<rparr>))
              else if opcode = SPG_CMD_MIT_ENTER then (Inr (), mt1\<lparr>mt_enabled_hint := Some True\<rparr>)
              else if opcode \<in> {SPG_CMD_MIT_EXIT, SPG_CMD_CLEAR_ERROR} then (Inr (), mt1\<lparr>mt_enabled_hint := Some False\<rparr>)
              else if opcode = SPG_CMD_MIT_SET_ZERO \<and> pf_dlc frame = 8
              then (Inr (), mt1\<lparr>mt_zero_offset_count := Some (le_sint (slice 6 8 (pf_data frame)))\<rparr>)
              else (Inr (), mt1))"

definition update_motor :: "parsed_frame \<Rightarrow> pyfloat \<Rightarrow> (monitor, unit) action" where
  "update_motor frame now m =
     (case actuator_config_for_can_id (pf_can_id frame) m of
        None \<Rightarrow> (Inr (), m)
      | Some actuator \<Rightarrow>
          let motors = setdefault (pf_can_id frame) (SPGMotorState_init (pf_can_id frame) (snd actuator)) (mn_motors m);
              mt = the (map_of motors (pf_can_id frame))
          in case motor_decode frame m (mt\<lparr>mt_rx_count := mt_rx_count mt + 1, mt_last_t := now, mt_raw_data := pf_data frame\<rparr>) of
               (r, mt') \<Rightarrow> (r, m\<lparr>mn_motors := AList.update (pf_can_id frame) mt' motors\<rparr>))"

text \<open>\<open>mark_rx\<close>; the channel is given by its index. \<open>now\<close> is the argument or the clock.\<close>

definition monitor_mark_rx :: "parsed_frame \<Rightarrow> pyfloat \<Rightarrow> nat option \<Rightarrow> (monitor, unit) action" where
  "monitor_mark_rx frame now channel =
     bindA (\<lambda>m. case channel of
         None \<Rightarrow> (Inr (), m)
       | Some i \<Rightarrow> (case channel_mark_rx frame now (mn_can_channels m ! i) of
           (r, c) \<Rightarrow> (r, m\<lparr>mn_can_channels := (mn_can_channels m)[i := c]\<rparr>)))
       (\<lambda>_ m. bindA (update_imu frame now) (\<lambda>_. update_motor frame now)
         (update_node (pf_can_id frame) now (pf_data frame) (update_raw_frame frame now m)))"

section \<open>Transmission\<close>

definition motor_tx_hint :: "byte list \<Rightarrow> pyfloat \<Rightarrow> motor_state \<Rightarrow> motor_state" where
  "motor_tx_hint data now mt =
     (let opcode = data ! 0; mt1 = mt\<lparr>mt_last_t := now, mt_raw_data := take 8 data\<rparr>
      in if opcode = SPG_CMD_MIT_ENTER then mt1\<lparr>mt_last_kind := ''MIT_ENTER_SENT'', mt_enabled_hint := Some True\<rparr>
         else if opcode = SPG_CMD_MIT_EXIT then mt1\<lparr>mt_last_kind := ''MIT_EXIT_SENT'', mt_enabled_hint := Some False\<rparr>
         else if opcode = SPG_CMD_MIT_SET_ZERO
         then mt1\<lparr>mt_last_kind := ''MIT_SET_ZERO_SENT'',
                  mt_zero_offset_count := (if 8 \<le> length data then Some (le_sint (slice 6 8 data)) else mt_zero_offset_count mt1)\<rparr>
         else mt)"

definition update_motor_tx_hint :: "int \<Rightarrow> byte list \<Rightarrow> pyfloat \<Rightarrow> monitor \<Rightarrow> monitor" where
  "update_motor_tx_hint can_id data now m =
     (case actuator_config_for_can_id can_id m of
        None \<Rightarrow> m
      | Some actuator \<Rightarrow>
          if data = [] then m
          else let motors = setdefault can_id (SPGMotorState_init can_id (snd actuator)) (mn_motors m)
               in m\<lparr>mn_motors := AList.map_entry can_id (motor_tx_hint data now) motors\<rparr>)"

definition monitor_mark_tx :: "int \<Rightarrow> byte list \<Rightarrow> pyfloat \<Rightarrow> (monitor, unit) action" where
  "monitor_mark_tx can_id data now m =
     (case channel_mark_tx data now (mn_can_channels m ! 0) of
        (r, c) \<Rightarrow>
          let m1 = m\<lparr>mn_can_channels := (mn_can_channels m)[0 := c]\<rparr>
          in case r of Inl e \<Rightarrow> (Inl e, m1)
             | Inr _ \<Rightarrow>
                 let m2 = (if can_id = mn_imu_request_id m1
                           then m1\<lparr>mn_imu := (mn_imu m1)\<lparr>ex_req_count := ex_req_count (mn_imu m1) + 1\<rparr>\<rparr> else m1)
                 in (Inr (), update_motor_tx_hint can_id data now m2))"

section \<open>Snapshot\<close>

definition pquat :: "quat \<Rightarrow> pyval" where
  "pquat q = (case q of (x, y, z, w) \<Rightarrow> PList [PFloat x, PFloat y, PFloat z, PFloat w])"

definition pvec3 :: "vec3 \<Rightarrow> pyval" where
  "pvec3 v = (case v of (x, y, z) \<Rightarrow> PList [PFloat x, PFloat y, PFloat z])"

definition channel_snapshot :: "pyfloat \<Rightarrow> can_channel \<Rightarrow> pyval result \<times> can_channel" where
  "channel_snapshot now c =
     (case bus_snapshot_of now (ch_bus_load c) of (r, w) \<Rightarrow>
      (bindE r (\<lambda>b. Inr (PDict
         [(''key'', PStr (ch_key c)), (''name'', PStr (ch_name c)), (''iface'', PStr (ch_iface c)),
          (''socket_status'', PStr (ch_socket_status c)), (''socket_error'', popt PStr (ch_socket_error c)),
          (''total_rx'', PInt (ch_total_rx c)), (''total_tx'', PInt (ch_total_tx c)),
          (''rx_frames'', PInt (bs_rx_frames b)), (''tx_frames'', PInt (bs_tx_frames b)),
          (''rx_rate'', PFloat (bs_rx_rate b)), (''tx_rate'', PFloat (bs_tx_rate b)),
          (''rx_bits'', PInt (bs_rx_bits b)), (''tx_bits'', PInt (bs_tx_bits b)),
          (''estimated_bps'', PFloat (bs_estimated_bps b)), (''estimated_kbps'', PFloat (bs_estimated_kbps b)),
          (''load_percent'', PFloat (bs_load_percent b)), (''bitrate'', PFloat (bs_bitrate b)),
          (''window_s'', PFloat (bs_window_s b))])),
       c\<lparr>ch_bus_load := w\<rparr>))"

definition age_or_none :: "pyfloat \<Rightarrow> pyfloat \<Rightarrow> pyfloat option" where
  "age_or_none now last_t = (if fle last_t (Fin 0) then None else Some (fsub now last_t))"

definition imu_snapshot_dict :: "pyfloat \<Rightarrow> e2box_state \<Rightarrow> pyval" where
  "imu_snapshot_dict now i =
     PDict [(''req_count'', PInt (ex_req_count i)), (''quat_count'', PInt (ex_quat_count i)),
       (''gyro_count'', PInt (ex_gyro_count i)), (''quat_xyzw'', pquat (ex_quat_xyzw i)),
       (''projected_gravity_b'', pvec3 (ex_projected_gravity_b i)),
       (''angular_velocity_rad_s'', pvec3 (ex_angular_velocity_rad_s i)),
       (''quat_age_s'', popt PFloat (age_or_none now (ex_quat_last_t i))),
       (''gyro_age_s'', popt PFloat (age_or_none now (ex_gyro_last_t i)))]"

definition motor_status :: "pyfloat \<Rightarrow> monitor \<Rightarrow> motor_state \<Rightarrow> string" where
  "motor_status now m mt =
     (case age_or_none now (mt_last_t mt) of None \<Rightarrow> ''never''
      | Some age_s \<Rightarrow> if fgt age_s (mn_node_timeout_s m) then ''timeout'' else ''online'')"

definition motor_snapshot :: "pyfloat \<Rightarrow> monitor \<Rightarrow> motor_state \<Rightarrow> pyval" where
  "motor_snapshot now m mt =
     PDict [(''name'', PStr (mt_name mt)), (''can_id'', PStr (hex_id (mt_can_id mt))), (''rx_count'', PInt (mt_rx_count mt)),
       (''age_s'', popt PFloat (age_or_none now (mt_last_t mt))), (''status'', PStr (motor_status now m mt)),
       (''last_kind'', PStr (mt_last_kind mt)), (''enabled_hint'', popt PBool (mt_enabled_hint mt)),
       (''mit_polling'', PBool (mt_can_id mt \<in> mn_mit_poll_can_ids m)), (''temperature_c'', popt PInt (mt_temperature_c mt)),
       (''current_a'', popt PFloat (mt_iq_a_approx mt)), (''iq_a_approx'', popt PFloat (mt_iq_a_approx mt)),
       (''speed_dps'', popt PInt (mt_speed_dps mt)), (''position_rad'', popt PFloat (mt_position_rad mt)),
       (''zero_offset_count'', popt PInt (mt_zero_offset_count mt)), (''raw'', PStr (hex_data (mt_raw_data mt)))]"

text \<open>
  \<open>sorted(..., key=last_t, reverse=True)\<close>: equal times keep their order. The times are clock readings, on
  which \<open><\<close> is a total order.
\<close>

fun insert_latest :: "raw_frame_state \<Rightarrow> raw_frame_state list \<Rightarrow> raw_frame_state list" where
  "insert_latest f [] = [f]"
| "insert_latest f (g # gs) = (if flt (rf_last_t f) (rf_last_t g) then g # insert_latest f gs else f # g # gs)"

definition recent_frames :: "pyfloat \<Rightarrow> monitor \<Rightarrow> pyval list" where
  "recent_frames now m =
     map (\<lambda>f. PDict [(''can_id'', PStr (hex_id (rf_can_id f))), (''dlc'', PInt (int (rf_last_dlc f))),
         (''data'', PStr (hex_data (rf_last_data f))), (''count'', PInt (rf_count f)),
         (''age_s'', popt PFloat (age_or_none now (rf_last_t f)))])
       (take 24 (foldr insert_latest (map snd (mn_raw_frames m)) []))"

definition disabled_shm :: pyval where
  "disabled_shm = PDict [(''status'', PStr ''disabled''), (''shm_name'', PNone), (''age_s'', PNone), (''payload'', PNone)]"

text \<open>
  \<open>snapshot\<close>. Neither a channel's nor a node's snapshot raises (their divisors are positive), so every
  window is pruned.
\<close>

definition monitor_snapshot :: "pyfloat \<Rightarrow> monitor \<Rightarrow> pyval result \<times> monitor" where
  "monitor_snapshot now m =
     (let channels = map (channel_snapshot now) (mn_can_channels m);
          nodes = map (\<lambda>(k, n). (k, node_snapshot now n)) (mn_nodes m);
          m' = m\<lparr>mn_can_channels := map snd channels, mn_nodes := map (\<lambda>(k, r, n). (k, n)) nodes\<rparr>
      in (bindE (mapE fst channels) (\<lambda>can_channels.
          bindE (mapE (fst \<circ> node_snapshot now) (sort_key nd_can_id (map snd (mn_nodes m)))) (\<lambda>node_dicts.
            Inr (PDict
              [(''time'', PFloat now), (''uptime_s'', PFloat (fsub now (mn_start_t m))), (''can'', hd can_channels),
               (''can_channels'', PList can_channels), (''nodes'', PList node_dicts), (''imu'', imu_snapshot_dict now (mn_imu m)),
               (''motors'', PList (map (motor_snapshot now m) (sort_key mt_can_id (map snd (mn_motors m))))),
               (''recent_frames'', PList (recent_frames now m)), (''processes'', PList []),
               (''shm'', PDict [(''control_state'', disabled_shm), (''dashboard_state'', disabled_shm)]),
               (''safety'', PDict [(''tx_enabled'', PBool (mn_tx_enabled m)),
                  (''allow_actuator_commands'', PBool (mn_allow_actuator_commands m))]),
               (''controls'', PDict [(''mit_polling'', PBool (mn_mit_poll_can_ids m \<noteq> {})),
                  (''mit_poll_can_ids'', PList (map (\<lambda>i. PStr (hex_id i)) (sorted_list_of_set (mn_mit_poll_can_ids m)))),
                  (''mit_poll_hz'', PFloat (mn_mit_poll_hz m))])]))), m'))"

end
