(* ===== verification/Dash_Command.thy ===== *)
theory Dash_Command
  imports Dash_State Can_Ipc
begin

text \<open>
  The dashboard's command service (\<open>dashboard/backend/command_api.py\<close>): frames an operator sends by hand
  go to the CAN daemon past the controller, so the service refuses the dangerous ones according to
  the controller's published state. Strings are ASCII.
\<close>

section \<open>State names\<close>

definition ENABLE_BLOCK_STATES :: "string list" where
  "ENABLE_BLOCK_STATES =
     [''CREATED'', ''DISABLED'', ''DISARMED'', ''FAULT_LATCHED'', ''ESTOP'', ''SHUTTING_DOWN'', ''STOPPED'']"

definition ZERO_SET_ALLOWED_STATES :: "string list" where
  "ZERO_SET_ALLOWED_STATES = [''NORMAL'']"

definition char_in :: "char \<Rightarrow> char \<Rightarrow> char \<Rightarrow> bool" where
  "char_in lo hi c \<longleftrightarrow> of_char lo \<le> (of_char c :: nat) \<and> of_char c \<le> (of_char hi :: nat)"

definition char_upper :: "char \<Rightarrow> char" where
  "char_upper c = (if char_in (CHR ''a'') (CHR ''z'') c then char_of (of_char c - 32 :: nat) else c)"

definition char_isalnum :: "char \<Rightarrow> bool" where
  "char_isalnum c \<longleftrightarrow> char_in (CHR ''0'') (CHR ''9'') c \<or> char_in (CHR ''A'') (CHR ''Z'') c \<or> char_in (CHR ''a'') (CHR ''z'') c"

definition char_isspace :: "char \<Rightarrow> bool" where
  "char_isspace c \<longleftrightarrow> c = CHR '' '' \<or> char_in (CHR 0x09) (CHR 0x0D) c \<or> char_in (CHR 0x1C) (CHR 0x1F) c"

definition str_strip :: "string \<Rightarrow> string" where
  "str_strip s = rev (dropWhile char_isspace (rev (dropWhile char_isspace s)))"

definition join_underscore :: "string list \<Rightarrow> string" where
  "join_underscore xs = concat (case xs of [] \<Rightarrow> [] | y # ys \<Rightarrow> y # map (\<lambda>s. ''_'' @ s) ys)"

definition normalize_state_name :: "string option \<Rightarrow> string option" where
  "normalize_state_name v =
     (case v of None \<Rightarrow> None
      | Some s \<Rightarrow>
          let normalized = map (\<lambda>c. if char_isalnum c then c else CHR ''_'') (map char_upper (str_strip s));
              normalized = join_underscore (filter (\<lambda>w. w \<noteq> []) (split_on (CHR ''_'') normalized))
          in if normalized = [] then None else Some normalized)"

fun contains :: "string \<Rightarrow> string \<Rightarrow> bool" where
  "contains pat [] = (pat = [])"
| "contains pat (c # cs) = (take (length pat) (c # cs) = pat \<or> contains pat cs)"

definition is_operator_estop_damping :: "string option \<Rightarrow> string option \<Rightarrow> bool" where
  "is_operator_estop_damping state_name reason \<longleftrightarrow>
     state_name = Some ''DAMPING'' \<and> contains ''E-STOP'' (map char_upper (case reason of None \<Rightarrow> [] | Some r \<Rightarrow> r))"

definition format_tx_result :: "int \<Rightarrow> byte list \<Rightarrow> int \<Rightarrow> pyval" where
  "format_tx_result can_id data sent_bytes =
     PDict [(''can_id'', PStr (hex_id can_id)), (''data'', PStr (hex_data data)), (''sent_bytes'', PInt sent_bytes)]"

section \<open>The dashboard's MIT payload\<close>

definition dash_require_range :: "pyfloat \<Rightarrow> pyfloat \<Rightarrow> pyfloat \<Rightarrow> unit result" where
  "dash_require_range x lo hi = guardE (\<not> (flt x lo \<or> fgt x hi)) (ValueError ''MIT field out of range'')"

text \<open>Halves go to even here, and away from zero in the actuator protocol.\<close>

definition dash_float_to_uint :: "pyfloat \<Rightarrow> pyfloat \<Rightarrow> pyfloat \<Rightarrow> nat \<Rightarrow> int result" where
  "dash_float_to_uint x x_min x_max bits =
     bindE (dash_require_range x x_min x_max) (\<lambda>_.
       let span = fsub x_max x_min; max_int = 2 ^ bits - 1
       in bindE (fdiv (fmul (fsub x x_min) (float_of_int max_int)) span) py_round)"

definition dash_pack_mit_payload ::
  "SPGMITConfig \<Rightarrow> pyfloat \<Rightarrow> pyfloat \<Rightarrow> pyfloat \<Rightarrow> pyfloat \<Rightarrow> pyfloat \<Rightarrow> byte list result" where
  "dash_pack_mit_payload cfg q_rad qd_rad_s kp kd tau_ff_nm =
     bindE (dash_require_range q_rad (fneg (mit_p_max cfg)) (mit_p_max cfg)) (\<lambda>_.
     bindE (dash_require_range qd_rad_s (fneg (mit_v_max cfg)) (mit_v_max cfg)) (\<lambda>_.
     bindE (dash_require_range kp (Fin 0) (mit_kp_max cfg)) (\<lambda>_.
     bindE (dash_require_range kd (Fin 0) (mit_kd_max cfg)) (\<lambda>_.
     bindE (dash_require_range tau_ff_nm (fneg (mit_tau_max cfg)) (mit_tau_max cfg)) (\<lambda>_.
     bindE (dash_float_to_uint q_rad (fneg (mit_p_max cfg)) (mit_p_max cfg) 16) (\<lambda>p_u.
     bindE (dash_float_to_uint qd_rad_s (fneg (mit_v_max cfg)) (mit_v_max cfg) 12) (\<lambda>v_u.
     bindE (dash_float_to_uint kp (Fin 0) (mit_kp_max cfg) 12) (\<lambda>kp_u.
     bindE (dash_float_to_uint kd (Fin 0) (mit_kd_max cfg) 8) (\<lambda>kd_u.
     bindE (dash_float_to_uint tau_ff_nm (fneg (mit_tau_max cfg)) (mit_tau_max cfg) 8) (\<lambda>t_u.
       Inr (pack_fields p_u v_u kp_u kd_u t_u)))))))))))"

section \<open>The service\<close>

text \<open>
  \<open>cs_safety\<close> and \<open>cs_reason\<close> are the two providers: \<open>None\<close> when there is no provider, else what it
  returns at present.
\<close>

record command_service =
  cs_state :: monitor
  cs_safety :: "string option option"
  cs_reason :: "string option option"
  cs_connected :: bool

type_synonym 'a cmd = "(command_service \<times> env, 'a) action"

definition lock_tx :: "command_service \<Rightarrow> command_service" where
  "lock_tx s = s\<lparr>cs_state := (cs_state s)\<lparr>mn_tx_enabled := False\<rparr>\<rparr>"

definition unlock_tx :: "command_service \<Rightarrow> command_service" where
  "unlock_tx s = s\<lparr>cs_state := (cs_state s)\<lparr>mn_tx_enabled := True\<rparr>\<rparr>"

definition controller_safety_state :: "command_service \<Rightarrow> string option" where
  "controller_safety_state s = (case cs_safety s of None \<Rightarrow> None | Some v \<Rightarrow> normalize_state_name v)"

definition controller_safety_reason :: "command_service \<Rightarrow> string option" where
  "controller_safety_reason s = (case cs_reason s of None \<Rightarrow> None | Some v \<Rightarrow> v)"

definition is_runtime_error :: "exc \<Rightarrow> bool" where
  "is_runtime_error x = (case x of RuntimeError _ \<Rightarrow> True | CommandError _ \<Rightarrow> True | NotImplementedError _ \<Rightarrow> True | _ \<Rightarrow> False)"

text \<open>\<open>require_tx\<close>: the lock, then the connection, which is made on first use.\<close>

definition require_tx :: "unit cmd" where
  "require_tx st =
     (case st of (s, e) \<Rightarrow>
      if \<not> mn_tx_enabled (cs_state s) then (Inl (CommandError ''TX is locked''), st)
      else if cs_connected s then (Inr (), st)
      else let e1 = e\<lparr>env_connect_count := Suc (env_connect_count e)\<rparr>
           in case env_connects e (env_connect_count e) of
                Inr _ \<Rightarrow> (Inr (), (s\<lparr>cs_connected := True\<rparr>, e1))
              | Inl x \<Rightarrow>
                  if is_os_error x \<or> is_runtime_error x
                  then (Inl (CommandError (''CAN daemon is not connected: '' @ exc_text x)),
                        (s\<lparr>cs_state := set_socket_error (Some (exc_text x)) (cs_state s)\<rparr>, e1))
                  else (Inl x, (s, e1)))"

text \<open>The allowed states are given in sorted order.\<close>

definition require_controller_state :: "string \<Rightarrow> string list \<Rightarrow> command_service \<Rightarrow> unit result" where
  "require_controller_state action_name allowed_states s =
     (case controller_safety_state s of
        None \<Rightarrow> Inl (CommandError (action_name @ '' is blocked because controller safety state is unavailable''))
      | Some state_name \<Rightarrow>
          if state_name \<notin> set allowed_states
          then Inl (CommandError (action_name @ '' is blocked while controller safety state is '' @ state_name @
                 ''; required: '' @ concat (case allowed_states of [] \<Rightarrow> [] | n # ns \<Rightarrow> n # map (\<lambda>n. '', '' @ n) ns)))
          else Inr ())"

definition reject_motor_enable_when_blocked :: "int \<Rightarrow> byte list \<Rightarrow> command_service \<Rightarrow> unit result" where
  "reject_motor_enable_when_blocked can_id data s =
     (if data = [] \<or> data ! 0 \<noteq> SPG_CMD_MIT_ENTER then Inr ()
      else if actuator_config_for_can_id can_id (cs_state s) = None then Inr ()
      else let state_name = controller_safety_state s in
        if cs_safety s \<noteq> None \<and> state_name = None
        then Inl (CommandError ''Motor enable is blocked because controller safety state is unavailable'')
        else if (case state_name of None \<Rightarrow> False | Some n \<Rightarrow> n \<in> set ENABLE_BLOCK_STATES)
        then Inl (CommandError (''Motor enable is blocked while controller safety state is '' @ the state_name))
        else if is_operator_estop_damping state_name (controller_safety_reason s)
        then Inl (CommandError ''Motor enable is blocked while controller is in operator E-stop damping'')
        else Inr ())"

definition reject_motor_zero_when_not_normal :: "int \<Rightarrow> byte list \<Rightarrow> command_service \<Rightarrow> unit result" where
  "reject_motor_zero_when_not_normal can_id data s =
     (if data = [] \<or> data ! 0 \<noteq> SPG_CMD_MIT_SET_ZERO then Inr ()
      else if actuator_config_for_can_id can_id (cs_state s) = None then Inr ()
      else require_controller_state ''Motor zero set'' ZERO_SET_ALLOWED_STATES s)"

text \<open>The client is only used while it is connected.\<close>

definition client_send :: "can_frame \<Rightarrow> (env, bool) action" where
  "client_send = CANProcessClient_send \<lparr>cl_open = True, cl_dispatcher = (CANDispatcher_init :: unit dispatcher)\<rparr>"

definition send_connected :: "int \<Rightarrow> byte list \<Rightarrow> pyval cmd" where
  "send_connected can_id data st =
     (case st of (s, e) \<Rightarrow>
      case client_send \<lparr>fr_can_id = can_id, fr_data = data\<rparr> e of
        (Inl x, e1) \<Rightarrow>
          if is_os_error x \<or> is_runtime_error x
          then (Inl (CommandError (exc_text x)),
                (s\<lparr>cs_connected := False, cs_state := set_socket_error (Some (exc_text x)) (cs_state s)\<rparr>, e1))
          else (Inl x, (s, e1))
      | (Inr _, e1) \<Rightarrow>
          (case time_monotonic e1 of (now, e2) \<Rightarrow>
           case monitor_mark_tx can_id data now (cs_state s) of
             (Inl x, m) \<Rightarrow> (Inl x, (s\<lparr>cs_state := m\<rparr>, e2))
           | (Inr _, m) \<Rightarrow> (Inr (format_tx_result can_id data 16), (s\<lparr>cs_state := set_socket_error None m\<rparr>, e2))))"

definition send_raw :: "int \<Rightarrow> byte list \<Rightarrow> pyval cmd" where
  "send_raw can_id data =
     bindA (\<lambda>st. (reject_motor_enable_when_blocked can_id data (fst st), st)) (\<lambda>_.
     bindA (\<lambda>st. (reject_motor_zero_when_not_normal can_id data (fst st), st)) (\<lambda>_.
     bindA require_tx (\<lambda>_. send_connected can_id data)))"

definition send_motor_command :: "int \<Rightarrow> byte \<Rightarrow> byte list \<Rightarrow> pyval cmd" where
  "send_motor_command can_id opcode suffix st =
     (let m = cs_state (fst st) in
      if \<not> mn_allow_actuator_commands m then (Inl (CommandError ''Actuator commands are disabled by config''), st)
      else if actuator_config_for_can_id can_id m = None then (Inl (CommandError ''Unknown actuator CAN ID''), st)
      else if 7 < length suffix then (Inl (CommandError ''Actuator command suffix too long''), st)
      else send_raw can_id ([opcode] @ replicate (7 - length suffix) 0 @ suffix) st)"

definition motor_enter :: "int \<Rightarrow> pyval cmd" where
  "motor_enter can_id = send_motor_command can_id SPG_CMD_MIT_ENTER []"

definition motor_exit :: "int \<Rightarrow> pyval cmd" where
  "motor_exit can_id = send_motor_command can_id SPG_CMD_MIT_EXIT []"

definition motor_zero :: "int \<Rightarrow> int \<Rightarrow> pyval cmd" where
  "motor_zero can_id offset_count st =
     (if \<not> (- 32768 \<le> offset_count \<and> offset_count \<le> 32767)
      then (Inl (CommandError ''MIT zero offset_count out of int16 range''), st)
      else send_motor_command can_id SPG_CMD_MIT_SET_ZERO (le_bytes 2 (offset_count mod 2 ^ 16)) st)"

definition motor_mit_hold :: "int \<Rightarrow> pyval cmd" where
  "motor_mit_hold can_id st =
     (let m = cs_state (fst st) in
      if \<not> mn_allow_actuator_commands m then (Inl (CommandError ''Actuator commands are disabled by config''), st)
      else bindA (liftA (dash_pack_mit_payload (mn_mit_config m) (Fin 0) (Fin 0) (Fin 0) (Fin (1/2)) (Fin 0)))
        (send_raw can_id) st)"

section \<open>The gate\<close>

text \<open>Frames that switch an actuator's motor on, or move its zero, and the states in which they are refused.\<close>

definition enables_motor :: "int \<Rightarrow> byte list \<Rightarrow> monitor \<Rightarrow> bool" where
  "enables_motor can_id data m \<longleftrightarrow>
     data \<noteq> [] \<and> data ! 0 = SPG_CMD_MIT_ENTER \<and> can_id \<in> fst ` set (mn_actuator_configs m)"

definition zeroes_motor :: "int \<Rightarrow> byte list \<Rightarrow> monitor \<Rightarrow> bool" where
  "zeroes_motor can_id data m \<longleftrightarrow>
     data \<noteq> [] \<and> data ! 0 = SPG_CMD_MIT_SET_ZERO \<and> can_id \<in> fst ` set (mn_actuator_configs m)"

definition refused :: "int \<Rightarrow> byte list \<Rightarrow> command_service \<Rightarrow> bool" where
  "refused can_id data s \<longleftrightarrow>
     \<not> mn_tx_enabled (cs_state s) \<or>
     enables_motor can_id data (cs_state s) \<and>
       (cs_safety s \<noteq> None \<and> controller_safety_state s = None \<or>
        controller_safety_state s \<in> Some ` set ENABLE_BLOCK_STATES \<or>
        is_operator_estop_damping (controller_safety_state s) (controller_safety_reason s)) \<or>
     zeroes_motor can_id data (cs_state s) \<and> controller_safety_state s \<noteq> Some ''NORMAL''"

lemma actuator_config_None: "actuator_config_for_can_id can_id m = None \<longleftrightarrow> can_id \<notin> fst ` set (mn_actuator_configs m)"
  by (force simp: actuator_config_for_can_id_def find_None_iff)

lemma refused_enable:
  "(\<exists>m. reject_motor_enable_when_blocked can_id data s = Inl (CommandError m)) \<or>
   reject_motor_enable_when_blocked can_id data s = Inr () \<and>
     \<not> (enables_motor can_id data (cs_state s) \<and>
       (cs_safety s \<noteq> None \<and> controller_safety_state s = None \<or>
        controller_safety_state s \<in> Some ` set ENABLE_BLOCK_STATES \<or>
        is_operator_estop_damping (controller_safety_state s) (controller_safety_reason s)))"
  unfolding reject_motor_enable_when_blocked_def enables_motor_def actuator_config_None Let_def
  by (auto split: option.splits)

lemma refused_zero:
  "(\<exists>m. reject_motor_zero_when_not_normal can_id data s = Inl (CommandError m)) \<and>
     zeroes_motor can_id data (cs_state s) \<and> controller_safety_state s \<noteq> Some ''NORMAL'' \<or>
   reject_motor_zero_when_not_normal can_id data s = Inr () \<and>
     \<not> (zeroes_motor can_id data (cs_state s) \<and> controller_safety_state s \<noteq> Some ''NORMAL'')"
  unfolding reject_motor_zero_when_not_normal_def zeroes_motor_def actuator_config_None require_controller_state_def
    ZERO_SET_ALLOWED_STATES_def
  by (auto split: option.splits)

lemma refused_enable_only:
  "reject_motor_enable_when_blocked can_id data s = Inl x \<Longrightarrow> refused can_id data s"
  unfolding reject_motor_enable_when_blocked_def refused_def enables_motor_def actuator_config_None Let_def
  by (auto split: if_splits option.splits)

lemma requests_connected:
  "env_requests (snd (snd (send_connected can_id data (s, e)))) =
     env_requests e @ [tx_request \<lparr>fr_can_id = can_id, fr_data = data\<rparr>]"
  by (auto simp: send_connected_def client_send_def CANProcessClient_send_def exchange_def time_monotonic_def
      split: prod.splits sum.splits)

lemma require_tx_ok:
  assumes "mn_tx_enabled (cs_state s)" and "cs_connected s \<or> \<not> isl (env_connects e (env_connect_count e))"
  shows "\<exists>s1 e1. require_tx (s, e) = (Inr (), (s1, e1)) \<and> env_requests e1 = env_requests e"
proof (cases "cs_connected s")
  case True
  then show ?thesis using assms(1) by (simp add: require_tx_def)
next
  case False
  then obtain u where "env_connects e (env_connect_count e) = Inr u"
    using assms(2) by (cases "env_connects e (env_connect_count e)") auto
  then show ?thesis using assms(1) False by (simp add: require_tx_def Let_def)
qed

lemma require_tx_fails:
  assumes "mn_tx_enabled (cs_state s)" and "\<not> cs_connected s" and "isl (env_connects e (env_connect_count e))"
  shows "\<exists>x s1 e1. require_tx (s, e) = (Inl x, (s1, e1)) \<and> env_requests e1 = env_requests e"
  using assms by (cases "env_connects e (env_connect_count e)") (auto simp: require_tx_def Let_def)

text \<open>
  C34. The dashboard's gate: a frame sent by hand is refused with \<open>CommandError\<close>, with nothing sent and
  nothing changed, exactly when transmission is locked, or the frame would enable a known motor
  while the controller's state is unknown, is one of the blocking states or is an operator E-stop
  damping, or it would move a motor's zero while the state is not NORMAL. Any other frame reaches
  the daemon unaltered and once, or the connection or its bookkeeping fails.
\<close>

theorem command_gate:
  "if refused can_id data s
   then \<exists>m. send_raw can_id data (s, e) = (Inl (CommandError m), (s, e))
   else case send_raw can_id data (s, e) of
     (r, (s', e')) \<Rightarrow>
       env_requests e' = env_requests e @ [tx_request \<lparr>fr_can_id = can_id, fr_data = data\<rparr>] \<or>
       env_requests e' = env_requests e \<and> isl r \<and> isl (env_connects e (env_connect_count e)) \<and> \<not> cs_connected s"
proof -
  consider (en) m where "reject_motor_enable_when_blocked can_id data s = Inl (CommandError m)"
    | (ze) m where "reject_motor_enable_when_blocked can_id data s = Inr ()"
        "reject_motor_zero_when_not_normal can_id data s = Inl (CommandError m)"
        "zeroes_motor can_id data (cs_state s)" "controller_safety_state s \<noteq> Some ''NORMAL''"
    | (ok) "reject_motor_enable_when_blocked can_id data s = Inr ()" "reject_motor_zero_when_not_normal can_id data s = Inr ()"
        "refused can_id data s = (\<not> mn_tx_enabled (cs_state s))"
    using refused_enable [of can_id data s] refused_zero [of can_id data s] unfolding refused_def by blast
  then show ?thesis
  proof cases
    case en
    then show ?thesis using refused_enable_only [OF en] by (simp add: send_raw_def bindA_def)
  next
    case ze
    then have "refused can_id data s" by (simp add: refused_def)
    then show ?thesis using ze by (simp add: send_raw_def bindA_def)
  next
    case ok
    then have sr: "send_raw can_id data (s, e) = bindA require_tx (\<lambda>_. send_connected can_id data) (s, e)"
      by (simp add: send_raw_def bindA_def)
    show ?thesis
    proof (cases "mn_tx_enabled (cs_state s)")
      case False
      then show ?thesis using ok(3) by (simp add: sr bindA_def require_tx_def)
    next
      case True
      show ?thesis
      proof (cases "cs_connected s \<or> \<not> isl (env_connects e (env_connect_count e))")
        case True
        then obtain s1 e1 where "require_tx (s, e) = (Inr (), (s1, e1))" "env_requests e1 = env_requests e"
          using require_tx_ok [OF \<open>mn_tx_enabled (cs_state s)\<close>] by blast
        then show ?thesis
          using ok(3) \<open>mn_tx_enabled (cs_state s)\<close> requests_connected [of can_id data s1 e1]
          by (auto simp: sr bindA_def split: prod.splits)
      next
        case False
        then obtain x s1 e1 where "require_tx (s, e) = (Inl x, (s1, e1))" "env_requests e1 = env_requests e"
          using require_tx_fails [OF \<open>mn_tx_enabled (cs_state s)\<close>] by blast
        then show ?thesis using ok(3) \<open>mn_tx_enabled (cs_state s)\<close> False by (simp add: sr bindA_def)
      qed
    qed
  qed
qed

text \<open>The states in which the controller disables its motors block enabling by hand.\<close>

lemma controller_off_blocks:
  assumes "cs_safety s = Some (Some mode)" and "mode \<in> {''DISABLED'', ''ESTOP''}" and "enables_motor can_id data (cs_state s)"
  shows "refused can_id data s"
proof -
  have "normalize_state_name (Some ''DISABLED'') = Some ''DISABLED''" "normalize_state_name (Some ''ESTOP'') = Some ''ESTOP''"
    by code_simp+
  then have "controller_safety_state s \<in> Some ` set ENABLE_BLOCK_STATES"
    using assms(1,2) by (auto simp: controller_safety_state_def ENABLE_BLOCK_STATES_def)
  then show ?thesis using assms(3) by (simp add: refused_def)
qed

end
