(* ===== verification/Dash_Reader.thy ===== *)
theory Dash_Reader
  imports Dash_State Robot_State "HOL-Library.List_Lexorder"
begin

text \<open>
  The dashboard's view of the controller (\<open>dashboard/backend/robot_state_shm.py\<close>): the published state
  segments are read and merged into the monitor's snapshot. Messages of caught exceptions keep their
  fixed part.
\<close>

section \<open>Values\<close>

fun dict_set :: "string \<Rightarrow> pyval \<Rightarrow> pyval \<Rightarrow> pyval" where
  "dict_set k v (PDict d) = PDict (AList.update k v d)"
| "dict_set k v x = x"

definition dict_get_or :: "pyval \<Rightarrow> string \<Rightarrow> pyval \<Rightarrow> pyval" where
  "dict_get_or d k v = (case pget d k of Some x \<Rightarrow> x | None \<Rightarrow> v)"

definition py_or :: "pyval \<Rightarrow> pyval \<Rightarrow> pyval" where
  "py_or a b = (if py_truthy a then a else b)"

text \<open>\<open>f"{x:.kf}"\<close>: the decimal with \<open>k\<close> places nearest to the value.\<close>

definition fixed_str :: "nat \<Rightarrow> pyfloat \<Rightarrow> string" where
  "fixed_str k v =
     (case v of
        Fin x \<Rightarrow>
          (let n = nat (rne (\<bar>x\<bar> * 10 ^ k)); s = zero_pad (Suc k) (nat_digits 10 n)
           in (if x < 0 then ''-'' else []) @ take (length s - k) s @ (if k = 0 then [] else ''.'') @ drop (length s - k) s)
      | PInf \<Rightarrow> ''inf'' | NInf \<Rightarrow> ''-inf'' | NaN \<Rightarrow> ''nan'')"

text \<open>\<open>_float_or_zero\<close>, \<open>_age\<close> and \<open>_rad_s_to_deg_s\<close>.\<close>

definition shm_float_or_zero :: "py_text \<Rightarrow> pyval \<Rightarrow> pyfloat result" where
  "shm_float_or_zero T v =
     (case py_float T v of
        Inl (TypeError _) \<Rightarrow> Inr (Fin 0)
      | Inl (ValueError _) \<Rightarrow> Inr (Fin 0)
      | r \<Rightarrow> r)"

definition shm_age :: "pyfloat \<Rightarrow> pyfloat \<Rightarrow> pyfloat option" where
  "shm_age now_monotonic last_t =
     (if fle last_t (Fin 0) then None else Some (fmax (Fin 0) (fsub now_monotonic last_t)))"

definition rad_s_to_deg_s :: "py_text \<Rightarrow> pyval \<Rightarrow> pyval result" where
  "rad_s_to_deg_s T v =
     (if v = PNone then Inr PNone
      else bindE (py_float T v) (\<lambda>x. Inr (PFloat (fmul x (lit (5729577951308232 / 10 ^ 14))))))"

section \<open>The reader\<close>

record dash_reader =
  dr_control_shm_name :: string
  dr_dashboard_shm_name :: string
  dr_stale_timeout_s :: pyfloat
  dr_control_reader :: shm_obj
  dr_dashboard_reader :: shm_obj

text \<open>Both segments are opened by the constructor.\<close>

definition DashboardRobotStateReader_init ::
  "string \<Rightarrow> string \<Rightarrow> pyfloat \<Rightarrow> (shm_os, dash_reader) action" where
  "DashboardRobotStateReader_init control_shm_name dashboard_shm_name stale_timeout_s =
     bindA (RobotStateShm_init control_shm_name False None) (\<lambda>control_reader.
     bindA (RobotStateShm_init dashboard_shm_name False None) (\<lambda>dashboard_reader.
       retA \<lparr>dr_control_shm_name = control_shm_name, dr_dashboard_shm_name = dashboard_shm_name,
         dr_stale_timeout_s = stale_timeout_s, dr_control_reader = control_reader,
         dr_dashboard_reader = dashboard_reader\<rparr>))"

definition dash_reader_close :: "dash_reader \<Rightarrow> dash_reader" where
  "dash_reader_close r = r\<lparr>dr_control_reader := segment_close (dr_control_reader r),
     dr_dashboard_reader := segment_close (dr_dashboard_reader r)\<rparr>"

text \<open>\<open>_channel_result\<close>: the payload and the dict shown for the segment.\<close>

definition channel_result ::
  "string \<Rightarrow> string \<Rightarrow> pyval option \<Rightarrow> string option \<Rightarrow> pyfloat option \<Rightarrow> pyval option \<times> pyval" where
  "channel_result shm_name status payload err age_s =
     (payload, PDict [(''status'', PStr status), (''shm_name'', PStr shm_name), (''age_s'', popt PFloat age_s),
        (''error'', popt PStr err), (''payload'', popt (\<lambda>p. p) payload)])"

definition is_reader_error :: "exc \<Rightarrow> bool" where
  "is_reader_error x = (case x of RuntimeError _ \<Rightarrow> True | CommandError _ \<Rightarrow> True | NotImplementedError _ \<Rightarrow> True
     | ValueError _ \<Rightarrow> True | _ \<Rightarrow> False)"

definition is_timestamp_error :: "exc \<Rightarrow> bool" where
  "is_timestamp_error x = (case x of KeyError _ \<Rightarrow> True | TypeError _ \<Rightarrow> True | ValueError _ \<Rightarrow> True | _ \<Rightarrow> False)"

text \<open>
  The monotonic clock is read by \<open>read_latest\<close> for the age of the last command; its value is an arbitrary
  element of the stream whether or not it is used.
\<close>

definition read_channel ::
  "py_text \<Rightarrow> shm_obj \<Rightarrow> string \<Rightarrow> string \<Rightarrow> pyfloat \<Rightarrow> (env, pyval option \<times> pyval) action" where
  "read_channel T reader shm_name expected_schema stale_timeout_s e =
     (case RobotStateShm_read_latest (env_monotonic e (env_mono_reads e)) reader (env_shm e) of
        Inl (FileNotFoundError m) \<Rightarrow> (Inr (channel_result shm_name ''disconnected'' None (Some m) None), e)
      | Inl x \<Rightarrow>
          if is_reader_error x then (Inr (channel_result shm_name ''error'' None (Some (exc_text x)) None), e)
          else (Inl x, e)
      | Inr None \<Rightarrow> (Inr (channel_result shm_name ''waiting'' None None None), e)
      | Inr (Some robot_state) \<Rightarrow>
          let e1 = snd (time_monotonic e);
              schema = py_str T (dict_get_or robot_state ''schema'' (PStr []))
          in if schema \<noteq> expected_schema \<and> schema \<noteq> ''qhrr.robot_state.cstruct.v1''
             then (Inr (channel_result shm_name ''error'' None
                    (Some (shm_name @ '' schema must be '' @ expected_schema)) None), e1)
             else (case bindE (dict_item robot_state ''timestamp_unix'') (py_float T) of
                 Inl x \<Rightarrow> if is_timestamp_error x
                    then (Inr (channel_result shm_name ''error'' None
                      (Some (shm_name @ '' is missing numeric timestamp_unix: '' @ exc_text x)) None), e1)
                    else (Inl x, e1)
               | Inr timestamp_unix \<Rightarrow>
                   (case time_unix e1 of (now, e2) \<Rightarrow>
                    let age_s = fmax (Fin 0) (fsub now timestamp_unix);
                        status = (if fgt age_s stale_timeout_s then ''stale'' else ''online'')
                    in (Inr (channel_result shm_name status (Some robot_state) None (Some age_s)), e2))))"

definition controller_snapshot :: "pyval option \<times> pyval \<Rightarrow> pyval" where
  "controller_snapshot control_state =
     (let shm = snd control_state;
          item = (\<lambda>k. case fst control_state of Some p \<Rightarrow> if is_dict p then dict_get p k else PNone | None \<Rightarrow> PNone);
          controller_state = item ''controller_state''
      in PDict [(''source'', PStr ''control_shm''), (''shm_name'', dict_get shm ''shm_name''),
           (''status'', dict_get shm ''status''), (''controller_state'', controller_state),
           (''safety_state'', py_or (item ''safety_state'') controller_state),
           (''control_action'', item ''control_action''), (''safety_reason'', item ''safety_reason''),
           (''fault_code'', item ''fault_code''), (''age_s'', dict_get shm ''age_s''),
           (''error'', dict_get shm ''error'')])"

section \<open>Motors and nodes\<close>

definition actuator_name :: "py_text \<Rightarrow> monitor \<Rightarrow> int \<Rightarrow> string" where
  "actuator_name T m can_id =
     (case actuator_config_for_can_id can_id m of None \<Rightarrow> hex_id can_id | Some config \<Rightarrow> snd config)"

definition control_status :: "pyval \<Rightarrow> pyval \<Rightarrow> string" where
  "control_status item age_s =
     (if age_s = PNone then ''never''
      else if py_truthy (dict_get item ''stale'') \<or> \<not> py_truthy (dict_get_or item ''online'' (PBool True))
      then ''timeout'' else ''online'')"

definition control_mode :: "pyval \<Rightarrow> pyval \<Rightarrow> string" where
  "control_mode item age_s =
     (if age_s = PNone then ''never''
      else if dict_get item ''is_enabled'' = PBool True then ''ENABLED''
      else if dict_get item ''is_enabled'' = PBool False then ''DISABLED''
      else ''FEEDBACK'')"

text \<open>One part of \<open>_control_summary\<close>: nothing when the value is None.\<close>

definition summary_part :: "py_text \<Rightarrow> pyval \<Rightarrow> string \<Rightarrow> string \<Rightarrow> nat \<Rightarrow> string \<Rightarrow> string list result" where
  "summary_part T item key label places unit_name =
     (if dict_get item key = PNone then Inr []
      else bindE (py_float T (dict_get item key)) (\<lambda>x. Inr [label @ ''='' @ fixed_str places x @ unit_name]))"

definition control_summary :: "py_text \<Rightarrow> pyval \<Rightarrow> string result" where
  "control_summary T item =
     bindE (summary_part T item ''position_rad'' ''q'' 3 ''rad'') (\<lambda>a.
     bindE (summary_part T item ''velocity_rad_s'' ''qd'' 3 ''rad/s'') (\<lambda>b.
     bindE (summary_part T item ''torque_nm'' ''tau'' 3 ''Nm'') (\<lambda>c.
     bindE (summary_part T item ''current_a'' ''i'' 2 ''A'') (\<lambda>d.
       let fault_code = dict_get item ''fault_code'';
           f = (if fault_code \<in> {PNone, PInt 0, PFloat (Fin 0), PBool False} then [] else [''fault='' @ py_str T fault_code])
       in Inr (join_spaces (a @ b @ c @ d @ f))))))"

definition control_motor_snapshot :: "py_text \<Rightarrow> monitor \<Rightarrow> pyval \<Rightarrow> pyfloat \<Rightarrow> pyval result" where
  "control_motor_snapshot T m item now_monotonic =
     bindE (bindE (dict_item item ''can_id'') (py_int T)) (\<lambda>can_id.
     bindE (if dict_get item ''age_s'' = PNone
            then bindE (shm_float_or_zero T (dict_get item ''last_feedback_t'')) (\<lambda>t. Inr (popt PFloat (shm_age now_monotonic t)))
            else Inr (dict_get item ''age_s'')) (\<lambda>age_s.
     let existing = map_of (mn_motors m) can_id;
         current_a = (if dict_get item ''current_a'' = PNone
           then (case existing of Some mt \<Rightarrow> popt PFloat (mt_iq_a_approx mt) | None \<Rightarrow> PNone) else dict_get item ''current_a'');
         temperature_c = (if dict_get item ''temperature_c'' = PNone
           then (case existing of Some mt \<Rightarrow> popt PInt (mt_temperature_c mt) | None \<Rightarrow> PNone) else dict_get item ''temperature_c'')
     in bindE (rad_s_to_deg_s T (dict_get item ''velocity_rad_s'')) (\<lambda>speed_dps.
        bindE (control_summary T item) (\<lambda>raw.
          Inr (PDict
            [(''name'', PStr (actuator_name T m can_id)), (''can_id'', PStr (hex_id can_id)),
             (''rx_count'', PInt (case existing of None \<Rightarrow> 0 | Some mt \<Rightarrow> mt_rx_count mt)), (''age_s'', age_s),
             (''status'', PStr (control_status item age_s)), (''last_kind'', PStr (control_mode item age_s)),
             (''enabled_hint'', dict_get item ''is_enabled''), (''mit_polling'', PBool (can_id \<in> mn_mit_poll_can_ids m)),
             (''temperature_c'', temperature_c), (''current_a'', current_a), (''iq_a_approx'', current_a),
             (''speed_dps'', speed_dps), (''position_rad'', dict_get item ''position_rad''),
             (''zero_offset_count'', (case existing of None \<Rightarrow> PNone | Some mt \<Rightarrow> popt PInt (mt_zero_offset_count mt))),
             (''raw'', PStr raw)])))))"

text \<open>\<open>int(str(node["can_id"]), 0)\<close>.\<close>

definition node_can_id :: "py_text \<Rightarrow> pyval \<Rightarrow> int result" where
  "node_can_id T node = bindE (dict_item node ''can_id'') (\<lambda>v. text_int0 T (py_str T v))"

definition actuator_node :: "py_text \<Rightarrow> monitor \<Rightarrow> (int \<times> pyval) list \<Rightarrow> pyval \<Rightarrow> pyval result" where
  "actuator_node T m existing_by_can_id motor =
     bindE (node_can_id T motor) (\<lambda>can_id.
     bindE (bindE (dict_item motor ''rx_count'') (py_int T)) (\<lambda>rx_count.
       let existing = (case map_of existing_by_can_id can_id of Some n \<Rightarrow> n | None \<Rightarrow> PDict []) in
       Inr (PDict [(''key'', PStr (can_key can_id)), (''name'', dict_get motor ''name''), (''can_id'', dict_get motor ''can_id''),
         (''role'', PStr ''Actuator''), (''heartbeat_hz'', dict_get_or existing ''heartbeat_hz'' (PFloat (Fin 0))),
         (''last_seen_s'', dict_get motor ''age_s''), (''timeout_s'', PFloat (mn_node_timeout_s m)),
         (''status'', dict_get motor ''status''), (''rx_count'', PInt rx_count), (''last_data'', dict_get motor ''raw'')])))"

definition nodes_from_control_state :: "py_text \<Rightarrow> monitor \<Rightarrow> pyval list \<Rightarrow> pyval list \<Rightarrow> pyval list result" where
  "nodes_from_control_state T m existing_nodes motors =
     (let non_actuator_nodes = filter (\<lambda>node. dict_get node ''role'' \<noteq> PStr ''Actuator'') existing_nodes in
      bindE (mapE (\<lambda>node. bindE (node_can_id T node) (\<lambda>i. Inr (i, node)))
          (filter (\<lambda>node. pget node ''can_id'' \<noteq> None) existing_nodes)) (\<lambda>entries.
      bindE (mapE (actuator_node T m (rev entries)) motors) (\<lambda>actuator_nodes.
      bindE (mapE (\<lambda>node. bindE (node_can_id T node) (\<lambda>i. Inr (i, node))) (non_actuator_nodes @ actuator_nodes)) (\<lambda>keyed.
        Inr (map snd (sort_key fst keyed))))))"

section \<open>Merging\<close>

definition plist_of :: "pyval \<Rightarrow> pyval list" where
  "plist_of v = (case v of PList xs \<Rightarrow> xs | _ \<Rightarrow> [])"

text \<open>\<open>_merge_control_state\<close>, with the monotonic clock read at its start.\<close>

definition merge_control_state :: "py_text \<Rightarrow> monitor \<Rightarrow> pyfloat \<Rightarrow> pyval \<Rightarrow> pyval \<Rightarrow> pyval result" where
  "merge_control_state T m now_monotonic robot_state base =
     (let imu = dict_get_or robot_state ''imu'' (PDict []); base_imu = dict_get base ''imu''; zero = PFloat (Fin 0) in
      bindE (shm_float_or_zero T (dict_get imu ''last_quat_t'')) (\<lambda>quat_t.
      bindE (shm_float_or_zero T (dict_get imu ''last_gyro_t'')) (\<lambda>gyro_t.
      let base1 = dict_set ''imu'' (PDict
            [(''req_count'', dict_get base_imu ''req_count''), (''quat_count'', dict_get base_imu ''quat_count''),
             (''gyro_count'', dict_get base_imu ''gyro_count''),
             (''quat_xyzw'', py_or (dict_get imu ''quat_xyzw'') (PList [zero, zero, zero, PFloat (Fin 1)])),
             (''projected_gravity_b'', py_or (dict_get imu ''projected_gravity_b'') (PList [zero, zero, PFloat (Fin (- 1))])),
             (''angular_velocity_rad_s'', py_or (dict_get imu ''angular_velocity_rad_s'') (PList [zero, zero, zero])),
             (''quat_age_s'', popt PFloat (shm_age now_monotonic quat_t)),
             (''gyro_age_s'', popt PFloat (shm_age now_monotonic gyro_t))]) base
      in bindE (mapE (\<lambda>item. control_motor_snapshot T m item now_monotonic)
             (filter is_dict (plist_of (dict_get robot_state ''actuators'')))) (\<lambda>motors.
         bindE (nodes_from_control_state T m (plist_of (dict_get base1 ''nodes'')) motors) (\<lambda>nodes.
         let base2 = dict_set ''nodes'' (PList nodes) (dict_set ''motors'' (PList motors) base1);
             command_output = dict_get robot_state ''command_output''
         in Inr (if is_dict command_output then dict_set ''current_command'' command_output base2 else base2))))))"

definition processes_snapshot :: "pyval \<Rightarrow> pyval list" where
  "processes_snapshot processes =
     (case processes of
        PDict kvs \<Rightarrow> map (\<lambda>(name, info). dict_set ''name'' (PStr name) info)
          (filter (\<lambda>(name, info). is_dict info) (sort_key (\<lambda>kv. map (of_char :: char \<Rightarrow> nat) (fst kv)) kvs))
      | _ \<Rightarrow> [])"

definition merge_dashboard_state :: "pyval \<Rightarrow> pyval \<Rightarrow> pyval" where
  "merge_dashboard_state robot_state base =
     (let base1 = dict_set ''processes'' (PList (processes_snapshot (dict_get_or robot_state ''processes'' (PDict [])))) base;
          can = dict_get_or robot_state ''can'' (PDict [])
      in if is_dict can \<and> py_truthy (dict_get can ''iface'')
         then dict_set ''can'' (dict_set ''iface'' (dict_get can ''iface'') (dict_get base1 ''can'')) base1
         else base1)"

definition set_shm :: "string \<Rightarrow> pyval \<Rightarrow> pyval \<Rightarrow> pyval" where
  "set_shm key v base = dict_set ''shm'' (dict_set key v (dict_get base ''shm'')) base"

text \<open>\<open>dashboard_snapshot\<close>: the merge into the monitor's snapshot, then the whole on monitor and environment.\<close>

definition merge_snapshot :: "py_text \<Rightarrow> dash_reader \<Rightarrow> monitor \<Rightarrow> pyval \<Rightarrow> (env, pyval) action" where
  "merge_snapshot T r m base =
     bindA (read_channel T (dr_control_reader r) (dr_control_shm_name r) ''qhrr.control_state.v1'' (dr_stale_timeout_s r)) (\<lambda>control_state.
     let base1 = dict_set ''robot_controller'' (controller_snapshot control_state) (set_shm ''control_state'' (snd control_state) base) in
     bindA (case fst control_state of
         None \<Rightarrow> retA base1
       | Some payload \<Rightarrow> (\<lambda>e. case time_monotonic e of (t, e') \<Rightarrow> (merge_control_state T m t payload base1, e'))) (\<lambda>base2.
     bindA (read_channel T (dr_dashboard_reader r) (dr_dashboard_shm_name r) ''qhrr.dashboard_state.v1'' (dr_stale_timeout_s r)) (\<lambda>dashboard_state.
     let base3 = set_shm ''dashboard_state'' (snd dashboard_state) base2 in
       retA (case fst dashboard_state of None \<Rightarrow> base3 | Some payload \<Rightarrow> merge_dashboard_state payload base3))))"

definition reader_snapshot :: "py_text \<Rightarrow> dash_reader \<Rightarrow> (monitor \<times> env, pyval) action" where
  "reader_snapshot T r = (\<lambda>(m, e).
     case time_monotonic e of (now, e1) \<Rightarrow>
     case monitor_snapshot now m of (base_result, m1) \<Rightarrow>
       (case bindA (liftA base_result) (merge_snapshot T r m1) e1 of (res, e2) \<Rightarrow> (res, (m1, e2))))"

end
