(* ===== verification/Can_Monitor.thy ===== *)
theory Can_Monitor
  imports Dash_Command Dash_Reader Spg_Facts
begin

text \<open>
  The command-line CAN monitor (\<open>tools/can_monitor.py\<close>): its decoders, the state it keeps, the estimate of
  the bus load and its loop. It shares no code with the dashboard; that both show the same values for
  the same frames is proved at the end. The text put on the terminal is modelled up to the helpers
  that format a value.
\<close>

section \<open>Formatting\<close>

definition pad_left :: "nat \<Rightarrow> string \<Rightarrow> string" where
  "pad_left n s = replicate (n - length s) (CHR '' '') @ s"

definition fmt_age :: "pyfloat \<Rightarrow> pyfloat \<Rightarrow> string" where
  "fmt_age last_t now =
     (if fle last_t (Fin 0) then ''never''
      else let age = fsub now last_t in
        if flt age (Fin 1) then pad_left 6 (fixed_str 1 (fmul age (Fin 1000))) @ '' ms''
        else pad_left 6 (fixed_str 2 age) @ '' s '')"

definition fmt_hex_data :: "byte list \<Rightarrow> nat \<Rightarrow> string" where
  "fmt_hex_data data n = join_spaces (map (\<lambda>b. zero_pad 2 (hex_of_int (uint b))) (take n data))"

definition make_bar :: "pyfloat \<Rightarrow> int \<Rightarrow> string result" where
  "make_bar percent width =
     (let p = fmax (Fin 0) (fmin percent (Fin 999)) in
      bindE (fdiv (fmin p (Fin 100)) (Fin 100)) (\<lambda>q.
      bindE (py_round (fmul q (float_of_int width))) (\<lambda>filled.
        Inr (''['' @ replicate (nat filled) (CHR ''#'') @ replicate (nat (width - filled)) (CHR ''.'') @ '']''))))"

section \<open>Frames and payloads\<close>

definition cm_parse_can_frame :: "byte list \<Rightarrow> parsed_frame result" where
  "cm_parse_can_frame frame_bytes =
     (if length frame_bytes \<noteq> 16 then Inl (StructError ''unpack requires a buffer of 16 bytes'')
      else let can_id_raw = le_uint (take 4 frame_bytes);
               is_eff = (can_id_raw AND CAN_EFF_FLAG \<noteq> 0)
           in Inr \<lparr>pf_can_id = can_id_raw AND (if is_eff then CAN_EFF_MASK else CAN_SFF_MASK),
                   pf_dlc = min (unat (frame_bytes ! 4)) 8, pf_data = take 8 (drop 8 frame_bytes), pf_is_eff = is_eff,
                   pf_is_rtr = (can_id_raw AND CAN_RTR_FLAG \<noteq> 0), pf_is_err = (can_id_raw AND CAN_ERR_FLAG \<noteq> 0)\<rparr>)"

definition build_can_frame :: "int \<Rightarrow> byte list \<Rightarrow> byte list result" where
  "build_can_frame can_id data =
     (if 8 < length data then Inl (ValueError ''Classical CAN payload must be <= 8 bytes'')
      else Inr (le_bytes 4 (can_id AND CAN_SFF_MASK) @ [word_of_nat (length data)] @ [0, 0, 0] @
        data @ replicate (8 - length data) 0))"

definition parse_can_id_list :: "py_text \<Rightarrow> string \<Rightarrow> int list result" where
  "parse_can_id_list T value_text =
     mapE (text_int0 T) (filter (\<lambda>t. t \<noteq> []) (map str_strip
       (split_on (CHR '','') (map (\<lambda>c. if c = CHR '';'' then CHR '','' else c) value_text))))"

definition cm_normalize_quat_xyzw :: "quat \<Rightarrow> quat result" where
  "cm_normalize_quat_xyzw q =
     (case q of (qx, qy, qz, qw) \<Rightarrow>
       bindE (math_sqrt (fadd (fadd (fadd (fmul qx qx) (fmul qy qy)) (fmul qz qz)) (fmul qw qw))) (\<lambda>n.
         if flt n (lit (1 / 10 ^ 12)) \<or> \<not> isfinite n then Inr (Fin 0, Fin 0, Fin 0, Fin 1)
         else bindE (fdiv qx n) (\<lambda>x. bindE (fdiv qy n) (\<lambda>y. bindE (fdiv qz n) (\<lambda>z. bindE (fdiv qw n) (\<lambda>w.
           Inr (x, y, z, w)))))))"

definition cm_projected_gravity :: "quat \<Rightarrow> vec3" where
  "cm_projected_gravity q =
     (case q of (qx, qy, qz, qw) \<Rightarrow>
       let vx = Fin 0; vy = Fin 0; vz = Fin (- 1);
           tx = fmul (Fin 2) (fsub (fmul qy vz) (fmul qz vy));
           ty = fmul (Fin 2) (fsub (fmul qz vx) (fmul qx vz));
           tz = fmul (Fin 2) (fsub (fmul qx vy) (fmul qy vx));
           vpx = fadd (fsub vx (fmul qw tx)) (fsub (fmul qy tz) (fmul qz ty));
           vpy = fadd (fsub vy (fmul qw ty)) (fsub (fmul qz tx) (fmul qx tz));
           vpz = fadd (fsub vz (fmul qw tz)) (fsub (fmul qx ty) (fmul qy tx))
       in (vpy, vpx, vpz))"

definition cm_decode_e2box_quat :: "byte list \<Rightarrow> (quat \<times> vec3) result" where
  "cm_decode_e2box_quat data =
     (if length data < 8 then Inl (ValueError ''E2Box quaternion frame requires 8 bytes'')
      else let bs = take 8 data in
        bindE (fdiv (float_of_int (raw_i16 bs 0)) (Fin 10000)) (\<lambda>qz.
        bindE (fdiv (float_of_int (raw_i16 bs 1)) (Fin 10000)) (\<lambda>qy.
        bindE (fdiv (float_of_int (raw_i16 bs 2)) (Fin 10000)) (\<lambda>qx.
        bindE (fdiv (float_of_int (raw_i16 bs 3)) (Fin 10000)) (\<lambda>qw.
        bindE (cm_normalize_quat_xyzw (fneg qx, qy, qz, qw)) (\<lambda>quat_xyzw.
          Inr (quat_xyzw, cm_projected_gravity quat_xyzw)))))))"

definition cm_gyro_rad :: "int \<Rightarrow> pyfloat result" where
  "cm_gyro_rad raw = bindE (fdiv (float_of_int raw) (Fin 100)) (\<lambda>v. fdiv (fmul v math_pi) (Fin 180))"

definition cm_decode_e2box_gyro :: "byte list \<Rightarrow> vec3 result" where
  "cm_decode_e2box_gyro data =
     (if length data < 8 then Inl (ValueError ''E2Box gyro frame requires 8 bytes'')
      else let bs = take 8 data in
        bindE (cm_gyro_rad (raw_i16 bs 0)) (\<lambda>gx. bindE (cm_gyro_rad (raw_i16 bs 1)) (\<lambda>gy.
        bindE (cm_gyro_rad (raw_i16 bs 2)) (\<lambda>gz. Inr (gy, gx, gz)))))"

section \<open>Bus load\<close>

definition cm_estimate_bits :: "nat \<Rightarrow> bool \<Rightarrow> bool \<Rightarrow> pyfloat \<Rightarrow> bool \<Rightarrow> int result" where
  "cm_estimate_bits n is_eff is_rtr stuff_factor include_intermission =
     (let n = max 0 (min (int n) 8);
          data_bits = (if is_rtr then 0 else 8 * n);
          base_bits = (if is_eff then 67 + data_bits else 47 + data_bits);
          base_bits = (if include_intermission then base_bits else base_bits - 3)
      in bindE (math_ceil (fmul (float_of_int base_bits) stuff_factor)) (\<lambda>b. Inr (max 0 b)))"

text \<open>\<open>BusLoadWindow\<close> keeps what the dashboard's window keeps.\<close>

definition cm_prune :: "pyfloat \<Rightarrow> bus_window \<Rightarrow> bus_window" where
  "cm_prune now w =
     (let cutoff = fsub now (bw_window_s w) in w\<lparr>bw_events := dropWhile (\<lambda>(t, _, _). flt t cutoff) (bw_events w)\<rparr>)"

definition cm_add :: "pyfloat \<Rightarrow> int \<Rightarrow> string \<Rightarrow> bus_window \<Rightarrow> bus_window" where
  "cm_add timestamp bits direction w =
     cm_prune timestamp (w\<lparr>bw_events := bw_events w @ [(timestamp, max 0 bits, direction)]\<rparr>)"

definition cm_count :: "pyfloat \<times> int \<times> string \<Rightarrow> int \<times> int \<times> int \<times> int \<Rightarrow> int \<times> int \<times> int \<times> int" where
  "cm_count ev acc =
     (case (ev, acc) of ((_, bits, direction), (rx_frames, tx_frames, rx_bits, tx_bits)) \<Rightarrow>
      if direction = ''rx'' then (rx_frames + 1, tx_frames, rx_bits + bits, tx_bits)
      else if direction = ''tx'' then (rx_frames, tx_frames + 1, rx_bits, tx_bits + bits)
      else acc)"

definition cm_stats :: "pyfloat \<Rightarrow> bus_window \<Rightarrow> (int \<times> int \<times> int \<times> int \<times> pyfloat \<times> pyfloat) result \<times> bus_window" where
  "cm_stats now w =
     (let w' = cm_prune now w in
      case fold cm_count (bw_events w') (0, 0, 0, 0) of (rx_frames, tx_frames, rx_bits, tx_bits) \<Rightarrow>
        let duration = fmax (bw_window_s w') (lit (1 / 10 ^ 9)) in
        (bindE (fdiv (float_of_int (rx_bits + tx_bits)) duration) (\<lambda>bit_rate.
         bindE (fdiv bit_rate (fmax (bw_bitrate w') (lit (1 / 10 ^ 9)))) (\<lambda>load.
           Inr (rx_frames, tx_frames, rx_bits, tx_bits, bit_rate, fmul load (Fin 100)))), w'))"

section \<open>State\<close>

record cm_motor =
  co_can_id :: int
  co_rx_count :: int
  co_last_t :: pyfloat
  co_last_opcode :: "byte option"
  co_last_kind :: string
  co_enabled_hint :: "bool option"
  co_temp_c :: "int option"
  co_iq_count :: "int option"
  co_iq_a_approx :: "pyfloat option"
  co_speed_dps :: "int option"
  co_position_rad :: "pyfloat option"
  co_zero_offset_count :: "int option"
  co_raw_data :: "byte list"

definition cm_motor_init :: "int \<Rightarrow> cm_motor" where
  "cm_motor_init can_id =
     \<lparr>co_can_id = can_id, co_rx_count = 0, co_last_t = Fin 0, co_last_opcode = None, co_last_kind = ''none'',
      co_enabled_hint = None, co_temp_c = None, co_iq_count = None, co_iq_a_approx = None, co_speed_dps = None,
      co_position_rad = None, co_zero_offset_count = None, co_raw_data = replicate 8 0\<rparr>"

text \<open>\<open>MonitorState\<close>; \<open>RawFrameState\<close> and \<open>E2BoxState\<close> have the fields of the dashboard's records.\<close>

record cm_state =
  cs_start_t :: pyfloat
  cs_total_rx :: int
  cs_total_tx :: int
  cs_raw_frames :: "(int \<times> raw_frame_state) list"
  cs_imu :: e2box_state
  cs_motors :: "(int \<times> cm_motor) list"
  cs_bus_load :: bus_window

record cm_args =
  ca_poll_imu :: bool
  ca_imu_poll_hz :: pyfloat
  ca_ui_hz :: pyfloat
  ca_bitrate :: pyfloat
  ca_bus_window_s :: pyfloat
  ca_stuff_factor :: pyfloat
  ca_bus_bar_width :: int
  ca_spg_can_ids :: "int list"
  ca_tau_max_nm :: pyfloat
  ca_feedback_pos_max_rad :: pyfloat
  ca_iq_full_scale_count :: pyfloat
  ca_iq_full_scale_current_a :: pyfloat
  ca_recent_count :: int

definition default_args :: cm_args where
  "default_args =
     \<lparr>ca_poll_imu = False, ca_imu_poll_hz = Fin 400, ca_ui_hz = Fin 24, ca_bitrate = Fin 1000000, ca_bus_window_s = Fin 1,
      ca_stuff_factor = lit (115 / 100), ca_bus_bar_width = 32, ca_spg_can_ids = [0x141 .. 0x14C], ca_tau_max_nm = Fin 33,
      ca_feedback_pos_max_rad = lit (1256 / 100), ca_iq_full_scale_count = Fin 2048, ca_iq_full_scale_current_a = Fin 33,
      ca_recent_count = 12\<rparr>"

text \<open>The state \<open>curses_main\<close> starts with.\<close>

definition cm_init :: "cm_args \<Rightarrow> pyfloat \<Rightarrow> cm_state" where
  "cm_init args now =
     \<lparr>cs_start_t = now, cs_total_rx = 0, cs_total_tx = 0, cs_raw_frames = [], cs_imu = E2BoxState_init, cs_motors = [],
      cs_bus_load = \<lparr>bw_window_s = ca_bus_window_s args, bw_bitrate = ca_bitrate args, bw_events = []\<rparr>\<rparr>"

section \<open>Reception\<close>

definition update_raw_state :: "parsed_frame \<Rightarrow> pyfloat \<Rightarrow> cm_state \<Rightarrow> cm_state" where
  "update_raw_state frame now st =
     (let raw = (case map_of (cs_raw_frames st) (pf_can_id frame) of Some r \<Rightarrow> r
        | None \<Rightarrow> \<lparr>rf_can_id = pf_can_id frame, rf_count = 0, rf_last_t = Fin 0, rf_last_dlc = 0, rf_last_data = replicate 8 0\<rparr>)
      in st\<lparr>cs_raw_frames := AList.update (pf_can_id frame)
           (raw\<lparr>rf_count := rf_count raw + 1, rf_last_t := now, rf_last_dlc := pf_dlc frame, rf_last_data := pf_data frame\<rparr>)
           (cs_raw_frames st)\<rparr>)"

definition E2BOX_REQ_ID :: int where "E2BOX_REQ_ID = 0x221"
definition E2BOX_QUAT_ID :: int where "E2BOX_QUAT_ID = 0x2A1"
definition E2BOX_GYRO_ID :: int where "E2BOX_GYRO_ID = 0x321"
definition E2BOX_CMD_GET_ALL :: byte where "E2BOX_CMD_GET_ALL = 0x03"

definition update_imu_state :: "parsed_frame \<Rightarrow> pyfloat \<Rightarrow> (cm_state, unit) action" where
  "update_imu_state frame now st =
     (let i = cs_imu st in
      if pf_can_id frame = E2BOX_REQ_ID then (Inr (), st\<lparr>cs_imu := i\<lparr>ex_req_count := ex_req_count i + 1\<rparr>\<rparr>)
      else if pf_can_id frame = E2BOX_QUAT_ID \<and> pf_dlc frame = 8
      then (case cm_decode_e2box_quat (pf_data frame) of
              Inl (ValueError _) \<Rightarrow> (Inr (), st)
            | Inl x \<Rightarrow> (Inl x, st)
            | Inr (q, g) \<Rightarrow> (Inr (), st\<lparr>cs_imu := i\<lparr>ex_quat_count := ex_quat_count i + 1, ex_quat_last_t := now,
                ex_quat_xyzw := q, ex_projected_gravity_b := g\<rparr>\<rparr>))
      else if pf_can_id frame = E2BOX_GYRO_ID \<and> pf_dlc frame = 8
      then (case cm_decode_e2box_gyro (pf_data frame) of
              Inl (ValueError _) \<Rightarrow> (Inr (), st)
            | Inl x \<Rightarrow> (Inl x, st)
            | Inr g \<Rightarrow> (Inr (), st\<lparr>cs_imu := i\<lparr>ex_gyro_count := ex_gyro_count i + 1, ex_gyro_last_t := now,
                ex_angular_velocity_rad_s := g\<rparr>\<rparr>))
      else (Inr (), st))"

text \<open>The fields are assigned one after the other, so a division by zero leaves the earlier ones set.\<close>

definition decode_status_fields :: "cm_args \<Rightarrow> byte list \<Rightarrow> (cm_motor, unit) action" where
  "decode_status_fields args data motor =
     (let temp = le_sint (slice 1 2 data); iq_count = le_sint (slice 2 4 data);
          speed_dps = le_sint (slice 4 6 data); pos_i16 = le_sint (slice 6 8 data);
          m1 = motor\<lparr>co_last_kind := ''MIT_STATUS'', co_temp_c := Some temp, co_iq_count := Some iq_count\<rparr>
      in case fdiv (float_of_int iq_count) (ca_iq_full_scale_count args) of
           Inl x \<Rightarrow> (Inl x, m1)
         | Inr q \<Rightarrow>
             let m2 = m1\<lparr>co_iq_a_approx := Some (fmul q (ca_iq_full_scale_current_a args)), co_speed_dps := Some speed_dps\<rparr>
             in (case fdiv (float_of_int pos_i16) (Fin 32767) of
                   Inl x \<Rightarrow> (Inl x, m2)
                 | Inr u \<Rightarrow> (Inr (), m2\<lparr>co_position_rad := Some (fmul u (ca_feedback_pos_max_rad args))\<rparr>)))"

definition decode_spg_frame :: "cm_args \<Rightarrow> parsed_frame \<Rightarrow> pyfloat \<Rightarrow> (cm_motor, unit) action" where
  "decode_spg_frame args frame now motor =
     (let data = pf_data frame; n = pf_dlc frame;
          m1 = motor\<lparr>co_rx_count := co_rx_count motor + 1, co_last_t := now, co_raw_data := take 8 data\<rparr>
      in if n < 1 then (Inr (), m1\<lparr>co_last_opcode := None, co_last_kind := ''empty''\<rparr>)
         else let opcode = data ! 0; m2 = m1\<lparr>co_last_opcode := Some opcode\<rparr> in
           if opcode = SPG_CMD_MIT_CONTROL \<and> n = 8 then decode_status_fields args data m2
           else if opcode = SPG_CMD_MIT_ENTER then (Inr (), m2\<lparr>co_last_kind := ''MIT_ENTER_ACK'', co_enabled_hint := Some True\<rparr>)
           else if opcode = SPG_CMD_MIT_EXIT then (Inr (), m2\<lparr>co_last_kind := ''MIT_EXIT_ACK'', co_enabled_hint := Some False\<rparr>)
           else if opcode = SPG_CMD_MIT_SET_ZERO
           then (Inr (), m2\<lparr>co_last_kind := ''MIT_SET_ZERO_ACK'',
             co_zero_offset_count := (if n = 8 then Some (le_sint (slice 6 8 data)) else co_zero_offset_count m2)\<rparr>)
           else if opcode = SPG_CMD_CLEAR_ERROR
           then (Inr (), m2\<lparr>co_last_kind := ''CLEAR_ERROR_ACK'', co_enabled_hint := Some False\<rparr>)
           else (Inr (), m2\<lparr>co_last_kind := ''OP_'' @ zero_pad 2 (hex_of_int (uint opcode))\<rparr>))"

definition update_spg_state :: "cm_args \<Rightarrow> parsed_frame \<Rightarrow> pyfloat \<Rightarrow> (cm_state, unit) action" where
  "update_spg_state args frame now st =
     (if pf_can_id frame \<notin> set (ca_spg_can_ids args) then (Inr (), st)
      else let motor = (case map_of (cs_motors st) (pf_can_id frame) of Some m \<Rightarrow> m | None \<Rightarrow> cm_motor_init (pf_can_id frame))
           in case decode_spg_frame args frame now motor of
                (r, motor') \<Rightarrow> (r, st\<lparr>cs_motors := AList.update (pf_can_id frame) motor' (cs_motors st)\<rparr>))"

definition handle_rx_frame :: "cm_args \<Rightarrow> parsed_frame \<Rightarrow> pyfloat \<Rightarrow> (cm_state, unit) action" where
  "handle_rx_frame args frame now st =
     (let st1 = st\<lparr>cs_total_rx := cs_total_rx st + 1\<rparr>
      in case cm_estimate_bits (pf_dlc frame) (pf_is_eff frame) (pf_is_rtr frame) (ca_stuff_factor args) True of
           Inl x \<Rightarrow> (Inl x, st1)
         | Inr bits \<Rightarrow>
             bindA (update_imu_state frame now) (\<lambda>_. update_spg_state args frame now)
               (update_raw_state frame now (st1\<lparr>cs_bus_load := cm_add now bits ''rx'' (cs_bus_load st1)\<rparr>)))"

section \<open>The loop\<close>

text \<open>A read of the socket with the time of its handling; short reads and error frames are skipped.\<close>

fun cm_read_frames :: "cm_args \<Rightarrow> (byte list \<times> pyfloat) list \<Rightarrow> (cm_state, unit) action" where
  "cm_read_frames args [] st = (Inr (), st)"
| "cm_read_frames args ((frame_bytes, now) # reads) st =
     (if length frame_bytes \<noteq> 16 then cm_read_frames args reads st
      else case cm_parse_can_frame frame_bytes of
        Inl x \<Rightarrow> (Inl x, st)
      | Inr frame \<Rightarrow>
          if pf_is_err frame then cm_read_frames args reads st
          else bindA (handle_rx_frame args frame now) (\<lambda>_. cm_read_frames args reads) st)"

definition cm_poll :: "cm_args \<Rightarrow> pyfloat \<Rightarrow> bool \<Rightarrow> (cm_state, unit) action" where
  "cm_poll args now sent st =
     (if \<not> sent then (Inr (), st)
      else case cm_estimate_bits 1 False False (ca_stuff_factor args) True of
        Inl x \<Rightarrow> (Inl x, st)
      | Inr bits \<Rightarrow> (Inr (), st\<lparr>cs_bus_load := cm_add now bits ''tx'' (cs_bus_load st), cs_total_tx := cs_total_tx st + 1\<rparr>))"

text \<open>When a periodic action at \<open>rate\<close> per second is due next.\<close>

definition next_due :: "pyfloat \<Rightarrow> pyfloat \<Rightarrow> pyfloat result" where
  "next_due now rate = bindE (fdiv (Fin 1) rate) (\<lambda>p. Inr (fadd now (fmax (lit (1 / 10 ^ 6)) p)))"

text \<open>
  An iteration of \<open>curses_main\<close>: \<open>sent\<close> tells whether the IMU request could be sent; rendering prunes the
  window. The two due times are carried along.
\<close>

definition cm_iteration ::
  "cm_args \<Rightarrow> pyfloat \<Rightarrow> bool \<Rightarrow> (byte list \<times> pyfloat) list \<Rightarrow> pyfloat \<Rightarrow> (pyfloat \<times> pyfloat \<times> cm_state, unit) action" where
  "cm_iteration args now sent reads render_now s =
     (case s of (next_imu_poll_t, next_render_t, st) \<Rightarrow>
      case (if ca_poll_imu args \<and> fge now next_imu_poll_t
            then (case cm_poll args now sent st of
                (Inl x, st1) \<Rightarrow> (Inl x, (next_imu_poll_t, st1))
              | (Inr _, st1) \<Rightarrow> (case next_due now (ca_imu_poll_hz args) of
                  Inl x \<Rightarrow> (Inl x, (next_imu_poll_t, st1)) | Inr t \<Rightarrow> (Inr (), (t, st1))))
            else (Inr (), (next_imu_poll_t, st))) of
        (Inl x, (poll_t, st1)) \<Rightarrow> (Inl x, (poll_t, next_render_t, st1))
      | (Inr _, (poll_t, st1)) \<Rightarrow>
          (case cm_read_frames args reads st1 of
             (Inl x, st2) \<Rightarrow> (Inl x, (poll_t, next_render_t, st2))
           | (Inr _, st2) \<Rightarrow>
               if fge now next_render_t
               then (case next_due now (ca_ui_hz args) of
                   Inl x \<Rightarrow> (Inl x, (poll_t, next_render_t, st2\<lparr>cs_bus_load := snd (cm_stats render_now (cs_bus_load st2))\<rparr>))
                 | Inr t \<Rightarrow> (Inr (), (poll_t, t, st2\<lparr>cs_bus_load := snd (cm_stats render_now (cs_bus_load st2))\<rparr>)))
               else (Inr (), (poll_t, next_render_t, st2))))"

section \<open>The same decoders\<close>

lemma cm_quat_eq: "length data = 8 \<Longrightarrow> cm_decode_e2box_quat data = decode_e2box_quat data (Fin 10000) True"
proof -
  assume "length data = 8"
  moreover have "cm_normalize_quat_xyzw = normalize_quat_xyzw" "cm_projected_gravity = dash_projected_gravity"
    by (intro ext, simp add: cm_normalize_quat_xyzw_def normalize_quat_xyzw_def,
        intro ext, simp add: cm_projected_gravity_def dash_projected_gravity_def)
  ultimately show ?thesis by (simp add: cm_decode_e2box_quat_def decode_e2box_quat_def)
qed

lemma cm_gyro_eq: "length data = 8 \<Longrightarrow> cm_decode_e2box_gyro data = decode_e2box_gyro data (Fin 100)"
  by (simp add: cm_decode_e2box_gyro_def decode_e2box_gyro_def cm_gyro_rad_def dash_gyro_rad_def)

lemma cm_estimate_eq: "cm_estimate_bits = estimate_classical_can_bits"
  by (intro ext) (simp add: cm_estimate_bits_def estimate_classical_can_bits_def Let_def min_def max_def)

lemma cm_prune_eq: "cm_prune = bus_prune"
  by (intro ext) (simp add: cm_prune_def bus_prune_def case_prod_unfold)

lemma cm_add_eq: "cm_add = bus_add"
  by (intro ext) (simp add: cm_add_def bus_add_def cm_prune_eq)

lemma cm_count_fold:
  "fold cm_count es (a, b, c, d) =
     (case count_events es of (rx, tx, rb, tb) \<Rightarrow> (a + rx, b + tx, c + rb, d + tb))"
proof (induction es arbitrary: a b c d)
  case (Cons ev es)
  obtain t bits dir where "ev = (t, bits, dir)" by (cases ev)
  then show ?case using Cons by (simp add: cm_count_def case_prod_unfold)
qed simp

lemma cm_stats_eq:
  "fst (cm_stats now w) = bindE (fst (bus_snapshot_of now w))
     (\<lambda>b. Inr (bs_rx_frames b, bs_tx_frames b, bs_rx_bits b, bs_tx_bits b, bs_estimated_bps b, bs_load_percent b))"
  "snd (cm_stats now w) = snd (bus_snapshot_of now w)"
proof -
  obtain rx tx rb tb where c: "count_events (bw_events (bus_prune now w)) = (rx, tx, rb, tb)" by (metis prod_cases4)
  let ?d = "fmax (bw_window_s (bus_prune now w)) (lit (1 / 10 ^ 9))"
  obtain bps r t where 1: "fdiv (float_of_int (rb + tb)) ?d = Inr bps" "fdiv (float_of_int rx) ?d = Inr r"
    "fdiv (float_of_int tx) ?d = Inr t" using fdiv_fmax_nano by meson
  obtain kb where 2: "fdiv bps (Fin 1000) = Inr kb" by (cases bps) auto
  obtain ld where 3: "fdiv bps (fmax (bw_bitrate (bus_prune now w)) (lit (1 / 10 ^ 9))) = Inr ld" using fdiv_fmax_nano by blast
  show "fst (cm_stats now w) = bindE (fst (bus_snapshot_of now w))
     (\<lambda>b. Inr (bs_rx_frames b, bs_tx_frames b, bs_rx_bits b, bs_tx_bits b, bs_estimated_bps b, bs_load_percent b))"
    "snd (cm_stats now w) = snd (bus_snapshot_of now w)"
    using c 1 2 3 by (simp_all add: cm_stats_def bus_snapshot_of_def cm_prune_eq cm_count_fold Let_def)
qed

text \<open>The tool keeps all eight data bytes of a frame, the dashboard as many as its length says.\<close>

definition frame_pair :: "parsed_frame \<Rightarrow> parsed_frame \<Rightarrow> bool" where
  "frame_pair f g \<longleftrightarrow> pf_can_id g = pf_can_id f \<and> pf_dlc g = pf_dlc f \<and> pf_is_eff g = pf_is_eff f \<and>
     pf_is_rtr g = pf_is_rtr f \<and> pf_is_err g = pf_is_err f \<and> pf_dlc f \<le> 8 \<and> length (pf_data g) = 8 \<and>
     pf_data f = take (pf_dlc f) (pf_data g)"

lemma parse_pair:
  assumes "parse_can_frame raw = Inr f"
  obtains g where "cm_parse_can_frame raw = Inr g" and "frame_pair f g" and "length raw = 16"
  using assms
  by (auto simp: parse_can_frame_def cm_parse_can_frame_def frame_pair_def Let_def split: if_splits)

section \<open>The same values\<close>

definition tool_motor :: "cm_state \<Rightarrow> int \<Rightarrow> cm_motor" where
  "tool_motor st i = (case map_of (cs_motors st) i of Some co \<Rightarrow> co | None \<Rightarrow> cm_motor_init i)"

definition dash_motor :: "monitor \<Rightarrow> int \<Rightarrow> motor_state" where
  "dash_motor m i = (case map_of (mn_motors m) i of Some mt \<Rightarrow> mt | None \<Rightarrow> SPGMotorState_init i [])"

definition same_motor :: "motor_state \<Rightarrow> cm_motor \<Rightarrow> bool" where
  "same_motor mt co \<longleftrightarrow> co_rx_count co = mt_rx_count mt \<and> co_last_t co = mt_last_t mt \<and>
     co_enabled_hint co = mt_enabled_hint mt \<and> co_temp_c co = mt_temperature_c mt \<and> co_iq_a_approx co = mt_iq_a_approx mt \<and>
     co_speed_dps co = mt_speed_dps mt \<and> co_position_rad co = mt_position_rad mt \<and>
     co_zero_offset_count co = mt_zero_offset_count mt"

text \<open>The tool's arguments and constants are the dashboard's configuration.\<close>

definition same_config :: "cm_args \<Rightarrow> nat \<Rightarrow> monitor \<Rightarrow> bool" where
  "same_config args k m \<longleftrightarrow>
     mn_imu_request_id m = E2BOX_REQ_ID \<and> mn_imu_quat_id m = E2BOX_QUAT_ID \<and> mn_imu_gyro_id m = E2BOX_GYRO_ID \<and>
     mn_imu_quat_scale m = Fin 10000 \<and> mn_imu_gyro_scale m = Fin 100 \<and> mn_imu_normalize_quat m \<and>
     mn_feedback_position_max_rad m = ca_feedback_pos_max_rad args \<and>
     mn_iq_full_scale_count m = ca_iq_full_scale_count args \<and> ca_iq_full_scale_count args \<noteq> Fin 0 \<and>
     mn_iq_full_scale_current_a m = ca_iq_full_scale_current_a args \<and>
     set (ca_spg_can_ids args) = fst ` set (mn_actuator_configs m) \<and>
     k < length (mn_can_channels m) \<and> ch_stuff_factor (mn_can_channels m ! k) = ca_stuff_factor args"

definition same_view :: "cm_args \<Rightarrow> nat \<Rightarrow> cm_state \<Rightarrow> monitor \<Rightarrow> bool" where
  "same_view args k st m \<longleftrightarrow>
     cs_imu st = mn_imu m \<and> (\<forall>i \<in> set (ca_spg_can_ids args). same_motor (dash_motor m i) (tool_motor st i)) \<and>
     cs_total_rx st = ch_total_rx (mn_can_channels m ! k) \<and> cs_bus_load st = ch_bus_load (mn_can_channels m ! k)"

lemma fdiv_not_zero: "y \<noteq> Fin 0 \<Longrightarrow> \<exists>q. fdiv x y = Inr q"
  by (cases y; cases x) auto

lemma motor_sim:
  assumes "frame_pair f g" and "same_config args k m" and "same_motor mt co"
  shows "fst (decode_spg_frame args g now co) =
      fst (motor_decode f m (mt\<lparr>mt_rx_count := mt_rx_count mt + 1, mt_last_t := now, mt_raw_data := pf_data f\<rparr>)) \<and>
    same_motor (snd (motor_decode f m (mt\<lparr>mt_rx_count := mt_rx_count mt + 1, mt_last_t := now, mt_raw_data := pf_data f\<rparr>)))
      (snd (decode_spg_frame args g now co))"
proof (cases "pf_dlc f < 1")
  case True
  then show ?thesis
    using assms(1,3) by (simp add: decode_spg_frame_def motor_decode_def frame_pair_def same_motor_def Let_def)
next
  case False
  then have op: "pf_data f ! 0 = pf_data g ! 0" using assms(1) by (simp add: frame_pair_def)
  show ?thesis
  proof (cases "pf_dlc f = 8")
    case True
    have d: "pf_data f = pf_data g" "pf_dlc g = 8" "length (pf_data g) = 8" using assms(1) True by (simp_all add: frame_pair_def)
    obtain q where q: "fdiv (float_of_int (le_sint (slice 2 4 (pf_data g)))) (ca_iq_full_scale_count args) = Inr q"
      using assms(2) fdiv_not_zero by (meson same_config_def)
    obtain u where u: "fdiv (float_of_int (le_sint (slice 6 8 (pf_data g)))) (Fin 32767) = Inr u"
      using fdiv_not_zero [of "Fin 32767"] by auto
    show ?thesis
      using assms(2,3) True q u d
      by (simp add: decode_spg_frame_def motor_decode_def decode_status_fields_def decode_spg_status_def same_motor_def
        same_config_def Let_def SPG_CMD_MIT_CONTROL_def SPG_CMD_MIT_ENTER_def SPG_CMD_MIT_EXIT_def SPG_CMD_MIT_SET_ZERO_def
        SPG_CMD_CLEAR_ERROR_def)
  next
    case n8: False
    have d: "pf_dlc g = pf_dlc f" using assms(1) by (simp add: frame_pair_def)
    show ?thesis
      using False n8 op d assms(3)
      by (simp add: decode_spg_frame_def motor_decode_def same_motor_def Let_def SPG_CMD_MIT_CONTROL_def SPG_CMD_MIT_ENTER_def
        SPG_CMD_MIT_EXIT_def SPG_CMD_MIT_SET_ZERO_def SPG_CMD_CLEAR_ERROR_def)
  qed
qed

lemma known_actuator:
  "(actuator_config_for_can_id i m = None) \<longleftrightarrow> i \<notin> fst ` set (mn_actuator_configs m)"
  by (force simp: actuator_config_for_can_id_def find_None_iff)

lemma update_motor_sim:
  assumes "frame_pair f g" and "same_config args k m" and "same_view args k st m"
  shows "fst (update_spg_state args g now st) = fst (update_motor f now m) \<and>
    same_view args k (snd (update_spg_state args g now st)) (snd (update_motor f now m))"
proof (cases "actuator_config_for_can_id (pf_can_id f) m")
  case None
  then have "pf_can_id g \<notin> set (ca_spg_can_ids args)"
    using assms(1,2) known_actuator [of "pf_can_id f" m] by (simp add: frame_pair_def same_config_def)
  then show ?thesis using None assms(3) by (simp add: update_spg_state_def update_motor_def)
next
  case (Some actuator)
  let ?i = "pf_can_id f"
  have id: "pf_can_id g = ?i" "?i \<in> set (ca_spg_can_ids args)"
    using assms(1,2) Some known_actuator [of ?i m] by (simp_all add: frame_pair_def same_config_def)
  define motors where "motors = setdefault ?i (SPGMotorState_init ?i (snd actuator)) (mn_motors m)"
  define mt where "mt = the (map_of motors ?i)"
  have others: "map_of motors j = map_of (mn_motors m) j" if "j \<noteq> ?i" for j
    using that by (auto simp: motors_def setdefault_def map_add_def split: option.splits)
  have "same_motor mt (tool_motor st ?i)"
    using assms(3) id(2)
    by (auto simp: same_view_def mt_def motors_def setdefault_def dash_motor_def same_motor_def SPGMotorState_init_def map_add_def
      split: option.splits)
  from motor_sim [OF assms(1,2) this, of now]
  have sim: "fst (decode_spg_frame args g now (tool_motor st ?i)) =
      fst (motor_decode f m (mt\<lparr>mt_rx_count := mt_rx_count mt + 1, mt_last_t := now, mt_raw_data := pf_data f\<rparr>))"
    "same_motor (snd (motor_decode f m (mt\<lparr>mt_rx_count := mt_rx_count mt + 1, mt_last_t := now, mt_raw_data := pf_data f\<rparr>)))
      (snd (decode_spg_frame args g now (tool_motor st ?i)))" by blast+
  obtain r co where co: "decode_spg_frame args g now (tool_motor st ?i) = (r, co)" by (metis surj_pair)
  obtain r' mt' where mt': "motor_decode f m (mt\<lparr>mt_rx_count := mt_rx_count mt + 1, mt_last_t := now, mt_raw_data := pf_data f\<rparr>) = (r', mt')"
    by (metis surj_pair)
  have tool: "update_spg_state args g now st = (r, st\<lparr>cs_motors := AList.update ?i co (cs_motors st)\<rparr>)"
    using id(2) co unfolding update_spg_state_def Let_def id(1) tool_motor_def by simp
  have dash: "update_motor f now m = (r', m\<lparr>mn_motors := AList.update ?i mt' motors\<rparr>)"
    using Some mt' by (simp add: update_motor_def motors_def mt_def)
  have "same_motor (dash_motor (m\<lparr>mn_motors := AList.update ?i mt' motors\<rparr>) j)
      (tool_motor (st\<lparr>cs_motors := AList.update ?i co (cs_motors st)\<rparr>) j)" if "j \<in> set (ca_spg_can_ids args)" for j
  proof (cases "j = ?i")
    case True
    then show ?thesis using sim(2) co mt' by (simp add: dash_motor_def tool_motor_def update_conv')
  next
    case False
    then show ?thesis using assms(3) that others [OF False]
      by (simp add: dash_motor_def tool_motor_def update_conv' same_view_def)
  qed
  then show ?thesis using tool dash sim(1) co mt' assms(3) by (simp add: same_view_def)
qed

text \<open>What both do to the IMU's values, on the results of decoding.\<close>

definition imu_effect ::
  "bool \<Rightarrow> bool \<Rightarrow> (quat \<times> vec3) result \<Rightarrow> bool \<Rightarrow> vec3 result \<Rightarrow> pyfloat \<Rightarrow> e2box_state \<Rightarrow> unit result \<times> e2box_state" where
  "imu_effect is_req is_quat Q is_gyro G now i =
     (if is_req then (Inr (), i\<lparr>ex_req_count := ex_req_count i + 1\<rparr>)
      else if is_quat
      then (case Q of Inl x \<Rightarrow> (if is_value_error x then Inr () else Inl x, i)
            | Inr (q, g) \<Rightarrow> (Inr (), i\<lparr>ex_quat_count := ex_quat_count i + 1, ex_quat_last_t := now,
                ex_quat_xyzw := q, ex_projected_gravity_b := g\<rparr>))
      else if is_gyro
      then (case G of Inl x \<Rightarrow> (if is_value_error x then Inr () else Inl x, i)
            | Inr g \<Rightarrow> (Inr (), i\<lparr>ex_gyro_count := ex_gyro_count i + 1, ex_gyro_last_t := now,
                ex_angular_velocity_rad_s := g\<rparr>))
      else (Inr (), i))"

lemma update_imu_effect:
  "update_imu f now m =
     apsnd (\<lambda>i. m\<lparr>mn_imu := i\<rparr>) (imu_effect (pf_can_id f = mn_imu_request_id m) (pf_can_id f = mn_imu_quat_id m \<and> pf_dlc f = 8)
       (decode_e2box_quat (pf_data f) (mn_imu_quat_scale m) (mn_imu_normalize_quat m))
       (pf_can_id f = mn_imu_gyro_id m \<and> pf_dlc f = 8) (decode_e2box_gyro (pf_data f) (mn_imu_gyro_scale m)) now (mn_imu m))"
  by (simp add: update_imu_def imu_effect_def Let_def is_value_error_def split: sum.split exc.split prod.split)

lemma update_imu_state_effect:
  "update_imu_state g now st =
     apsnd (\<lambda>i. st\<lparr>cs_imu := i\<rparr>) (imu_effect (pf_can_id g = E2BOX_REQ_ID) (pf_can_id g = E2BOX_QUAT_ID \<and> pf_dlc g = 8)
       (cm_decode_e2box_quat (pf_data g)) (pf_can_id g = E2BOX_GYRO_ID \<and> pf_dlc g = 8) (cm_decode_e2box_gyro (pf_data g))
       now (cs_imu st))"
  by (simp add: update_imu_state_def imu_effect_def Let_def is_value_error_def split: sum.split exc.split prod.split)

lemma imu_effect_cong:
  "(b \<Longrightarrow> Q = Q') \<Longrightarrow> (c \<Longrightarrow> G = G') \<Longrightarrow> imu_effect a b Q c G now i = imu_effect a b Q' c G' now i"
  by (simp add: imu_effect_def)

lemma update_imu_sim:
  assumes "frame_pair f g" and "same_config args k m" and "cs_imu st = mn_imu m"
  obtains r i where "update_imu_state g now st = (r, st\<lparr>cs_imu := i\<rparr>)" and "update_imu f now m = (r, m\<lparr>mn_imu := i\<rparr>)"
proof -
  let ?E = "imu_effect (pf_can_id f = E2BOX_REQ_ID) (pf_can_id f = E2BOX_QUAT_ID \<and> pf_dlc f = 8)
       (decode_e2box_quat (pf_data f) (Fin 10000) True)
       (pf_can_id f = E2BOX_GYRO_ID \<and> pf_dlc f = 8) (decode_e2box_gyro (pf_data f) (Fin 100)) now (mn_imu m)"
  have m: "update_imu f now m = apsnd (\<lambda>i. m\<lparr>mn_imu := i\<rparr>) ?E"
    using assms(2) by (simp add: update_imu_effect same_config_def)
  have d: "pf_data g = pf_data f \<and> length (pf_data f) = 8" if "pf_dlc f = 8" using assms(1) that by (simp add: frame_pair_def)
  have ids: "pf_can_id g = pf_can_id f" "pf_dlc g = pf_dlc f" using assms(1) by (simp_all add: frame_pair_def)
  have t: "update_imu_state g now st = apsnd (\<lambda>i. st\<lparr>cs_imu := i\<rparr>) ?E"
    unfolding update_imu_state_effect ids assms(3)
    by (rule arg_cong [where f = "apsnd (\<lambda>i. st\<lparr>cs_imu := i\<rparr>)"], rule imu_effect_cong) (use d cm_quat_eq cm_gyro_eq in auto)
  obtain r i where "?E = (r, i)" by (metis surj_pair)
  then show thesis using that m t by simp
qed

text \<open>The parts of a monitor the comparison looks at, and what leaves them alone.\<close>

definition agree_on :: "monitor \<Rightarrow> monitor \<Rightarrow> bool" where
  "agree_on m m' \<longleftrightarrow> mn_imu m' = mn_imu m \<and> mn_motors m' = mn_motors m \<and> mn_can_channels m' = mn_can_channels m \<and>
     (\<forall>args k. same_config args k m' = same_config args k m)"

lemma agree_on_trans: "agree_on a b \<Longrightarrow> agree_on b c \<Longrightarrow> agree_on a c"
  by (simp add: agree_on_def)

lemma agree_on_nodes: "agree_on m (m\<lparr>mn_nodes := ns\<rparr>)" "agree_on m (m\<lparr>mn_raw_frames := rs\<rparr>)" "agree_on m m"
  by (simp_all add: agree_on_def same_config_def)

lemma agree_on_ensure: "agree_on m (ensure_node key name i role m)"
  by (simp add: ensure_node_def agree_on_nodes split: option.split)

lemma agree_on_update_node: "agree_on m (update_node i now data m)"
proof -
  obtain key m1 where n: "node_for_can_id i m = (key, m1)" by (metis surj_pair)
  then have "agree_on m m1"
    by (auto simp: node_for_can_id_def agree_on_nodes agree_on_ensure split: option.splits prod.splits)
  from agree_on_trans [OF this agree_on_nodes(1)] show ?thesis by (simp add: update_node_def n)
qed

lemma agree_on_before_decode: "agree_on m (update_node i now data (update_raw_frame f now m))"
  using agree_on_update_node agree_on_trans agree_on_nodes(2) unfolding update_raw_frame_def Let_def by blast

lemma same_view_agree: "agree_on m m' \<Longrightarrow> same_view args k st m' = same_view args k st m"
  by (simp add: agree_on_def same_view_def dash_motor_def)

lemma same_config_imu: "same_config args k (m\<lparr>mn_imu := i\<rparr>) = same_config args k m"
  by (simp add: same_config_def)

lemma same_config_motor: "same_config args k m \<Longrightarrow> same_config args k (snd (update_motor f now m))"
  by (auto simp: update_motor_def Let_def same_config_def split: option.split prod.split)

lemma decode_sim:
  assumes "frame_pair f g" and "same_config args k m" and "same_view args k st m"
  shows "let R = bindA (update_imu_state g now) (\<lambda>_. update_spg_state args g now) st;
             D = bindA (update_imu f now) (\<lambda>_. update_motor f now) m
    in fst R = fst D \<and> same_view args k (snd R) (snd D) \<and> same_config args k (snd D)"
proof -
  have "cs_imu st = mn_imu m" using assms(3) by (simp add: same_view_def)
  then obtain r i where t: "update_imu_state g now st = (r, st\<lparr>cs_imu := i\<rparr>)" and d: "update_imu f now m = (r, m\<lparr>mn_imu := i\<rparr>)"
    using update_imu_sim [OF assms(1,2)] by blast
  have v: "same_view args k (st\<lparr>cs_imu := i\<rparr>) (m\<lparr>mn_imu := i\<rparr>)"
    using assms(3) by (simp add: same_view_def dash_motor_def tool_motor_def)
  have c: "same_config args k (m\<lparr>mn_imu := i\<rparr>)" using assms(2) by (simp add: same_config_imu)
  show ?thesis
    using v c update_motor_sim [OF assms(1) c v, of now] same_config_motor [OF c]
    by (cases r) (simp_all add: Let_def bindA_def t d)
qed

lemma handle_rx_sim:
  assumes "frame_pair f g" and "same_config args k m" and "same_view args k st m"
  shows "fst (handle_rx_frame args g now st) = fst (monitor_mark_rx f now (Some k) m) \<and>
    same_view args k (snd (handle_rx_frame args g now st)) (snd (monitor_mark_rx f now (Some k) m)) \<and>
    same_config args k (snd (monitor_mark_rx f now (Some k) m))"
proof -
  let ?c = "mn_can_channels m ! k"
  have k: "k < length (mn_can_channels m)" "ch_stuff_factor ?c = ca_stuff_factor args" using assms(2) by (simp_all add: same_config_def)
  have g: "pf_dlc g = pf_dlc f" "pf_is_eff g = pf_is_eff f" "pf_is_rtr g = pf_is_rtr f" using assms(1) by (simp_all add: frame_pair_def)
  let ?est = "estimate_classical_can_bits (pf_dlc f) (pf_is_eff f) (pf_is_rtr f) (ca_stuff_factor args) True"
  have view: "same_view args k (st\<lparr>cs_total_rx := cs_total_rx st + 1, cs_bus_load := w\<rparr>)
      (m\<lparr>mn_can_channels := (mn_can_channels m)[k := ?c\<lparr>ch_total_rx := ch_total_rx ?c + 1, ch_bus_load := w\<rparr>]\<rparr>)" for w
    using assms(3) k by (simp add: same_view_def dash_motor_def tool_motor_def)
  have conf: "same_config args k (m\<lparr>mn_can_channels := (mn_can_channels m)[k := ?c\<lparr>ch_total_rx := n, ch_bus_load := w\<rparr>]\<rparr>)" for n w
    using assms(2) by (simp add: same_config_def)
  show ?thesis
  proof (cases ?est)
    case (Inl x)
    have "same_view args k (st\<lparr>cs_total_rx := cs_total_rx st + 1\<rparr>)
        (m\<lparr>mn_can_channels := (mn_can_channels m)[k := ?c\<lparr>ch_total_rx := ch_total_rx ?c + 1\<rparr>]\<rparr>)"
      using assms(3) k by (simp add: same_view_def dash_motor_def tool_motor_def)
    moreover have "same_config args k (m\<lparr>mn_can_channels := (mn_can_channels m)[k := ?c\<lparr>ch_total_rx := n\<rparr>]\<rparr>)" for n
      using assms(2) by (simp add: same_config_def)
    ultimately show ?thesis
      using Inl k by (simp add: handle_rx_frame_def monitor_mark_rx_def bindA_def channel_mark_rx_def cm_estimate_eq g Let_def)
  next
    case (Inr bits)
    let ?w = "bus_add now bits ''rx'' (ch_bus_load ?c)"
    let ?m = "m\<lparr>mn_can_channels := (mn_can_channels m)[k := ?c\<lparr>ch_total_rx := ch_total_rx ?c + 1, ch_bus_load := ?w\<rparr>]\<rparr>"
    let ?st = "update_raw_state g now (st\<lparr>cs_total_rx := cs_total_rx st + 1, cs_bus_load := ?w\<rparr>)"
    let ?m2 = "update_node (pf_can_id f) now (pf_data f) (update_raw_frame f now ?m)"
    have a: "agree_on ?m ?m2" by (rule agree_on_before_decode)
    have "same_view args k ?st ?m"
      using view [of ?w] by (simp add: update_raw_state_def Let_def same_view_def tool_motor_def)
    then have v: "same_view args k ?st ?m2" using same_view_agree [OF a] by simp
    have c: "same_config args k ?m2" using a conf by (simp add: agree_on_def)
    have tool: "handle_rx_frame args g now st = bindA (update_imu_state g now) (\<lambda>_. update_spg_state args g now) ?st"
      using Inr assms(3) by (simp add: handle_rx_frame_def cm_estimate_eq cm_add_eq g Let_def same_view_def)
    have dash: "monitor_mark_rx f now (Some k) m = bindA (update_imu f now) (\<lambda>_. update_motor f now) ?m2"
      using Inr k(2) by (simp add: monitor_mark_rx_def bindA_def channel_mark_rx_def Let_def)
    show ?thesis unfolding tool dash using decode_sim [OF assms(1) c v, of now] by (simp add: Let_def)
  qed
qed

section \<open>Properties\<close>

text \<open>The dashboard's reader on the same frames and times.\<close>

definition dash_reads :: "nat \<Rightarrow> (byte list \<times> pyfloat) list \<Rightarrow> (monitor, unit) action" where
  "dash_reads k = forA (\<lambda>(raw, now). bindA (liftA (parse_can_frame raw)) (\<lambda>f. monitor_mark_rx f now (Some k)))"

lemma reads_sim:
  assumes "same_config args k m" and "same_view args k st m"
    and "\<forall>(raw, now) \<in> set reads. \<exists>f. parse_can_frame raw = Inr f \<and> \<not> pf_is_err f"
  shows "fst (cm_read_frames args reads st) = fst (dash_reads k reads m) \<and>
    same_view args k (snd (cm_read_frames args reads st)) (snd (dash_reads k reads m))"
  using assms
proof (induction reads arbitrary: st m)
  case Nil
  then show ?case by (simp add: dash_reads_def)
next
  case (Cons rn reads)
  obtain raw now where rn: "rn = (raw, now)" by (cases rn)
  obtain f where f: "parse_can_frame raw = Inr f" "\<not> pf_is_err f" using Cons.prems(3) rn by auto
  obtain g where g: "cm_parse_can_frame raw = Inr g" "frame_pair f g" "length raw = 16" by (rule parse_pair [OF f(1)])
  have e: "\<not> pf_is_err g" using g(2) f(2) by (simp add: frame_pair_def)
  obtain r st1 where t: "handle_rx_frame args g now st = (r, st1)" by (metis surj_pair)
  obtain r' m1 where d: "monitor_mark_rx f now (Some k) m = (r', m1)" by (metis surj_pair)
  note sim = handle_rx_sim [OF g(2) Cons.prems(1,2), of now, unfolded t d]
  show ?case
  proof (cases r)
    case (Inl x)
    then have "r' = Inl x" using sim by simp
    then show ?thesis using sim Inl t d f g e by (simp add: rn dash_reads_def bindA_def)
  next
    case (Inr u)
    have "\<forall>(raw, now) \<in> set reads. \<exists>f. parse_can_frame raw = Inr f \<and> \<not> pf_is_err f" using Cons.prems(3) by simp
    then show ?thesis
      using Cons.IH [of m1 st1] sim Inr t d f g e by (auto simp: rn dash_reads_def bindA_def)
  qed
qed


definition demo_tool_args :: cm_args where
  "demo_tool_args = default_args\<lparr>ca_spg_can_ids := [0x141], ca_stuff_factor := Fin 1\<rparr>"

definition demo_dashboard :: monitor where
  "demo_dashboard =
     \<lparr>mn_heartbeat_window_s = Fin 1, mn_node_timeout_s = Fin 1,
      mn_feedback_position_max_rad = ca_feedback_pos_max_rad default_args, mn_iq_full_scale_count = Fin 2048,
      mn_iq_full_scale_current_a = Fin 33, mn_mit_config = sq_mit_config demo_spg, mn_imu_request_id = 0x221, mn_imu_quat_id = 0x2A1,
      mn_imu_gyro_id = 0x321, mn_imu_quat_scale = Fin 10000, mn_imu_gyro_scale = Fin 100, mn_imu_normalize_quat = True,
      mn_can_channels = [CanChannelState_init ''can0'' ''CAN'' ''can0'' 1000000 (Fin 1) (Fin 1)],
      mn_actuator_configs = [(0x141, ''FL_HR'')], mn_tx_enabled = False, mn_allow_actuator_commands = False,
      mn_mit_poll_can_ids = {}, mn_mit_poll_hz = Fin 1, mn_start_t = Fin 0, mn_raw_frames = [], mn_nodes = [],
      mn_imu = E2BoxState_init, mn_motors = []\<rparr>"


end
