(* ===== verification/Aux_Reader.thy ===== *)
theory Aux_Reader
  imports Aux_Command
begin

text \<open>
  The gamepad reader process (\<open>robot_controller/subprocesses/aux_reader/main.py\<close>): joystick events
  become axis and button values, which are published in the auxiliary command segment after every
  event.
\<close>

section \<open>Axes and buttons\<close>

definition JS_EVENT_BUTTON :: int where "JS_EVENT_BUTTON = 0x01"
definition JS_EVENT_AXIS :: int where "JS_EVENT_AXIS = 0x02"
definition JS_EVENT_INIT :: int where "JS_EVENT_INIT = 0x80"
definition JS_EVENT_SIZE :: nat where "JS_EVENT_SIZE = 8"

definition axis_value :: "int \<Rightarrow> pyfloat result" where
  "axis_value value =
     bindE (fdiv (float_of_int value) (Fin 32767)) (\<lambda>x. Inr (fmax (Fin (- 1)) (fmin (Fin 1) x)))"

definition deadband :: "pyfloat \<Rightarrow> pyfloat \<Rightarrow> pyfloat" where
  "deadband value threshold = (if flt (fabs value) threshold then Fin 0 else value)"

text \<open>The value a mapping row computes: scale 1, inverted, dead band 0.05.\<close>

definition mapped_axis :: "pyfloat \<Rightarrow> pyfloat" where
  "mapped_axis v = fmul (fneg (deadband v (lit (5 / 100)))) (Fin 1)"

definition axis_targets :: "pyfloat list \<Rightarrow> pyfloat list \<times> pyfloat list" where
  "axis_targets axes =
     foldl (\<lambda>(lin, ang) (axis, index, is_lin).
       let value = mapped_axis (axes ! axis)
       in if is_lin then (lin[index := value], ang) else (lin, ang[index := value]))
       (replicate 3 (Fin 0), replicate 3 (Fin 0))
       [(1::nat, 0::nat, True), (0, 1, True), (3, 2, False)]"

definition button_targets :: "bool list \<Rightarrow> (string \<times> bool) list" where
  "button_targets buttons = map (\<lambda>(index, fld). (fld, buttons ! index)) (enumerate 0 BUTTON_FIELDS)"

section \<open>The reader\<close>

record aux_reader =
  ar_axes :: "pyfloat list"
  ar_buttons :: "bool list"

definition aux_reader_init :: aux_reader where
  "aux_reader_init = \<lparr>ar_axes = replicate 32 (Fin 0), ar_buttons = replicate 32 False\<rparr>"

definition aux_publish :: "int \<Rightarrow> shm_obj \<Rightarrow> aux_reader \<Rightarrow> (shm_os, unit) action" where
  "aux_publish time_ns writer r =
     (case axis_targets (ar_axes r) of (lin, ang) \<Rightarrow>
      bindA (AuxCommandShm_publish time_ns writer lin ang (button_targets (ar_buttons r))) (\<lambda>_. retA ()))"

text \<open>\<open>JS_EVENT_STRUCT.unpack\<close>: a timestamp, the signed value, the type and the number.\<close>

definition js_unpack :: "byte list \<Rightarrow> int \<times> int \<times> nat" where
  "js_unpack packet = (le_sint (slice 4 6 packet), uint (packet ! 6), unat (packet ! 7))"

text \<open>The effect of an event on the arrays, and whether it is published.\<close>

definition js_event :: "byte list \<Rightarrow> aux_reader \<Rightarrow> aux_reader option result" where
  "js_event packet r =
     (case js_unpack packet of (value, event_type, number) \<Rightarrow>
      let event_type = and event_type (not JS_EVENT_INIT)
      in if event_type = JS_EVENT_AXIS \<and> number < length (ar_axes r)
         then bindE (axis_value value) (\<lambda>v. Inr (Some (r\<lparr>ar_axes := (ar_axes r)[number := v]\<rparr>)))
         else if event_type = JS_EVENT_BUTTON \<and> number < length (ar_buttons r)
         then Inr (Some (r\<lparr>ar_buttons := (ar_buttons r)[number := value \<noteq> 0]\<rparr>))
         else Inr None)"

text \<open>What \<open>os.read\<close> returned: a packet, nothing yet, or another error.\<close>

datatype js_read = JsPacket "byte list" | JsWouldBlock | JsError exc

definition reader_iteration :: "int \<Rightarrow> shm_obj \<Rightarrow> js_read \<Rightarrow> (aux_reader \<times> shm_os, unit) action" where
  "reader_iteration time_ns writer rd = (\<lambda>(r, os).
     case rd of
       JsWouldBlock \<Rightarrow> (Inr (), (r, os))
     | JsError e \<Rightarrow> (Inl e, (r, os))
     | JsPacket packet \<Rightarrow>
         if length packet \<noteq> JS_EVENT_SIZE then (Inl (RuntimeError ''partial joystick event read''), (r, os))
         else case js_event packet r of
             Inl e \<Rightarrow> (Inl e, (r, os))
           | Inr None \<Rightarrow> (Inr (), (r, os))
           | Inr (Some r') \<Rightarrow> (case aux_publish time_ns writer r' os of (res, os') \<Rightarrow> (res, (r', os'))))"

text \<open>
  \<open>main\<close> from the opened writer on: the neutral command, then the loop over the reads that happen
  while \<open>RUNNING\<close> holds, each with the clock at which it would publish. The writer is closed at the
  end, whatever happened.
\<close>

definition reader_main ::
  "int \<Rightarrow> (int \<times> js_read) list \<Rightarrow> shm_obj \<Rightarrow> shm_os \<Rightarrow> unit result \<times> shm_obj \<times> aux_reader \<times> shm_os" where
  "reader_main start_ns reads writer os =
     (case bindA (\<lambda>(r, os). case aux_publish start_ns writer r os of (res, os') \<Rightarrow> (res, (r, os')))
         (\<lambda>_. forA (\<lambda>(time_ns, rd). reader_iteration time_ns writer rd) reads) (aux_reader_init, os) of
        (res, (r, os')) \<Rightarrow> (res, segment_close writer, r, os'))"

section \<open>What a reader of the segment sees\<close>

text \<open>The value of an axis and of a button after some reads: that of the last event for it.\<close>

definition js_matches :: "int \<Rightarrow> nat \<Rightarrow> byte list \<Rightarrow> bool" where
  "js_matches kind n packet \<longleftrightarrow>
     (case js_unpack packet of (_, event_type, number) \<Rightarrow> and event_type (not JS_EVENT_INIT) = kind \<and> number = n)"

definition clamped :: "int \<Rightarrow> pyfloat" where
  "clamped value = (case axis_value value of Inr v \<Rightarrow> v | Inl _ \<Rightarrow> Fin 0)"

definition axis_after :: "nat \<Rightarrow> pyfloat \<Rightarrow> int \<times> js_read \<Rightarrow> pyfloat" where
  "axis_after n v rd =
     (case snd rd of JsPacket p \<Rightarrow> if js_matches JS_EVENT_AXIS n p then clamped (fst (js_unpack p)) else v | _ \<Rightarrow> v)"

definition button_after :: "nat \<Rightarrow> bool \<Rightarrow> int \<times> js_read \<Rightarrow> bool" where
  "button_after n b rd =
     (case snd rd of JsPacket p \<Rightarrow> if js_matches JS_EVENT_BUTTON n p then fst (js_unpack p) \<noteq> 0 else b | _ \<Rightarrow> b)"

definition readable :: "int \<times> js_read \<Rightarrow> bool" where
  "readable rd \<longleftrightarrow> (case snd rd of JsPacket p \<Rightarrow> length p = JS_EVENT_SIZE | JsWouldBlock \<Rightarrow> True | JsError _ \<Rightarrow> False)"

lemma axis_value_clamped: "axis_value value = Inr (clamped value)" "bounded_by 1 (clamped value)"
proof -
  obtain q where "fdiv (float_of_int value) (Fin 32767) = Inr q"
    by (cases "float_of_int value") auto
  then have v: "axis_value value = Inr (fmax (Fin (- 1)) (fmin (Fin 1) q))" by (simp add: axis_value_def)
  then show "axis_value value = Inr (clamped value)" by (simp add: clamped_def)
  have "bounded_by 1 (fmax (Fin (- 1)) (fmin (Fin 1) q))"
    by (cases q) (auto simp: bounded_by_def fmax_def fmin_def)
  with v show "bounded_by 1 (clamped value)" by (simp add: clamped_def)
qed

lemma mapped_axis_bounded: "bounded_by 1 v \<Longrightarrow> bounded_by 1 (mapped_axis v)"
proof -
  assume "bounded_by 1 v"
  then have "bounded_by 1 (deadband v (lit (5 / 100)))" by (auto simp: deadband_def bounded_by_def)
  then obtain x where "fneg (deadband v (lit (5 / 100))) = Fin x" "\<bar>x\<bar> \<le> 1"
    by (metis bounded_by_def bounded_fneg)
  then show ?thesis by (simp add: mapped_axis_def fround_unit)
qed

lemma axis_targets_eq:
  "axis_targets axes = ([mapped_axis (axes ! 1), mapped_axis (axes ! 0), Fin 0], [Fin 0, Fin 0, mapped_axis (axes ! 3)])"
  by (simp add: axis_targets_def Let_def numeral_3_eq_3)

lemma button_targets_map:
  "map (\<lambda>name. (name, map_of (button_targets buttons) name = Some True)) BUTTON_FIELDS = button_targets buttons"
  by (simp add: button_targets_def BUTTON_FIELDS_def)

text \<open>The reader's arrays follow the events.\<close>

definition tracks :: "(nat \<Rightarrow> pyfloat) \<Rightarrow> (nat \<Rightarrow> bool) \<Rightarrow> aux_reader \<Rightarrow> bool" where
  "tracks ax bt r \<longleftrightarrow> length (ar_axes r) = 32 \<and> length (ar_buttons r) = 32 \<and>
     (\<forall>n < 32. ar_axes r ! n = ax n \<and> ar_buttons r ! n = bt n)"

lemma js_event_tracks:
  assumes "tracks ax bt r" and "length p = JS_EVENT_SIZE"
  shows "\<exists>ev. js_event p r = Inr ev \<and>
    tracks (\<lambda>n. axis_after n (ax n) (t, JsPacket p)) (\<lambda>n. button_after n (bt n) (t, JsPacket p))
      (case ev of None \<Rightarrow> r | Some r' \<Rightarrow> r') \<and>
    (ev = None \<longrightarrow> (\<forall>n < 32. axis_after n (ax n) (t, JsPacket p) = ax n \<and> button_after n (bt n) (t, JsPacket p) = bt n))"
proof -
  obtain x ty number where u: "js_unpack p = (x, ty, number)" by (metis prod_cases3)
  have "JS_EVENT_AXIS \<noteq> JS_EVENT_BUTTON" by (simp add: JS_EVENT_AXIS_def JS_EVENT_BUTTON_def)
  with assms u show ?thesis
    by (auto simp: js_event_def Let_def axis_value_clamped(1) tracks_def axis_after_def button_after_def js_matches_def
        nth_list_update)
qed

text \<open>The segment holds what the reader's arrays say.\<close>

definition shows_arrays :: "shm_obj \<Rightarrow> aux_reader \<Rightarrow> shm_os \<Rightarrow> bool" where
  "shows_arrays obj r os \<longleftrightarrow> seg_ready AuxCommandC obj os \<and>
     (\<exists>command. AuxCommandShm_read_relaxed obj os = Inr command \<and>
       ac_lin_vel_target command = map single (fst (axis_targets (ar_axes r))) \<and>
       ac_ang_vel_target command = map single (snd (axis_targets (ar_axes r))) \<and>
       mask_to_buttons (ac_button_mask command) = button_targets (ar_buttons r))"

lemma aux_publish_shows:
  assumes "seg_ready AuxCommandC obj os"
  obtains os' where "aux_publish t obj r os = (Inr (), os')" and "shows_arrays obj r os'"
proof -
  let ?lin = "fst (axis_targets (ar_axes r))" and ?ang = "snd (axis_targets (ar_axes r))"
  have len: "3 \<le> length ?lin" "3 \<le> length ?ang" by (simp_all add: axis_targets_eq)
  have tk: "take 3 ?lin = ?lin" "take 3 ?ang = ?ang" by (simp_all add: axis_targets_eq)
  show thesis
    by (rule aux_publish_step [OF assms len, of t "button_targets (ar_buttons r)"])
      (rule that, auto simp: aux_publish_def case_prod_unfold bindA_Inr tk button_targets_map shows_arrays_def)
qed

lemma reader_iteration_ok:
  assumes "tracks ax bt r" and "shows_arrays obj r os" and "readable rd"
  obtains r' os' where "reader_iteration (fst rd) obj (snd rd) (r, os) = (Inr (), (r', os'))"
    and "tracks (\<lambda>n. axis_after n (ax n) rd) (\<lambda>n. button_after n (bt n) rd) r'" and "shows_arrays obj r' os'"
proof (cases "snd rd")
  case (JsPacket p)
  then have len: "length p = JS_EVENT_SIZE" and rd: "rd = (fst rd, JsPacket p)"
    using assms(3) by (cases rd, simp add: readable_def)+
  obtain ev where ev: "js_event p r = Inr ev"
    "tracks (\<lambda>n. axis_after n (ax n) rd) (\<lambda>n. button_after n (bt n) rd) (case ev of None \<Rightarrow> r | Some r' \<Rightarrow> r')"
    using js_event_tracks [OF assms(1) len, of "fst rd"] rd by auto
  show thesis
  proof (cases ev)
    case None
    with ev JsPacket len assms(2) show thesis by (intro that [of r os]) (auto simp: reader_iteration_def)
  next
    case (Some r')
    have "seg_ready AuxCommandC obj os" using assms(2) by (simp add: shows_arrays_def)
    then obtain os' where "aux_publish (fst rd) obj r' os = (Inr (), os')" "shows_arrays obj r' os'"
      by (rule aux_publish_shows)
    with Some ev JsPacket len show thesis by (intro that [of r' os']) (auto simp: reader_iteration_def)
  qed
qed (use assms that in \<open>auto simp: reader_iteration_def readable_def axis_after_def button_after_def\<close>)

lemma reader_loop_ok:
  assumes "tracks ax bt r" and "shows_arrays obj r os" and "list_all readable reads"
  shows "\<exists>r' os'. forA (\<lambda>(t, rd). reader_iteration t obj rd) reads (r, os) = (Inr (), (r', os')) \<and>
    tracks (\<lambda>n. foldl (axis_after n) (ax n) reads) (\<lambda>n. foldl (button_after n) (bt n) reads) r' \<and> shows_arrays obj r' os'"
  using assms
proof (induction reads arbitrary: ax bt r os)
  case (Cons rd reads)
  then have rd: "readable rd" "list_all readable reads" by simp_all
  obtain r1 os1 where 1: "reader_iteration (fst rd) obj (snd rd) (r, os) = (Inr (), (r1, os1))"
    "tracks (\<lambda>n. axis_after n (ax n) rd) (\<lambda>n. button_after n (bt n) rd) r1" "shows_arrays obj r1 os1"
    by (rule reader_iteration_ok [OF Cons.prems(1,2) rd(1)])
  from Cons.IH [OF 1(2,3) rd(2)] 1(1) show ?case by (simp add: bindA_Inr case_prod_unfold)
qed auto

text \<open>
  C38. The gamepad reader: whatever joystick events arrive, in any number and order and with pauses, the
  process publishes after each one; a reader of the segment then sees, for every axis and button,
  the last event's value: the stick positions clamped to [-1, 1], with the dead band, inverted, in
  single precision and never outside [-1, 1], and exactly the pressed buttons. Axes and buttons
  that never reported are neutral, and the process ends with its segment closed.
\<close>

theorem gamepad_tracked:
  assumes "seg_ready AuxCommandC obj os" and "list_all readable reads"
  shows "\<exists>r os' command. reader_main start_ns reads obj os = (Inr (), segment_close obj, r, os') \<and>
    AuxCommandShm_read_relaxed obj os' = Inr command \<and>
    (let stick = (\<lambda>n. single (mapped_axis (foldl (axis_after n) (Fin 0) reads))) in
       ac_lin_vel_target command = [stick 1, stick 0, Fin 0] \<and> ac_ang_vel_target command = [Fin 0, Fin 0, stick 3] \<and>
       list_all (bounded_by 1) [stick 0, stick 1, stick 3]) \<and>
    mask_to_buttons (ac_button_mask command) =
      map (\<lambda>(i, name). (name, foldl (button_after i) False reads)) (enumerate 0 BUTTON_FIELDS)"
proof -
  have init: "tracks (\<lambda>_. Fin 0) (\<lambda>_. False) aux_reader_init" by (simp add: tracks_def aux_reader_init_def)
  obtain os1 where 1: "aux_publish start_ns obj aux_reader_init os = (Inr (), os1)" "shows_arrays obj aux_reader_init os1"
    by (rule aux_publish_shows [OF assms(1)])
  obtain r os' where 2: "forA (\<lambda>(t, rd). reader_iteration t obj rd) reads (aux_reader_init, os1) = (Inr (), (r, os'))"
    "tracks (\<lambda>n. foldl (axis_after n) (Fin 0) reads) (\<lambda>n. foldl (button_after n) False reads) r" "shows_arrays obj r os'"
    using reader_loop_ok [OF init 1(2) assms(2)] by blast
  have main: "reader_main start_ns reads obj os = (Inr (), segment_close obj, r, os')"
    using 1(1) 2(1) by (simp add: reader_main_def bindA_def)
  have b: "bounded_by 1 (foldl (axis_after n) v reads)" if "bounded_by 1 v" for n v
    using that by (induction reads arbitrary: v) (auto simp: axis_after_def axis_value_clamped(2) split: js_read.splits)
  have unit: "bounded_by 1 (single (mapped_axis (foldl (axis_after n) (Fin 0) reads)))" for n
    by (intro single_unit mapped_axis_bounded b) (simp add: bounded_by_def)
  have ax: "ar_axes r ! n = foldl (axis_after n) (Fin 0) reads" "ar_buttons r ! n = foldl (button_after n) False reads"
    if "n < 32" for n using 2(2) that by (simp_all add: tracks_def)
  have bt: "button_targets (ar_buttons r) = map (\<lambda>(i, name). (name, foldl (button_after i) False reads)) (enumerate 0 BUTTON_FIELDS)"
    by (auto simp: button_targets_def BUTTON_FIELDS_def ax enumerate_eq_zip)
  have z: "to_format 24 (- 149) 128 0 = Fin 0" using single_float32 [of "Fin 0"] by simp
  from 2(3) obtain command where "AuxCommandShm_read_relaxed obj os' = Inr command"
    "ac_lin_vel_target command = map single (fst (axis_targets (ar_axes r)))"
    "ac_ang_vel_target command = map single (snd (axis_targets (ar_axes r)))"
    "mask_to_buttons (ac_button_mask command) = button_targets (ar_buttons r)"
    by (auto simp: shows_arrays_def)
  then show ?thesis using main unit by (simp add: axis_targets_eq ax bt z Let_def)
qed

theorem gamepad_tracked_witness:
  "\<exists>r os'. reader_main 5 [(6, JsWouldBlock), (7, JsPacket [0, 0, 0, 0, 1, 0, 1, 2])] \<lparr>seg_name = ''a'', seg_shm = Some 0\<rparr>
      (shm_os_init\<lparr>os_mem := (\<lambda>_. replicate 36 0)\<rparr>) = (Inr (), \<lparr>seg_name = ''a'', seg_shm = None\<rparr>, r, os')"
proof -
  have ready: "seg_ready AuxCommandC \<lparr>seg_name = ''a'', seg_shm = Some 0\<rparr>
      (shm_os_init\<lparr>os_mem := (\<lambda>_. replicate 36 0)\<rparr>)"
    using AUX_COMMAND_SIZE_eq by (simp add: seg_ready_def AUX_COMMAND_SIZE_def)
  have "list_all readable [(6, JsWouldBlock), (7, JsPacket [0, 0, 0, 0, 1, 0, 1, 2])]"
    by (simp add: readable_def JS_EVENT_SIZE_def)
  from gamepad_tracked [OF ready this, of 5] show ?thesis by (auto simp: segment_close_def)
qed

end
