(* ===== verification/Dash_Config.thy ===== *)
theory Dash_Config
  imports Dash_Reader Dash_Command Config_Loader
begin

text \<open>
  The dashboard's configuration (\<open>dashboard/backend/app.py\<close>, first part): the YAML file is checked
  against the platform file, which owns the identifiers and scales, and completed from it.
\<close>

section \<open>Reading the file\<close>

definition require_section :: "pyval \<Rightarrow> string \<Rightarrow> pyval result" where
  "require_section config section_name =
     (let v = dict_get config section_name
      in if is_dict v then Inr v
         else Inl (ValueError (''Dashboard config section '' @ section_name @ '' is required'')))"

definition nested :: "pyval \<Rightarrow> string \<Rightarrow> string \<Rightarrow> pyval result" where
  "nested config section_name key =
     bindE (require_section config section_name) (\<lambda>v. case pget v key of Some x \<Rightarrow> Inr x
       | None \<Rightarrow> Inl (ValueError (''Dashboard config key '' @ section_name @ ''.'' @ key @ '' is required'')))"

definition require_hz :: "py_text \<Rightarrow> pyval \<Rightarrow> pyfloat \<Rightarrow> pyfloat \<Rightarrow> pyfloat result" where
  "require_hz T v lo hi =
     bindE (py_float T v) (\<lambda>x. if flt x lo \<or> fgt x hi then Inl (ValueError ''must be in range'') else Inr x)"

definition app_round_half_away_from_zero :: "pyfloat \<Rightarrow> int result" where
  "app_round_half_away_from_zero v =
     (if fge v (Fin 0) then trunc_float (fadd v (Fin (1/2))) else trunc_float (fsub v (Fin (1/2))))"

definition PLATFORM_OWNED_KEYS :: "(string \<times> string list) list" where
  "PLATFORM_OWNED_KEYS =
     [(''can'', [''iface'', ''bitrate'']), (''can_daemon'', [''ipc_socket_path'']),
      (''robot_controller_state'', [''control_shm_name'', ''dashboard_shm_name'', ''operator_shm_name'', ''operator_shm_size_bytes'']),
      (''imu'', [''request_id'', ''quat_id'', ''gyro_id'', ''cmd_get_all'', ''cmd_get_quat'', ''cmd_get_gyro'', ''quat_scale'',
         ''gyro_scale'', ''normalize_quat'']),
      (''spg'', [''feedback_position_max_rad'', ''iq_full_scale_count'', ''iq_full_scale_current_a'', ''p_max_rad'',
         ''v_max_rad_s'', ''kp_max'', ''kd_max'', ''tau_max_nm''])]"

text \<open>\<open>pget\<close> finds nothing in a section that is not a mapping.\<close>

definition require_no_platform_owned_keys :: "pyval \<Rightarrow> unit result" where
  "require_no_platform_owned_keys config =
     bindE (mapE (\<lambda>(section_name, keys). mapE (\<lambda>key. guardE (pget (dict_get config section_name) key = None)
         (ValueError (''Dashboard config must not override platform-owned key: '' @ section_name @ ''.'' @ key))) keys)
       PLATFORM_OWNED_KEYS) (\<lambda>_.
     guardE (pget config ''actuators'' = None) (ValueError ''Dashboard config must not define platform-owned key: actuators''))"

section \<open>Presets\<close>

definition transmit_id :: "py_text \<Rightarrow> (string \<times> int) list \<Rightarrow> pyval \<Rightarrow> pyval result" where
  "transmit_id T actuators item =
     (if \<not> is_dict item then Inl (ValueError ''dashboard.transmit_ids must be a mapping'')
      else if pget item ''can_id'' \<noteq> None then Inl (ValueError ''dashboard.transmit_ids.can_id must come from actuator'')
      else if pget item ''platform_ref'' \<noteq> None then Inl (ValueError ''dashboard.transmit_ids.platform_ref is not supported'')
      else case pget item ''actuator'' of
        None \<Rightarrow> Inl (ValueError ''dashboard.transmit_ids requires actuator'')
      | Some a \<Rightarrow> (case map_of actuators (py_str T a) of
            None \<Rightarrow> Inl (ValueError ''dashboard.transmit_ids references unknown actuator'')
          | Some can_id \<Rightarrow> Inr (dict_set ''can_id'' (PInt can_id) item)))"

text \<open>A dict made from pairs: the last one of a name counts.\<close>

definition ids_by_name :: "PlatformActuatorConfig list \<Rightarrow> (string \<times> int) list" where
  "ids_by_name actuators = foldl (\<lambda>d a. AList.update (pa_name a) (pa_can_id a) d) [] actuators"

definition resolve_transmit_ids :: "py_text \<Rightarrow> PlatformConfig \<Rightarrow> pyval \<Rightarrow> pyval result" where
  "resolve_transmit_ids T platform config =
     bindE (require_section config ''dashboard'') (\<lambda>dashboard.
       case dict_get dashboard ''transmit_ids'' of
         PList raw \<Rightarrow> bindE (mapE (transmit_id T (ids_by_name (pl_actuators platform))) raw) (\<lambda>resolved.
           Inr (dict_set ''dashboard'' (dict_set ''transmit_ids'' (PList resolved) dashboard) config))
       | _ \<Rightarrow> Inl (ValueError ''Dashboard config key dashboard.transmit_ids must be a list''))"

text \<open>The offset of a preset's target, in degrees and counts.\<close>

definition preset_offset :: "py_text \<Rightarrow> pyval \<Rightarrow> (pyfloat \<times> int) result" where
  "preset_offset T target =
     (case (pget target ''offset_count'', pget target ''offset_deg'') of
        (Some _, Some _) \<Rightarrow> Inl (ValueError ''must use either offset_count or offset_deg, not both'')
      | (_, Some v) \<Rightarrow> bindE (py_float T v) (\<lambda>offset_deg.
          bindE (app_round_half_away_from_zero (fmul offset_deg (Fin 100))) (\<lambda>n. Inr (offset_deg, n)))
      | (Some v, None) \<Rightarrow> bindE (py_int T v) (\<lambda>n.
          bindE (py_float T (PInt n)) (\<lambda>x. Inr (fmul x (lit (1/100)), n)))
      | (None, None) \<Rightarrow> Inl (ValueError ''requires offset_deg or offset_count''))"

definition preset_target :: "py_text \<Rightarrow> (string \<times> int) list \<Rightarrow> pyval \<Rightarrow> pyval result" where
  "preset_target T actuators target =
     (if \<not> is_dict target then Inl (ValueError ''dashboard.zero_set_presets target must be a mapping'')
      else if pget target ''can_id'' \<noteq> None then Inl (ValueError ''can_id must come from actuator'')
      else case pget target ''actuator'' of
        None \<Rightarrow> Inl (ValueError ''requires actuator'')
      | Some a \<Rightarrow> (case map_of actuators (py_str T a) of
            None \<Rightarrow> Inl (ValueError ''references unknown actuator'')
          | Some can_id \<Rightarrow> bindE (preset_offset T target) (\<lambda>(offset_deg, offset_count).
              if \<not> (- 32768 \<le> offset_count \<and> offset_count \<le> 32767) then Inl (ValueError ''offset_count out of int16 range'')
              else Inr (PDict [(''actuator'', PStr (py_str T a)), (''can_id'', PInt can_id), (''offset_deg'', PFloat offset_deg),
                (''offset_count'', PInt offset_count)]))))"

definition zero_set_preset :: "py_text \<Rightarrow> (string \<times> int) list \<Rightarrow> nat \<times> pyval \<Rightarrow> pyval result" where
  "zero_set_preset T actuators entry =
     (case entry of (index, item) \<Rightarrow>
      if \<not> is_dict item then Inl (ValueError ''dashboard.zero_set_presets must be a mapping'')
      else case dict_get item ''targets'' of
        PList (t # ts) \<Rightarrow> bindE (mapE (preset_target T actuators) (t # ts)) (\<lambda>targets.
          let nr = str_of_int (int index + 1) in
          Inr (PDict [(''id'', PStr (py_str T (py_or (dict_get item ''id'') (PStr (''preset_'' @ nr))))),
            (''label'', PStr (py_str T (py_or (dict_get item ''label'') (PStr (''Preset '' @ nr))))),
            (''targets'', PList targets)]))
      | _ \<Rightarrow> Inl (ValueError ''targets must be a non-empty list''))"

definition resolve_zero_set_presets :: "py_text \<Rightarrow> PlatformConfig \<Rightarrow> pyval \<Rightarrow> pyval result" where
  "resolve_zero_set_presets T platform config =
     bindE (require_section config ''dashboard'') (\<lambda>dashboard.
       let v = dict_get_or dashboard ''zero_set_presets'' (PList []) in
       case (if v = PNone then PList [] else v) of
         PList raw \<Rightarrow> bindE (mapE (zero_set_preset T (ids_by_name (enabled_actuators platform))) (enumerate 0 raw)) (\<lambda>resolved.
           Inr (dict_set ''dashboard'' (dict_set ''zero_set_presets'' (PList resolved) dashboard) config))
       | _ \<Rightarrow> Inl (ValueError ''Dashboard config key dashboard.zero_set_presets must be a list''))"

section \<open>The completed configuration\<close>

text \<open>\<open>config.setdefault(section, {})\<close> and assignments to its keys.\<close>

definition set_section :: "string \<Rightarrow> (string \<times> pyval) list \<Rightarrow> pyval \<Rightarrow> pyval result" where
  "set_section section_name kvs config =
     (let v = dict_get_or config section_name (PDict [])
      in if is_dict v then Inr (dict_set section_name (fold (\<lambda>(k, x). dict_set k x) kvs v) config)
         else Inl (TypeError ''object does not support item assignment''))"

fun dict_pop :: "string \<Rightarrow> pyval \<Rightarrow> pyval" where
  "dict_pop k (PDict d) = PDict (AList.delete k d)"
| "dict_pop k v = v"

definition complete_config :: "PlatformConfig \<Rightarrow> RobotControllerConfig \<Rightarrow> pyval \<Rightarrow> pyval result" where
  "complete_config platform controller_config config =
     (let can = pl_can platform; shm = pl_shm platform; imu = pl_imu platform; spg = pl_spg_mit platform;
          op = sc_operator_command (cfg_shm controller_config) in
      bindE (set_section ''can'' [(''iface'', PStr (pc_interface can)), (''bitrate'', PInt (pc_bitrate can))]
        (dict_pop ''robot_controller_config'' (dict_pop ''platform_config'' config))) (\<lambda>config.
      bindE (set_section ''can_daemon'' [(''ipc_socket_path'', PStr (pc_daemon_socket can))] config) (\<lambda>config.
      bindE (set_section ''robot_controller_state''
        [(''control_shm_name'', PStr (ps_control_state shm)), (''dashboard_shm_name'', PStr (ps_dashboard_state shm)),
         (''operator_shm_name'', PStr (op_name op)), (''operator_shm_size_bytes'', PInt (op_size_bytes op))] config) (\<lambda>config.
      bindE (set_section ''imu''
        [(''request_id'', PInt (pi_request_id imu)), (''quat_id'', PInt (pi_quat_id imu)), (''gyro_id'', PInt (pi_gyro_id imu)),
         (''quat_scale'', PFloat (pi_quat_scale imu)), (''gyro_scale'', PFloat (pi_gyro_scale imu)),
         (''normalize_quat'', PBool (pi_normalize_quat imu))] config) (\<lambda>config.
      bindE (set_section ''spg''
        [(''feedback_position_max_rad'', PFloat (pm_feedback_position_max_rad spg)),
         (''iq_full_scale_count'', PFloat (pm_iq_full_scale_count spg)),
         (''iq_full_scale_current_a'', PFloat (pm_iq_full_scale_current_a spg)), (''p_max_rad'', PFloat (pm_p_max_rad spg)),
         (''v_max_rad_s'', PFloat (pm_v_max_rad_s spg)), (''kp_max'', PFloat (pm_kp_max spg)),
         (''kd_max'', PFloat (pm_kd_max spg)), (''tau_max_nm'', PFloat (pm_tau_max_nm spg))] config) (\<lambda>config.
        Inr (dict_set ''actuators'' (PList (map (\<lambda>a. PDict [(''name'', PStr (pa_name a)), (''can_id'', PInt (pa_can_id a))])
          (enabled_actuators platform))) config)))))))"

definition load_dashboard_config ::
  "py_text \<Rightarrow> config_files \<Rightarrow> string \<Rightarrow> (pyval \<times> RobotControllerConfig) result" where
  "load_dashboard_config T F config_path =
     bindE (load_yaml_mapping F config_path) (\<lambda>m.
     let raw = PDict m in
     bindE (require_no_platform_owned_keys raw) (\<lambda>_.
     bindE (guardE (pget raw ''platform_config'' \<noteq> None) (ValueError ''Dashboard config key platform_config is required'')) (\<lambda>_.
     bindE (guardE (pget raw ''robot_controller_config'' \<noteq> None)
       (ValueError ''Dashboard config key robot_controller_config is required'')) (\<lambda>_.
     bindE (resolve_config_path F config_path (py_str T (dict_get raw ''platform_config'')) ''platform_config'') (\<lambda>platform_path.
     bindE (load_platform_config T F platform_path) (\<lambda>platform.
     bindE (resolve_config_path F config_path (py_str T (dict_get raw ''robot_controller_config''))
       ''robot_controller_config'') (\<lambda>controller_config_path.
     bindE (load_robot_controller_config T F controller_config_path) (\<lambda>controller_config.
     bindE (guardE (pl_path (cfg_platform controller_config) = pl_path platform)
       (ValueError ''Dashboard platform_config must match robot_controller_config platform_config'')) (\<lambda>_.
     bindE (resolve_transmit_ids T platform raw) (\<lambda>config.
     bindE (resolve_zero_set_presets T platform config) (\<lambda>config.
     bindE (complete_config platform controller_config config) (\<lambda>config.
       Inr (config, controller_config)))))))))))))"

section \<open>The monitor's state\<close>

definition item_text :: "py_text \<Rightarrow> pyval \<Rightarrow> string \<Rightarrow> string" where
  "item_text T item key = str_strip (py_str T (py_or (dict_get item key) (PStr [])))"

fun load_channel_items ::
  "py_text \<Rightarrow> pyfloat \<Rightarrow> pyfloat \<Rightarrow> string list \<Rightarrow> string list \<Rightarrow> pyval list \<Rightarrow> can_channel list result" where
  "load_channel_items T bus_window_s stuff_factor seen_keys seen_ifaces [] = Inr []"
| "load_channel_items T bus_window_s stuff_factor seen_keys seen_ifaces (item # raw) =
     (let name = item_text T item ''name''; iface = item_text T item ''iface''
      in if \<not> is_dict item then Inl (ValueError ''can.display_channels must be a mapping'')
         else if name = [] then Inl (ValueError ''can.display_channels.name must not be empty'')
         else if iface = [] then Inl (ValueError ''can.display_channels.iface must not be empty'')
         else if iface \<in> set seen_ifaces then Inl (ValueError ''Duplicate CAN display interface'')
         else bindE (py_int T (dict_get_or item ''bitrate'' (PInt 0))) (\<lambda>bitrate.
           let key = py_str T (py_or (dict_get item ''key'') (PStr iface))
           in if bitrate \<le> 0 then Inl (ValueError ''can.display_channels.bitrate must be > 0'')
              else if key \<in> set seen_keys then Inl (ValueError ''Duplicate CAN display channel key'')
              else bindE (load_channel_items T bus_window_s stuff_factor (key # seen_keys) (iface # seen_ifaces) raw) (\<lambda>rest.
                Inr (CanChannelState_init key name iface bitrate bus_window_s stuff_factor # rest))))"

definition load_can_display_channels :: "py_text \<Rightarrow> pyval \<Rightarrow> can_channel list result" where
  "load_can_display_channels T config =
     bindE (require_section config ''can'') (\<lambda>can_config.
       case dict_get can_config ''display_channels'' of
         PList (x # xs) \<Rightarrow>
           bindE (bindE (nested config ''can'' ''bus_window_s'') (py_float T)) (\<lambda>bus_window_s.
           bindE (bindE (nested config ''can'' ''stuff_factor'') (py_float T)) (\<lambda>stuff_factor.
             load_channel_items T bus_window_s stuff_factor [] [] (x # xs)))
       | _ \<Rightarrow> Inl (ValueError ''Dashboard config key can.display_channels must be a non-empty list''))"

fun load_actuator_items :: "py_text \<Rightarrow> int list \<Rightarrow> pyval list \<Rightarrow> (int \<times> string) list result" where
  "load_actuator_items T seen_can_ids [] = Inr []"
| "load_actuator_items T seen_can_ids (item # raw) =
     (if \<not> is_dict item then Inl (ValueError ''Dashboard actuator must be a mapping'')
      else case (pget item ''can_id'', pget item ''name'') of
        (None, _) \<Rightarrow> Inl (ValueError ''Dashboard actuator is missing can_id'')
      | (_, None) \<Rightarrow> Inl (ValueError ''Dashboard actuator is missing name'')
      | (Some c, Some n) \<Rightarrow> bindE (parse_int T c) (\<lambda>can_id.
          if can_id \<le> 0 then Inl (ValueError ''Dashboard actuator has invalid CAN ID'')
          else if can_id \<in> set seen_can_ids then Inl (ValueError ''Duplicate Dashboard actuator CAN ID'')
          else bindE (load_actuator_items T (can_id # seen_can_ids) raw) (\<lambda>rest. Inr ((can_id, py_str T n) # rest))))"

definition load_actuator_configs :: "py_text \<Rightarrow> pyval \<Rightarrow> (int \<times> string) list result" where
  "load_actuator_configs T config =
     (case dict_get config ''actuators'' of
        PList [] \<Rightarrow> Inl (ValueError ''Dashboard config key actuators must not be empty'')
      | PList raw \<Rightarrow> load_actuator_items T [] raw
      | _ \<Rightarrow> Inl (ValueError ''Dashboard config key actuators must be a list''))"

definition make_state :: "py_text \<Rightarrow> pyval \<Rightarrow> pyfloat \<Rightarrow> monitor result" where
  "make_state T config start_t =
     (let num = (\<lambda>s k. bindE (nested config s k) (py_float T)); ident = (\<lambda>k. bindE (nested config ''imu'' k) (parse_int T)) in
      bindE (num ''can'' ''bus_window_s'') (\<lambda>_.
      bindE (num ''can'' ''heartbeat_window_s'') (\<lambda>heartbeat_window_s.
      bindE (num ''can'' ''node_timeout_s'') (\<lambda>node_timeout_s.
      bindE (num ''can'' ''stuff_factor'') (\<lambda>_.
      bindE (num ''spg'' ''feedback_position_max_rad'') (\<lambda>feedback_position_max_rad.
      bindE (num ''spg'' ''iq_full_scale_count'') (\<lambda>iq_full_scale_count.
      bindE (num ''spg'' ''iq_full_scale_current_a'') (\<lambda>iq_full_scale_current_a.
      bindE (num ''spg'' ''p_max_rad'') (\<lambda>p_max. bindE (num ''spg'' ''v_max_rad_s'') (\<lambda>v_max.
      bindE (num ''spg'' ''kp_max'') (\<lambda>kp_max. bindE (num ''spg'' ''kd_max'') (\<lambda>kd_max.
      bindE (num ''spg'' ''tau_max_nm'') (\<lambda>tau_max.
      bindE (ident ''request_id'') (\<lambda>request_id. bindE (ident ''quat_id'') (\<lambda>quat_id. bindE (ident ''gyro_id'') (\<lambda>gyro_id.
      bindE (num ''imu'' ''quat_scale'') (\<lambda>quat_scale. bindE (num ''imu'' ''gyro_scale'') (\<lambda>gyro_scale.
      bindE (nested config ''imu'' ''normalize_quat'') (\<lambda>normalize_quat.
      bindE (load_can_display_channels T config) (\<lambda>channels.
      bindE (load_actuator_configs T config) (\<lambda>actuator_configs.
      bindE (nested config ''safety'' ''tx_enabled_by_default'') (\<lambda>tx_enabled.
      bindE (nested config ''safety'' ''allow_actuator_commands'') (\<lambda>allow.
      bindE (bindE (nested config ''spg'' ''default_mit_poll_hz'') (\<lambda>v. require_hz T v (lit (1/10)) (Fin 1000))) (\<lambda>mit_poll_hz.
        MonitorState_post_init
          \<lparr>mn_heartbeat_window_s = heartbeat_window_s, mn_node_timeout_s = node_timeout_s,
           mn_feedback_position_max_rad = feedback_position_max_rad, mn_iq_full_scale_count = iq_full_scale_count,
           mn_iq_full_scale_current_a = iq_full_scale_current_a,
           mn_mit_config = \<lparr>mit_p_max = p_max, mit_v_max = v_max, mit_kp_max = kp_max, mit_kd_max = kd_max, mit_tau_max = tau_max,
             mit_feedback_position_max = feedback_position_max_rad\<rparr>,
           mn_imu_request_id = request_id, mn_imu_quat_id = quat_id, mn_imu_gyro_id = gyro_id, mn_imu_quat_scale = quat_scale,
           mn_imu_gyro_scale = gyro_scale, mn_imu_normalize_quat = py_truthy normalize_quat, mn_can_channels = channels,
           mn_actuator_configs = actuator_configs, mn_tx_enabled = py_truthy tx_enabled,
           mn_allow_actuator_commands = py_truthy allow, mn_mit_poll_can_ids = {}, mn_mit_poll_hz = mit_poll_hz,
           mn_start_t = start_t, mn_raw_frames = [], mn_nodes = [], mn_imu = E2BoxState_init, mn_motors = []\<rparr>
      ))))))))))))))))))))))))"

end
