(* ===== verification/Dash_App.thy ===== *)
theory Dash_App
  imports Dash_Config Supervisor Operator_Command
begin

text \<open>
  The dashboard application (\<open>dashboard/backend/app.py\<close>, second part): the request handlers, the reading of
  the CAN sockets and the MIT polling, over the monitor, the command service, the state segments, the
  operator's segment and the process supervisor. A handler returns a response; an exception it does
  not turn into one stays an exception. Requests run one after the other.
\<close>

section \<open>State\<close>

record dash_app =
  da_service :: command_service
  da_reader :: "dash_reader option"
  da_operator :: shm_obj
  da_supervisor :: supervisor

type_synonym 'a app = "(dash_app \<times> env, 'a) action"

definition on_monitor :: "(monitor \<times> env, 'a) action \<Rightarrow> 'a app" where
  "on_monitor a = (\<lambda>(A, e). case a (cs_state (da_service A), e) of
     (r, (m, e')) \<Rightarrow> (r, (A\<lparr>da_service := (da_service A)\<lparr>cs_state := m\<rparr>\<rparr>, e')))"

definition on_service :: "'a cmd \<Rightarrow> 'a app" where
  "on_service a = (\<lambda>(A, e). case a (da_service A, e) of (r, (s, e')) \<Rightarrow> (r, (A\<lparr>da_service := s\<rparr>, e')))"

definition on_operator :: "(int \<Rightarrow> shm_obj \<Rightarrow> (shm_os, 'a) action) \<Rightarrow> 'a app" where
  "on_operator a = (\<lambda>(A, e). case time_ns e of (ns, e1) \<Rightarrow>
     (case shm_act (a ns (da_operator A)) e1 of (r, e2) \<Rightarrow> (r, (A, e2))))"

datatype http = HttpOk pyval | HttpError int string

definition catching :: "(exc \<Rightarrow> int option) \<Rightarrow> pyval app \<Rightarrow> http app" where
  "catching status a s =
     (case a s of
        (Inr v, s') \<Rightarrow> (Inr (HttpOk v), s')
      | (Inl x, s') \<Rightarrow> (case status x of Some code \<Rightarrow> (Inr (HttpError code (exc_text x)), s') | None \<Rightarrow> (Inl x, s')))"

definition ok_with :: "string \<Rightarrow> pyval \<Rightarrow> pyval" where
  "ok_with key v = PDict [(''ok'', PBool True), (key, v)]"

definition is_command_error :: "exc \<Rightarrow> bool" where
  "is_command_error x = (case x of CommandError _ \<Rightarrow> True | _ \<Rightarrow> False)"

definition is_key_error :: "exc \<Rightarrow> bool" where
  "is_key_error x = (case x of KeyError _ \<Rightarrow> True | _ \<Rightarrow> False)"

definition is_not_found :: "exc \<Rightarrow> bool" where
  "is_not_found x = (case x of FileNotFoundError _ \<Rightarrow> True | _ \<Rightarrow> False)"

section \<open>Processes\<close>

definition PROTECTED_PROCESS_NAMES :: "string list" where
  "PROTECTED_PROCESS_NAMES = [''can_daemon'', ''dashboard'']"

definition process_config_dict :: "ProcessConfig \<Rightarrow> pyval" where
  "process_config_dict c =
     PDict [(''name'', PStr (pr_name c)), (''command'', PList (map PStr (pr_command c))), (''start_order'', PInt (pr_start_order c)),
       (''stop_order'', PInt (pr_stop_order c)), (''new_terminal'', PBool (pr_new_terminal c)),
       (''terminal_command'', PList (map PStr (pr_terminal_command c))), (''working_dir'', PStr (pr_working_dir c)),
       (''env'', PDict (map (\<lambda>(k, v). (k, PStr v)) (pr_env c)))]"

text \<open>\<open>ProcessSupervisor.status\<close>; \<open>exit_code\<close> is what \<open>poll\<close> returns for a child that has ended.\<close>

definition supervisor_status :: "(int \<Rightarrow> int) \<Rightarrow> (string \<Rightarrow> string) \<Rightarrow> supervisor \<Rightarrow> (string \<times> pyval) list" where
  "supervisor_status exit_code log_file_for s =
     map (\<lambda>(name, config). (name,
       PDict [(''config'', process_config_dict config), (''pid'', popt PInt (map_of (su_processes s) name)),
         (''managed_pid'', popt PInt (read_pidfile s name)), (''alive'', PBool (is_alive s name)),
         (''returncode'', (case map_of (su_processes s) name of None \<Rightarrow> PNone
            | Some pid \<Rightarrow> if pid \<in> su_running s then PNone else PInt (exit_code pid))),
         (''log_file'', PStr (log_file_for name))])) (su_process_configs s)"

definition process_status_rows :: "(int \<Rightarrow> int) \<Rightarrow> (string \<Rightarrow> string) \<Rightarrow> supervisor \<Rightarrow> pyval" where
  "process_status_rows exit_code log_file_for s =
     PList (map (\<lambda>(name, info).
         let protected = name \<in> set PROTECTED_PROCESS_NAMES in
         dict_set ''management_reason'' (PStr (if protected then ''managed by robot controller supervisor'' else []))
           (dict_set ''manageable'' (PBool (\<not> protected))
             (case info of PDict kvs \<Rightarrow> PDict ((''name'', PStr name) # kvs) | v \<Rightarrow> v)))
       (sort_key (\<lambda>kv. map (of_char :: char \<Rightarrow> nat) (fst kv)) (supervisor_status exit_code log_file_for s)))"

text \<open>\<open>ensure_process_name\<close> and \<open>ensure_process_manageable\<close>: the error response, if any.\<close>

definition ensure_process :: "string \<Rightarrow> supervisor \<Rightarrow> http option" where
  "ensure_process name s =
     (if map_of (su_process_configs s) name = None then Some (HttpError 404 (''Unknown process: '' @ name))
      else if name \<in> set PROTECTED_PROCESS_NAMES then Some (HttpError 403 (''Process '' @ [CHR 0x27] @ name @ [CHR 0x27] @ '' is managed by the robot controller supervisor''))
      else None)"

definition process_request ::
  "(supervisor, unit) action \<Rightarrow> (int \<Rightarrow> int) \<Rightarrow> (string \<Rightarrow> string) \<Rightarrow> string \<Rightarrow> http app" where
  "process_request a exit_code log_file_for name = (\<lambda>(A, e).
     case ensure_process name (da_supervisor A) of
       Some response \<Rightarrow> (Inr response, (A, e))
     | None \<Rightarrow> catching (\<lambda>x. if is_key_error x \<or> is_runtime_error x \<or> is_value_error x \<or> is_os_error x then Some 400 else None)
         (\<lambda>(A, e). case a (da_supervisor A) of
            (r, s) \<Rightarrow> (bindE r (\<lambda>_. Inr (ok_with ''processes'' (process_status_rows exit_code log_file_for s))),
                      (A\<lparr>da_supervisor := s\<rparr>, e))) (A, e))"

definition api_process_start :: "sup_world \<Rightarrow> (int \<Rightarrow> int) \<Rightarrow> (string \<Rightarrow> string) \<Rightarrow> string \<Rightarrow> http app" where
  "api_process_start W exit_code log_file_for name =
     process_request (start_by_name W log_file_for name) exit_code log_file_for name"

definition api_process_stop :: "sup_world \<Rightarrow> (int \<Rightarrow> int) \<Rightarrow> (string \<Rightarrow> string) \<Rightarrow> string \<Rightarrow> http app" where
  "api_process_stop W exit_code log_file_for name =
     process_request (\<lambda>s. (Inr (), stop_by_name W name s)) exit_code log_file_for name"

definition api_processes :: "(int \<Rightarrow> int) \<Rightarrow> (string \<Rightarrow> string) \<Rightarrow> http app" where
  "api_processes exit_code log_file_for = (\<lambda>(A, e).
     (Inr (HttpOk (ok_with ''processes'' (process_status_rows exit_code log_file_for (da_supervisor A)))), (A, e)))"

section \<open>The state of the controller\<close>

text \<open>\<open>dashboard_snapshot\<close>; \<open>rows\<close> makes the process table.\<close>

definition dashboard_snapshot :: "py_text \<Rightarrow> (supervisor \<Rightarrow> pyval) \<Rightarrow> pyval app" where
  "dashboard_snapshot T rows = (\<lambda>(A, e).
     bindA (on_monitor (case da_reader A of
         Some r \<Rightarrow> reader_snapshot T r
       | None \<Rightarrow> (\<lambda>(m, e). case time_monotonic e of (now, e') \<Rightarrow> (case monitor_snapshot now m of (r, m') \<Rightarrow> (r, (m', e'))))))
       (\<lambda>snapshot. retA (dict_set ''processes'' (rows (da_supervisor A)) snapshot)) (A, e))"

definition current_controller_snapshot :: "py_text \<Rightarrow> (supervisor \<Rightarrow> pyval) \<Rightarrow> pyval option app" where
  "current_controller_snapshot T rows =
     bindA (dashboard_snapshot T rows) (\<lambda>snapshot.
       let controller = dict_get snapshot ''robot_controller'' in
       retA (if \<not> is_dict controller then None
             else if dict_get controller ''status'' \<noteq> PStr ''online'' then None
             else Some controller))"

definition controller_item :: "string \<Rightarrow> py_text \<Rightarrow> (supervisor \<Rightarrow> pyval) \<Rightarrow> string option app" where
  "controller_item key T rows =
     bindA (current_controller_snapshot T rows) (\<lambda>controller.
       retA (case controller of None \<Rightarrow> None
         | Some c \<Rightarrow> if dict_get c key = PNone then None else Some (py_str T (dict_get c key))))"

definition current_controller_safety_state :: "py_text \<Rightarrow> (supervisor \<Rightarrow> pyval) \<Rightarrow> string option app" where
  "current_controller_safety_state = controller_item ''safety_state''"

definition current_controller_safety_reason :: "py_text \<Rightarrow> (supervisor \<Rightarrow> pyval) \<Rightarrow> string option app" where
  "current_controller_safety_reason = controller_item ''safety_reason''"

text \<open>
  The providers of the command service. Without a reader there are none. Else the state is asked for,
  and its value kept for the call that follows, when that call needs it.
\<close>

definition ask_state :: "py_text \<Rightarrow> (supervisor \<Rightarrow> pyval) \<Rightarrow> unit app" where
  "ask_state T rows = (\<lambda>(A, e).
     case da_reader A of
       None \<Rightarrow> (Inr (), (A\<lparr>da_service := (da_service A)\<lparr>cs_safety := None, cs_reason := None\<rparr>\<rparr>, e))
     | Some _ \<Rightarrow> bindA (current_controller_safety_state T rows) (\<lambda>v (A, e).
         (Inr (), (A\<lparr>da_service := (da_service A)\<lparr>cs_safety := Some v, cs_reason := Some None\<rparr>\<rparr>, e))) (A, e))"

definition ask_reason :: "py_text \<Rightarrow> (supervisor \<Rightarrow> pyval) \<Rightarrow> unit app" where
  "ask_reason T rows = (\<lambda>(A, e).
     case da_reader A of
       None \<Rightarrow> (Inr (), (A, e))
     | Some _ \<Rightarrow> bindA (current_controller_safety_reason T rows) (\<lambda>v (A, e).
         (Inr (), (A\<lparr>da_service := (da_service A)\<lparr>cs_reason := Some v\<rparr>\<rparr>, e))) (A, e))"

text \<open>
  What \<open>send_raw\<close> asks for: the state when it is an enabling or zeroing frame of a known motor, and the
  reason when an enabling frame is not refused by the state alone.
\<close>

definition ask_for_frame :: "py_text \<Rightarrow> (supervisor \<Rightarrow> pyval) \<Rightarrow> int \<Rightarrow> byte list \<Rightarrow> unit app" where
  "ask_for_frame T rows can_id data = (\<lambda>(A, e).
     let m = cs_state (da_service A) in
     if data = [] \<or> data ! 0 \<notin> {SPG_CMD_MIT_ENTER, SPG_CMD_MIT_SET_ZERO} \<or> actuator_config_for_can_id can_id m = None
     then (Inr (), (A, e))
     else bindA (ask_state T rows) (\<lambda>_ (A, e).
       if data ! 0 = SPG_CMD_MIT_ENTER \<and> reject_motor_enable_when_blocked can_id data (da_service A) = Inr ()
       then ask_reason T rows (A, e) else (Inr (), (A, e))) (A, e))"

definition app_send_raw :: "py_text \<Rightarrow> (supervisor \<Rightarrow> pyval) \<Rightarrow> int \<Rightarrow> byte list \<Rightarrow> pyval app" where
  "app_send_raw T rows can_id data = bindA (ask_for_frame T rows can_id data) (\<lambda>_. on_service (send_raw can_id data))"

text \<open>A motor command asks only once it gets as far as \<open>send_raw\<close>; these send no suffix.\<close>

definition app_motor_command :: "py_text \<Rightarrow> (supervisor \<Rightarrow> pyval) \<Rightarrow> byte \<Rightarrow> int \<Rightarrow> pyval app" where
  "app_motor_command T rows opcode can_id = (\<lambda>(A, e).
     let m = cs_state (da_service A) in
     if mn_allow_actuator_commands m \<and> actuator_config_for_can_id can_id m \<noteq> None
     then bindA (ask_for_frame T rows can_id ([opcode] @ replicate 7 0)) (\<lambda>_. on_service (send_motor_command can_id opcode [])) (A, e)
     else on_service (send_motor_command can_id opcode []) (A, e))"

section \<open>Requests\<close>

datatype can_arg = IdInt int | IdStr string

definition parse_can_id :: "py_text \<Rightarrow> can_arg \<Rightarrow> int result" where
  "parse_can_id T v = (case v of IdInt n \<Rightarrow> Inr n | IdStr s \<Rightarrow> text_int0 T (str_strip s))"

text \<open>\<open>bytes.fromhex\<close>: pairs of digits, with white space between them allowed.\<close>

fun from_hex :: "string \<Rightarrow> byte list result" where
  "from_hex [] = Inr []"
| "from_hex (c # cs) =
     (if char_isspace c then from_hex cs
      else case cs of [] \<Rightarrow> Inl (ValueError ''non-hexadecimal number found'')
        | d # ds \<Rightarrow> (case (digit_value (char_upper c), digit_value (char_upper d)) of
            (Some x, Some y) \<Rightarrow> bindE (from_hex ds) (\<lambda>bs. Inr (of_nat (16 * x + y) # bs))
          | _ \<Rightarrow> Inl (ValueError ''non-hexadecimal number found'')))"

definition parse_hex_payload :: "string \<Rightarrow> byte list result" where
  "parse_hex_payload v =
     (let compact = filter (\<lambda>c. c \<notin> set '' _-'') v
      in if odd (length compact) then Inl (ValueError ''Payload hex string must contain whole bytes'')
         else bindE (from_hex compact) (\<lambda>data.
           if 8 < length data then Inl (ValueError ''Classical CAN payload must be <= 8 bytes'') else Inr data))"

record MotorZeroRequest =
  zr_offset_count :: "int option"
  zr_offset_deg :: "pyfloat option"

definition resolved_offset_count :: "MotorZeroRequest \<Rightarrow> int result" where
  "resolved_offset_count req =
     (case (zr_offset_count req, zr_offset_deg req) of
        (Some _, Some _) \<Rightarrow> Inl (ValueError ''Use either offset_count or offset_deg, not both'')
      | (_, Some d) \<Rightarrow> app_round_half_away_from_zero (fmul d (Fin 100))
      | (Some n, None) \<Rightarrow> Inr n
      | (None, None) \<Rightarrow> Inr 0)"

definition publish_operator_zero_set :: "py_text \<Rightarrow> (supervisor \<Rightarrow> pyval) \<Rightarrow> (int \<times> int) list \<Rightarrow> int app" where
  "publish_operator_zero_set T rows targets =
     bindA (ask_state T rows) (\<lambda>_.
     bindA (\<lambda>(A, e). (require_controller_state ''Operator zero set'' [''NORMAL''] (da_service A), (A, e))) (\<lambda>_.
     bindA (forA (\<lambda>(can_id, offset_count) (A, e).
         (if actuator_config_for_can_id can_id (cs_state (da_service A)) = None
          then Inl (ValueError (''Unknown actuator CAN ID '' @ hex_id can_id))
          else if \<not> (- 32768 \<le> offset_count \<and> offset_count \<le> 32767)
          then Inl (ValueError (''MIT zero offset_count out of int16 range: '' @ str_of_int offset_count)) else Inr (), (A, e))) targets) (\<lambda>_.
       on_operator (\<lambda>ns obj. OperatorCommandShm_publish_zero_set ns obj targets))))"

definition api_state :: "py_text \<Rightarrow> (supervisor \<Rightarrow> pyval) \<Rightarrow> http app" where
  "api_state T rows = catching (\<lambda>_. None) (dashboard_snapshot T rows)"

definition tx_response :: "dash_app \<Rightarrow> pyval" where
  "tx_response A = ok_with ''tx_enabled'' (PBool (mn_tx_enabled (cs_state (da_service A))))"

definition api_tx_lock :: "http app" where
  "api_tx_lock = (\<lambda>(A, e). let A' = A\<lparr>da_service := lock_tx (da_service A)\<rparr> in (Inr (HttpOk (tx_response A')), (A', e)))"

definition api_tx_unlock :: "http app" where
  "api_tx_unlock = (\<lambda>(A, e). let A' = A\<lparr>da_service := unlock_tx (da_service A)\<rparr> in (Inr (HttpOk (tx_response A')), (A', e)))"

definition api_can_send :: "py_text \<Rightarrow> (supervisor \<Rightarrow> pyval) \<Rightarrow> can_arg \<Rightarrow> string \<Rightarrow> http app" where
  "api_can_send T rows can_id data =
     catching (\<lambda>x. if is_value_error x \<or> is_command_error x \<or> is_os_error x then Some 400 else None)
       (bindA (liftA (parse_can_id T can_id)) (\<lambda>i.
        bindA (liftA (parse_hex_payload data)) (\<lambda>payload.
        bindA (app_send_raw T rows i payload) (\<lambda>tx. retA (ok_with ''tx'' tx)))))"

definition no_flags :: publish_flags where
  "no_flags = \<lparr>pf_arm = False, pf_clear_fault = False, pf_estop = False, pf_damping = False, pf_zero_set = False,
     pf_disable = False, pf_run = False\<rparr>"

text \<open>The five requests that publish one flag.\<close>

definition operator_request :: "publish_flags \<Rightarrow> http app" where
  "operator_request flags =
     catching (\<lambda>x. if is_runtime_error x \<or> is_value_error x \<or> is_not_found x then Some 503 else None)
       (bindA (on_operator (\<lambda>ns obj. OperatorCommandShmWriter_publish ns obj flags)) (\<lambda>i. retA (ok_with ''command_id'' (PInt i))))"

definition operator_fault_clear :: "http app" where "operator_fault_clear = operator_request (no_flags\<lparr>pf_clear_fault := True\<rparr>)"
definition operator_arm :: "http app" where "operator_arm = operator_request (no_flags\<lparr>pf_arm := True\<rparr>)"
definition operator_run :: "http app" where "operator_run = operator_request (no_flags\<lparr>pf_run := True\<rparr>)"
definition operator_damping :: "http app" where "operator_damping = operator_request (no_flags\<lparr>pf_damping := True\<rparr>)"
definition operator_estop :: "http app" where "operator_estop = operator_request (no_flags\<lparr>pf_estop := True\<rparr>)"

definition zero_status :: "exc \<Rightarrow> int option" where
  "zero_status x =
     (if is_value_error x then Some 400 else if is_command_error x then Some 403
      else if is_runtime_error x \<or> is_not_found x then Some 503 else None)"

definition operator_zero_set :: "py_text \<Rightarrow> (supervisor \<Rightarrow> pyval) \<Rightarrow> (can_arg \<times> MotorZeroRequest) list \<Rightarrow> http app" where
  "operator_zero_set T rows request_targets =
     catching zero_status
       (bindA (liftA (mapE (\<lambda>(c, req). bindE (parse_can_id T c) (\<lambda>i. bindE (resolved_offset_count req) (\<lambda>n. Inr (i, n)))) request_targets)) (\<lambda>targets.
        bindA (publish_operator_zero_set T rows targets) (\<lambda>i. retA (ok_with ''command_id'' (PInt i)))))"

text \<open>The requests on one actuator; \<open>enter\<close> and \<open>exit\<close> let a malformed identifier's \<open>ValueError\<close> through.\<close>

definition motor_request :: "py_text \<Rightarrow> (supervisor \<Rightarrow> pyval) \<Rightarrow> byte \<Rightarrow> string \<Rightarrow> http app" where
  "motor_request T rows opcode can_id =
     catching (\<lambda>x. if is_command_error x \<or> is_os_error x then Some 403 else None)
       (bindA (liftA (parse_can_id T (IdStr can_id))) (\<lambda>i.
        bindA (app_motor_command T rows opcode i) (\<lambda>tx. retA (ok_with ''tx'' tx))))"

definition api_motor_enter :: "py_text \<Rightarrow> (supervisor \<Rightarrow> pyval) \<Rightarrow> string \<Rightarrow> http app" where
  "api_motor_enter T rows = motor_request T rows SPG_CMD_MIT_ENTER"

definition api_motor_exit :: "py_text \<Rightarrow> (supervisor \<Rightarrow> pyval) \<Rightarrow> string \<Rightarrow> http app" where
  "api_motor_exit T rows = motor_request T rows SPG_CMD_MIT_EXIT"

definition api_motor_zero :: "py_text \<Rightarrow> (supervisor \<Rightarrow> pyval) \<Rightarrow> string \<Rightarrow> MotorZeroRequest \<Rightarrow> http app" where
  "api_motor_zero T rows can_id req =
     catching zero_status
       (bindA (liftA (resolved_offset_count req)) (\<lambda>n.
        bindA (liftA (parse_can_id T (IdStr can_id))) (\<lambda>i.
        bindA (publish_operator_zero_set T rows [(i, n)]) (\<lambda>c. retA (ok_with ''command_id'' (PInt c))))))"

definition set_poll_ids :: "(int set \<Rightarrow> int set) \<Rightarrow> dash_app \<Rightarrow> dash_app" where
  "set_poll_ids f A = A\<lparr>da_service := (da_service A)\<lparr>cs_state := (cs_state (da_service A))
     \<lparr>mn_mit_poll_can_ids := f (mn_mit_poll_can_ids (cs_state (da_service A)))\<rparr>\<rparr>\<rparr>"

definition poll_response :: "int \<Rightarrow> bool \<Rightarrow> http" where
  "poll_response can_id b = HttpOk (PDict [(''ok'', PBool True), (''can_id'', PStr (hex_id can_id)), (''mit_polling'', PBool b)])"

definition motor_mit_poll_start :: "py_text \<Rightarrow> string \<Rightarrow> bool \<Rightarrow> http app" where
  "motor_mit_poll_start T can_id confirmed = (\<lambda>(A, e).
     if \<not> confirmed then (Inr (HttpError 400 ''MIT polling start was not confirmed''), (A, e))
     else case parse_can_id T (IdStr can_id) of
       Inl x \<Rightarrow> (Inl x, (A, e))
     | Inr i \<Rightarrow>
         if map_of (mn_motors (cs_state (da_service A))) i = None then (Inr (HttpError 404 (''Unknown CAN ID '' @ hex_id i)), (A, e))
         else (Inr (poll_response i True), (set_poll_ids (insert i) A, e)))"

definition motor_mit_poll_stop :: "py_text \<Rightarrow> string \<Rightarrow> http app" where
  "motor_mit_poll_stop T can_id = (\<lambda>(A, e).
     case parse_can_id T (IdStr can_id) of
       Inl x \<Rightarrow> (Inl x, (A, e))
     | Inr i \<Rightarrow> (Inr (poll_response i False), (set_poll_ids (\<lambda>s. s - {i}) A, e)))"

section \<open>Background tasks\<close>

text \<open>What a read of the CAN socket returned.\<close>

datatype sock_read = SockFrame "byte list" | SockBlocked | SockError exc

definition mark_frame :: "nat \<Rightarrow> byte list \<Rightarrow> (monitor \<times> env, unit) action" where
  "mark_frame channel frame_bytes = (\<lambda>(m, e).
     case parse_can_frame frame_bytes of
       Inl x \<Rightarrow> (Inl x, (m, e))
     | Inr frame \<Rightarrow> (case time_monotonic e of (now, e') \<Rightarrow>
         (case monitor_mark_rx frame now (Some channel) m of (r, m') \<Rightarrow> (r, (m', e')))))"

definition set_channel :: "nat \<Rightarrow> string \<Rightarrow> string option \<Rightarrow> monitor \<Rightarrow> monitor" where
  "set_channel i status err m = m\<lparr>mn_can_channels := (mn_can_channels m)
     [i := (mn_can_channels m ! i)\<lparr>ch_socket_status := status, ch_socket_error := err\<rparr>]\<rparr>"

text \<open>At most \<open>budget\<close> frames; the result tells whether the socket is still open.\<close>

fun read_frames :: "nat \<Rightarrow> nat \<Rightarrow> sock_read list \<Rightarrow> (monitor \<times> env, bool) action" where
  "read_frames channel 0 reads s = (Inr True, s)"
| "read_frames channel (Suc budget) [] s = (Inr True, s)"
| "read_frames channel (Suc budget) (SockBlocked # reads) s = (Inr True, s)"
| "read_frames channel (Suc budget) (SockError x # reads) s =
     (if is_os_error x then (Inr False, (set_channel channel ''disconnected'' (Some (exc_text x)) (fst s), snd s)) else (Inl x, s))"
| "read_frames channel (Suc budget) (SockFrame b # reads) s =
     bindA (mark_frame channel b) (\<lambda>_. read_frames channel budget reads) s"

text \<open>An iteration of \<open>socketcan_loop\<close>: \<open>has_sock\<close> is whether a socket is open, \<open>opened\<close> what opening one gives.\<close>

definition socketcan_iteration :: "nat \<Rightarrow> bool \<Rightarrow> unit result \<Rightarrow> sock_read list \<Rightarrow> (monitor \<times> env, bool) action" where
  "socketcan_iteration channel has_sock opened reads = (\<lambda>(m, e).
     if has_sock then read_frames channel 4096 reads (m, e)
     else case opened of
       Inr _ \<Rightarrow> read_frames channel 4096 reads (set_channel channel ''connected'' None m, e)
     | Inl x \<Rightarrow> if is_os_error x then (Inr False, (set_channel channel ''disconnected'' (Some (exc_text x)) m, e)) else (Inl x, (m, e)))"

text \<open>The sends of an iteration of \<open>mit_poll_loop\<close>; its timing only decides when it runs.\<close>

definition mit_poll_iteration :: "unit cmd" where
  "mit_poll_iteration = (\<lambda>(s, e).
     case forA (\<lambda>can_id. bindA (motor_mit_hold can_id) (\<lambda>_. retA ())) (sorted_list_of_set (mn_mit_poll_can_ids (cs_state s))) (s, e) of
       (Inl x, (s', e')) \<Rightarrow>
         if is_command_error x then (Inr (), (s'\<lparr>cs_state := set_socket_error (Some (exc_text x)) (cs_state s')\<rparr>, e'))
         else (Inl x, (s', e'))
     | (Inr _, s') \<Rightarrow> (Inr (), s'))"

definition app_shutdown :: "dash_app \<Rightarrow> dash_app" where
  "app_shutdown A = A\<lparr>da_reader := map_option dash_reader_close (da_reader A), da_operator := segment_close (da_operator A)\<rparr>"

text \<open>The module's set-up: the state, the two readers and the operator's writer.\<close>

definition start_dashboard ::
  "py_text \<Rightarrow> pyval \<Rightarrow> supervisor \<Rightarrow> (env, dash_app) action" where
  "start_dashboard T config process_supervisor =
     bindA (\<lambda>e. case time_monotonic e of (now, e') \<Rightarrow> (make_state T config now, e')) (\<lambda>state.
     bindA (liftA (nested config ''robot_controller_state'' ''enabled'')) (\<lambda>enabled.
     bindA (if py_truthy enabled
            then bindA (liftA (nested config ''robot_controller_state'' ''control_shm_name'')) (\<lambda>c.
              bindA (liftA (nested config ''robot_controller_state'' ''dashboard_shm_name'')) (\<lambda>d.
              bindA (liftA (bindE (nested config ''robot_controller_state'' ''stale_timeout_s'') (py_float T))) (\<lambda>stale.
              bindA (shm_act (DashboardRobotStateReader_init (py_str T c) (py_str T d) stale)) (\<lambda>r. retA (Some r)))))
            else retA None) (\<lambda>reader.
     bindA (liftA (nested config ''robot_controller_state'' ''operator_shm_name'')) (\<lambda>oper.
     bindA (liftA (bindE (nested config ''robot_controller_state'' ''operator_shm_size_bytes'') (py_int T))) (\<lambda>_.
     bindA (shm_act (OperatorCommandShm_open_writer (py_str T oper))) (\<lambda>writer.
     bindA (liftA (nested config ''can_daemon'' ''ipc_socket_path'')) (\<lambda>_.
     bindA (liftA (bindE (nested config ''can_daemon'' ''connect_timeout_s'') (py_float T))) (\<lambda>_.
       retA \<lparr>da_service = \<lparr>cs_state = state, cs_safety = None, cs_reason = None, cs_connected = False\<rparr>,
         da_reader = reader, da_operator = writer, da_supervisor = process_supervisor\<rparr>))))))))"

end
