(* ===== verification/Dash_Facts.thy ===== *)
theory Dash_Facts
  imports Dash_App Telemetry
begin

text \<open>
  From the controller's state to the dashboard's refusals: what the controller publishes is what the
  dashboard's command gate decides on.
\<close>

section \<open>Dicts\<close>

lemma is_dict_set [simp]: "is_dict (dict_set k v d) = is_dict d"
  by (cases d) auto

lemma dict_get_set: "is_dict d \<Longrightarrow> dict_get (dict_set k v d) k' = (if k = k' then v else dict_get d k')"
  by (cases d) (auto simp: dict_get_def update_conv)

lemma merge_control_keeps:
  assumes "merge_control_state T m now payload base = Inr base'" and "is_dict base"
  shows "is_dict base' \<and> dict_get base' ''robot_controller'' = dict_get base ''robot_controller''"
  using assms by (auto simp: merge_control_state_def Let_def bindE_eq_Inr dict_get_set split: if_splits)

lemma merge_dashboard_keeps:
  "is_dict base \<Longrightarrow> dict_get (merge_dashboard_state payload base) ''robot_controller'' = dict_get base ''robot_controller''"
  by (simp add: merge_dashboard_state_def Let_def dict_get_set)

lemma monitor_snapshot_dict: "monitor_snapshot now m = (Inr base, m') \<Longrightarrow> is_dict base"
  by (auto simp: monitor_snapshot_def Let_def bindE_eq_Inr)

lemma monitor_snapshot_keeps: "mn_actuator_configs (snd (monitor_snapshot now m)) = mn_actuator_configs m"
  by (simp add: monitor_snapshot_def Let_def)

section \<open>The snapshot\<close>

lemma time_keeps [simp]:
  "time_monotonic e = (t, e') \<Longrightarrow> env_shm e' = env_shm e \<and> env_requests e' = env_requests e"
  "time_unix e = (t, e') \<Longrightarrow> env_shm e' = env_shm e \<and> env_requests e' = env_requests e"
  by (auto simp: time_monotonic_def time_unix_def)

lemma read_channel_keeps:
  "read_channel T obj name schema stale e = (r, e') \<Longrightarrow> env_shm e' = env_shm e \<and> env_requests e' = env_requests e"
  by (auto simp: read_channel_def Let_def time_unix_def time_monotonic_def split: sum.splits option.splits exc.splits if_splits)

text \<open>A published state is delivered, marked by its age.\<close>

lemma read_channel_published:
  assumes "RobotStateShm_read_relaxed obj (env_shm e) = Inr c" and "rs_timestamp_ns c \<noteq> 0"
  shows "\<exists>t age e'. read_channel T obj name schema stale e =
    (Inr (channel_result name (if fgt age stale then ''stale'' else ''online'') (Some (robot_state_to_dict t c)) None (Some age)), e')"
  using assms
  by (simp add: read_channel_def RobotStateShm_read_latest_def Let_def robot_state_to_dict_def dict_get_or_def dict_item_def
      time_unix_def) blast

lemma controller_snapshot_published:
  "controller_snapshot (channel_result name status (Some (robot_state_to_dict t c)) err age) = PDict
     [(''source'', PStr ''control_shm''), (''shm_name'', PStr name), (''status'', PStr status),
      (''controller_state'', PStr (robot_mode_name (rs_controller_mode c))),
      (''safety_state'', PStr (robot_mode_name (rs_controller_mode c))), (''control_action'', PNone),
      (''safety_reason'', PNone), (''fault_code'', PNone), (''age_s'', popt PFloat age), (''error'', popt PStr err)]"
  by (simp add: controller_snapshot_def channel_result_def robot_state_to_dict_def Let_def dict_get_def py_or_def)

text \<open>The controller's entry of a snapshot comes from the published state \<open>c\<close>.\<close>

definition shows_controller :: "dash_reader \<Rightarrow> robot_state_c \<Rightarrow> pyval \<Rightarrow> bool" where
  "shows_controller r c snap \<longleftrightarrow> is_dict snap \<and> (\<exists>t age status. status \<in> {''stale'', ''online''} \<and>
     dict_get snap ''robot_controller'' =
       controller_snapshot (channel_result (dr_control_shm_name r) status (Some (robot_state_to_dict t c)) None age))"

lemma merge_snapshot_controller:
  assumes "merge_snapshot T r m base e = (res, e')" and "is_dict base"
    and "RobotStateShm_read_relaxed (dr_control_reader r) (env_shm e) = Inr c" and "rs_timestamp_ns c \<noteq> 0"
  shows "env_requests e' = env_requests e \<and> (\<forall>snap. res = Inr snap \<longrightarrow> shows_controller r c snap)"
proof -
  obtain t age e2 where cs: "read_channel T (dr_control_reader r) (dr_control_shm_name r) ''qhrr.control_state.v1'' (dr_stale_timeout_s r) e =
      (Inr (channel_result (dr_control_shm_name r) (if fgt age (dr_stale_timeout_s r) then ''stale'' else ''online'')
        (Some (robot_state_to_dict t c)) None (Some age)), e2)" (is "_ = (Inr ?cs, _)")
    using read_channel_published [OF assms(3,4)] by blast
  obtain t3 e3 where e3: "time_monotonic e2 = (t3, e3)" by (cases "time_monotonic e2")
  have r3: "env_requests e3 = env_requests e" using read_channel_keeps [OF cs] time_keeps(1) [OF e3] by simp
  let ?base1 = "dict_set ''robot_controller'' (controller_snapshot ?cs) (set_shm ''control_state'' (snd ?cs) base)"
  have b1: "is_dict ?base1" "dict_get ?base1 ''robot_controller'' = controller_snapshot ?cs"
    using assms(2) by (simp_all add: set_shm_def dict_get_set)
  have st: "merge_snapshot T r m base e = bindA (\<lambda>e. (merge_control_state T m t3 (robot_state_to_dict t c) ?base1, e))
      (\<lambda>base2. bindA (read_channel T (dr_dashboard_reader r) (dr_dashboard_shm_name r) ''qhrr.dashboard_state.v1'' (dr_stale_timeout_s r))
        (\<lambda>dashboard_state. let base3 = set_shm ''dashboard_state'' (snd dashboard_state) base2 in
          retA (case fst dashboard_state of None \<Rightarrow> base3 | Some payload \<Rightarrow> merge_dashboard_state payload base3))) e3"
    using cs e3 by (simp add: merge_snapshot_def bindA_def Let_def) (simp add: channel_result_def)
  show ?thesis
  proof (cases "merge_control_state T m t3 (robot_state_to_dict t c) ?base1")
    case (Inl x)
    then show ?thesis using assms(1) r3 by (simp add: st bindA_def) blast
  next
    case (Inr base2)
    note b2 = merge_control_keeps [OF Inr b1(1)]
    obtain d e4 where rd: "read_channel T (dr_dashboard_reader r) (dr_dashboard_shm_name r) ''qhrr.dashboard_state.v1''
        (dr_stale_timeout_s r) e3 = (d, e4)" by fastforce
    have r4: "env_requests e4 = env_requests e" using read_channel_keeps [OF rd] r3 by simp
    have res: "e' = e4 \<and> res = bindE d (\<lambda>dashboard_state. let base3 = set_shm ''dashboard_state'' (snd dashboard_state) base2 in
        Inr (case fst dashboard_state of None \<Rightarrow> base3 | Some payload \<Rightarrow> merge_dashboard_state payload base3))"
      using assms(1) Inr rd by (cases d) (simp_all add: st bindA_def Let_def)
    have "shows_controller r c snap" if "res = Inr snap" for snap
    proof -
      have "is_dict snap" "dict_get snap ''robot_controller'' = controller_snapshot ?cs"
        using that res b2 b1(2)
        by (auto simp: bindE_eq_Inr Let_def set_shm_def dict_get_set merge_dashboard_keeps merge_dashboard_state_def
            split: option.splits)
      then show ?thesis unfolding shows_controller_def by (auto split: if_splits)
    qed
    then show ?thesis using r4 res by blast
  qed
qed

lemma reader_snapshot_controller:
  assumes "reader_snapshot T r (m, e) = (res, (m', e'))"
    and "RobotStateShm_read_relaxed (dr_control_reader r) (env_shm e) = Inr c" and "rs_timestamp_ns c \<noteq> 0"
  shows "env_requests e' = env_requests e \<and> mn_actuator_configs m' = mn_actuator_configs m \<and>
    (\<forall>snap. res = Inr snap \<longrightarrow> shows_controller r c snap)"
proof -
  obtain now e1 where t: "time_monotonic e = (now, e1)" by (cases "time_monotonic e")
  obtain br m1 where b: "monitor_snapshot now m = (br, m1)" by (cases "monitor_snapshot now m")
  have e1: "env_shm e1 = env_shm e" "env_requests e1 = env_requests e" using time_keeps(1) [OF t] by simp_all
  have m: "mn_actuator_configs m1 = mn_actuator_configs m" using monitor_snapshot_keeps [of now m] b by simp
  show ?thesis
  proof (cases br)
    case (Inl x)
    then show ?thesis using assms(1) t b e1 m by (auto simp: reader_snapshot_def bindA_def)
  next
    case (Inr base)
    obtain d e2 where d: "merge_snapshot T r m1 base e1 = (d, e2)" by fastforce
    have "is_dict base" using monitor_snapshot_dict b Inr by blast
    from merge_snapshot_controller [OF d this] assms(2,3) e1
    have "env_requests e2 = env_requests e \<and> (\<forall>snap. d = Inr snap \<longrightarrow> shows_controller r c snap)" by simp
    then show ?thesis using assms(1) t b Inr d m by (auto simp: reader_snapshot_def bindA_def)
  qed
qed

section \<open>The gate\<close>

text \<open>The dashboard reads the segment that holds \<open>c\<close>.\<close>

definition watches :: "robot_state_c \<Rightarrow> dash_app \<Rightarrow> env \<Rightarrow> bool" where
  "watches c A e \<longleftrightarrow> (\<exists>r. da_reader A = Some r \<and> RobotStateShm_read_relaxed (dr_control_reader r) (env_shm e) = Inr c) \<and>
     rs_timestamp_ns c \<noteq> 0"

text \<open>What asking for the state leaves alone.\<close>

definition same_app :: "dash_app \<times> env \<Rightarrow> dash_app \<times> env \<Rightarrow> bool" where
  "same_app s s' \<longleftrightarrow> env_requests (snd s') = env_requests (snd s) \<and>
     mn_actuator_configs (cs_state (da_service (fst s'))) = mn_actuator_configs (cs_state (da_service (fst s)))"

lemma shows_controller_set:
  "shows_controller r c snap \<Longrightarrow> k \<noteq> ''robot_controller'' \<Longrightarrow> shows_controller r c (dict_set k v snap)"
  by (simp add: shows_controller_def dict_get_set)

lemma dashboard_snapshot_controller:
  assumes "watches c A e" and "dashboard_snapshot T rows (A, e) = (res, s')"
  shows "same_app (A, e) s' \<and> (\<forall>snap. res = Inr snap \<longrightarrow> (\<exists>r. shows_controller r c snap))"
proof -
  obtain r where r: "da_reader A = Some r" "RobotStateShm_read_relaxed (dr_control_reader r) (env_shm e) = Inr c"
      "rs_timestamp_ns c \<noteq> 0"
    using assms(1) by (auto simp: watches_def)
  obtain d m' e' where d: "reader_snapshot T r (cs_state (da_service A), e) = (d, (m', e'))" by (metis prod_cases3)
  note k = reader_snapshot_controller [OF d r(2,3)]
  show ?thesis
    using assms(2) r(1) d k
    by (cases d) (auto simp: dashboard_snapshot_def bindA_def on_monitor_def same_app_def intro!: shows_controller_set)
qed

lemma current_safety_state:
  assumes "watches c A e" and "current_controller_safety_state T rows (A, e) = (res, s')"
  shows "same_app (A, e) s' \<and> (\<forall>v. res = Inr v \<longrightarrow> v \<in> {None, Some (robot_mode_name (rs_controller_mode c))})"
proof -
  obtain d s1 where d: "dashboard_snapshot T rows (A, e) = (d, s1)" by (metis surj_pair)
  note k = dashboard_snapshot_controller [OF assms(1) d]
  show ?thesis
  proof (cases d)
    case (Inl x)
    then show ?thesis using assms(2) d k
      by (auto simp: current_controller_safety_state_def controller_item_def current_controller_snapshot_def bindA_def)
  next
    case (Inr snap)
    then obtain r where "shows_controller r c snap" using k by blast
    then obtain t age status where "dict_get snap ''robot_controller'' =
        controller_snapshot (channel_result (dr_control_shm_name r) status (Some (robot_state_to_dict t c)) None age)"
      by (auto simp: shows_controller_def)
    then show ?thesis using assms(2) d k Inr
      by (auto simp: current_controller_safety_state_def controller_item_def current_controller_snapshot_def bindA_def Let_def
          controller_snapshot_published dict_get_def split: if_splits)
  qed
qed

lemma off_rejected:
  assumes "cs_safety s = Some v" and "v \<in> {None, Some ''DISABLED'', Some ''ESTOP''}" and "enables_motor can_id data (cs_state s)"
  shows "\<exists>m. reject_motor_enable_when_blocked can_id data s = Inl (CommandError m)"
proof -
  have "normalize_state_name (Some ''DISABLED'') = Some ''DISABLED''" "normalize_state_name (Some ''ESTOP'') = Some ''ESTOP''"
    by code_simp+
  moreover have "normalize_state_name None = None" by (simp add: normalize_state_name_def)
  ultimately show ?thesis using assms
    by (auto simp: reject_motor_enable_when_blocked_def enables_motor_def actuator_config_None controller_safety_state_def
        ENABLE_BLOCK_STATES_def)
qed

text \<open>Asking before an enabling frame ends in an exception or in a service that refuses it.\<close>

lemma ask_for_frame_off:
  assumes "watches c A e" and "robot_mode_name (rs_controller_mode c) \<in> {''DISABLED'', ''ESTOP''}"
    and "enables_motor can_id data (cs_state (da_service A))" and "ask_for_frame T rows can_id data (A, e) = (res, (A', e'))"
  shows "same_app (A, e) (A', e') \<and>
    (res = Inr () \<longrightarrow> (\<exists>m. reject_motor_enable_when_blocked can_id data (da_service A') = Inl (CommandError m)))"
proof -
  obtain r where r: "da_reader A = Some r" using assms(1) by (auto simp: watches_def)
  obtain d A1 e1 where d: "current_controller_safety_state T rows (A, e) = (d, (A1, e1))" by (metis prod_cases3)
  note k = current_safety_state [OF assms(1) d]
  have en: "data \<noteq> []" "data ! 0 = SPG_CMD_MIT_ENTER" "actuator_config_for_can_id can_id (cs_state (da_service A)) \<noteq> None"
    using assms(3) by (auto simp: enables_motor_def actuator_config_None)
  show ?thesis
  proof (cases d)
    case (Inl x)
    then show ?thesis using assms(4) en r d k
      by (auto simp: ask_for_frame_def Let_def bindA_def ask_state_def same_app_def)
  next
    case (Inr v)
    define A2 where "A2 = A1\<lparr>da_service := (da_service A1)\<lparr>cs_safety := Some v, cs_reason := Some None\<rparr>\<rparr>"
    have "enables_motor can_id data (cs_state (da_service A2))"
      using assms(3) k by (simp add: A2_def same_app_def enables_motor_def)
    then obtain m where m: "reject_motor_enable_when_blocked can_id data (da_service A2) = Inl (CommandError m)"
      using off_rejected [of "da_service A2" v] k Inr assms(2) by (auto simp: A2_def)
    then have "(res, (A', e')) = (Inr (), (A2, e1))"
      using assms(4) en r d Inr by (simp add: ask_for_frame_def Let_def bindA_def ask_state_def A2_def)
    then show ?thesis using m k by (simp add: A2_def same_app_def)
  qed
qed

lemma app_send_raw_off:
  assumes "watches c A e" and "robot_mode_name (rs_controller_mode c) \<in> {''DISABLED'', ''ESTOP''}"
    and "enables_motor can_id data (cs_state (da_service A))" and "app_send_raw T rows can_id data (A, e) = (res, s')"
  shows "env_requests (snd s') = env_requests e \<and> isl res"
proof -
  obtain d A1 e1 where d: "ask_for_frame T rows can_id data (A, e) = (d, (A1, e1))" by (metis prod_cases3)
  note k = ask_for_frame_off [OF assms(1-3) d]
  show ?thesis
    using assms(4) d k
    by (cases d) (auto simp: app_send_raw_def bindA_def on_service_def send_raw_def same_app_def)
qed

lemma app_motor_enter_off:
  assumes "watches c A e" and "robot_mode_name (rs_controller_mode c) \<in> {''DISABLED'', ''ESTOP''}"
    and "app_motor_command T rows SPG_CMD_MIT_ENTER can_id (A, e) = (res, s')"
  shows "env_requests (snd s') = env_requests e \<and> isl res"
proof (cases "mn_allow_actuator_commands (cs_state (da_service A)) \<and>
    actuator_config_for_can_id can_id (cs_state (da_service A)) \<noteq> None")
  case True
  let ?data = "[SPG_CMD_MIT_ENTER] @ replicate 7 0"
  obtain d A1 e1 where d: "ask_for_frame T rows can_id ?data (A, e) = (d, (A1, e1))" by (metis prod_cases3)
  have "enables_motor can_id ?data (cs_state (da_service A))"
    using True by (simp add: enables_motor_def actuator_config_None)
  note k = ask_for_frame_off [OF assms(1,2) this d]
  show ?thesis
    using assms(3) True d k
    by (cases d) (auto simp: app_motor_command_def Let_def bindA_def on_service_def send_motor_command_def send_raw_def
        same_app_def split: if_splits)
next
  case False
  then show ?thesis using assms(3)
    by (auto simp: app_motor_command_def Let_def on_service_def send_motor_command_def split: if_splits)
qed

lemma catching_isl:
  "a s = (r, s') \<Longrightarrow> isl r \<Longrightarrow> \<exists>r'. catching f a s = (r', s') \<and> (\<forall>v. r' \<noteq> Inr (HttpOk v))"
  by (cases r) (auto simp: catching_def split: option.splits)

text \<open>
  C40. No motor is enabled by hand while the controller is off: after the controller has published a state
  in mode DISABLED or ESTOP, and whatever the clocks say and whatever else the dashboard's state
  is, a request to enable an actuator, and a raw frame that would enable a known one, is answered
  without success and sends nothing to the daemon.
\<close>

theorem dashboard_respects_controller_off:
  assumes "seg_ready RobotStateC (pb_writer pb) (env_shm e0)" and "snapshot_ok sn" and "rn_mode sn \<in> {DISABLED, ESTOP}"
    and "c_uint 64 (env_time_ns e0 (env_ns_reads e0)) \<noteq> 0" and "publisher_publish True sn (pb, e0) = (Inr (), (pb', e1))"
    and "da_reader A = Some r" and "seg_shm (dr_control_reader r) = seg_shm (pb_writer pb)" and "env_shm e = env_shm e1"
  shows "(case api_motor_enter T rows name (A, e) of (res, (A', e')) \<Rightarrow>
      env_requests e' = env_requests e \<and> (\<forall>v. res \<noteq> Inr (HttpOk v))) \<and>
    (\<forall>i payload. parse_can_id T arg = Inr i \<and> parse_hex_payload txt = Inr payload \<and>
        enables_motor i payload (cs_state (da_service A)) \<longrightarrow>
      (case api_can_send T rows arg txt (A, e) of (res, (A', e')) \<Rightarrow>
        env_requests e' = env_requests e \<and> (\<forall>v. res \<noteq> Inr (HttpOk v))))"
proof -
  define c where "c = snapshot_to_cstruct (env_time_ns e0 (env_ns_reads e0)) sn"
  have "RobotStateShm_read_relaxed (pb_writer pb) (env_shm e1) = Inr c"
    using publisher_publish_step [OF assms(1,2)] assms(5) unfolding c_def by (metis prod.inject)
  then have w: "watches c A e"
    using assms(4,6-8) by (auto simp: watches_def RobotStateShm_read_relaxed_def read_struct_def c_def snapshot_to_cstruct_def Let_def)
  have off: "robot_mode_name (rs_controller_mode c) \<in> {''DISABLED'', ''ESTOP''}"
    using assms(3) by (auto simp: c_def snapshot_to_cstruct_def Let_def mode_name_value)
  have enter: "case api_motor_enter T rows name (A, e) of (res, (A', e')) \<Rightarrow>
      env_requests e' = env_requests e \<and> (\<forall>v. res \<noteq> Inr (HttpOk v))"
  proof (cases "parse_can_id T (IdStr name)")
    case (Inl x)
    then show ?thesis by (auto simp: api_motor_enter_def motor_request_def catching_def bindA_def split: option.splits)
  next
    case (Inr i)
    obtain d A1 e1 where d: "app_motor_command T rows SPG_CMD_MIT_ENTER i (A, e) = (d, (A1, e1))" by (metis prod_cases3)
    note k = app_motor_enter_off [OF w off d]
    then obtain x where "d = Inl x" by (cases d) auto
    then have "api_motor_enter T rows name (A, e) = catching (\<lambda>x. if is_command_error x \<or> is_os_error x then Some 403 else None)
        (\<lambda>_. (Inl x, (A1, e1))) (A, e)"
      using Inr d by (simp add: api_motor_enter_def motor_request_def catching_def bindA_def)
    then show ?thesis using k by (auto simp: catching_def split: option.splits)
  qed
  have send: "case api_can_send T rows arg txt (A, e) of (res, (A', e')) \<Rightarrow>
      env_requests e' = env_requests e \<and> (\<forall>v. res \<noteq> Inr (HttpOk v))"
    if "parse_can_id T arg = Inr i" "parse_hex_payload txt = Inr payload" "enables_motor i payload (cs_state (da_service A))" for i payload
  proof -
    obtain d A1 e1 where d: "app_send_raw T rows i payload (A, e) = (d, (A1, e1))" by (metis prod_cases3)
    note k = app_send_raw_off [OF w off that(3) d]
    then obtain x where "d = Inl x" by (cases d) auto
    then show ?thesis using that(1,2) d k
      by (auto simp: api_can_send_def catching_def bindA_def split: option.splits)
  qed
  show ?thesis by (intro conjI allI impI, rule enter, elim conjE, rule send)
qed

section \<open>An example\<close>

definition demo_monitor :: monitor where
  "demo_monitor = \<lparr>mn_heartbeat_window_s = Fin 1, mn_node_timeout_s = Fin 1, mn_feedback_position_max_rad = Fin 1,
     mn_iq_full_scale_count = Fin 2048, mn_iq_full_scale_current_a = Fin 33, mn_mit_config = SPGMITConfig_default,
     mn_imu_request_id = 0x220, mn_imu_quat_id = 0x221, mn_imu_gyro_id = 0x222, mn_imu_quat_scale = Fin 10000,
     mn_imu_gyro_scale = Fin 10, mn_imu_normalize_quat = True,
     mn_can_channels = [CanChannelState_init ''can0'' ''CAN'' ''can0'' 1000000 (Fin 1) (Fin 1)],
     mn_actuator_configs = [(0x141, ''FL_HR'')], mn_tx_enabled = True, mn_allow_actuator_commands = True,
     mn_mit_poll_can_ids = {}, mn_mit_poll_hz = Fin 100, mn_start_t = Fin 0, mn_raw_frames = [], mn_nodes = [],
     mn_imu = E2BoxState_init, mn_motors = []\<rparr>"

definition demo_app :: dash_app where
  "demo_app = \<lparr>da_service = \<lparr>cs_state = demo_monitor, cs_safety = None, cs_reason = None, cs_connected = True\<rparr>,
     da_reader = Some \<lparr>dr_control_shm_name = ''s'', dr_dashboard_shm_name = ''d'', dr_stale_timeout_s = Fin 1,
       dr_control_reader = \<lparr>seg_name = ''s'', seg_shm = Some 0\<rparr>, dr_dashboard_reader = \<lparr>seg_name = ''d'', seg_shm = Some 1\<rparr>\<rparr>,
     da_operator = \<lparr>seg_name = ''o'', seg_shm = Some 2\<rparr>, da_supervisor = ProcessSupervisor_init [] Map.empty {} 100\<rparr>"

theorem dashboard_respects_controller_off_witness:
  "\<exists>pb' e1. publisher_publish True (demo_snapshot\<lparr>rn_mode := ESTOP\<rparr>)
      (\<lparr>pb_writer = \<lparr>seg_name = ''s'', seg_shm = Some 0\<rparr>, pb_publish_period_s = Fin 1, pb_last_publish_t = Fin 0\<rparr>,
       demo_env) = (Inr (), (pb', e1)) \<and>
    (case api_motor_enter (demo_text\<lparr>text_int0 := (\<lambda>_. Inr 0x141)\<rparr>) (\<lambda>_. PList []) ''0x141'' (demo_app, e1) of
      (res, (A', e')) \<Rightarrow> env_requests e' = env_requests e1 \<and> (\<forall>v. res \<noteq> Inr (HttpOk v)))"
proof -
  let ?p = "\<lparr>pb_writer = \<lparr>seg_name = ''s'', seg_shm = Some 0\<rparr>, pb_publish_period_s = Fin 1, pb_last_publish_t = Fin 0\<rparr>"
  let ?sn = "demo_snapshot\<lparr>rn_mode := ESTOP\<rparr>"
  have 1: "seg_ready RobotStateC (pb_writer ?p) (env_shm demo_env)"
    using ROBOT_STATE_SIZE_eq by (simp add: seg_ready_def demo_env_def ROBOT_STATE_SIZE_def)
  have 2: "snapshot_ok ?sn" by (simp add: snapshot_ok_def demo_snapshot_def)
  have 3: "c_uint 64 (env_time_ns demo_env (env_ns_reads demo_env)) \<noteq> 0" by (simp add: demo_env_def c_uint_def)
  obtain pb' e1 where 4: "publisher_publish True ?sn (?p, demo_env) = (Inr (), (pb', e1))"
    by (rule publisher_publish_step [OF 1 2])
  have 5: "rn_mode ?sn \<in> {DISABLED, ESTOP}" by simp
  obtain r where r: "da_reader demo_app = Some r" "seg_shm (dr_control_reader r) = seg_shm (pb_writer ?p)"
    by (simp add: demo_app_def)
  show ?thesis
    by (intro exI conjI, rule 4, rule conjunct1 [OF dashboard_respects_controller_off [OF 1 2 5 3 4 r refl]])
qed

end
