(* ===== verification/Policy.thy ===== *)
theory Policy
  imports PyVal
begin

text \<open>
  The policy runner (\<open>task_controller/policy_runner.py\<close>): configuration bundles, the observation a
  policy is given and the joint actions made of its answer. The arithmetic on arrays is NumPy's and
  the network is run by the ONNX runtime; both are parameters (\<open>numpy\<close>, \<open>policy_ort\<close>). A
  one-dimensional array is the list of its elements. The file system and the YAML parser are
  \<open>policy_fs\<close>.
\<close>

section \<open>Paths\<close>

text \<open>A \<open>PurePosixPath\<close>: empty components and dots are dropped when it is made.\<close>

record pypath =
  pp_abs :: bool
  pp_parts :: "string list"

definition path_of :: "string \<Rightarrow> pypath" where
  "path_of s = \<lparr>pp_abs = (take 1 s = ''/''), pp_parts = filter (\<lambda>w. w \<noteq> [] \<and> w \<noteq> ''.'') (split_on (CHR ''/'') s)\<rparr>"

definition path_join :: "pypath \<Rightarrow> pypath \<Rightarrow> pypath" where
  "path_join p q = (if pp_abs q then q else p\<lparr>pp_parts := pp_parts p @ pp_parts q\<rparr>)"

definition path_name :: "pypath \<Rightarrow> string" where
  "path_name p = (if pp_parts p = [] then [] else last (pp_parts p))"

record policy_fs =
  fs_exists :: "pypath \<Rightarrow> bool"
  fs_is_dir :: "pypath \<Rightarrow> bool"
  fs_resolve :: "pypath \<Rightarrow> pypath"
  fs_cwd :: pypath
  fs_yaml :: "pypath \<Rightarrow> pyval result"

definition load_yaml :: "policy_fs \<Rightarrow> pypath \<Rightarrow> pyval result" where
  "load_yaml F path =
     bindE (fs_yaml F path) (\<lambda>data.
       if is_dict data then Inr data else Inl (ValueError ''YAML file must contain a mapping''))"

definition project_root :: "policy_fs \<Rightarrow> string option \<Rightarrow> pypath result" where
  "project_root F v =
     (let root = (case v of Some s \<Rightarrow> if s \<noteq> [] then path_of s else fs_cwd F | None \<Rightarrow> fs_cwd F);
          root = (if pp_abs root then root else path_join (fs_cwd F) root)
      in if \<not> fs_is_dir F root then Inl (FileNotFoundError ''QHRR project root not found'')
         else Inr (fs_resolve F root))"

definition has_policy_files :: "policy_fs \<Rightarrow> pypath \<Rightarrow> bool" where
  "has_policy_files F base \<longleftrightarrow>
     fs_exists F (path_join base (path_of ''policy_list.yaml'')) \<or>
     fs_exists F (path_join base (path_of ''runner_config.yaml''))"

definition resolve_policy_config_dir :: "policy_fs \<Rightarrow> pypath \<Rightarrow> string \<Rightarrow> string \<Rightarrow> pypath result" where
  "resolve_policy_config_dir F project_root_path policy_config_dir robot_name =
     (let root = path_of policy_config_dir;
          root = (if pp_abs root then root else path_join project_root_path root)
      in if has_policy_files F root then Inr (fs_resolve F root)
         else let robot_root = path_join root (path_of robot_name)
           in if \<not> has_policy_files F robot_root
              then Inl (FileNotFoundError ''policy config directory not found'')
              else Inr (fs_resolve F robot_root))"

section \<open>Bundles\<close>

record RunnerBundle =
  rb_name :: string
  rb_directory :: pypath
  rb_runner_config :: pyval
  rb_obs_config :: pyval

definition load_bundle :: "policy_fs \<Rightarrow> string \<Rightarrow> pypath \<Rightarrow> RunnerBundle result" where
  "load_bundle F name directory =
     bindE (load_yaml F (path_join directory (path_of ''runner_config.yaml''))) (\<lambda>runner_config.
     bindE (let obs_path = path_join directory (path_of ''obs_config.yaml'')
            in if fs_exists F obs_path then load_yaml F obs_path else Inr (PDict [])) (\<lambda>obs_config.
       Inr \<lparr>rb_name = name, rb_directory = directory, rb_runner_config = runner_config, rb_obs_config = obs_config\<rparr>))"

definition load_bundles :: "py_text \<Rightarrow> policy_fs \<Rightarrow> pypath \<Rightarrow> RunnerBundle list result" where
  "load_bundles T F policy_config_dir =
     (let policy_list_path = path_join policy_config_dir (path_of ''policy_list.yaml'')
      in if fs_exists F policy_list_path
         then bindE (load_yaml F policy_list_path) (\<lambda>policy_list.
           case dict_get policy_list ''list_of_policy_names'' of
             PList (n # ns) \<Rightarrow>
               mapE (\<lambda>name. load_bundle F (py_str T name) (path_join policy_config_dir (path_of (py_str T name)))) (n # ns)
           | _ \<Rightarrow> Inl (ValueError ''invalid policy list''))
         else bindE (load_bundle F (path_name policy_config_dir) policy_config_dir) (\<lambda>b. Inr [b]))"

definition strip_leading_parents :: "pypath \<Rightarrow> pypath" where
  "strip_leading_parents path =
     (if pp_abs path then path
      else let parts = dropWhile (\<lambda>w. w = ''.'' \<or> w = ''..'') (pp_parts path)
        in if parts \<noteq> [] then path\<lparr>pp_parts := parts\<rparr> else path)"

definition resolve_policy_dir :: "policy_fs \<Rightarrow> pypath \<Rightarrow> string \<Rightarrow> pypath result" where
  "resolve_policy_dir F project_root_path raw_file_path =
     (let raw = path_of raw_file_path;
          candidates = (if pp_abs raw then [raw]
            else [path_join project_root_path raw, path_join project_root_path (strip_leading_parents raw)])
      in case find (\<lambda>candidate. fs_exists F (path_join candidate (path_of ''policy.onnx''))) candidates of
           Some candidate \<Rightarrow> Inr (fs_resolve F candidate)
         | None \<Rightarrow> Inl (FileNotFoundError ''policy.onnx not found from file_path''))"

section \<open>Sequences and dicts\<close>

text \<open>Indexing a sequence: a negative index counts from the end.\<close>

definition py_index :: "'a list \<Rightarrow> int \<Rightarrow> 'a result" where
  "py_index xs i =
     (if 0 \<le> i \<and> i < int (length xs) then Inr (xs ! nat i)
      else if i < 0 \<and> - int (length xs) \<le> i then Inr (xs ! nat (int (length xs) + i))
      else Inl (IndexError ''index out of range''))"

fun py_iter :: "pyval \<Rightarrow> pyval list result" where
  "py_iter (PList xs) = Inr xs"
| "py_iter (PStr s) = Inr (map (\<lambda>c. PStr [c]) s)"
| "py_iter (PDict kvs) = Inr (map (\<lambda>kv. PStr (fst kv)) kvs)"
| "py_iter _ = Inl (TypeError ''object is not iterable'')"

text \<open>\<open>d[k]\<close> and \<open>d.get(k, default)\<close> on any object.\<close>

fun py_getitem :: "pyval \<Rightarrow> string \<Rightarrow> pyval result" where
  "py_getitem (PDict kvs) k = (case map_of kvs k of Some v \<Rightarrow> Inr v | None \<Rightarrow> Inl (KeyError k))"
| "py_getitem _ k = Inl (TypeError ''object is not subscriptable with a string'')"

fun py_get :: "pyval \<Rightarrow> string \<Rightarrow> pyval \<Rightarrow> pyval result" where
  "py_get (PDict kvs) k d = (case map_of kvs k of Some v \<Rightarrow> Inr v | None \<Rightarrow> Inr d)"
| "py_get _ k d = Inl (AttributeError ''object has no attribute get'')"

definition config_floats :: "py_text \<Rightarrow> pyval \<Rightarrow> pyfloat list result" where
  "config_floats T v = bindE (py_iter v) (mapE (py_float T))"

definition config_ints :: "py_text \<Rightarrow> pyval \<Rightarrow> int list result" where
  "config_ints T v = bindE (py_iter v) (mapE (py_int T))"

section \<open>NumPy and the network\<close>

text \<open>
  The NumPy operations the runner uses on single precision arrays: \<open>zeros\<close>, the conversion
  \<open>array(..., float32)\<close>, \<open>a[:] = b\<close> (which gives the new content of \<open>a\<close>), the sum and difference of arrays,
  an array and an element times a float, an array times a bool, \<open>clip\<close>, and the product of a matrix
  (its rows) and a vector.
\<close>

record numpy =
  np_zeros :: "int \<Rightarrow> pyfloat list result"
  np_array :: "pyfloat list \<Rightarrow> pyfloat list"
  np_set :: "pyfloat list \<Rightarrow> pyfloat list \<Rightarrow> pyfloat list result"
  np_add :: "pyfloat list \<Rightarrow> pyfloat list \<Rightarrow> pyfloat list result"
  np_sub :: "pyfloat list \<Rightarrow> pyfloat list \<Rightarrow> pyfloat list result"
  np_scale :: "pyfloat list \<Rightarrow> pyfloat \<Rightarrow> pyfloat list"
  np_smul :: "pyfloat \<Rightarrow> pyfloat \<Rightarrow> pyfloat"
  np_gate :: "pyfloat list \<Rightarrow> bool \<Rightarrow> pyfloat list"
  np_clip :: "pyfloat list \<Rightarrow> pyfloat \<Rightarrow> pyfloat \<Rightarrow> pyfloat list"
  np_matvec :: "pyfloat list list \<Rightarrow> pyfloat list \<Rightarrow> pyfloat list"

text \<open>
  A session is given by the flattened output of its n-th run on an observation; \<open>policy_ort\<close> makes
  one from a model file.
\<close>

type_synonym session = "int \<Rightarrow> pyfloat list \<Rightarrow> pyfloat list result"
type_synonym policy_ort = "pypath \<Rightarrow> session result"

definition quat_to_projected_gravity :: "numpy \<Rightarrow> pyfloat \<times> pyfloat \<times> pyfloat \<times> pyfloat \<Rightarrow> pyfloat list result" where
  "quat_to_projected_gravity np quat_wxyz =
     (case quat_wxyz of (w, x, y, z) \<Rightarrow>
      bindE (math_sqrt (fadd (fadd (fadd (fmul w w) (fmul x x)) (fmul y y)) (fmul z z))) (\<lambda>nrm.
      bindE (fdiv w nrm) (\<lambda>w. bindE (fdiv x nrm) (\<lambda>x. bindE (fdiv y nrm) (\<lambda>y. bindE (fdiv z nrm) (\<lambda>z.
      let two = fmul (Fin 2); diag = (\<lambda>a b. fsub (Fin 1) (two (fadd (fmul a a) (fmul b b))));
          plus = (\<lambda>a b c d. two (fadd (fmul a b) (fmul c d))); minus = (\<lambda>a b c d. two (fsub (fmul a b) (fmul c d)));
          rotation = map (np_array np)
            [[diag y z, minus x y z w, plus x z y w],
             [plus x y z w, diag x z, minus y z x w],
             [minus x z y w, plus y z x w, diag x y]];
          pg = np_matvec np (map (\<lambda>j. map (\<lambda>row. row ! j) rotation) [0, 1, 2]) (np_array np [Fin 0, Fin 0, Fin (- 1)])
      in mapE (py_index pg) [0, 1, 2]))))))"

section \<open>The policy\<close>

record onnx_policy =
  pol_name :: string
  pol_directory :: pypath
  pol_config :: pyval
  pol_num_joint :: int
  pol_action_scale :: pyfloat
  pol_action_clip :: pyfloat
  pol_obs_type :: int
  pol_input_indices :: "int list"
  pol_output_indices :: "int list"
  pol_default_joint_angle :: "pyfloat list"
  pol_dof_pos :: "pyfloat list"
  pol_dof_vel :: "pyfloat list"
  pol_delta_dof_pos :: "pyfloat list"
  pol_actions :: "pyfloat list"
  pol_scaled_actions :: "pyfloat list"
  pol_last_actions :: "pyfloat list"
  pol_last_last_actions :: "pyfloat list"
  pol_last_last_last_actions :: "pyfloat list"
  pol_base_ang_vel :: "pyfloat list"
  pol_projected_gravity :: "pyfloat list"
  pol_commands :: "pyfloat list"
  pol_mode :: bool
  pol_obs_components :: "string list"
  pol_obs_scales :: "(string \<times> pyfloat) list"
  pol_session :: session
  pol_cnt :: int

definition obs_components :: "py_text \<Rightarrow> pyval \<Rightarrow> string list result" where
  "obs_components T obs_config =
     bindE (py_get obs_config ''observations'' (PDict [])) (\<lambda>observations.
     bindE (py_get observations ''components'' (PList [])) (\<lambda>components.
       if py_truthy components then bindE (py_iter components) (\<lambda>xs. Inr (map (py_str T) xs))
       else Inl (RuntimeError ''No observation components specified'')))"

definition obs_scales :: "py_text \<Rightarrow> pyval \<Rightarrow> (string \<times> pyfloat) list result" where
  "obs_scales T obs_config =
     bindE (py_get obs_config ''observations'' (PDict [])) (\<lambda>observations.
     bindE (py_get observations ''scales'' (PDict [])) (\<lambda>scales.
       case scales of
         PDict kvs \<Rightarrow> mapE (\<lambda>(k, v). bindE (py_float T v) (\<lambda>x. Inr (k, x))) kvs
       | _ \<Rightarrow> Inr []))"

text \<open>The joint order read from the configuration: input and output indices and default angles.\<close>

definition joint_order :: "py_text \<Rightarrow> numpy \<Rightarrow> pyval \<Rightarrow> (int list \<times> int list \<times> pyfloat list) result" where
  "joint_order T np config =
     bindE (py_getitem config ''joint_idx_style'') (\<lambda>style.
     bindE (py_getitem config (''joint_idx_conversion_'' @ py_str T style)) (\<lambda>conversion.
     bindE (bindE (py_getitem conversion ''input'') (config_ints T)) (\<lambda>input_indices.
     bindE (bindE (py_getitem conversion ''output'') (config_ints T)) (\<lambda>output_indices.
     bindE (bindE (py_getitem config ''default_joint_angle'') (config_floats T)) (\<lambda>defaults.
     bindE (mapE (py_index defaults) input_indices) (\<lambda>angles.
       Inr (input_indices, output_indices, np_array np angles)))))))"

definition OnnxPolicy_init :: "py_text \<Rightarrow> policy_fs \<Rightarrow> numpy \<Rightarrow> policy_ort \<Rightarrow> pypath \<Rightarrow> RunnerBundle \<Rightarrow> onnx_policy result" where
  "OnnxPolicy_init T F np ort project_root_path bundle =
     (let config = rb_runner_config bundle in
      bindE (bindE (py_getitem config ''num_joint'') (py_int T)) (\<lambda>num_joint.
      bindE (bindE (py_getitem config ''action_scale'') (py_float T)) (\<lambda>action_scale.
      bindE (bindE (py_getitem config ''action_clip'') (py_float T)) (\<lambda>action_clip.
      bindE (bindE (py_get config ''obs_type'' (PInt 0)) (py_int T)) (\<lambda>obs_type.
      bindE (joint_order T np config) (\<lambda>(input_indices, output_indices, default_joint_angle).
      bindE (np_zeros np num_joint) (\<lambda>joint_zeros.
      bindE (np_zeros np 3) (\<lambda>vec_zeros.
      bindE (obs_components T (rb_obs_config bundle)) (\<lambda>components.
      bindE (obs_scales T (rb_obs_config bundle)) (\<lambda>scales.
      bindE (py_getitem config ''file_path'') (\<lambda>file_path.
      bindE (resolve_policy_dir F project_root_path (py_str T file_path)) (\<lambda>policy_dir.
      bindE (ort (path_join policy_dir (path_of ''policy.onnx''))) (\<lambda>session.
        Inr \<lparr>pol_name = rb_name bundle, pol_directory = rb_directory bundle, pol_config = config,
          pol_num_joint = num_joint, pol_action_scale = action_scale, pol_action_clip = action_clip,
          pol_obs_type = obs_type, pol_input_indices = input_indices, pol_output_indices = output_indices,
          pol_default_joint_angle = default_joint_angle, pol_dof_pos = joint_zeros, pol_dof_vel = joint_zeros,
          pol_delta_dof_pos = joint_zeros, pol_actions = joint_zeros, pol_scaled_actions = joint_zeros,
          pol_last_actions = joint_zeros, pol_last_last_actions = joint_zeros, pol_last_last_last_actions = joint_zeros,
          pol_base_ang_vel = vec_zeros, pol_projected_gravity = np_array np [Fin 0, Fin 0, Fin (- 1)],
          pol_commands = vec_zeros, pol_mode = False, pol_obs_components = components, pol_obs_scales = scales,
          pol_session = session, pol_cnt = 0\<rparr>)))))))))))))"

definition load_policies :: "py_text \<Rightarrow> policy_fs \<Rightarrow> numpy \<Rightarrow> policy_ort \<Rightarrow> pypath \<Rightarrow> pypath \<Rightarrow> onnx_policy list result" where
  "load_policies T F np ort project_root_path policy_config_dir =
     bindE (load_bundles T F policy_config_dir) (mapE (OnnxPolicy_init T F np ort project_root_path))"

definition action_offset :: "py_text \<Rightarrow> numpy \<Rightarrow> onnx_policy \<Rightarrow> pyfloat list \<Rightarrow> pyfloat list result" where
  "action_offset T np policy q =
     bindE (bindE (py_getitem (pol_config policy) ''default_joint_angle'') (config_floats T)) (\<lambda>defaults.
       Inr (take (length q) (np_array np defaults)))"

section \<open>A step of the policy\<close>

text \<open>An assignment to an attribute whose right-hand side may raise.\<close>

definition assignA :: "('s \<Rightarrow> 'v result) \<Rightarrow> ('v \<Rightarrow> 's \<Rightarrow> 's) \<Rightarrow> ('s, unit) action" where
  "assignA rhs store s = (case rhs s of Inl e \<Rightarrow> (Inl e, s) | Inr v \<Rightarrow> (Inr (), store v s))"

type_synonym 'a policy = "(onnx_policy, 'a) action"

definition gather :: "numpy \<Rightarrow> pyfloat list \<Rightarrow> pyfloat list \<Rightarrow> onnx_policy \<Rightarrow> pyfloat list result" where
  "gather np old xs p = bindE (mapE (py_index xs) (pol_input_indices p)) (\<lambda>ys. np_set np old (np_array np ys))"

definition OnnxPolicy_set_state ::
  "numpy \<Rightarrow> pyfloat list \<Rightarrow> pyfloat list \<Rightarrow> pyfloat \<times> pyfloat \<times> pyfloat \<times> pyfloat \<Rightarrow> pyfloat list \<Rightarrow> unit policy" where
  "OnnxPolicy_set_state np dof_pos dof_vel quat_wxyz ang_vel =
     bindA (assignA (\<lambda>p. gather np (pol_dof_pos p) dof_pos p) (\<lambda>v p. p\<lparr>pol_dof_pos := v\<rparr>)) (\<lambda>_.
     bindA (assignA (\<lambda>p. gather np (pol_dof_vel p) dof_vel p) (\<lambda>v p. p\<lparr>pol_dof_vel := v\<rparr>)) (\<lambda>_.
     bindA (assignA (\<lambda>p. if pol_obs_type p = 1 then np_set np (pol_delta_dof_pos p) (pol_dof_pos p)
         else bindE (np_sub np (pol_dof_pos p) (pol_default_joint_angle p)) (np_set np (pol_delta_dof_pos p)))
       (\<lambda>v p. p\<lparr>pol_delta_dof_pos := v\<rparr>)) (\<lambda>_.
     bindA (assignA (\<lambda>p. quat_to_projected_gravity np quat_wxyz) (\<lambda>v p. p\<lparr>pol_projected_gravity := v\<rparr>)) (\<lambda>_.
       assignA (\<lambda>p. np_set np (pol_base_ang_vel p) ang_vel) (\<lambda>v p. p\<lparr>pol_base_ang_vel := v\<rparr>)))))"

definition set_commands :: "numpy \<Rightarrow> pyfloat \<Rightarrow> pyfloat \<Rightarrow> pyfloat \<Rightarrow> bool \<Rightarrow> unit policy" where
  "set_commands np lin_x lin_y yaw mode =
     bindA (assignA (\<lambda>p. np_set np (pol_commands p) (np_array np [lin_x, lin_y, yaw])) (\<lambda>v p. p\<lparr>pol_commands := v\<rparr>)) (\<lambda>_.
       assignA (\<lambda>_. Inr mode) (\<lambda>v p. p\<lparr>pol_mode := v\<rparr>))"

definition obs_scale :: "onnx_policy \<Rightarrow> string \<Rightarrow> pyfloat" where
  "obs_scale p key = (case map_of (pol_obs_scales p) key of Some s \<Rightarrow> s | None \<Rightarrow> Fin 1)"

text \<open>
  \<open>max(0.0, min(1.0, x))\<close> of an array element: strictly inside the interval it is still an array
  element, else a Python float. The flag tells which multiplication follows.
\<close>

definition clamp_unit :: "pyfloat \<Rightarrow> bool \<times> pyfloat" where
  "clamp_unit x = (flt x (Fin 1) \<and> flt (Fin 0) x, fmax (Fin 0) (fmin (Fin 1) x))"

definition mixed_mul :: "numpy \<Rightarrow> bool \<times> pyfloat \<Rightarrow> pyfloat \<Rightarrow> bool \<times> pyfloat" where
  "mixed_mul np v s = (fst v, (if fst v then np_smul np (snd v) s else fmul (snd v) s))"

definition float_of_bool :: "bool \<Rightarrow> pyfloat" where
  "float_of_bool b = (if b then Fin 1 else Fin 0)"

text \<open>The values one component adds to the observation.\<close>

definition observe :: "numpy \<Rightarrow> onnx_policy \<Rightarrow> string \<Rightarrow> pyfloat list result" where
  "observe np p component =
     (let s = obs_scale p component; vec = (\<lambda>xs. Inr (np_scale np xs s));
          cmd = (\<lambda>i. bindE (py_index (pol_commands p) i) (\<lambda>v. Inr [np_smul np v s]));
          unit = (\<lambda>i. bindE (py_index (pol_projected_gravity p) i) (\<lambda>v. Inr (clamp_unit (fneg v))))
      in if component = ''base_ang_vel_'' then vec (pol_base_ang_vel p)
         else if component = ''projected_gravity'' then vec (pol_projected_gravity p)
         else if component = ''lin_vel_x_commands_'' then cmd 0
         else if component = ''lin_vel_y_commands_'' then cmd 1
         else if component = ''ang_vel_z_commands_'' then cmd 2
         else if component = ''dof_pos'' then vec (pol_dof_pos p)
         else if component = ''delta_dof_pos'' then vec (pol_delta_dof_pos p)
         else if component = ''dof_vel'' then vec (pol_dof_vel p)
         else if component = ''actions'' then vec (pol_actions p)
         else if component = ''last_actions'' then vec (pol_last_actions p)
         else if component = ''last_last_actions'' then vec (pol_last_last_actions p)
         else if component = ''last_last_last_actions'' then vec (pol_last_last_last_actions p)
         else if component = ''alpha'' then bindE (unit 2) (\<lambda>a. Inr [snd (mixed_mul np a s)])
         else if component = ''beta''
         then bindE (unit 0) (\<lambda>b. Inr [snd (mixed_mul np (mixed_mul np b (float_of_bool (pol_mode p))) s)])
         else if component = ''mode'' then Inr [fmul (float_of_bool (pol_mode p)) s]
         else Inl (RuntimeError ''unsupported observation component''))"

definition observation :: "numpy \<Rightarrow> onnx_policy \<Rightarrow> pyfloat list result" where
  "observation np p =
     bindE (mapE (observe np p) (pol_obs_components p)) (\<lambda>parts. Inr (np_array np (concat parts)))"

text \<open>The loop that puts the scaled actions into the output order.\<close>

definition store_scaled :: "pyfloat list \<Rightarrow> nat \<times> int \<Rightarrow> unit policy" where
  "store_scaled scaled_original entry =
     assignA (\<lambda>p. bindE (py_index scaled_original (snd entry)) (\<lambda>v.
         if fst entry < length (pol_scaled_actions p) then Inr ((pol_scaled_actions p)[fst entry := v])
         else Inl (IndexError ''index out of bounds'')))
       (\<lambda>v p. p\<lparr>pol_scaled_actions := v\<rparr>)"

definition compute_action :: "numpy \<Rightarrow> pyfloat list policy" where
  "compute_action np =
     bindA (assignA (\<lambda>p. Inr (pol_cnt p + 1)) (\<lambda>v p. p\<lparr>pol_cnt := v\<rparr>)) (\<lambda>_.
     bindA (\<lambda>p. (bindE (observation np p) (pol_session p (pol_cnt p)), p)) (\<lambda>network_output.
     bindA (assignA (\<lambda>p. let raw = take (nat (pol_num_joint p)) (np_array np network_output)
         in np_set np (pol_actions p) (np_clip np raw (fneg (pol_action_clip p)) (pol_action_clip p)))
       (\<lambda>v p. p\<lparr>pol_actions := v\<rparr>)) (\<lambda>_.
     bindA (\<lambda>p. forA (store_scaled (np_scale np (pol_actions p) (pol_action_scale p)))
         (enumerate 0 (pol_output_indices p)) p) (\<lambda>_.
     bindA (assignA (\<lambda>p. np_set np (pol_last_last_last_actions p) (pol_last_last_actions p))
       (\<lambda>v p. p\<lparr>pol_last_last_last_actions := v\<rparr>)) (\<lambda>_.
     bindA (assignA (\<lambda>p. np_set np (pol_last_last_actions p) (pol_last_actions p))
       (\<lambda>v p. p\<lparr>pol_last_last_actions := v\<rparr>)) (\<lambda>_.
     bindA (assignA (\<lambda>p. np_set np (pol_last_actions p) (pol_actions p)) (\<lambda>v p. p\<lparr>pol_last_actions := v\<rparr>)) (\<lambda>_.
       (\<lambda>p. (Inr (pol_scaled_actions p), p)))))))))"

end
