(* ===== verification/Policy_Task.thy ===== *)
theory Policy_Task
  imports Policy Aux_Command Control_Command Robot_State Config_Loader
begin

text \<open>
  The policy processes (\<open>task_controller/main.py\<close> and \<open>joint_initializer/main.py\<close>, which runs the
  task controller's runner): a tick reads the robot state and the gamepad, runs the policy and
  publishes joint targets for the controller. What other processes do to the shared memory between
  two iterations is an argument.
\<close>

record task_args =
  ta_project_root :: "string option"
  ta_controller_config :: string
  ta_robot_name :: "string option"
  ta_policy_config_dir :: "string option"
  ta_control_hz :: pyfloat
  ta_rate_log_interval_s :: "pyfloat option"

text \<open>What \<open>main\<close> has set up when its loop starts, the policy's own state apart.\<close>

record task_setup =
  ts_robot_name :: string
  ts_can_ids :: "int list"
  ts_kp :: pyfloat
  ts_kd :: pyfloat
  ts_state_reader :: shm_obj
  ts_aux_reader :: shm_obj
  ts_command_writer :: shm_obj
  ts_period_s :: pyfloat

definition path_str :: "pypath \<Rightarrow> string" where
  "path_str p = (if pp_abs p then ''/'' else []) @
     concat (case pp_parts p of [] \<Rightarrow> [] | w # ws \<Rightarrow> w # map (\<lambda>v. ''/'' @ v) ws)"

definition controller_config_path :: "pypath \<Rightarrow> string \<Rightarrow> pypath" where
  "controller_config_path base v = (let path = path_of v in if pp_abs path then path else path_join base path)"

text \<open>\<open>a or b\<close> for an optional string.\<close>

definition str_or :: "string option \<Rightarrow> string \<Rightarrow> string" where
  "str_or a b = (case a of Some s \<Rightarrow> if s \<noteq> [] then s else b | None \<Rightarrow> b)"

section \<open>Starting\<close>

definition load_task ::
  "py_text \<Rightarrow> config_files \<Rightarrow> policy_fs \<Rightarrow> numpy \<Rightarrow> policy_ort \<Rightarrow> task_args \<Rightarrow>
   (RobotControllerConfig \<times> string \<times> onnx_policy \<times> pyfloat \<times> pyfloat) result" where
  "load_task T C F np ort args =
     bindE (project_root F (ta_project_root args)) (\<lambda>base.
     bindE (load_robot_controller_config T C (path_str (controller_config_path base (ta_controller_config args)))) (\<lambda>config.
     let robot_name = str_or (ta_robot_name args) (pl_robot_name (cfg_platform config)) in
     bindE (case map_of (pl_robots (cfg_platform config)) robot_name of
         Some a \<Rightarrow> Inr a | None \<Rightarrow> Inl (KeyError robot_name)) (\<lambda>robot_assets.
     bindE (resolve_policy_config_dir F base
         (str_or (ta_policy_config_dir args) (ra_policy_config_dir robot_assets)) robot_name) (\<lambda>policy_config_dir.
     bindE (load_policies T F np ort base policy_config_dir) (\<lambda>policies.
     bindE (py_index policies 0) (\<lambda>active_policy.
     bindE (load_yaml F (path_join (pol_directory active_policy) (path_of ''pd_config.yaml''))) (\<lambda>pd_config.
     bindE (bindE (py_getitem pd_config ''kp'') (py_float T)) (\<lambda>kp.
     bindE (bindE (py_getitem pd_config ''kd'') (py_float T)) (\<lambda>kd.
       Inr (config, robot_name, active_policy, kp, kd))))))))))"

definition start_task ::
  "py_text \<Rightarrow> config_files \<Rightarrow> policy_fs \<Rightarrow> numpy \<Rightarrow> policy_ort \<Rightarrow> task_args \<Rightarrow> (shm_os, task_setup \<times> onnx_policy) action" where
  "start_task T C F np ort args =
     bindA (liftA (load_task T C F np ort args)) (\<lambda>(config, robot_name, active_policy, kp, kd).
     bindA (RobotStateShm_open_reader (rc_name (sc_control_state (cfg_shm config)))) (\<lambda>control_state_reader.
     bindA (AuxCommandShm_open_reader (rc_name (sc_aux_command (cfg_shm config)))) (\<lambda>aux_reader.
     bindA (ControlCommandShm_open_writer (mc_name (sc_mit_command (cfg_shm config)))) (\<lambda>control_command_writer.
     bindA (liftA (fdiv (Fin 1) (ta_control_hz args))) (\<lambda>period_s.
     bindA (liftA (guardE (case ta_rate_log_interval_s args of Some s \<Rightarrow> \<not> flt s (Fin 0) | None \<Rightarrow> True)
         (ValueError ''--rate-log-interval-s must be >= 0''))) (\<lambda>_.
       retA (\<lparr>ts_robot_name = robot_name, ts_can_ids = mo_can_ids (ca_motors (cfg_can config)), ts_kp = kp, ts_kd = kd,
         ts_state_reader = control_state_reader, ts_aux_reader = aux_reader,
         ts_command_writer = control_command_writer, ts_period_s = period_s\<rparr>, active_policy)))))))"

section \<open>A tick\<close>

record tick_input =
  ti_dof_pos :: "pyfloat list"
  ti_dof_vel :: "pyfloat list"
  ti_quat_wxyz :: "pyfloat \<times> pyfloat \<times> pyfloat \<times> pyfloat"
  ti_gyro :: "pyfloat list"
  ti_lin_vel :: "pyfloat list"
  ti_ang_vel_cmd :: "pyfloat list"
  ti_mode :: bool

definition actuators_by_id :: "robot_state_c \<Rightarrow> int \<Rightarrow> actuator_state_c result" where
  "actuators_by_id control_state can_id =
     (case map_of (rev (map (\<lambda>item. (as_can_id item, item))
         (take (nat (rs_actuator_count control_state)) (rs_actuators control_state)))) can_id of
        Some item \<Rightarrow> Inr item | None \<Rightarrow> Inl (KeyError ''can_id''))"

text \<open>
  Reading the inputs; None while no state has been published. \<open>as_array\<close> is the conversion to the
  array type the process uses.
\<close>

definition read_inputs :: "(pyfloat list \<Rightarrow> pyfloat list) \<Rightarrow> task_setup \<Rightarrow> shm_os \<Rightarrow> tick_input option result" where
  "read_inputs as_array S os =
     bindE (RobotStateShm_read_relaxed (ts_state_reader S) os) (\<lambda>control_state.
       if rs_timestamp_ns control_state = 0 then Inr None
       else bindE (AuxCommandShm_read_relaxed (ts_aux_reader S) os) (\<lambda>aux_state.
         let buttons = mask_to_buttons (ac_button_mask aux_state) in
         bindE (mapE (actuators_by_id control_state) (ts_can_ids S)) (\<lambda>items.
         let imu = rs_imu control_state; q = is_quat_xyzw imu in
           Inr (Some \<lparr>ti_dof_pos = as_array (map as_position_rad items), ti_dof_vel = as_array (map as_velocity_rad_s items),
             ti_quat_wxyz = (q ! 3, q ! 0, q ! 1, q ! 2), ti_gyro = as_array (is_angular_velocity_rad_s imu),
             ti_lin_vel = ac_lin_vel_target aux_state, ti_ang_vel_cmd = ac_ang_vel_target aux_state,
             ti_mode = (map_of buttons ''a_button'' = Some True)\<rparr>))))"

text \<open>The joint angles; the task controller switches the policy's part off while A is not held.\<close>

definition compute_targets :: "bool \<Rightarrow> py_text \<Rightarrow> numpy \<Rightarrow> tick_input \<Rightarrow> pyfloat list policy" where
  "compute_targets gated T np inp =
     bindA (OnnxPolicy_set_state np (ti_dof_pos inp) (ti_dof_vel inp) (ti_quat_wxyz inp) (ti_gyro inp)) (\<lambda>_.
     bindA (set_commands np (ti_lin_vel inp ! 0) (ti_lin_vel inp ! 1) (ti_ang_vel_cmd inp ! 2) (ti_mode inp)) (\<lambda>_.
     bindA (compute_action np) (\<lambda>action p.
       (bindE (action_offset T np p (ti_dof_pos inp)) (\<lambda>offset.
          np_add np (if gated then np_gate np action (ti_mode inp) else action) offset), p))))"

definition make_targets :: "task_setup \<Rightarrow> pyfloat list \<Rightarrow> control_target list result" where
  "make_targets S q_target =
     mapE (\<lambda>(index, can_id). bindE (py_index q_target (int index)) (\<lambda>q.
         Inr \<lparr>ct_can_id = can_id, ct_q = q, ct_dq = Fin 0, ct_kp = ts_kp S, ct_kd = ts_kd S, ct_tau = Fin 0\<rparr>))
       (enumerate 0 (ts_can_ids S))"

text \<open>An iteration of the loop; the result tells whether it published.\<close>

definition policy_iteration ::
  "bool \<Rightarrow> (pyfloat list \<Rightarrow> pyfloat list) \<Rightarrow> py_text \<Rightarrow> numpy \<Rightarrow> task_setup \<Rightarrow> int \<Rightarrow> (onnx_policy \<times> shm_os, bool) action" where
  "policy_iteration gated as_array T np S time_ns = (\<lambda>(p, os).
     case read_inputs as_array S os of
       Inl e \<Rightarrow> (Inl e, (p, os))
     | Inr None \<Rightarrow> (Inr False, (p, os))
     | Inr (Some inp) \<Rightarrow>
         (case compute_targets gated T np inp p of
            (Inl e, p') \<Rightarrow> (Inl e, (p', os))
          | (Inr q_target, p') \<Rightarrow>
              (case bindA (liftA (make_targets S q_target))
                  (ControlCommandShm_write_targets time_ns (ts_command_writer S)) os of
                 (Inl e, os') \<Rightarrow> (Inl e, (p', os'))
               | (Inr _, os') \<Rightarrow> (Inr True, (p', os')))))"

definition task_iteration :: "py_text \<Rightarrow> numpy \<Rightarrow> task_setup \<Rightarrow> int \<Rightarrow> (onnx_policy \<times> shm_os, bool) action" where
  "task_iteration T np = policy_iteration True (np_array np) T np"

text \<open>The joint initializer keeps double precision arrays and does not wait for the A button.\<close>

definition joint_initializer_iteration :: "py_text \<Rightarrow> numpy \<Rightarrow> task_setup \<Rightarrow> int \<Rightarrow> (onnx_policy \<times> shm_os, bool) action" where
  "joint_initializer_iteration T np = policy_iteration False (\<lambda>xs. xs) T np"

section \<open>The process\<close>

text \<open>
  A schedule lists the iterations that happen while \<open>RUNNING\<close> holds: the effect of the other
  processes on the shared memory before it, and the clock when it would publish. The first loop
  waits for a state; it returns the iterations left.
\<close>

type_synonym schedule = "((shm_os \<Rightarrow> shm_os) \<times> int) list"

fun wait_for_state :: "shm_obj \<Rightarrow> schedule \<Rightarrow> (shm_os, schedule) action" where
  "wait_for_state reader [] os = (Inr [], os)"
| "wait_for_state reader ((others, _) # rest) os =
     (case RobotStateShm_read_relaxed reader (others os) of
        Inl e \<Rightarrow> (Inl e, others os)
      | Inr control_state \<Rightarrow>
          if rs_timestamp_ns control_state \<noteq> 0 then (Inr rest, others os) else wait_for_state reader rest (others os))"

definition run_loop :: "(int \<Rightarrow> (onnx_policy \<times> shm_os, bool) action) \<Rightarrow> schedule \<Rightarrow> (onnx_policy \<times> shm_os, unit) action" where
  "run_loop iteration =
     forA (\<lambda>(others, time_ns) s. bindA (iteration time_ns) (\<lambda>_. retA ()) (fst s, others (snd s)))"

definition close_task :: "task_setup \<Rightarrow> task_setup" where
  "close_task S = S\<lparr>ts_state_reader := segment_close (ts_state_reader S), ts_aux_reader := segment_close (ts_aux_reader S),
     ts_command_writer := segment_close (ts_command_writer S)\<rparr>"

definition policy_main ::
  "(task_setup \<Rightarrow> int \<Rightarrow> (onnx_policy \<times> shm_os, bool) action) \<Rightarrow> schedule \<Rightarrow> (shm_os, task_setup \<times> onnx_policy) action \<Rightarrow>
   shm_os \<Rightarrow> unit result \<times> task_setup option \<times> shm_os" where
  "policy_main iteration sched start os =
     (case start os of
        (Inl e, os1) \<Rightarrow> (Inl e, None, os1)
      | (Inr (S, p), os1) \<Rightarrow>
          (case wait_for_state (ts_state_reader S) sched os1 of
             (Inl e, os2) \<Rightarrow> (Inl e, Some (close_task S), os2)
           | (Inr rest, os2) \<Rightarrow>
               (case run_loop (iteration S) rest (p, os2) of
                  (r, (_, os3)) \<Rightarrow> (r, Some (close_task S), os3))))"

definition task_main where
  "task_main T C F np ort args sched = policy_main (task_iteration T np) sched (start_task T C F np ort args)"

definition joint_initializer_main where
  "joint_initializer_main T C F np ort args sched =
     policy_main (joint_initializer_iteration T np) sched (start_task T C F np ort args)"

end
