(* ===== verification/Policy_Facts.thy ===== *)
theory Policy_Facts
  imports Policy_Task Spg_Facts
begin

text \<open>
  What the policy processes publish. The laws of NumPy the runner relies on are the locale
  \<open>numpy_lib\<close>; within it a tick is followed step by step.
\<close>

section \<open>Single precision arithmetic\<close>

fun add32 :: "pyfloat \<Rightarrow> pyfloat \<Rightarrow> pyfloat" where
  "add32 (Fin x) (Fin y) = single (Fin (x + y))"
| "add32 a b = fadd a b"

fun mul32 :: "pyfloat \<Rightarrow> pyfloat \<Rightarrow> pyfloat" where
  "mul32 (Fin x) (Fin y) = single (Fin (x * y))"
| "mul32 a b = fmul a b"

definition clip32 :: "pyfloat \<Rightarrow> pyfloat \<Rightarrow> pyfloat \<Rightarrow> pyfloat" where
  "clip32 lo hi x = (if x = NaN then NaN else if flt x lo then lo else if flt hi x then hi else x)"

locale numpy_lib =
  fixes np :: numpy
  assumes zeros: "0 \<le> n \<Longrightarrow> np_zeros np n = Inr (replicate (nat n) (Fin 0))"
    and array: "np_array np xs = map single xs"
    and set: "length a = length b \<Longrightarrow> np_set np a b = Inr (map single b)"
    and add: "length a = length b \<Longrightarrow> np_add np a b = Inr (map2 add32 a b)"
    and sub: "length a = length b \<Longrightarrow> np_sub np a b = Inr (map2 (\<lambda>x y. add32 x (fneg y)) a b)"
    and scale: "np_scale np xs s = map (\<lambda>x. mul32 x (single s)) xs"
    and gate: "np_gate np xs m = map (\<lambda>x. mul32 x (float_of_bool m)) xs"
    and clip: "np_clip np xs lo hi = map (clip32 (single lo) (single hi)) xs"
    and matvec: "length (np_matvec np rows v) = length rows"

text \<open>An instance: NumPy on IEEE single precision numbers.\<close>

definition broadcast :: "nat \<Rightarrow> pyfloat list \<Rightarrow> pyfloat list result" where
  "broadcast n xs =
     (if length xs = n then Inr xs else if length xs = 1 then Inr (replicate n (hd xs))
      else Inl (ValueError ''could not broadcast input array''))"

definition elementwise :: "(pyfloat \<Rightarrow> pyfloat \<Rightarrow> pyfloat) \<Rightarrow> pyfloat list \<Rightarrow> pyfloat list \<Rightarrow> pyfloat list result" where
  "elementwise f a b =
     (let n = (if length a = 1 then length b else length a)
      in bindE (broadcast n a) (\<lambda>a. bindE (broadcast n b) (\<lambda>b. Inr (map2 f a b))))"

definition numpy_ieee :: numpy where
  "numpy_ieee = \<lparr>
     np_zeros = (\<lambda>n. if n < 0 then Inl (ValueError ''negative dimensions are not allowed'') else Inr (replicate (nat n) (Fin 0))),
     np_array = map single,
     np_set = (\<lambda>a b. bindE (broadcast (length a) b) (\<lambda>b. Inr (map single b))),
     np_add = elementwise add32,
     np_sub = elementwise (\<lambda>x y. add32 x (fneg y)),
     np_scale = (\<lambda>xs s. map (\<lambda>x. mul32 x (single s)) xs),
     np_smul = (\<lambda>x s. mul32 x (single s)),
     np_gate = (\<lambda>xs b. map (\<lambda>x. mul32 x (float_of_bool b)) xs),
     np_clip = (\<lambda>xs lo hi. map (clip32 (single lo) (single hi)) xs),
     np_matvec = (\<lambda>rows v. map (\<lambda>row. foldl add32 (Fin 0) (map2 mul32 row v)) rows)\<rparr>"

lemma elementwise_same: "length a = length b \<Longrightarrow> elementwise f a b = Inr (map2 f a b)"
  by (auto simp: elementwise_def broadcast_def Let_def)

interpretation ieee: numpy_lib numpy_ieee
  by unfold_locales (simp_all add: numpy_ieee_def broadcast_def elementwise_same)

section \<open>Sequences\<close>

definition index_ok :: "nat \<Rightarrow> int \<Rightarrow> bool" where
  "index_ok n i \<longleftrightarrow> - int n \<le> i \<and> i < int n"

lemma py_index_ok:
  assumes "index_ok (length xs) i"
  obtains x where "py_index xs i = Inr x" and "x \<in> set xs"
proof (cases "0 \<le> i")
  case True
  then show thesis using assms by (intro that [of "xs ! nat i"]) (auto simp: py_index_def index_ok_def)
next
  case False
  then show thesis using assms
    by (intro that [of "xs ! nat (int (length xs) + i)"]) (auto simp: py_index_def index_ok_def)
qed

lemma py_index_nth: "i < length xs \<Longrightarrow> py_index xs (int i) = Inr (xs ! i)"
  by (simp add: py_index_def)

lemma mapE_index_ok:
  assumes "list_all (index_ok (length xs)) ids"
  obtains ys where "mapE (py_index xs) ids = Inr ys" and "length ys = length ids"
proof -
  have "mapE (py_index xs) ids = Inr (map (\<lambda>i. case py_index xs i of Inr x \<Rightarrow> x | Inl _ \<Rightarrow> undefined) ids)"
    using assms by (intro mapE_all_Inr) (auto simp: list_all_iff elim!: py_index_ok)
  then show thesis using that by (metis length_map)
qed

lemma mapE_total: "(\<And>x. x \<in> set xs \<Longrightarrow> \<exists>y. f x = Inr y) \<Longrightarrow> \<exists>ys. mapE f xs = Inr ys"
  by (induction xs) (auto, metis bindE_Inr)

lemma assignA_Inr: "rhs s = Inr v \<Longrightarrow> bindA (assignA rhs store) f s = f () (store v s)"
  by (simp add: bindA_def assignA_def)

section \<open>Gravity\<close>

text \<open>A quaternion of finite numbers that is not tiny.\<close>

definition quat_usable :: "pyfloat \<times> pyfloat \<times> pyfloat \<times> pyfloat \<Rightarrow> bool" where
  "quat_usable q \<longleftrightarrow> (case q of (w, x, y, z) \<Rightarrow>
     list_all isfinite [w, x, y, z] \<and> list_ex (\<lambda>c. fle (Fin (1/4)) (fabs c)) [w, x, y, z])"

lemma is_double_16: "is_double (1/16)" "is_double (1/4)"
  using dyadicI [of "1/16" 1 "-4" 53 "-1074"] dyadicI [of "1/4" 1 "-2" 53 "-1074"] fbound_ge_100
  by (auto simp: is_double_def power_int_def power_one_over)

lemma square_at_least: "at_least 0 (fmul (Fin r) (Fin r))" "1/4 \<le> \<bar>r\<bar> \<Longrightarrow> at_least (1/16) (fmul (Fin r) (Fin r))"
proof -
  show "at_least 0 (fmul (Fin r) (Fin r))" using fround_at_least [OF is_double_zero, of "r * r"] by simp
  assume "1/4 \<le> \<bar>r\<bar>"
  then have "1/4 * (1/4) \<le> \<bar>r\<bar> * \<bar>r\<bar>" by (intro mult_mono) auto
  then show "at_least (1/16) (fmul (Fin r) (Fin r))" using fround_at_least [OF is_double_16(1), of "r * r"] by simp
qed

lemma sum4_at_least:
  assumes "\<And>v. v \<in> {a, b, c, d} \<Longrightarrow> at_least 0 v" and "\<exists>v \<in> {a, b, c, d}. at_least (1/16) v"
  shows "at_least (1/16) (fadd (fadd (fadd a b) c) d)"
proof -
  have s: "at_least (1/16) u \<Longrightarrow> at_least 0 v \<Longrightarrow> at_least (1/16) (fadd u v)"
      "at_least 0 u \<Longrightarrow> at_least (1/16) v \<Longrightarrow> at_least (1/16) (fadd u v)"
      "at_least 0 u \<Longrightarrow> at_least 0 v \<Longrightarrow> at_least 0 (fadd u v)" for u v
    using fadd_at_least [OF is_double_16(1), of _ u _ v] fadd_at_least [OF is_double_zero, of _ u _ v] by force+
  have nn: "at_least 0 a" "at_least 0 b" "at_least 0 c" "at_least 0 d" using assms(1) by auto
  from assms(2) consider "at_least (1/16) a" | "at_least (1/16) b" | "at_least (1/16) c" | "at_least (1/16) d" by auto
  then show ?thesis
    by cases (rule s(1) [OF s(1) [OF s(1)]] s(1) [OF s(1) [OF s(2)]] s(1) [OF s(2) [OF s(3)]] s(2) [OF s(3) [OF s(3)]],
      (assumption | rule nn)+)+
qed

lemma sqrt_at_least: "at_least (1/16) v \<Longrightarrow> \<exists>n. math_sqrt v = Inr n \<and> at_least (1/4) n"
proof -
  assume "at_least (1/16) v"
  then consider "v = PInf" | r where "v = Fin r" "1/16 \<le> r" by (auto simp: at_least_def)
  then show ?thesis
  proof cases
    case 2
    have "sqrt ((1/4)\<^sup>2) \<le> sqrt r" using 2(2) by (intro real_sqrt_le_mono) (simp add: power2_eq_square)
    then show ?thesis using 2 fround_at_least [OF is_double_16(2), of "sqrt r"] by simp
  qed (simp add: at_least_def)
qed

lemma fdiv_at_least: "at_least (1/4) n \<Longrightarrow> \<exists>q. fdiv a n = Inr q"
  by (cases a) (auto simp: at_least_def)

section \<open>A policy that fits the robot\<close>

definition SUPPORTED_COMPONENTS :: "string list" where
  "SUPPORTED_COMPONENTS =
     [''base_ang_vel_'', ''projected_gravity'', ''lin_vel_x_commands_'', ''lin_vel_y_commands_'', ''ang_vel_z_commands_'',
      ''dof_pos'', ''delta_dof_pos'', ''dof_vel'', ''actions'', ''last_actions'', ''last_last_actions'',
      ''last_last_last_actions'', ''alpha'', ''beta'', ''mode'']"

definition joint_arrays :: "onnx_policy \<Rightarrow> pyfloat list list" where
  "joint_arrays p = [pol_default_joint_angle p, pol_dof_pos p, pol_dof_vel p, pol_delta_dof_pos p, pol_actions p,
     pol_scaled_actions p, pol_last_actions p, pol_last_last_actions p, pol_last_last_last_actions p]"

definition vec_arrays :: "onnx_policy \<Rightarrow> pyfloat list list" where
  "vec_arrays p = [pol_base_ang_vel p, pol_projected_gravity p, pol_commands p]"

text \<open>
  The arrays have the right sizes for \<open>n\<close> joints and the indices are in range; the network answers with
  enough numbers, none of them NaN; and scaled actions are at most \<open>B\<close>.
\<close>

definition policy_fits :: "nat \<Rightarrow> onnx_policy \<Rightarrow> bool" where
  "policy_fits n p \<longleftrightarrow>
     pol_num_joint p = int n \<and> list_all (\<lambda>xs. length xs = n) (joint_arrays p) \<and>
     list_all (\<lambda>xs. length xs = 3) (vec_arrays p) \<and>
     length (pol_input_indices p) = n \<and> list_all (index_ok n) (pol_input_indices p) \<and>
     length (pol_output_indices p) \<le> n \<and> list_all (index_ok n) (pol_output_indices p) \<and>
     set (pol_obs_components p) \<subseteq> set SUPPORTED_COMPONENTS"

definition network_answers :: "nat \<Rightarrow> onnx_policy \<Rightarrow> bool" where
  "network_answers n p \<longleftrightarrow> (\<forall>k obs. \<exists>out. pol_session p k obs = Inr out \<and> n \<le> length out \<and> NaN \<notin> set out)"

definition actions_bounded :: "real \<Rightarrow> onnx_policy \<Rightarrow> bool" where
  "actions_bounded B p \<longleftrightarrow> is_single B \<and> list_all (bounded_by B) (pol_scaled_actions p) \<and>
     (\<exists>C sc. single (pol_action_clip p) = Fin C \<and> 0 \<le> C \<and> single (pol_action_scale p) = Fin sc \<and> C * \<bar>sc\<bar> \<le> B)"

text \<open>What a tick does not change.\<close>

definition same_setup :: "onnx_policy \<Rightarrow> onnx_policy \<Rightarrow> bool" where
  "same_setup p p' \<longleftrightarrow>
     pol_config p' = pol_config p \<and> pol_session p' = pol_session p \<and>
     pol_action_clip p' = pol_action_clip p \<and> pol_action_scale p' = pol_action_scale p"

lemma same_setup_refl [simp]: "same_setup p p"
  by (simp add: same_setup_def)

lemma clip32_bounded: "x \<noteq> NaN \<Longrightarrow> 0 \<le> C \<Longrightarrow> bounded_by C (clip32 (Fin (- C)) (Fin C) x)"
  by (cases x) (auto simp: clip32_def bounded_by_def)

lemma single_NaN: "single v = NaN \<longleftrightarrow> v = NaN"
  by (cases v) (auto simp: to_format_def Let_def)

lemma mul32_bounded:
  assumes "bounded_by C x" and "C * \<bar>y\<bar> \<le> B" and "is_single B"
  shows "bounded_by B (mul32 x (Fin y))"
proof -
  obtain r where r: "x = Fin r" "\<bar>r\<bar> \<le> C" using assms(1) by (auto simp: bounded_by_def)
  have "\<bar>r * y\<bar> \<le> C * \<bar>y\<bar>" using r(2) by (simp add: abs_mult mult_right_mono)
  then have "\<bar>r * y\<bar> \<le> B" using assms(2) by linarith
  then show ?thesis using single_bounded [OF assms(3)] by (simp add: r(1) del: single.simps)
qed

lemma gate_bounded:
  assumes "bounded_by B v" and "is_single B"
  shows "bounded_by B (mul32 v (float_of_bool m))"
proof -
  have "0 \<le> B" using assms(1) by (auto simp: bounded_by_def)
  then show ?thesis
    using mul32_bounded [OF assms(1) _ assms(2), of 1] mul32_bounded [OF assms(1) _ assms(2), of 0]
    by (simp add: float_of_bool_def)
qed

lemma gated_off: "bounded_by B v \<Longrightarrow> mul32 v (Fin 0) = Fin 0"
  using single_float32 [of "Fin 0"] by (auto simp: bounded_by_def simp del: single.simps)

lemma add32_zero: "add32 (Fin 0) (single v) = single v"
  using single_float32 [OF is_float32_single, of v] by (cases "single v") (simp_all del: single.simps)

lemma add32_bounded:
  assumes "bounded_by B x" and "bounded_by (P - B) y" and "is_single P"
  shows "bounded_by P (add32 x y)"
proof -
  obtain r s where r: "x = Fin r" "\<bar>r\<bar> \<le> B" "y = Fin s" "\<bar>s\<bar> \<le> P - B"
    using assms(1,2) by (auto simp: bounded_by_def)
  then have "\<bar>r + s\<bar> \<le> P" by linarith
  then show ?thesis using single_bounded [OF assms(3)] by (simp add: r(1,3) del: single.simps)
qed

text \<open>The loop over the output order keeps the bound.\<close>

lemma store_scaled_loop:
  assumes "list_all (bounded_by B) so" and "list_all (index_ok (length so)) ids"
    and "k + length ids \<le> length (pol_scaled_actions p)" and "list_all (bounded_by B) (pol_scaled_actions p)"
  shows "\<exists>ys. forA (store_scaled so) (enumerate k ids) p = (Inr (), p\<lparr>pol_scaled_actions := ys\<rparr>) \<and>
    length ys = length (pol_scaled_actions p) \<and> list_all (bounded_by B) ys"
  using assms(2-4)
proof (induction ids arbitrary: k p)
  case (Cons i ids)
  obtain v where v: "py_index so i = Inr v" "v \<in> set so" using Cons.prems(1) py_index_ok [of so i] by auto
  define p1 where "p1 = p\<lparr>pol_scaled_actions := (pol_scaled_actions p)[k := v]\<rparr>"
  have st: "store_scaled so (k, i) p = (Inr (), p1)"
    using v(1) Cons.prems(2) by (simp add: store_scaled_def assignA_def p1_def)
  have b: "list_all (bounded_by B) (pol_scaled_actions p1)"
    using Cons.prems(3) v(2) assms(1) set_update_subset_insert [of "pol_scaled_actions p" k v]
    by (auto simp: p1_def list_all_iff)
  have "\<exists>ys. forA (store_scaled so) (enumerate (Suc k) ids) p1 = (Inr (), p1\<lparr>pol_scaled_actions := ys\<rparr>) \<and>
      length ys = length (pol_scaled_actions p1) \<and> list_all (bounded_by B) ys"
    using Cons.prems(1,2) b by (intro Cons.IH) (auto simp: p1_def)
  then show ?case using st by (auto simp: bindA_def p1_def)
next
  case Nil
  then show ?case by (intro exI [of _ "pol_scaled_actions p"]) simp
qed

context numpy_lib
begin

lemma gravity_ok:
  assumes "quat_usable q"
  obtains g where "quat_to_projected_gravity np q = Inr g" and "length g = 3"
proof -
  obtain w x y z where q: "q = (w, x, y, z)" by (cases q)
  from assms q obtain a b c d where f: "w = Fin a" "x = Fin b" "y = Fin c" "z = Fin d"
    by (auto simp: quat_usable_def elim!: isfinite.elims)
  have "at_least (1/16) (fadd (fadd (fadd (fmul w w) (fmul x x)) (fmul y y)) (fmul z z))"
    using assms q f square_at_least by (intro sum4_at_least) (auto simp: quat_usable_def simp del: fmul.simps)
  from sqrt_at_least [OF this] obtain nrm where n:
    "math_sqrt (fadd (fadd (fadd (fmul w w) (fmul x x)) (fmul y y)) (fmul z z)) = Inr nrm" "at_least (1/4) nrm" by blast
  obtain w' x' y' z' where "fdiv w nrm = Inr w'" "fdiv x nrm = Inr x'" "fdiv y nrm = Inr y'" "fdiv z nrm = Inr z'"
    using fdiv_at_least [OF n(2)] by meson
  moreover have "index_ok (length (np_matvec np [r1, r2, r3] v)) i" if "i \<in> set [0, 1, 2]" for i r1 r2 r3 v
    using that by (auto simp: matvec index_ok_def)
  then have "\<exists>g. mapE (py_index (np_matvec np [r1, r2, r3] v)) [0, 1, 2] = Inr g \<and> length g = 3" for r1 r2 r3 v
    using mapE_index_ok [of "np_matvec np [r1, r2, r3] v" "[0, 1, 2]"] by (metis length_Cons list.size(3) list_all_iff numeral_3_eq_3)
  ultimately show thesis
    using that n(1) by (fastforce simp: quat_to_projected_gravity_def q Let_def simp del: mapE.simps)
qed

lemma gather_ok:
  assumes "policy_fits n p" and "length xs = n" and "length old = n"
  obtains ys where "gather np old xs p = Inr ys" and "length ys = n"
proof -
  have ok: "list_all (index_ok (length xs)) (pol_input_indices p)" "length (pol_input_indices p) = n"
    using assms(1,2) by (simp_all add: policy_fits_def)
  obtain ys where "mapE (py_index xs) (pol_input_indices p) = Inr ys" "length ys = n"
    using mapE_index_ok [OF ok(1)] ok(2) by metis
  then show thesis using assms(3) by (intro that [of "map single (map single ys)"]) (simp_all add: gather_def array set)
qed

lemma OnnxPolicy_set_state_ok:
  assumes "policy_fits n p" and "length dof_pos = n" and "length dof_vel = n" and "quat_usable q" and "length gyro = 3"
  obtains p' where "OnnxPolicy_set_state np dof_pos dof_vel q gyro p = (Inr (), p')" and "policy_fits n p'" and "same_setup p p'"
    and "pol_scaled_actions p' = pol_scaled_actions p" and "pol_last_actions p' = pol_last_actions p"
    and "pol_last_last_actions p' = pol_last_last_actions p" and "pol_cnt p' = pol_cnt p"
proof -
  note fits = assms(1) [unfolded policy_fits_def joint_arrays_def vec_arrays_def, simplified]
  obtain xs where xs: "gather np (pol_dof_pos p) dof_pos p = Inr xs" "length xs = n"
    by (rule gather_ok [OF assms(1,2), of "pol_dof_pos p"]) (use fits in auto)
  define p1 where "p1 = p\<lparr>pol_dof_pos := xs\<rparr>"
  have f1: "policy_fits n p1" using assms(1) xs by (simp add: p1_def policy_fits_def joint_arrays_def vec_arrays_def)
  obtain vs where vs: "gather np (pol_dof_vel p1) dof_vel p1 = Inr vs" "length vs = n"
    by (rule gather_ok [OF f1 assms(3), of "pol_dof_vel p1"]) (use fits in \<open>auto simp: p1_def\<close>)
  obtain g where g: "quat_to_projected_gravity np q = Inr g" "length g = 3" by (rule gravity_ok [OF assms(4)])
  define p2 where "p2 = p1\<lparr>pol_dof_vel := vs\<rparr>"
  define d where "d = map single (if pol_obs_type p2 = 1 then pol_dof_pos p2
    else map2 (\<lambda>x y. add32 x (fneg y)) (pol_dof_pos p2) (pol_default_joint_angle p2))"
  have d: "(if pol_obs_type p2 = 1 then np_set np (pol_delta_dof_pos p2) (pol_dof_pos p2)
      else bindE (np_sub np (pol_dof_pos p2) (pol_default_joint_angle p2)) (np_set np (pol_delta_dof_pos p2))) = Inr d"
    using fits xs by (simp add: d_def p2_def p1_def set sub)
  have ld: "length d = n" using fits xs by (simp add: d_def p2_def p1_def)
  define p' where "p' = p2\<lparr>pol_delta_dof_pos := d, pol_projected_gravity := g, pol_base_ang_vel := map single gyro\<rparr>"
  have "OnnxPolicy_set_state np dof_pos dof_vel q gyro p = (Inr (), p')"
    using xs(1) vs(1) d g(1) fits assms(5)
    by (simp add: OnnxPolicy_set_state_def assignA_Inr p1_def [symmetric] p2_def [symmetric])
      (simp add: assignA_def set p'_def p2_def p1_def)
  then show thesis
    by (rule that) (use assms(1,5) xs vs g ld in
      \<open>auto simp: p'_def p2_def p1_def policy_fits_def joint_arrays_def vec_arrays_def same_setup_def\<close>)
qed

lemma set_commands_ok:
  assumes "policy_fits n p"
  obtains p' where "set_commands np x y yaw mode p = (Inr (), p')" and "policy_fits n p'" and "same_setup p p'"
    and "pol_scaled_actions p' = pol_scaled_actions p" and "pol_last_actions p' = pol_last_actions p"
    and "pol_last_last_actions p' = pol_last_last_actions p"
proof -
  have "length (pol_commands p) = 3" using assms by (simp add: policy_fits_def vec_arrays_def)
  then have "set_commands np x y yaw mode p =
      (Inr (), p\<lparr>pol_commands := map single (map single [x, y, yaw]), pol_mode := mode\<rparr>)"
    by (simp add: set_commands_def assignA_def bindA_def set array)
  then show thesis
    by (rule that) (use assms in \<open>auto simp: policy_fits_def joint_arrays_def vec_arrays_def same_setup_def\<close>)
qed

lemma observation_ok: "policy_fits n p \<Longrightarrow> \<exists>obs. observation np p = Inr obs"
proof -
  assume p: "policy_fits n p"
  then have v: "length (pol_commands p) = 3" "length (pol_projected_gravity p) = 3"
    by (simp_all add: policy_fits_def vec_arrays_def)
  have "\<exists>y. observe np p c = Inr y" if "c \<in> set (pol_obs_components p)" for c
  proof -
    have "c \<in> set SUPPORTED_COMPONENTS" using that p by (auto simp: policy_fits_def)
    then show ?thesis using v by (auto simp: SUPPORTED_COMPONENTS_def observe_def Let_def py_index_def)
  qed
  from mapE_total [of "pol_obs_components p" "observe np p", OF this] show ?thesis
    by (auto simp: observation_def)
qed

lemma compute_action_ok:
  assumes "policy_fits n p" and "network_answers n p" and "actions_bounded B p"
  obtains p' where "compute_action np p = (Inr (pol_scaled_actions p'), p')" and "policy_fits n p'" and "same_setup p p'"
    and "list_all (bounded_by B) (pol_scaled_actions p')" and "pol_last_actions p' = pol_actions p'"
    and "pol_last_last_actions p' = map single (pol_last_actions p)"
    and "pol_last_last_last_actions p' = map single (pol_last_last_actions p)"
proof -
  note fits = assms(1) [unfolded policy_fits_def joint_arrays_def vec_arrays_def, simplified]
  define p1 where "p1 = p\<lparr>pol_cnt := pol_cnt p + 1\<rparr>"
  have f1: "policy_fits n p1" using assms(1) by (simp add: p1_def policy_fits_def joint_arrays_def vec_arrays_def)
  obtain obs where obs: "observation np p1 = Inr obs" using observation_ok [OF f1] by blast
  obtain out where out: "pol_session p (pol_cnt p1) obs = Inr out" "n \<le> length out" "NaN \<notin> set out"
    using assms(2) unfolding network_answers_def by blast
  obtain C sc where C: "single (pol_action_clip p) = Fin C" "0 \<le> C" "single (pol_action_scale p) = Fin sc" "C * \<bar>sc\<bar> \<le> B"
      "is_single B" "list_all (bounded_by B) (pol_scaled_actions p)"
    using assms(3) unfolding actions_bounded_def by blast
  define raw where "raw = take n (map single out)"
  define act where "act = map single (map (clip32 (Fin (- C)) (Fin C)) raw)"
  define p2 where "p2 = p1\<lparr>pol_actions := act\<rparr>"
  define so where "so = map (\<lambda>x. mul32 x (Fin sc)) act"
  have "NaN \<notin> set (map single out)" using out(3) single_NaN by (metis imageE list.set_map)
  then have raw: "length raw = n" "NaN \<notin> set raw"
    using out(2) unfolding raw_def by (simp, blast dest: in_set_takeD)
  have "is_single C" using C(1) is_float32_single [of "pol_action_clip p"] by (simp add: is_float32_def)
  have "list_all (bounded_by C) act"
    using raw(2) clip32_bounded [OF _ C(2)] single_bounded [OF \<open>is_single C\<close>]
    by (auto simp: act_def list_all_iff bounded_by_def simp del: single.simps)
      (metis bounded_by_def)
  then have so: "list_all (bounded_by B) so" "length so = n"
    using mul32_bounded [OF _ C(4,5)] raw(1) by (auto simp: so_def list_all_iff act_def)
  obtain ys where ys: "forA (store_scaled so) (enumerate 0 (pol_output_indices p2)) p2 = (Inr (), p2\<lparr>pol_scaled_actions := ys\<rparr>)"
      "length ys = n" "list_all (bounded_by B) ys"
    using store_scaled_loop [OF so(1), of "pol_output_indices p2" 0 p2] so(2) C(6) fits by (auto simp: p2_def p1_def)
  define p' where "p' = p2\<lparr>pol_scaled_actions := ys, pol_last_last_last_actions := map single (pol_last_last_actions p),
    pol_last_last_actions := map single (pol_last_actions p), pol_last_actions := act\<rparr>"
  have "single x = x" if "x \<in> set act" for x using that by (auto simp: act_def)
  then have "map single act = act" by (rule map_idI)
  have e2: "np_set np (pol_actions p1) (np_clip np (take (nat (pol_num_joint p1)) (np_array np out))
      (fneg (pol_action_clip p1)) (pol_action_clip p1)) = Inr act"
    using fits raw(1) C(1) by (simp add: p1_def array clip single_fneg raw_def [symmetric] set act_def [symmetric])
      (simp add: act_def)
  have sc: "np_scale np act (pol_action_scale p2) = so" by (simp add: p2_def p1_def scale C(3) so_def)
  have e1: "bindE (observation np p1) (pol_session p1 (pol_cnt p1)) = Inr out" using obs out(1) by (simp add: p1_def)
  have sel: "pol_actions p2 = act" "pol_last_actions p2 = pol_last_actions p" "length act = n"
      "pol_last_last_actions p2 = pol_last_last_actions p" "length (pol_last_last_actions p) = n"
      "length (pol_last_actions p) = n" "length (pol_last_last_last_actions p2) = n"
    using fits raw(1) by (simp_all add: p2_def p1_def act_def)
  have "compute_action np p = (Inr (pol_scaled_actions p'), p')"
    by (simp add: compute_action_def bindA_def assignA_def Let_def p1_def [symmetric] e1 e2 p2_def [symmetric] sc ys(1) sel set
        \<open>map single act = act\<close> p'_def)
  then show thesis
    by (rule that) (use assms(1) raw(1) ys in
      \<open>auto simp: p'_def p2_def p1_def act_def policy_fits_def joint_arrays_def vec_arrays_def same_setup_def\<close>)
qed

text \<open>The joint angles of a tick: near the defaults, and the defaults themselves when gated off.\<close>

lemma compute_targets_ok:
  assumes "policy_fits n p" and "network_answers n p" and "actions_bounded B p"
    and "length (ti_dof_pos inp) = n" and "length (ti_dof_vel inp) = n" and "quat_usable (ti_quat_wxyz inp)"
    and "length (ti_gyro inp) = 3" and "n = length ds"
    and "bindE (py_getitem (pol_config p) ''default_joint_angle'') (config_floats T) = Inr (map Fin ds)"
    and "is_single P" and "\<forall>d \<in> set ds. bounded_by (P - B) (single (Fin d))"
  obtains q p' where "compute_targets gated T np inp p = (Inr q, p')" and "length q = n" and "list_all (bounded_by P) q"
    and "gated \<longrightarrow> \<not> ti_mode inp \<longrightarrow> q = map (\<lambda>d. single (Fin d)) ds" and "policy_fits n p'" and "network_answers n p'"
    and "actions_bounded B p'" and "pol_config p' = pol_config p" and "pol_last_actions p' = pol_actions p'"
    and "pol_last_last_actions p' = map single (pol_last_actions p)"
    and "pol_last_last_last_actions p' = map single (pol_last_last_actions p)"
proof -
  obtain p1 where p1: "OnnxPolicy_set_state np (ti_dof_pos inp) (ti_dof_vel inp) (ti_quat_wxyz inp) (ti_gyro inp) p = (Inr (), p1)"
      "policy_fits n p1" "same_setup p p1" "pol_scaled_actions p1 = pol_scaled_actions p"
      "pol_last_actions p1 = pol_last_actions p" "pol_last_last_actions p1 = pol_last_last_actions p"
    by (rule OnnxPolicy_set_state_ok [OF assms(1,4-7)])
  obtain p2 where p2: "set_commands np (ti_lin_vel inp ! 0) (ti_lin_vel inp ! 1) (ti_ang_vel_cmd inp ! 2) (ti_mode inp) p1 = (Inr (), p2)"
      "policy_fits n p2" "same_setup p1 p2" "pol_scaled_actions p2 = pol_scaled_actions p1"
      "pol_last_actions p2 = pol_last_actions p1" "pol_last_last_actions p2 = pol_last_last_actions p1"
    by (rule set_commands_ok [OF p1(2)])
  have carry: "network_answers n p2" "actions_bounded B p2"
    using assms(2,3) p1(3,4) p2(3,4) by (simp_all add: network_answers_def actions_bounded_def same_setup_def)
  obtain p3 where p3: "compute_action np p2 = (Inr (pol_scaled_actions p3), p3)" "policy_fits n p3" "same_setup p2 p3"
      "list_all (bounded_by B) (pol_scaled_actions p3)" "pol_last_actions p3 = pol_actions p3"
      "pol_last_last_actions p3 = map single (pol_last_actions p2)"
      "pol_last_last_last_actions p3 = map single (pol_last_last_actions p2)"
    by (rule compute_action_ok [OF p2(2) carry])
  have cfg: "pol_config p3 = pol_config p" using p1(3) p2(3) p3(3) by (simp add: same_setup_def)
  have len: "length (pol_scaled_actions p3) = n" using p3(2) by (simp add: policy_fits_def joint_arrays_def)
  define offs where "offs = map (\<lambda>d. single (Fin d)) ds"
  have off: "action_offset T np p3 (ti_dof_pos inp) = Inr offs"
    using assms(4,8,9) cfg by (simp add: action_offset_def array offs_def comp_def del: single.simps)
  define act where "act = (if gated then np_gate np (pol_scaled_actions p3) (ti_mode inp) else pol_scaled_actions p3)"
  have lact: "length act = n" using len by (simp add: act_def gate)
  define q where "q = map2 add32 act offs"
  have act_b: "list_all (bounded_by B) act"
    using p3(4) gate_bounded assms(3) by (auto simp: act_def gate list_all_iff actions_bounded_def)
  have "bounded_by P x" if "x \<in> set q" for x
  proof -
    from that obtain a d where "x = add32 a d" and "a \<in> set act" "d \<in> set offs"
      unfolding q_def by (auto dest: set_zip_leftD set_zip_rightD)
    moreover from this have "bounded_by B a" "bounded_by (P - B) d"
      using act_b assms(11) by (auto simp: offs_def list_all_iff simp del: single.simps)
    ultimately show ?thesis using assms(10) by (simp add: add32_bounded)
  qed
  then have q_b: "list_all (bounded_by P) q" by (simp add: list_all_iff)
  have "act = replicate n (Fin 0)" if "gated" "\<not> ti_mode inp"
    using that p3(4) len gated_off
    by (intro replicate_eqI) (auto simp: act_def gate float_of_bool_def list_all_iff)
  then have "q = offs" if "gated" "\<not> ti_mode inp"
    using that assms(8) by (intro nth_equalityI) (simp_all add: q_def offs_def add32_zero del: single.simps)
  moreover have "compute_targets gated T np inp p = (Inr q, p3)"
    using p1(1) p2(1) p3(1) off lact assms(8)
    by (simp add: compute_targets_def bindA_def act_def [symmetric] add q_def offs_def del: single.simps)
  moreover have "length q = n" using lact assms(8) by (simp add: q_def offs_def)
  moreover have "network_answers n p3" "actions_bounded B p3"
    using carry p3(3,4) by (simp_all add: network_answers_def actions_bounded_def same_setup_def)
  ultimately show thesis
    using that q_b p3(2,5-7) cfg p1(5,6) p2(5,6) by (simp add: offs_def del: single.simps)
qed

end

section \<open>A tick of a policy process\<close>

text \<open>The robot state a tick can work with: every configured motor is in it, and the IMU has a pose.\<close>

definition state_usable :: "int list \<Rightarrow> robot_state_c \<Rightarrow> bool" where
  "state_usable can_ids cs \<longleftrightarrow>
     robot_state_ok cs \<and> rs_timestamp_ns cs \<noteq> 0 \<and>
     set can_ids \<subseteq> as_can_id ` set (take (nat (rs_actuator_count cs)) (rs_actuators cs)) \<and>
     (let q = is_quat_xyzw (rs_imu cs) in quat_usable (q ! 3, q ! 0, q ! 1, q ! 2))"

definition a_pressed :: "aux_command \<Rightarrow> bool" where
  "a_pressed ax \<longleftrightarrow> map_of (mask_to_buttons (ac_button_mask ax)) ''a_button'' = Some True"

lemma actuators_by_id_ok:
  assumes "can_id \<in> as_can_id ` set (take (nat (rs_actuator_count cs)) (rs_actuators cs))"
  shows "\<exists>item. actuators_by_id cs can_id = Inr item"
proof -
  let ?kvs = "rev (map (\<lambda>item. (as_can_id item, item)) (take (nat (rs_actuator_count cs)) (rs_actuators cs)))"
  have "map_of ?kvs can_id \<noteq> None" using assms by (auto simp: map_of_eq_None_iff image_iff)
  then show ?thesis by (auto simp: actuators_by_id_def)
qed

lemma read_inputs_ok:
  assumes "RobotStateShm_read_relaxed (ts_state_reader S) os = Inr cs" and "state_usable (ts_can_ids S) cs"
    and "AuxCommandShm_read_relaxed (ts_aux_reader S) os = Inr ax" and "\<And>xs. length (as_array xs) = length xs"
  obtains inp where "read_inputs as_array S os = Inr (Some inp)" and "length (ti_dof_pos inp) = length (ts_can_ids S)"
    and "length (ti_dof_vel inp) = length (ts_can_ids S)" and "quat_usable (ti_quat_wxyz inp)"
    and "length (ti_gyro inp) = 3" and "ti_mode inp = a_pressed ax"
proof -
  have "\<exists>item. actuators_by_id cs i = Inr item" if "i \<in> set (ts_can_ids S)" for i
    using assms(2) that by (intro actuators_by_id_ok) (auto simp: state_usable_def)
  from mapE_total [of "ts_can_ids S" "actuators_by_id cs", OF this] obtain items where items: "mapE (actuators_by_id cs) (ts_can_ids S) = Inr items" by blast
  have "length (is_angular_velocity_rad_s (rs_imu cs)) = 3"
    using assms(2) by (simp add: state_usable_def robot_state_ok_def imu_state_ok_def)
  then show thesis
    using assms items mapE_length [OF items]
    by (intro that) (auto simp: read_inputs_def state_usable_def Let_def a_pressed_def)
qed

definition setup_targets :: "task_setup \<Rightarrow> pyfloat list \<Rightarrow> control_target list" where
  "setup_targets S q = map2 (\<lambda>can_id v. \<lparr>ct_can_id = can_id, ct_q = v, ct_dq = Fin 0, ct_kp = ts_kp S, ct_kd = ts_kd S,
     ct_tau = Fin 0\<rparr>) (ts_can_ids S) q"

lemma make_targets_ok:
  assumes "length q = length (ts_can_ids S)"
  shows "make_targets S q = Inr (setup_targets S q)"
proof -
  let ?t = "\<lambda>can_id v. \<lparr>ct_can_id = can_id, ct_q = v, ct_dq = Fin 0, ct_kp = ts_kp S, ct_kd = ts_kd S, ct_tau = Fin 0\<rparr>"
  have "make_targets S q = Inr (map (\<lambda>(i, can_id). ?t can_id (q ! i)) (enumerate 0 (ts_can_ids S)))"
    unfolding make_targets_def using assms
    by (intro mapE_all_Inr) (auto simp: in_set_enumerate_eq py_index_nth)
  also have "map (\<lambda>(i, can_id). ?t can_id (q ! i)) (enumerate 0 (ts_can_ids S)) = setup_targets S q"
    using assms by (intro nth_equalityI) (simp_all add: nth_enumerate_eq setup_targets_def)
  finally show ?thesis .
qed

text \<open>The gains a process sends, as the segment stores them, are within the actuators' range.\<close>

definition gains_ok :: "SPGMITConfig \<Rightarrow> task_setup \<Rightarrow> bool" where
  "gains_ok cfg S \<longleftrightarrow> mit_config_ok cfg \<and>
     (\<exists>kp kd. single (ts_kp S) = Fin kp \<and> 0 \<le> kp \<and> kp \<le> limit_of (mit_kp_max cfg) \<and>
       single (ts_kd S) = Fin kd \<and> 0 \<le> kd \<and> kd \<le> limit_of (mit_kd_max cfg))"

lemma target_encodes:
  assumes "gains_ok cfg S" and "bounded_by P v" and "P \<le> limit_of (mit_p_max cfg)"
  shows "\<exists>payload. pack_mit_payload cfg v (Fin 0) (single (ts_kp S)) (single (ts_kd S)) (Fin 0) = Inr payload"
proof -
  obtain kp kd x where g: "single (ts_kp S) = Fin kp" "single (ts_kd S) = Fin kd" "v = Fin x"
      "within_limits cfg x 0 kp kd 0"
    using assms by (auto simp: gains_ok_def bounded_by_def within_limits_def mit_config_ok_def split: pyfloat.splits)
  then show ?thesis using pack_mit_payload_fields [of cfg x 0 kp kd 0] assms(1) by (metis gains_ok_def)
qed

text \<open>What a reader of the segment makes of the targets.\<close>

lemma published_targets:
  fixes t :: int
  assumes "length (ts_can_ids S) = n" and "length q = n" and "is_single P" and "list_all (bounded_by P) q"
    and "gains_ok cfg S" and "P \<le> limit_of (mit_p_max cfg)"
  defines "ts \<equiv> take n (cc_targets (targets_command t (setup_targets S q)))"
  shows "cc_num_targets (targets_command t (setup_targets S q)) = int n"
    and "map ct_can_id ts = map (c_uint 32) (ts_can_ids S)" and "map ct_q ts = map single q"
    and "\<forall>tg \<in> set ts. ct_dq tg = Fin 0 \<and> ct_tau tg = Fin 0 \<and> bounded_by P (ct_q tg) \<and>
      (\<exists>payload. pack_mit_payload cfg (ct_q tg) (ct_dq tg) (ct_kp tg) (ct_kd tg) (ct_tau tg) = Inr payload)"
proof -
  have zero: "single (Fin 0) = Fin 0" using single_float32 [of "Fin 0"] by (simp del: single.simps)
  have ts: "ts = map store_target (setup_targets S q)"
    using assms(1,2) by (simp add: ts_def targets_command_def setup_targets_def)
  show "cc_num_targets (targets_command t (setup_targets S q)) = int n"
    using assms(1,2) by (simp add: targets_command_def setup_targets_def)
  show "map ct_can_id ts = map (c_uint 32) (ts_can_ids S)"
    using assms(1,2) by (intro nth_equalityI) (simp_all add: ts setup_targets_def store_target_def)
  show "map ct_q ts = map single q"
    using assms(1,2) by (intro nth_equalityI) (simp_all add: ts setup_targets_def store_target_def del: single.simps)
  have b: "bounded_by P (single v)" if "v \<in> set q" for v
    using that assms(4) single_bounded [OF assms(3)] by (auto simp: list_all_iff bounded_by_def simp del: single.simps)
  show "\<forall>tg \<in> set ts. ct_dq tg = Fin 0 \<and> ct_tau tg = Fin 0 \<and> bounded_by P (ct_q tg) \<and>
      (\<exists>payload. pack_mit_payload cfg (ct_q tg) (ct_dq tg) (ct_kp tg) (ct_kd tg) (ct_tau tg) = Inr payload)"
    using b target_encodes [OF assms(5) _ assms(6)]
    by (auto simp: ts setup_targets_def store_target_def zero simp del: single.simps dest!: set_zip_rightD)
qed

text \<open>The policy's configuration and state are as a tick needs them, for default angles \<open>ds\<close>.\<close>

definition policy_ok :: "py_text \<Rightarrow> real \<Rightarrow> real list \<Rightarrow> onnx_policy \<Rightarrow> bool" where
  "policy_ok T B ds p \<longleftrightarrow>
     policy_fits (length ds) p \<and> network_answers (length ds) p \<and> actions_bounded B p \<and>
     bindE (py_getitem (pol_config p) ''default_joint_angle'') (config_floats T) = Inr (map Fin ds)"

lemma policy_iteration_publishes:
  assumes np: "numpy_lib np" and ok: "policy_ok T B ds p"
    and n: "length (ts_can_ids S) = length ds" "length ds \<le> MAX_CONTROL_TARGETS"
    and st: "RobotStateShm_read_relaxed (ts_state_reader S) os = Inr cs" "state_usable (ts_can_ids S) cs"
    and aux: "AuxCommandShm_read_relaxed (ts_aux_reader S) os = Inr ax"
    and wr: "seg_ready ControlCommandC (ts_command_writer S) os"
    and lim: "is_single P" "\<forall>d \<in> set ds. bounded_by (P - B) (single (Fin d))"
    and arr: "\<And>xs. length (as_array xs) = length xs"
  obtains q p' os' where "policy_iteration gated as_array T np S t (p, os) = (Inr True, (p', os'))" and "policy_ok T B ds p'"
    and "ControlCommandShm_read_relaxed (ts_command_writer S) os' = Inr (targets_command t
      (setup_targets S q))"
    and "length q = length ds" and "list_all (bounded_by P) q"
    and "gated \<longrightarrow> \<not> a_pressed ax \<longrightarrow> q = map (\<lambda>d. single (Fin d)) ds"
    and "pol_last_actions p' = pol_actions p'" and "pol_last_last_actions p' = map single (pol_last_actions p)"
    and "pol_last_last_last_actions p' = map single (pol_last_last_actions p)"
proof -
  obtain inp where inp: "read_inputs as_array S os = Inr (Some inp)" "length (ti_dof_pos inp) = length ds"
      "length (ti_dof_vel inp) = length ds" "quat_usable (ti_quat_wxyz inp)" "length (ti_gyro inp) = 3"
      "ti_mode inp = a_pressed ax"
    using read_inputs_ok [OF st aux arr] n(1) by metis
  note okd = ok [unfolded policy_ok_def]
  obtain q p' where q: "compute_targets gated T np inp p = (Inr q, p')" "length q = length ds" "list_all (bounded_by P) q"
      "gated \<longrightarrow> \<not> ti_mode inp \<longrightarrow> q = map (\<lambda>d. single (Fin d)) ds"
      "policy_fits (length ds) p'" "network_answers (length ds) p'" "actions_bounded B p'" "pol_config p' = pol_config p"
      "pol_last_actions p' = pol_actions p'" "pol_last_last_actions p' = map single (pol_last_actions p)"
      "pol_last_last_last_actions p' = map single (pol_last_last_actions p)"
    by (rule numpy_lib.compute_targets_ok [OF np _ _ _ inp(2-5) refl _ lim, of p T gated]) (use okd in auto)
  let ?ts = "setup_targets S q"
  obtain os' where w: "ControlCommandShm_write_targets t (ts_command_writer S) ?ts os = (Inr (), os')"
      "ControlCommandShm_read_relaxed (ts_command_writer S) os' = Inr (targets_command t ?ts)"
    by (rule write_targets_step [OF wr, of ?ts t]) (use n q(2) in \<open>auto simp: setup_targets_def\<close>)
  have "policy_iteration gated as_array T np S t (p, os) = (Inr True, (p', os'))"
    using inp(1) q(1) w(1) make_targets_ok [of q S] q(2) n(1) by (simp add: policy_iteration_def bindA_def)
  moreover have "policy_ok T B ds p'" using okd q(5-8) by (simp add: policy_ok_def)
  ultimately show thesis using that w(2) q(2-4,9-11) inp(6) by blast
qed

text \<open>
  C39. The policy processes drive the robot safely: whatever the network answers, as long as it answers
  with enough numbers that are not NaN, a tick of the task controller or of the joint initializer
  on a usable robot state returns, and the controller then reads from the segment one target per
  configured motor, in the configured order, with zero velocity and torque, with an angle no
  further from zero than the limit \<open>P\<close> the configuration allows for (default angle plus clipped and
  scaled action), which the actuator protocol can encode without raising. While A is not held the
  task controller's targets are exactly the default angles. The policy stays usable for the
  next tick, and its action history moves on by one.
\<close>

theorem policy_targets_admissible:
  assumes "numpy_lib np" and "policy_ok T B ds p" and "is_single P" and "\<forall>d \<in> set ds. bounded_by (P - B) (single (Fin d))"
    and "length (ts_can_ids S) = length ds" and "length ds \<le> MAX_CONTROL_TARGETS"
    and "RobotStateShm_read_relaxed (ts_state_reader S) os = Inr cs" and "state_usable (ts_can_ids S) cs"
    and "AuxCommandShm_read_relaxed (ts_aux_reader S) os = Inr ax" and "seg_ready ControlCommandC (ts_command_writer S) os"
    and "gains_ok cfg S" and "P \<le> limit_of (mit_p_max cfg)"
  shows "\<exists>p' os' cmd.
    (if init then joint_initializer_iteration T np S t else task_iteration T np S t) (p, os) = (Inr True, (p', os')) \<and>
    policy_ok T B ds p' \<and> pol_last_actions p' = pol_actions p' \<and>
    pol_last_last_actions p' = map single (pol_last_actions p) \<and>
    pol_last_last_last_actions p' = map single (pol_last_last_actions p) \<and>
    ControlCommandShm_read_relaxed (ts_command_writer S) os' = Inr cmd \<and> cc_num_targets cmd = int (length ds) \<and>
    (let ts = take (length ds) (cc_targets cmd) in
      map ct_can_id ts = map (c_uint 32) (ts_can_ids S) \<and>
      (\<forall>tg \<in> set ts. ct_dq tg = Fin 0 \<and> ct_tau tg = Fin 0 \<and> bounded_by P (ct_q tg) \<and>
        (\<exists>payload. pack_mit_payload cfg (ct_q tg) (ct_dq tg) (ct_kp tg) (ct_kd tg) (ct_tau tg) = Inr payload)) \<and>
      (\<not> init \<longrightarrow> \<not> a_pressed ax \<longrightarrow> map ct_q ts = map (\<lambda>d. single (Fin d)) ds))"
proof -
  define arr where "arr = (if init then (\<lambda>xs. xs) else np_array np)"
  have len: "length (arr xs) = length xs" for xs by (simp add: arr_def numpy_lib.array [OF assms(1)])
  have it: "(if init then joint_initializer_iteration T np S t else task_iteration T np S t) =
      policy_iteration (\<not> init) arr T np S t"
    by (simp add: joint_initializer_iteration_def task_iteration_def arr_def)
  obtain q p' os' where r: "policy_iteration (\<not> init) arr T np S t (p, os) = (Inr True, (p', os'))" "policy_ok T B ds p'"
    "ControlCommandShm_read_relaxed (ts_command_writer S) os' = Inr (targets_command t (setup_targets S q))"
    "length q = length ds" "list_all (bounded_by P) q"
    "\<not> init \<longrightarrow> \<not> a_pressed ax \<longrightarrow> q = map (\<lambda>d. single (Fin d)) ds"
    "pol_last_actions p' = pol_actions p'" "pol_last_last_actions p' = map single (pol_last_actions p)"
    "pol_last_last_last_actions p' = map single (pol_last_last_actions p)"
    by (rule policy_iteration_publishes [OF assms(1,2,5-10,3,4) len, of "\<not> init" t])
  note pub = published_targets [OF assms(5) r(4) assms(3) r(5) assms(11,12), of t]
  have "\<not> init \<longrightarrow> \<not> a_pressed ax \<longrightarrow> map single q = map (\<lambda>d. single (Fin d)) ds"
    using r(6) by (simp add: comp_def del: single.simps)
  then show ?thesis unfolding it Let_def using r(1-3,7-9) pub by auto
qed

section \<open>An example\<close>

definition demo_robot_state :: robot_state_c where
  "demo_robot_state = empty_robot_state\<lparr>rs_timestamp_ns := 7, rs_actuator_count := 2,
     rs_imu := empty_imu_state\<lparr>is_quat_xyzw := [Fin 0, Fin 0, Fin 0, Fin 1]\<rparr>,
     rs_actuators := replicate 12 (empty_actuator_state\<lparr>as_can_id := 0x141\<rparr>)\<rparr>"

definition demo_policy :: onnx_policy where
  "demo_policy = \<lparr>pol_name = ''walk'', pol_directory = path_of ''walk'',
     pol_config = PDict [(''default_joint_angle'', PList [PFloat (Fin (1/2))])], pol_num_joint = 1,
     pol_action_scale = Fin 1, pol_action_clip = Fin 1, pol_obs_type = 0, pol_input_indices = [0], pol_output_indices = [0],
     pol_default_joint_angle = [Fin (1/2)], pol_dof_pos = [Fin 0], pol_dof_vel = [Fin 0], pol_delta_dof_pos = [Fin 0],
     pol_actions = [Fin 0], pol_scaled_actions = [Fin 0], pol_last_actions = [Fin 0], pol_last_last_actions = [Fin 0],
     pol_last_last_last_actions = [Fin 0], pol_base_ang_vel = replicate 3 (Fin 0),
     pol_projected_gravity = [Fin 0, Fin 0, Fin (- 1)], pol_commands = replicate 3 (Fin 0), pol_mode = False,
     pol_obs_components = [''dof_pos'', ''alpha''], pol_obs_scales = [], pol_session = (\<lambda>_ _. Inr [Fin 3]), pol_cnt = 0\<rparr>"

definition demo_task :: task_setup where
  "demo_task = \<lparr>ts_robot_name = ''qhrr'', ts_can_ids = [0x141], ts_kp = Fin 20, ts_kd = Fin (1/2),
     ts_state_reader = \<lparr>seg_name = ''c'', seg_shm = Some 0\<rparr>, ts_aux_reader = \<lparr>seg_name = ''a'', seg_shm = Some 1\<rparr>,
     ts_command_writer = \<lparr>seg_name = ''m'', seg_shm = Some 2\<rparr>, ts_period_s = Fin (1/50)\<rparr>"

definition demo_memory :: shm_os where
  "demo_memory = shm_os_init\<lparr>os_mem := (\<lambda>i.
     if i = 0 then c_bytes RobotStateC (robot_to_c demo_robot_state)
     else if i = 1 then c_bytes AuxCommandC (aux_to_c empty_aux_command) else replicate 300 0)\<rparr>"

lemma single_small: "single (Fin 1) = Fin 1" "single (Fin (1/2)) = Fin (1/2)" "single (Fin 20) = Fin 20" "is_single 1" "is_single 2"
proof -
  have "on_grid 24 (-149) 1" "on_grid 24 (-149) 2" "on_grid 24 (-149) 20" 
    using on_grid_int [of 1 24 "-149"] on_grid_int [of 2 24 "-149"] on_grid_int [of 20 24 "-149"] by simp_all
  moreover have "on_grid 24 (-149) (1/2)" by (rule dyadicI [of _ 1 "-1"]) (auto simp: power_int_def)
  ultimately have "is_single 1" "is_single 2" "is_single 20" "is_single (1/2)"
    using fbound_ge_100 by (auto simp: is_single_def)
  then show "single (Fin 1) = Fin 1" "single (Fin (1/2)) = Fin (1/2)" "single (Fin 20) = Fin 20" "is_single 1" "is_single 2"
    by (simp_all add: single_exact del: single.simps)
qed

lemma demo_policy_ok: "policy_ok demo_text 1 [1/2] demo_policy"
  using single_small
  by (simp add: policy_ok_def policy_fits_def network_answers_def actions_bounded_def demo_policy_def joint_arrays_def
      vec_arrays_def index_ok_def SUPPORTED_COMPONENTS_def config_floats_def bounded_by_def del: single.simps)

lemma demo_reads_state:
  "RobotStateShm_read_relaxed (ts_state_reader demo_task) demo_memory = Inr demo_robot_state"
  "state_usable (ts_can_ids demo_task) demo_robot_state"
  "AuxCommandShm_read_relaxed (ts_aux_reader demo_task) demo_memory = Inr empty_aux_command"
proof -
  have one: "is_float32 (Fin 1)" using single_small(4) by (simp add: is_float32_def)
  have three: "list_all is_float32 (replicate 3 (Fin 0))" unfolding list_all_iff by simp
  have ok: "robot_state_ok demo_robot_state"
    using one three by (simp add: demo_robot_state_def robot_state_ok_def empty_robot_state_def imu_state_ok_def empty_imu_state_def
        actuator_state_ok_def empty_actuator_state_def command_output_state_ok_def empty_command_output_state_def
        command_target_state_ok_def empty_command_target_state_def int_in_def MAX_ROBOT_STATE_ACTUATORS_def list_all_iff)
  show "RobotStateShm_read_relaxed (ts_state_reader demo_task) demo_memory = Inr demo_robot_state"
    using c_bytes_parse [OF robot_typed [OF ok]]
    by (simp add: RobotStateShm_read_relaxed_def read_struct_def demo_task_def demo_memory_def robot_of_to)
  show "state_usable (ts_can_ids demo_task) demo_robot_state"
    using ok by (simp add: state_usable_def demo_task_def) (simp add: demo_robot_state_def quat_usable_def Let_def)
  have "aux_command_ok empty_aux_command" by (simp add: aux_command_ok_def empty_aux_command_def three)
  from c_bytes_parse [OF aux_typed [OF this]]
  show "AuxCommandShm_read_relaxed (ts_aux_reader demo_task) demo_memory = Inr empty_aux_command"
    by (simp add: AuxCommandShm_read_relaxed_def read_struct_def demo_task_def demo_memory_def aux_of_to)
qed

theorem policy_targets_admissible_witness:
  "\<exists>p' os' cmd. task_iteration demo_text numpy_ieee demo_task 9 (demo_policy, demo_memory) = (Inr True, (p', os')) \<and>
    ControlCommandShm_read_relaxed (ts_command_writer demo_task) os' = Inr cmd \<and>
    map ct_q (take 1 (cc_targets cmd)) = [Fin (1/2)]"
proof -
  have lim: "\<forall>d \<in> set [1/2]. bounded_by (2 - 1) (single (Fin d))"
    using single_small(2) by (simp add: bounded_by_def del: single.simps) (rule exI [of _ "1/2"], simp)
  have n: "length (ts_can_ids demo_task) = length [1/2 :: real]" "length [1/2 :: real] \<le> MAX_CONTROL_TARGETS"
    by (simp_all add: demo_task_def MAX_CONTROL_TARGETS_def)
  have w: "seg_ready ControlCommandC (ts_command_writer demo_task) demo_memory"
    using CONTROL_COMMAND_SIZE_eq by (simp add: seg_ready_def demo_task_def demo_memory_def CONTROL_COMMAND_SIZE_def)
  have cfg: "mit_config_ok SPGMITConfig_default"
    by (simp add: mit_config_ok_def SPGMITConfig_default_def pyfloat_simps)
  have lm: "20 \<le> limit_of (mit_kp_max SPGMITConfig_default)" "1/2 \<le> limit_of (mit_kd_max SPGMITConfig_default)"
      "2 \<le> limit_of (mit_p_max SPGMITConfig_default)"
    by (simp_all add: SPGMITConfig_default_def pyfloat_simps)
  have g: "gains_ok SPGMITConfig_default demo_task"
    using cfg lm single_small unfolding gains_ok_def demo_task_def by (simp del: single.simps) (rule exI [of _ "1/2"], simp)
  have "\<not> a_pressed empty_aux_command"
    by (simp add: a_pressed_def empty_aux_command_def mask_to_buttons_def BUTTON_FIELDS_def)
  then show ?thesis
    using policy_targets_admissible [OF ieee.numpy_lib_axioms demo_policy_ok single_small(5) lim n demo_reads_state w g lm(3),
        of False 9] single_small(2)
    by (auto simp: Let_def simp del: single.simps)
qed

end
