(* ===== verification/Spec2Isabelle.thy ===== *)
theory Spec2Isabelle
  imports Zero_Set Config_Facts Controller_Run Can_Process Can_Monitor Aux_Reader Dash_Facts Policy_Facts
begin

text \<open>
  A verification development of the SPARQ/QHRR0 quadruped controller (\<open>src/\<close>).

  \<^bold>\<open>The program.\<close> One process, the robot controller, runs a loop of ticks. A tick asks the IMU for
  data, reads the operator's command from shared memory, updates a mode machine, sends the output of
  exactly that mode to the actuators over CAN (disable, enable, zero-set, damping, or the targets a
  policy process left in shared memory) and publishes the robot's state in shared memory. CAN frames
  go to a CAN daemon process over a local socket; frames the daemon receives come back over the same
  socket and are dispatched to the drivers of the actuators and the IMU. A supervisor starts and
  stops the child processes: besides the daemon, a gamepad reader that publishes axes and buttons, the
  policy processes (the joint initializer and the task controller) that read the robot's state, run a
  neural network and publish targets, and a dashboard that watches the bus and the segments and lets an
  operator send commands. The configuration comes from YAML files.

  \<^bold>\<open>How it is modelled.\<close> Python exceptions are values (\<open>exc\<close>, \<open>'a result\<close>); a method that mutates an
  object is a function on the object's record that returns the result and the record reached, also
  when it raises (\<open>action\<close>, \<open>bindA\<close>). Floats are IEEE doubles: finite values are reals, each
  operation rounds to nearest even and can overflow to infinity or give NaN (\<open>PyFloat\<close>); signed
  zeros are identified. C structures are byte lists with their packed layout (\<open>CTypes\<close>). The operating
  system's shared memory is an explicit store (\<open>Shm_Os\<close>). What the code reads from the outside, the
  clocks, the daemon's answers, the behaviour of processes, is an environment whose values are
  arbitrary streams (\<open>Env\<close>, \<open>Supervisor\<close>), so theorems hold for every behaviour of it.

  \<^item> \<open>Prelude\<close>, \<open>PyFloat\<close>, \<open>CTypes\<close>, \<open>PyVal\<close>, \<open>Shm_Os\<close>, \<open>Env\<close>: the language and the operating system.
  \<^item> \<open>Operator_Command\<close>, \<open>Control_Command\<close>, \<open>Aux_Command\<close>, \<open>Robot_State\<close>, \<open>Shm_Manager\<close>:
    \<open>robot_controller/shm\<close>. The segments' structures, readers and writers; what is written is read
    back; start-up creates the five segments whatever was left over and shutdown removes them.
  \<^item> \<open>State_Machine\<close>: \<open>robot_controller/state_machine.py\<close>. The update refines a transition relation;
    ESTOP is latched until RESET_FAULT; NORMAL needs RUN.
  \<^item> \<open>Config\<close>, \<open>Config_Loader\<close>, \<open>Config_Facts\<close>: \<open>robot_controller/core\<close> and the robot description of
    \<open>qhrr0_hw\<close>. Which files are accepted, that the parts of a loaded configuration agree, and what
    the validator rules out.
  \<^item> \<open>Can_Bus\<close>, \<open>Can_Ipc\<close>: \<open>hal/can_bus\<close> and the daemon process. The wire format, dispatch, the bounded
    FIFO of the daemon in every interleaving, the messages between client and daemon, the echo
    filter and the connect loop. The loop's fuel is one more than the number of the first clock
    reading at or past the deadline, which the termination theorem shows to be enough.
  \<^item> \<open>Can_Process\<close>: \<open>subprocesses/can_daemon\<close>. The daemon process as a whole: start-up, accept loop, client
    handlers and threads in every interleaving; subscribers get every frame once and in order, clients'
    frames reach the wire in order, a signal ends the process with nothing left behind.
  \<^item> \<open>Spg_Protocol\<close>, \<open>Spg_Facts\<close>: \<open>qhrr0_hw/actuators/dongilc_protocol.py\<close>. Every encoder and decoder;
    quantisation errors with the rounding of every float operation accounted for.
  \<^item> \<open>Comm_Manager\<close>, \<open>Actuator_Driver\<close>, \<open>Imu\<close>: \<open>hal/hardware/can\<close> and \<open>qhrr0_hw/imu\<close>. Freshness monitors,
    transactions, partial state merge, quaternion normalisation.
  \<^item> \<open>Telemetry\<close>: \<open>robot_controller/telemetry\<close>. What is published is what readers see.
  \<^item> \<open>Supervisor\<close>: \<open>robot_controller/supervisor\<close>. Stopping ends every child.
  \<^item> \<open>Controller\<close>, with \<open>Controller_Facts\<close>, \<open>Controller_Safety\<close>, \<open>Controller_Live\<close>, \<open>Zero_Set\<close> and
    \<open>Controller_Lifecycle\<close>: \<open>robot_controller/controller.py\<close>. A tick sends the output of one mode only;
    after ESTOP only disable frames and IMU requests leave the controller, in every interleaving with
    received frames, until RESET_FAULT; a tick returns when its surroundings work; zero-set commands
    reach exactly their targets, once; construction, frame routing, damping and shutdown.
  \<^item> \<open>Controller_Run\<close>: the paced loop \<open>RobotController.run\<close> and \<open>robot_controller/main.py\<close>. The loop, with received
    frames, other processes and signals between its ticks, is one of the runs the safety properties
    speak of; the process always shuts the robot down.
  \<^item> \<open>Demo\<close>: a concrete controller on which the properties are instantiated.
  \<^item> \<open>Aux_Reader\<close>: \<open>subprocesses/aux_reader\<close>. Joystick events, dead band, publishing; the segment holds the
    targets of the last event of each axis and button after any sequence of reads.
  \<^item> \<open>Policy\<close>, \<open>Policy_Task\<close>, \<open>Policy_Facts\<close>: \<open>subprocesses/task_controller\<close> and \<open>joint_initializer\<close>. The
    observation, the action and the loop that publishes targets. NumPy's operations, the ONNX session,
    the YAML parser and the file system are arguments; the locale \<open>numpy_lib\<close> states what is used of
    NumPy and is interpreted on its IEEE single and double precision functions. A tick publishes one
    bounded target per motor that the protocol can encode, for any network that answers without NaN.
  \<^item> \<open>Dash_Decode\<close>, \<open>Dash_Window\<close>, \<open>Dash_State\<close>: \<open>dashboard/backend/can_decode.py\<close>, \<open>socketcan_io.py\<close>, \<open>bus_load.py\<close> and \<open>state.py\<close>. The
    decoders agree with the drivers' decoders; the bus load is the sum of exactly the frames of its window.
  \<^item> \<open>Dash_Command\<close>, \<open>Dash_Reader\<close>, \<open>Dash_Config\<close>, \<open>Dash_App\<close>, \<open>Dash_Facts\<close>: \<open>dashboard/backend/command_api.py\<close>,
    \<open>robot_state_shm.py\<close> and \<open>app.py\<close>. The gate of frames sent by hand, the reading of the published segments,
    the configuration and the request handlers. The end-to-end property follows a publication of the
    controller through the segment, the reader and the gate: nobody enables a motor while the
    controller is off.

  \<^item> \<open>Can_Monitor\<close>: \<open>tools/can_monitor.py\<close>, the monitor on the command line. Fed the same frames it shows the same
    IMU and motor values and the same bus load as the dashboard, with which it shares no code.

  \<^bold>\<open>Not modelled.\<close> The threads and asynchronous tasks themselves: an iteration of each loop is a
  definition, and the invariants quantify over every interleaving of iterations and calls. Socket and
  signal set-up, argument parsing, logging text and terminal launching beyond the command line built.
  The web server, its static pages and the pacing of its web socket. The screen layout of
  the command-line monitor. The start of the compiled CAN program (\<open>run_controller.py\<close>, \<open>sparq_can\<close>), the MuJoCo
  simulation launcher, and two files that no module imports: \<open>joint_initializer/policy_runner.py\<close>, a double
  precision variant of the runner, and \<open>hal/can_bus/utils/common.py\<close>, which uses names it never defines.
\<close>

end
